(* ===== verification/Prelude.thy ===== *)
theory Prelude
  imports "HOL-Library.Word" Complex_Main
begin

text \<open>Vocabulary and generic lemmas shared by every component of the node: the names of
  the machine integer types, results and panics, saturating arithmetic as Rust's
  \<^verbatim>\<open>saturating_add\<close> and \<^verbatim>\<open>saturating_sub\<close> define it, big-endian and little-endian
  byte encodings (\<^verbatim>\<open>to_be_bytes\<close>, \<^verbatim>\<open>to_le_bytes\<close>), finite maps with
  \<^verbatim>\<open>HashMap::remove\<close> and \<^verbatim>\<open>HashMap::retain\<close>, and list facts.\<close>

unbundle bit_operations_syntax

section \<open>Types\<close>

type_synonym u8 = "8 word"
type_synonym u16 = "16 word"
type_synonym u32 = "32 word"
type_synonym u64 = "64 word"
type_synonym u128 = "128 word"
type_synonym i64 = "64 word"
type_synonym bytes = "8 word list"
type_synonym uuid = "128 word"

text \<open>\<^verbatim>\<open>Result<a, e>\<close>: the error on the left, as in the code's early returns.\<close>

type_synonym ('a, 'e) res = "'e + 'a"

abbreviation Err :: "'e \<Rightarrow> ('a, 'e) res" where
  "Err e \<equiv> Inl e"

abbreviation Okay :: "'a \<Rightarrow> ('a, 'e) res" where
  "Okay a \<equiv> Inr a"

text \<open>A computation that may panic (an index out of range, \<^verbatim>\<open>unwrap\<close> on
  \<^verbatim>\<open>None\<close>).\<close>

datatype 'a outcome = Done 'a | Panic

definition is_ok :: "('a, 'e) res \<Rightarrow> bool" where
  "is_ok r = (case r of Inl e \<Rightarrow> False | Inr a \<Rightarrow> True)"

lemma is_ok_simps [simp]: "is_ok (Inr a)" "\<not> is_ok (Inl e)"
  by (simp_all add: is_ok_def)

named_theorems word_arith \<open>unfolding of word operations to natural numbers\<close>
named_theorems len_simps \<open>lengths of encodings\<close>

section \<open>Saturating and checked arithmetic\<close>

definition sat_sub :: "'a::len word \<Rightarrow> 'a word \<Rightarrow> 'a word" where
  "sat_sub a b = (if b \<le> a then a - b else 0)"

definition sat_add :: "'a::len word \<Rightarrow> 'a word \<Rightarrow> 'a word" where
  "sat_add a b = (if unat a + unat b < 2 ^ LENGTH('a) then a + b else - 1)"

definition sat_mul :: "'a::len word \<Rightarrow> 'a word \<Rightarrow> 'a word" where
  "sat_mul a b = (if unat a * unat b < 2 ^ LENGTH('a) then a * b else - 1)"

definition checked_add :: "'a::len word \<Rightarrow> 'a word \<Rightarrow> 'a word option" where
  "checked_add a b = (if unat a + unat b < 2 ^ LENGTH('a) then Some (a + b) else None)"

definition checked_sub :: "'a::len word \<Rightarrow> 'a word \<Rightarrow> 'a word option" where
  "checked_sub a b = (if b \<le> a then Some (a - b) else None)"

lemma unat_sat_sub [word_arith]: "unat (sat_sub a b) = unat a - unat b"
  by (auto simp: sat_sub_def unat_sub word_le_nat_alt)

lemma unat_all_ones: "unat (- 1 :: 'a::len word) = 2 ^ LENGTH('a) - 1"
  by (simp add: unsigned_minus_1_eq_mask mask_eq_exp_minus_1)

lemma unat_sat_add [word_arith]:
  "unat (sat_add a (b :: 'a::len word)) = min (unat a + unat b) (2 ^ LENGTH('a) - 1)"
proof (cases "unat a + unat b < 2 ^ LENGTH('a)")
  case True
  then have "unat (a + b) = unat a + unat b"
    by (simp add: unat_word_ariths)
  with True show ?thesis
    by (simp add: sat_add_def)
next
  case False
  then show ?thesis
    by (simp add: sat_add_def unat_all_ones)
qed

lemma unat_sat_mul [word_arith]:
  "unat (sat_mul a (b :: 'a::len word)) = min (unat a * unat b) (2 ^ LENGTH('a) - 1)"
proof (cases "unat a * unat b < 2 ^ LENGTH('a)")
  case True
  then have "unat (a * b) = unat a * unat b"
    by (simp add: unat_word_ariths)
  with True show ?thesis
    by (simp add: sat_mul_def)
next
  case False
  then show ?thesis
    by (simp add: sat_mul_def unat_all_ones)
qed

lemma checked_add_Some:
  "checked_add a (b :: 'a::len word) = Some c \<longleftrightarrow>
     unat a + unat b < 2 ^ LENGTH('a) \<and> c = a + b \<and> unat c = unat a + unat b"
  by (auto simp: checked_add_def unat_word_ariths)

lemma checked_sub_Some:
  "checked_sub a b = Some c \<longleftrightarrow> b \<le> a \<and> c = a - b \<and> unat c = unat a - unat b"
  by (auto simp: checked_sub_def unat_sub)

lemma unat_lt [simp]: "unat (x :: 'a::len word) < 2 ^ LENGTH('a)"
  by (rule unsigned_less)

lemma unsigned_rat_nonneg [simp]: "0 \<le> (unsigned (w :: 'a::len word) :: rat)"
proof -
  have "(unsigned w :: rat) = of_nat (unat w)"
    by simp
  then show ?thesis
    by (simp only: of_nat_0_le_iff)
qed

section \<open>Byte encodings\<close>

text \<open>\<^verbatim>\<open>to_le_bytes\<close> and \<^verbatim>\<open>to_be_bytes\<close> of an integer of \<open>n\<close> bytes, and their inverses.\<close>

fun le_bytes :: "nat \<Rightarrow> nat \<Rightarrow> bytes" where
  "le_bytes 0 v = []"
| "le_bytes (Suc n) v = word_of_nat (v mod 256) # le_bytes n (v div 256)"

fun of_le_bytes :: "bytes \<Rightarrow> nat" where
  "of_le_bytes [] = 0"
| "of_le_bytes (b # bs) = unat b + 256 * of_le_bytes bs"

definition be_bytes :: "nat \<Rightarrow> nat \<Rightarrow> bytes" where
  "be_bytes n v = rev (le_bytes n v)"

definition of_be_bytes :: "bytes \<Rightarrow> nat" where
  "of_be_bytes bs = of_le_bytes (rev bs)"

lemma length_le_bytes [simp, len_simps]: "length (le_bytes n v) = n"
  by (induction n arbitrary: v) auto

lemma length_be_bytes [simp, len_simps]: "length (be_bytes n v) = n"
  by (simp add: be_bytes_def)

lemma unat_byte_mod [simp]: "unat (word_of_nat (v mod 256) :: u8) = v mod 256"
  by (simp add: unat_of_nat)

lemma of_le_bytes_le_bytes: "v < 256 ^ n \<Longrightarrow> of_le_bytes (le_bytes n v) = v"
proof (induction n arbitrary: v)
  case (Suc n)
  then have "v div 256 < 256 ^ n"
    by (simp add: less_mult_imp_div_less mult.commute)
  then have "of_le_bytes (le_bytes n (v div 256)) = v div 256"
    by (rule Suc.IH)
  then show ?case
    by simp
qed simp

lemma of_be_bytes_be_bytes: "v < 256 ^ n \<Longrightarrow> of_be_bytes (be_bytes n v) = v"
  by (simp add: of_be_bytes_def be_bytes_def of_le_bytes_le_bytes)

lemma of_le_bytes_less: "of_le_bytes bs < 256 ^ length bs"
proof (induction bs)
  case (Cons b bs)
  have "unat b < 256"
    using unat_lt [of b] by simp
  with Cons show ?case
    by (simp add: algebra_simps)
qed simp

lemma of_be_bytes_less: "of_be_bytes bs < 256 ^ length bs"
  using of_le_bytes_less [of "rev bs"] by (simp add: of_be_bytes_def)

lemma le_bytes_of_le_bytes: "le_bytes (length bs) (of_le_bytes bs) = bs"
proof (induction bs)
  case (Cons b bs)
  have "unat b < 256"
    using unat_lt [of b] by simp
  then have "(unat b + 256 * of_le_bytes bs) mod 256 = unat b"
    and "(unat b + 256 * of_le_bytes bs) div 256 = of_le_bytes bs"
    by simp_all
  then show ?case
    using Cons by simp
qed simp

lemma be_bytes_of_be_bytes: "be_bytes (length bs) (of_be_bytes bs) = bs"
  using le_bytes_of_le_bytes [of "rev bs"] by (simp add: be_bytes_def of_be_bytes_def)

lemma be_bytes_inj:
  "be_bytes n v = be_bytes n w \<Longrightarrow> v < 256 ^ n \<Longrightarrow> w < 256 ^ n \<Longrightarrow> v = w"
  by (metis of_be_bytes_be_bytes)

lemma le_bytes_inj:
  "le_bytes n v = le_bytes n w \<Longrightarrow> v < 256 ^ n \<Longrightarrow> w < 256 ^ n \<Longrightarrow> v = w"
  by (metis of_le_bytes_le_bytes)

lemma of_le_bytes_append: "of_le_bytes (xs @ ys) = of_le_bytes xs + 256 ^ length xs * of_le_bytes ys"
  by (induction xs) (simp_all add: algebra_simps)

lemma of_be_bytes_Cons: "of_be_bytes (b # bs) = unat b * 256 ^ length bs + of_be_bytes bs"
  by (simp add: of_be_bytes_def of_le_bytes_append)

lemma of_be_bytes_Nil [simp]: "of_be_bytes [] = 0"
  by (simp add: of_be_bytes_def)

lemma of_be_bytes_trim: "of_be_bytes (dropWhile (\<lambda>b. b = 0) bs) = of_be_bytes bs"
  by (induction bs) (simp_all add: of_be_bytes_Cons)

section \<open>Maps\<close>

text \<open>\<^verbatim>\<open>HashMap::remove\<close> and \<^verbatim>\<open>HashMap::retain\<close> on a partial function.\<close>

definition map_remove :: "'k \<Rightarrow> ('k \<rightharpoonup> 'v) \<Rightarrow> ('k \<rightharpoonup> 'v)" where
  "map_remove k m = m(k := None)"

definition map_retain :: "('k \<Rightarrow> 'v \<Rightarrow> bool) \<Rightarrow> ('k \<rightharpoonup> 'v) \<Rightarrow> ('k \<rightharpoonup> 'v)" where
  "map_retain P m = (\<lambda>k. case m k of None \<Rightarrow> None | Some v \<Rightarrow> if P k v then Some v else None)"

lemma map_retain_Some [simp]: "map_retain P m k = Some v \<longleftrightarrow> m k = Some v \<and> P k v"
  by (auto simp: map_retain_def split: option.splits)

lemma map_retain_None [simp]:
  "map_retain P m k = None \<longleftrightarrow> (case m k of None \<Rightarrow> True | Some v \<Rightarrow> \<not> P k v)"
  by (auto simp: map_retain_def split: option.splits)

lemma map_remove_apply [simp]: "map_remove k m k' = (if k' = k then None else m k')"
  by (simp add: map_remove_def)

text \<open>Every binding of a map satisfies a predicate.\<close>

definition pred_map_ok :: "('k \<Rightarrow> 'v \<Rightarrow> bool) \<Rightarrow> ('k \<rightharpoonup> 'v) \<Rightarrow> bool" where
  "pred_map_ok P m \<longleftrightarrow> (\<forall>k v. m k = Some v \<longrightarrow> P k v)"

lemma pred_map_okD: "pred_map_ok P m \<Longrightarrow> m k = Some v \<Longrightarrow> P k v"
  by (simp add: pred_map_ok_def)

lemma pred_map_okI [intro]: "(\<And>k v. m k = Some v \<Longrightarrow> P k v) \<Longrightarrow> pred_map_ok P m"
  by (simp add: pred_map_ok_def)

lemma pred_map_ok_empty [simp]: "pred_map_ok P Map.empty"
  by (simp add: pred_map_ok_def)

lemma pred_map_ok_upd [intro]: "pred_map_ok P m \<Longrightarrow> P k v \<Longrightarrow> pred_map_ok P (m(k \<mapsto> v))"
  by (simp add: pred_map_ok_def)

lemma pred_map_ok_remove [intro]: "pred_map_ok P m \<Longrightarrow> pred_map_ok P (map_remove k m)"
  by (simp add: pred_map_ok_def)

lemma pred_map_ok_retain [intro]: "pred_map_ok P m \<Longrightarrow> pred_map_ok P (map_retain Q m)"
  by (simp add: pred_map_ok_def)

section \<open>Numbers and lists\<close>

lemma one_less_double_pow [simp]: "Suc 0 < 2 * 2 ^ k"
proof -
  have "0 < (2 :: nat) ^ k"
    by simp
  then show ?thesis
    by linarith
qed

text \<open>Pairs of related elements of two lists, at the heads or in the tails.\<close>

lemma bex2_head: "P x y \<Longrightarrow> \<exists>x\<in>set (x # xs). \<exists>y\<in>set (y # ys). P x y"
  by auto

lemma bex2_tail:
  "\<exists>x\<in>set xs. \<exists>y\<in>set ys. P x y \<Longrightarrow> \<exists>x\<in>set (a # xs). \<exists>y\<in>set (b # ys). P x y"
  by auto

end
