(* ===== verification/Merkle_Tree.thy ===== *)
theory Merkle_Tree
  imports Prelude
begin

text \<open>The receipt tree of \<^verbatim>\<open>crates/reputation/src/merkle.rs\<close>: the operations of
  \<^verbatim>\<open>MerkleTree\<close> and \<^verbatim>\<open>verify_proof\<close>, with the hash function a parameter \<open>H\<close> (the code's
  SHA-256). Indexing out of range, a panic in Rust, is the outcome \<open>Panic\<close>.\<close>

section \<open>Data and helpers\<close>

record merkle_path_step =
  sibling :: bytes
  is_left :: bool

record merkle_tree =
  leaves :: "bytes list"

definition merkle_new :: merkle_tree where
  "merkle_new = \<lparr>leaves = []\<rparr>"

definition merkle_insert :: "bytes \<Rightarrow> merkle_tree \<Rightarrow> merkle_tree" where
  "merkle_insert leaf_hash t = t\<lparr>leaves := leaves t @ [leaf_hash]\<rparr>"

definition merkle_len :: "merkle_tree \<Rightarrow> nat" where
  "merkle_len t = length (leaves t)"

definition hash_pair :: "(bytes \<Rightarrow> bytes) \<Rightarrow> bytes \<Rightarrow> bytes \<Rightarrow> bytes" where
  "hash_pair H left right = H (left @ right)"

definition pad_to_even :: "bytes list \<Rightarrow> bytes list" where
  "pad_to_even level = (if length level mod 2 = 1 then level @ [last level] else level)"

text \<open>\<^verbatim>\<open>chunks(2).map(..)\<close>; the input has even length, so the one-element chunk, on which
  \<^verbatim>\<open>pair[1]\<close> would panic, does not arise (\<open>even_pad_to_even\<close>).\<close>

fun hash_chunks :: "(bytes \<Rightarrow> bytes) \<Rightarrow> bytes list \<Rightarrow> bytes list" where
  "hash_chunks H (l # r # rest) = hash_pair H l r # hash_chunks H rest"
| "hash_chunks H [l] = []"
| "hash_chunks H [] = []"

definition hash_pairs :: "(bytes \<Rightarrow> bytes) \<Rightarrow> bytes list \<Rightarrow> bytes list" where
  "hash_pairs H level = hash_chunks H (pad_to_even level)"

lemma even_pad_to_even [simp]: "even (length (pad_to_even xs))"
  by (simp add: pad_to_even_def) presburger

lemma length_pad_to_even: "length (pad_to_even xs) = 2 * ((length xs + 1) div 2)"
  by (simp add: pad_to_even_def) presburger

lemma length_hash_chunks [simp]: "length (hash_chunks H xs) = length xs div 2"
  by (induction H xs rule: hash_chunks.induct) auto

lemma length_hash_pairs [simp]: "length (hash_pairs H xs) = (length xs + 1) div 2"
  by (simp add: hash_pairs_def length_pad_to_even)

lemma pad_to_even_id: "even (length xs) \<Longrightarrow> pad_to_even xs = xs"
  by (simp add: pad_to_even_def even_iff_mod_2_eq_zero)

lemma hash_pairs_even: "even (length xs) \<Longrightarrow> hash_pairs H xs = hash_chunks H xs"
  by (simp add: hash_pairs_def pad_to_even_id)

lemma hash_pairs_pad: "hash_pairs H (pad_to_even xs) = hash_pairs H xs"
  by (simp add: hash_pairs_def pad_to_even_id)

lemma nth_hash_chunks:
  "i < length xs div 2 \<Longrightarrow> hash_chunks H xs ! i = hash_pair H (xs ! (2 * i)) (xs ! (2 * i + 1))"
proof (induction H xs arbitrary: i rule: hash_chunks.induct)
  case (1 H l r rest)
  then show ?case
    by (cases i) auto
qed simp_all

lemma hash_chunks_append:
  "even (length xs) \<Longrightarrow> hash_chunks H (xs @ ys) = hash_chunks H xs @ hash_chunks H ys"
  by (induction H xs rule: hash_chunks.induct) auto

section \<open>Root and proofs\<close>

text \<open>\<^verbatim>\<open>build_level\<close>: called on a non-empty list only, so \<^verbatim>\<open>current[0]\<close> is in range.\<close>

function build_level :: "(bytes \<Rightarrow> bytes) \<Rightarrow> bytes list \<Rightarrow> bytes" where
  "build_level H current =
     (if length current > 1 then build_level H (hash_pairs H current) else hd current)"
  by auto
termination
  by (relation "measure (\<lambda>(H, current). length current)") auto

declare build_level.simps [simp del]

definition merkle_root :: "(bytes \<Rightarrow> bytes) \<Rightarrow> merkle_tree \<Rightarrow> bytes" where
  "merkle_root H t = (if leaves t = [] then replicate 32 0 else build_level H (leaves t))"

function proof_loop ::
  "(bytes \<Rightarrow> bytes) \<Rightarrow> bytes list \<Rightarrow> nat \<Rightarrow> merkle_path_step list \<Rightarrow> merkle_path_step list outcome"
where
  "proof_loop H current_level current_index path =
     (if length current_level > 1 then
        (let sibling_index = (if current_index mod 2 = 0 then current_index + 1 else current_index - 1)
         in if sibling_index < length current_level then
              proof_loop H (hash_pairs H current_level) (current_index div 2)
                (path @ [\<lparr>sibling = current_level ! sibling_index,
                          is_left = (current_index mod 2 = 0)\<rparr>])
            else Panic)
      else Done path)"
  by auto
termination
  by (relation "measure (\<lambda>(H, level, i, path). length level)") auto

declare proof_loop.simps [simp del]

definition merkle_proof ::
  "(bytes \<Rightarrow> bytes) \<Rightarrow> merkle_tree \<Rightarrow> nat \<Rightarrow> merkle_path_step list option outcome" where
  "merkle_proof H t index =
     (if index \<ge> length (leaves t) then Done None
      else case proof_loop H (pad_to_even (leaves t)) index [] of
             Panic \<Rightarrow> Panic
           | Done path \<Rightarrow> Done (Some path))"

definition proof_step :: "(bytes \<Rightarrow> bytes) \<Rightarrow> merkle_path_step \<Rightarrow> bytes \<Rightarrow> bytes" where
  "proof_step H s current =
     (if is_left s then hash_pair H current (sibling s) else hash_pair H (sibling s) current)"

definition verify_proof ::
  "(bytes \<Rightarrow> bytes) \<Rightarrow> bytes \<Rightarrow> merkle_path_step list \<Rightarrow> bytes \<Rightarrow> bool" where
  "verify_proof H leaf_hash path known_root = (fold (proof_step H) path leaf_hash = known_root)"

section \<open>The root\<close>

lemma build_level_singleton [simp]: "build_level H [x] = x"
  by (simp add: build_level.simps)

lemma build_level_step: "length xs > 1 \<Longrightarrow> build_level H xs = build_level H (hash_pairs H xs)"
  by (subst build_level.simps) simp

lemma build_level_pad: "length xs > 1 \<Longrightarrow> build_level H (pad_to_even xs) = build_level H xs"
  by (simp add: build_level_step hash_pairs_pad length_pad_to_even)

text \<open>A reference definition of the root of a perfect tree, by recursion on its height.\<close>

fun perfect_root :: "(bytes \<Rightarrow> bytes) \<Rightarrow> nat \<Rightarrow> bytes list \<Rightarrow> bytes" where
  "perfect_root H 0 xs = hd xs"
| "perfect_root H (Suc k) xs =
     hash_pair H (perfect_root H k (take (2 ^ k) xs)) (perfect_root H k (drop (2 ^ k) xs))"

lemma perfect_root_chunks:
  "length xs = 2 ^ Suc k \<Longrightarrow> perfect_root H (Suc k) xs = perfect_root H k (hash_chunks H xs)"
proof (induction k arbitrary: xs)
  case 0
  then obtain a b where "xs = [a, b]"
    by (auto simp: length_Suc_conv numeral_2_eq_2)
  then show ?case
    by (simp add: drop_Suc)
next
  case (Suc k)
  let ?l = "take (2 ^ Suc k) xs" and ?r = "drop (2 ^ Suc k) xs"
  have len: "length ?l = 2 ^ Suc k" "length ?r = 2 ^ Suc k"
    using Suc.prems by simp_all
  have split: "hash_chunks H xs = hash_chunks H ?l @ hash_chunks H ?r"
    using hash_chunks_append [of ?l H ?r] len by simp
  have "perfect_root H (Suc (Suc k)) xs =
      hash_pair H (perfect_root H k (hash_chunks H ?l)) (perfect_root H k (hash_chunks H ?r))"
    using Suc.IH [OF len(1)] Suc.IH [OF len(2)] by (simp only: perfect_root.simps)
  also have "\<dots> = perfect_root H (Suc k) (hash_chunks H xs)"
    using len by (simp add: split)
  finally show ?case .
qed

lemma build_level_perfect: "length xs = 2 ^ k \<Longrightarrow> build_level H xs = perfect_root H k xs"
proof (induction k arbitrary: xs)
  case 0
  then show ?case
    by (simp add: build_level.simps)
next
  case (Suc k)
  then have "1 < length xs" "even (length xs)" "length (hash_chunks H xs) = 2 ^ k"
    by simp_all
  then show ?case
    using Suc.IH [of "hash_chunks H xs"] perfect_root_chunks [OF Suc.prems]
    by (simp add: build_level_step hash_pairs_even)
qed

section \<open>Proof paths\<close>

lemma fold_proof_loop:
  assumes "proof_loop H level i path = Done out" "i < length level"
  shows "\<exists>p. out = path @ p \<and> fold (proof_step H) p (level ! i) = build_level H level"
  using assms
proof (induction H level i path arbitrary: out rule: proof_loop.induct)
  case (1 H level i path)
  show ?case
  proof (cases "length level > 1")
    case False
    then have "level = [level ! 0]" "i = 0" "out = path"
      using 1 by (cases level; simp add: proof_loop.simps)+
    then show ?thesis
      by (metis append_Nil2 build_level_singleton fold_simps(1))
  next
    case True
    define s where "s = (if i mod 2 = 0 then i + 1 else i - 1)"
    let ?st = "\<lparr>sibling = level ! s, is_left = (i mod 2 = 0)\<rparr>"
    have s: "s < length level"
      and run: "proof_loop H (hash_pairs H level) (i div 2) (path @ [?st]) = Done out"
      using 1 True by (simp_all add: proof_loop.simps [of H level] s_def Let_def split: if_splits)
    have half: "i div 2 < length (hash_pairs H level)"
      using 1 by simp
    obtain p where p: "out = (path @ [?st]) @ p"
      and fp: "fold (proof_step H) p (hash_pairs H level ! (i div 2))
                 = build_level H (hash_pairs H level)"
      using "1.IH" [OF True s_def s run half] by blast
    have ev: "2 * (i div 2) + 1 < length level"
      using s \<open>i < length level\<close> by (auto simp: s_def split: if_splits) presburger+
    have pad: "pad_to_even level ! j = level ! j" if "j < length level" for j
      using that by (simp add: pad_to_even_def nth_append)
    have "hash_pairs H level ! (i div 2)
        = hash_pair H (level ! (2 * (i div 2))) (level ! (2 * (i div 2) + 1))"
      using half ev by (simp add: hash_pairs_def nth_hash_chunks pad)
    also have "\<dots> = proof_step H ?st (level ! i)"
    proof (cases "even i")
      case True
      then show ?thesis
        by (simp add: proof_step_def s_def even_two_times_div_two)
    next
      case False
      then show ?thesis
        by (auto simp: proof_step_def s_def elim: oddE)
    qed
    finally have "hash_pairs H level ! (i div 2) = proof_step H ?st (level ! i)" .
    with p fp True show ?thesis
      by (intro exI [of _ "?st # p"]) (simp add: build_level_step)
  qed
qed

lemma proof_loop_step_ok:
  assumes "even (length level)" "i < length level"
  shows "\<exists>st. proof_loop H level i path = proof_loop H (hash_pairs H level) (i div 2) (path @ [st])"
proof -
  have "length level > 1"
    using assms by (cases level) (auto elim: evenE)
  moreover have "(if i mod 2 = 0 then i + 1 else i - 1) < length level"
    using assms by presburger
  ultimately show ?thesis
    by (subst proof_loop.simps) (auto simp: Let_def)
qed

lemma proof_loop_perfect:
  "length level = 2 ^ k \<Longrightarrow> i < length level \<Longrightarrow>
     \<exists>p. proof_loop H level i path = Done (path @ p) \<and> length p = k"
proof (induction k arbitrary: level i path)
  case 0
  then show ?case
    by (simp add: proof_loop.simps)
next
  case (Suc k)
  have len: "even (length level)" "length (hash_pairs H level) = 2 ^ k"
    using Suc.prems by simp_all
  obtain st where st:
    "proof_loop H level i path = proof_loop H (hash_pairs H level) (i div 2) (path @ [st])"
    using proof_loop_step_ok [OF len(1) Suc.prems(2)] by blast
  have "i div 2 < length (hash_pairs H level)"
    using Suc.prems(2) by simp
  from Suc.IH [OF len(2) this, of "path @ [st]"] obtain p
    where "proof_loop H (hash_pairs H level) (i div 2) (path @ [st]) = Done ((path @ [st]) @ p)"
      and "length p = k"
    by blast
  with st show ?case
    by (intro exI [of _ "st # p"]) simp
qed

text \<open>The loop panics as soon as the current level is odd and the tracked node is its last.\<close>

lemma proof_loop_odd_last:
  "length level > 1 \<Longrightarrow> odd (length level) \<Longrightarrow> i = length level - 1 \<Longrightarrow>
     proof_loop H level i path = Panic"
  by (subst proof_loop.simps) (auto simp: Let_def)

text \<open>A path that is returned leads from the leaf to the root of the padded leaves.\<close>

lemma merkle_proof_path:
  assumes "merkle_proof H t i = Done (Some p)"
  shows "i < length (leaves t) \<and>
    fold (proof_step H) p (leaves t ! i) = build_level H (pad_to_even (leaves t))"
proof -
  have i: "i < length (leaves t)" and run: "proof_loop H (pad_to_even (leaves t)) i [] = Done p"
    using assms by (auto simp: merkle_proof_def split: if_splits outcome.splits)
  have "i < length (pad_to_even (leaves t))"
    using i by (simp add: length_pad_to_even)
  from fold_proof_loop [OF run this] i show ?thesis
    by (auto simp: pad_to_even_def nth_append split: if_splits)
qed

section \<open>What an opening commits to\<close>

text \<open>The byte strings hashed while a path is checked.\<close>

fun path_inputs :: "(bytes \<Rightarrow> bytes) \<Rightarrow> bytes \<Rightarrow> merkle_path_step list \<Rightarrow> bytes list" where
  "path_inputs H cur [] = []"
| "path_inputs H cur (s # p) =
     (if is_left s then cur @ sibling s else sibling s @ cur)
       # path_inputs H (proof_step H s cur) p"

lemma fold_proof_step_collision:
  assumes "map is_left p = map is_left q"
    and "length l1 = n" "length l2 = n" "\<forall>s\<in>set p \<union> set q. length (sibling s) = n"
    and "\<And>x. length (H x) = n"
    and "l1 \<noteq> l2" "fold (proof_step H) p l1 = fold (proof_step H) q l2"
  shows "\<exists>x\<in>set (path_inputs H l1 p). \<exists>y\<in>set (path_inputs H l2 q). x \<noteq> y \<and> H x = H y"
  using assms
proof (induction p arbitrary: q l1 l2)
  case (Cons s p)
  then obtain t q' where q: "q = t # q'" "is_left s = is_left t" "map is_left p = map is_left q'"
    by (cases q) auto
  let ?x = "if is_left s then l1 @ sibling s else sibling s @ l1"
  let ?y = "if is_left t then l2 @ sibling t else sibling t @ l2"
  have ne: "?x \<noteq> ?y"
    using Cons.prems q by auto
  have step: "proof_step H s l1 = H ?x" "proof_step H t l2 = H ?y"
    by (simp_all add: proof_step_def hash_pair_def)
  have pi: "path_inputs H l1 (s # p) = ?x # path_inputs H (H ?x) p"
    "path_inputs H l2 q = ?y # path_inputs H (H ?y) q'"
    by (simp_all only: q(1) path_inputs.simps step)
  show ?case
  proof (cases "H ?x = H ?y")
    case True
    with ne have "?x \<noteq> ?y \<and> H ?x = H ?y"
      by (rule conjI)
    then show ?thesis
      unfolding pi by (rule bex2_head)
  next
    case False
    have "\<exists>x\<in>set (path_inputs H (H ?x) p). \<exists>y\<in>set (path_inputs H (H ?y) q'). x \<noteq> y \<and> H x = H y"
      using Cons.prems False
      by (intro Cons.IH) (simp_all add: q step del: if_split)
    then show ?thesis
      unfolding pi by (rule bex2_tail)
  qed
qed simp

section \<open>Properties\<close>

lemma merkle_single_leaf:
  assumes "leaves t = [l]"
  shows "merkle_root H t = l" "merkle_proof H t 0 = Done (Some [\<lparr>sibling = l, is_left = True\<rparr>])"
    "verify_proof H l [\<lparr>sibling = l, is_left = True\<rparr>] (merkle_root H t) \<longleftrightarrow> H (l @ l) = l"
  using assms
  by (simp_all add: merkle_proof_def merkle_root_def verify_proof_def pad_to_even_def
      proof_loop.simps hash_pairs_def hash_pair_def proof_step_def)

text \<open>C1: completeness of \<^verbatim>\<open>proof\<close> and correctness of \<^verbatim>\<open>root\<close> on perfect trees. With \<open>2 ^ k\<close>
  leaves the level-by-level root is the recursive Merkle root and every leaf has a path, without a
  panic. For \<open>k \<ge> 1\<close> it has exactly \<open>k\<close> steps and verifies. For a single leaf, whose root is the leaf
  itself, the path still has one step, and it verifies only if the leaf is a fixed point of
  hashing it with itself.\<close>

theorem merkle_proof_complete:
  assumes "length (leaves t) = 2 ^ k" "i < length (leaves t)"
  shows "merkle_root H t = perfect_root H k (leaves t) \<and>
    (\<exists>p. merkle_proof H t i = Done (Some p) \<and> length p = max 1 k \<and>
         (verify_proof H (leaves t ! i) p (merkle_root H t) \<longleftrightarrow>
            k > 0 \<or> H (leaves t ! i @ leaves t ! i) = leaves t ! i))"
proof (cases k)
  case 0
  then obtain l where l: "leaves t = [l]"
    using assms(1) by (auto simp: length_Suc_conv)
  with 0 assms(2) merkle_single_leaf [OF l, of H] show ?thesis
    by simp
next
  case (Suc n)
  have len: "length (leaves t) = 2 ^ Suc n"
    using assms(1) Suc by simp
  have ne: "leaves t \<noteq> []" and ev: "pad_to_even (leaves t) = leaves t"
    using assms(2) len by (auto simp: pad_to_even_id)
  obtain p where p: "proof_loop H (leaves t) i [] = Done p" "length p = Suc n"
    using proof_loop_perfect [OF len assms(2), of H "[]"] by auto
  from fold_proof_loop [OF p(1) assms(2)]
  have "fold (proof_step H) p (leaves t ! i) = build_level H (leaves t)"
    by simp
  with p ne ev assms(2) Suc build_level_perfect [OF len, of H] show ?thesis
    by (simp add: merkle_root_def merkle_proof_def verify_proof_def del: perfect_root.simps)
qed

theorem merkle_proof_complete_witness:
  "merkle_root (\<lambda>x. x) \<lparr>leaves = [[1], [2], [3], [4]]\<rparr> = [1, 2, 3, 4] \<and>
   (\<exists>p. merkle_proof (\<lambda>x. x) \<lparr>leaves = [[1]]\<rparr> 0 = Done (Some p) \<and>
      \<not> verify_proof (\<lambda>x. x) [1] p (merkle_root (\<lambda>x. x) \<lparr>leaves = [[1]]\<rparr>))"
proof
  have "merkle_root (\<lambda>x. x) \<lparr>leaves = [[1], [2], [3], [4]]\<rparr>
      = perfect_root (\<lambda>x. x) 2 [[1], [2], [3], [4]]"
    using merkle_proof_complete [of "\<lparr>leaves = [[1], [2], [3], [4]]\<rparr>" 2 2 "\<lambda>x. x"] by simp
  then show "merkle_root (\<lambda>x. x) \<lparr>leaves = [[1], [2], [3], [4]]\<rparr> = [1, 2, 3, 4]"
    by (simp add: hash_pair_def numeral_2_eq_2)
  show "\<exists>p. merkle_proof (\<lambda>x. x) \<lparr>leaves = [[1]]\<rparr> 0 = Done (Some p) \<and>
      \<not> verify_proof (\<lambda>x. x) [1] p (merkle_root (\<lambda>x. x) \<lparr>leaves = [[1]]\<rparr>)"
    using merkle_proof_complete [of "\<lparr>leaves = [[1]]\<rparr>" 0 0 "\<lambda>x. x"] by auto
qed

text \<open>C2: soundness of \<^verbatim>\<open>proof\<close> on every tree of at least two leaves: whenever it
  returns a path at all (it may panic), that path verifies the leaf against the root.\<close>

theorem merkle_proof_sound:
  assumes "merkle_proof H t i = Done (Some p)" "merkle_len t \<ge> 2"
  shows "verify_proof H (leaves t ! i) p (merkle_root H t)"
  using merkle_proof_path [OF assms(1)] assms(2)
  by (auto simp: verify_proof_def merkle_root_def merkle_len_def build_level_pad)

theorem merkle_proof_sound_witness:
  "verify_proof (\<lambda>x. x) [3] [\<lparr>sibling = [3], is_left = True\<rparr>, \<lparr>sibling = [1, 2], is_left = False\<rparr>]
     (merkle_root (\<lambda>x. x) \<lparr>leaves = [[1], [2], [3]]\<rparr>)"
  using merkle_proof_sound [of "\<lambda>x. x" "\<lparr>leaves = [[1], [2], [3]]\<rparr>" 2
      "[\<lparr>sibling = [3], is_left = True\<rparr>, \<lparr>sibling = [1, 2], is_left = False\<rparr>]"]
  by (simp add: merkle_proof_def merkle_len_def pad_to_even_def proof_loop.simps
      hash_pairs_def hash_pair_def)

text \<open>C3: a path binds its leaf. Two different leaves opened to one root along paths of the
  same shape exhibit a collision of the hash function among the strings hashed by the two
  verifications.\<close>

theorem verify_proof_binding:
  assumes "verify_proof H l1 p known_root" "verify_proof H l2 q known_root"
    and "map is_left p = map is_left q" "l1 \<noteq> l2"
    and "length l1 = 32" "length l2 = 32" "\<forall>s\<in>set p \<union> set q. length (sibling s) = 32"
    and "\<And>x. length (H x) = 32"
  shows "\<exists>x\<in>set (path_inputs H l1 p). \<exists>y\<in>set (path_inputs H l2 q). x \<noteq> y \<and> H x = H y"
  using assms by (intro fold_proof_step_collision [where n = 32]) (simp_all add: verify_proof_def)

theorem verify_proof_binding_witness:
  "\<exists>x\<in>set (path_inputs (\<lambda>x. replicate 32 0) (replicate 32 1) [\<lparr>sibling = replicate 32 3, is_left = True\<rparr>]).
   \<exists>y\<in>set (path_inputs (\<lambda>x. replicate 32 0) (replicate 32 2) [\<lparr>sibling = replicate 32 3, is_left = True\<rparr>]).
     x \<noteq> y"
  using verify_proof_binding [of "\<lambda>x. replicate 32 0" "replicate 32 1"
      "[\<lparr>sibling = replicate 32 3, is_left = True\<rparr>]" "replicate 32 0" "replicate 32 2"
      "[\<lparr>sibling = replicate 32 3, is_left = True\<rparr>]"]
  by (simp add: verify_proof_def proof_step_def hash_pair_def)

text \<open>C4: \<^verbatim>\<open>proof\<close> pads only the first level. When the second level has an odd number of
  nodes greater than one, asking for the proof of either leaf below its last node panics with
  an index out of range.\<close>

theorem merkle_proof_panics:
  assumes "m = (merkle_len t + 1) div 2" "odd m" "m > 1" "i < merkle_len t" "i div 2 = m - 1"
  shows "merkle_proof H t i = Panic"
proof -
  let ?l = "pad_to_even (leaves t)"
  have len: "length (hash_pairs H ?l) = m" "i < length ?l"
    using assms by (simp_all add: merkle_len_def length_pad_to_even)
  then obtain st where
    "proof_loop H ?l i [] = proof_loop H (hash_pairs H ?l) (i div 2) ([] @ [st])"
    using proof_loop_step_ok [of ?l i H "[]"] by auto
  then have "proof_loop H ?l i [] = Panic"
    using proof_loop_odd_last [of "hash_pairs H ?l" "i div 2"] len assms by simp
  then show ?thesis
    using assms by (simp add: merkle_proof_def merkle_len_def)
qed

theorem merkle_proof_panics_witness:
  "merkle_proof (\<lambda>x. x) \<lparr>leaves = [[1], [2], [3], [4], [5]]\<rparr> 4 = Panic"
  using merkle_proof_panics [of 3 "\<lparr>leaves = [[1], [2], [3], [4], [5]]\<rparr>" 4 "\<lambda>x. x"]
  by (simp add: merkle_len_def)

text \<open>The root does not determine the leaves: inserting the last leaf again into a tree of
  odd size above one leaves the root as it was.\<close>

theorem merkle_root_duplicate_last:
  assumes "odd (merkle_len t)" "merkle_len t > 1"
  shows "merkle_root H (merkle_insert (last (leaves t)) t) = merkle_root H t"
  using assms build_level_pad [of "leaves t" H]
  by (auto simp: merkle_root_def merkle_insert_def merkle_len_def pad_to_even_def odd_iff_mod_2_eq_one)

theorem merkle_root_duplicate_last_witness:
  "merkle_root (\<lambda>x. x) \<lparr>leaves = [[1], [2], [3], [3]]\<rparr> = [1, 2, 3, 3]"
  using merkle_root_duplicate_last [of "\<lparr>leaves = [[1], [2], [3]]\<rparr>" "\<lambda>x. x"]
  by (simp add: merkle_len_def merkle_insert_def merkle_root_def build_level.simps hash_pairs_def
      pad_to_even_def hash_pair_def)

end
