(* ===== verification/Node_Types.thy ===== *)
theory Node_Types
  imports Prelude
begin

text \<open>The data of \<^verbatim>\<open>crates/common/src/types.rs\<close>: messages, contexts, offers, requests, bids
  and the self-verifiable receipt \<^verbatim>\<open>ProofOfInference\<close> with its canonical bytes, id and
  verification. Floats are rationals; where code computes with them it takes the rounding
  function as a parameter. JSON serialisation, SHA-256 and Ed25519 are third-party code, the
  fields of the parameter record \<open>crypto_env\<close>.\<close>

type_synonym f64 = rat
type_synonym f32 = rat
type_synonym node_peer_id = string
type_synonym blob_id = string
type_synonym nanox = u64

section \<open>Messages and contexts\<close>

datatype role = User | Assistant | System

record message =
  msg_role :: role
  msg_content :: string
  msg_timestamp :: u64
  msg_node_id :: "node_peer_id option"
  msg_token_count :: u32

record context_window =
  cw_system_prompt :: "string option"
  cw_summary :: "string option"
  cw_recent_messages :: "message list"
  cw_total_tokens :: u32

record session_metadata =
  sm_created_at :: u64
  sm_last_updated :: u64
  sm_turn_count :: u32
  sm_total_tokens_used :: u64
  sm_total_cost_nanox :: u64
  sm_blob_id :: "blob_id option"
  sm_prev_blob_id :: "blob_id option"

record session_context =
  sc_session_id :: uuid
  sc_user_address :: string
  sc_model_id :: string
  sc_messages :: "message list"
  sc_context_window :: context_window
  sc_metadata :: session_metadata

record session_summary =
  ss_session_id :: uuid
  ss_model_id :: string
  ss_turn_count :: u32
  ss_created_at :: u64
  ss_last_updated :: u64
  ss_preview :: string

section \<open>Reputation, offers and capabilities\<close>

record reputation_score =
  rs_value :: f64
  rs_total_jobs :: u64
  rs_success_rate :: f64
  rs_avg_latency_ms :: f64
  rs_verified_proofs :: u64
  rs_last_updated :: u64
  rs_merkle_root :: bytes

definition reputation_default :: reputation_score where
  "reputation_default = \<lparr>rs_value = 0, rs_total_jobs = 0, rs_success_rate = 0,
     rs_avg_latency_ms = 0, rs_verified_proofs = 0, rs_last_updated = 0,
     rs_merkle_root = replicate 32 0\<rparr>"

record settlement_offer =
  so_settlement_id :: string
  so_price_per_1k :: nanox
  so_token_id :: string

datatype gpu_type = NvidiaCuda | AmdRocm | AppleMetal | Cpu

record node_capabilities =
  nc_peer_id :: node_peer_id
  nc_models :: "string list"
  nc_gpu_vram_mb :: u32
  nc_gpu_type :: gpu_type
  nc_region :: "string option"
  nc_tee_enabled :: bool
  nc_reputation :: reputation_score
  nc_accepted_settlements :: "settlement_offer list"
  nc_api_url :: "string option"

section \<open>Requests, bids and stream chunks\<close>

datatype privacy_level = Standard | Private | Fragmented | Maximum

record inference_request =
  ir_request_id :: uuid
  ir_session_id :: uuid
  ir_model_preference :: string
  ir_context_blob_id :: "blob_id option"
  ir_prompt_encrypted :: bytes
  ir_prompt_nonce :: bytes
  ir_max_tokens :: u32
  ir_temperature :: f32
  ir_escrow_tx_id :: string
  ir_budget_nanox :: nanox
  ir_timestamp :: u64
  ir_client_peer_id :: node_peer_id
  ir_privacy_level :: privacy_level
  ir_accepted_settlements :: "string list"
  ir_target_peer_id :: "string option"
  ir_response_topic :: "string option"
  ir_prompt_plain :: "string option"

record p2p_inference_chunk =
  pc_request_id :: uuid
  pc_response_id :: string
  pc_token :: string
  pc_is_final :: bool
  pc_error :: "string option"

record inference_bid =
  ib_request_id :: uuid
  ib_node_peer_id :: node_peer_id
  ib_estimated_latency_ms :: u32
  ib_current_load_pct :: u8
  ib_model_id :: string
  ib_max_context_len :: u32
  ib_has_tee :: bool
  ib_reputation :: reputation_score
  ib_accepted_settlements :: "settlement_offer list"

record inference_stream_chunk =
  sk_request_id :: uuid
  sk_chunk_index :: u32
  sk_token :: string
  sk_is_final :: bool
  sk_tokens_generated :: u32
  sk_finish_reason :: "string option"

section \<open>Proof of inference\<close>

text \<open>The fields \<^verbatim>\<open>Signable\<close> serialises, then the receipt that adds the signature.\<close>

record signable =
  poi_request_id :: uuid
  poi_session_id :: uuid
  poi_node_peer_id :: node_peer_id
  poi_client_address :: string
  poi_model_id :: string
  poi_input_tokens :: u32
  poi_output_tokens :: u32
  poi_latency_ms :: u32
  poi_price_paid_nanox :: nanox
  poi_timestamp :: u64
  poi_input_hash :: bytes
  poi_output_hash :: bytes
  poi_settlement_id :: string
  poi_escrow_tx_id :: "string option"
  poi_node_pubkey :: bytes

record proof_of_inference = signable +
  poi_signature :: bytes

text \<open>\<^verbatim>\<open>serde_json::to_vec\<close> of a \<^verbatim>\<open>Signable\<close>, SHA-256, the two steps of Ed25519 verification and
  \<^verbatim>\<open>hex::encode\<close>.\<close>

record crypto_env =
  json_signable :: "signable \<Rightarrow> bytes"
  sha256 :: "bytes \<Rightarrow> bytes"
  vk_from_bytes_ok :: "bytes \<Rightarrow> bool"
  ed25519_verify :: "bytes \<Rightarrow> bytes \<Rightarrow> bytes \<Rightarrow> bool"
  hex_encode :: "bytes \<Rightarrow> string"

definition canonical_bytes :: "crypto_env \<Rightarrow> proof_of_inference \<Rightarrow> bytes" where
  "canonical_bytes E p = json_signable E
     \<lparr>poi_request_id = poi_request_id p, poi_session_id = poi_session_id p,
      poi_node_peer_id = poi_node_peer_id p, poi_client_address = poi_client_address p,
      poi_model_id = poi_model_id p, poi_input_tokens = poi_input_tokens p,
      poi_output_tokens = poi_output_tokens p, poi_latency_ms = poi_latency_ms p,
      poi_price_paid_nanox = poi_price_paid_nanox p, poi_timestamp = poi_timestamp p,
      poi_input_hash = poi_input_hash p, poi_output_hash = poi_output_hash p,
      poi_settlement_id = poi_settlement_id p, poi_escrow_tx_id = poi_escrow_tx_id p,
      poi_node_pubkey = poi_node_pubkey p\<rparr>"

definition poi_id :: "crypto_env \<Rightarrow> proof_of_inference \<Rightarrow> bytes" where
  "poi_id E p = sha256 E (canonical_bytes E p)"

definition poi_verify :: "crypto_env \<Rightarrow> proof_of_inference \<Rightarrow> bool" where
  "poi_verify E p =
     (if \<not> vk_from_bytes_ok E (poi_node_pubkey p) then False
      else if length (poi_signature p) \<noteq> 64 then False
      else ed25519_verify E (poi_node_pubkey p) (canonical_bytes E p) (poi_signature p))"

definition poi_unsigned ::
  "uuid \<Rightarrow> uuid \<Rightarrow> node_peer_id \<Rightarrow> string \<Rightarrow> string \<Rightarrow> u32 \<Rightarrow> u32 \<Rightarrow> u32 \<Rightarrow> nanox \<Rightarrow> u64 \<Rightarrow>
     bytes \<Rightarrow> bytes \<Rightarrow> string \<Rightarrow> string option \<Rightarrow> proof_of_inference" where
  "poi_unsigned request_id session_id node_peer_id client_address model_id input_tokens
     output_tokens latency_ms price_paid_nanox timestamp input_hash output_hash settlement_id
     escrow_tx_id =
     \<lparr>poi_request_id = request_id, poi_session_id = session_id, poi_node_peer_id = node_peer_id,
      poi_client_address = client_address, poi_model_id = model_id,
      poi_input_tokens = input_tokens, poi_output_tokens = output_tokens,
      poi_latency_ms = latency_ms, poi_price_paid_nanox = price_paid_nanox,
      poi_timestamp = timestamp, poi_input_hash = input_hash, poi_output_hash = output_hash,
      poi_settlement_id = settlement_id, poi_escrow_tx_id = escrow_tx_id,
      poi_node_pubkey = replicate 32 0, poi_signature = replicate 64 0\<rparr>"

lemma canonical_bytes_signature [simp]:
  "canonical_bytes E (p\<lparr>poi_signature := s\<rparr>) = canonical_bytes E p"
  by (simp add: canonical_bytes_def)

lemma poi_id_signature [simp]: "poi_id E (p\<lparr>poi_signature := s\<rparr>) = poi_id E p"
  by (simp add: poi_id_def)

lemma canonical_bytes_truncate: "canonical_bytes E p = json_signable E (signable.truncate p)"
  by (simp add: canonical_bytes_def signable.truncate_def)

lemma poi_verify_length: "poi_verify E p \<Longrightarrow> length (poi_signature p) = 64"
  by (simp add: poi_verify_def split: if_splits)

end
