(* ===== verification/File_System.thy ===== *)
theory File_System
  imports Prelude
begin

text \<open>The part of \<^verbatim>\<open>std::fs\<close> and \<^verbatim>\<open>std::path\<close> that the file-backed stores use: a disk is a map
  from paths to contents, a write either succeeds or fails leaving what the operating system
  managed to write, and a rename replaces its target.\<close>

type_synonym path = string
type_synonym disk = "path \<rightharpoonup> bytes"

text \<open>The operating system's answers to one write and one rename.\<close>

record io_result =
  io_write_ok :: bool
  io_rename_ok :: bool
  io_partial :: "bytes option"

text \<open>\<^verbatim>\<open>Path::with_extension\<close>: the extension is what follows the last dot of the file name,
  unless that dot is its first character.\<close>

definition with_extension :: "path \<Rightarrow> string \<Rightarrow> path" where
  "with_extension p ext =
     (let r = rev p;
          name = rev (takeWhile (\<lambda>c. c \<noteq> CHR ''/'') r);
          dir = rev (dropWhile (\<lambda>c. c \<noteq> CHR ''/'') r);
          stem = rev (tl (dropWhile (\<lambda>c. c \<noteq> CHR ''.'') (rev name)))
      in if CHR ''.'' \<in> set name \<and> stem \<noteq> [] then dir @ stem @ CHR ''.'' # ext
         else dir @ name @ CHR ''.'' # ext)"

definition fs_write :: "io_result \<Rightarrow> path \<Rightarrow> bytes \<Rightarrow> disk \<Rightarrow> disk \<times> bool" where
  "fs_write io p c d = (if io_write_ok io then (d(p \<mapsto> c), True) else (d(p := io_partial io), False))"

definition fs_rename :: "io_result \<Rightarrow> path \<Rightarrow> path \<Rightarrow> disk \<Rightarrow> disk \<times> bool" where
  "fs_rename io from_p to_p d =
     (if io_rename_ok io then
        (if from_p = to_p then (d, True) else (d(to_p := d from_p, from_p := None), True))
      else (d, False))"

text \<open>Write a temporary file beside the target and rename it over the target, the idiom both
  the ledger and the reputation store use for an atomic update.\<close>

definition write_then_rename :: "io_result \<Rightarrow> path \<Rightarrow> bytes \<Rightarrow> disk \<Rightarrow> disk \<times> bool" where
  "write_then_rename io p json d =
     (let tmp = with_extension p ''json.tmp'' in
      case fs_write io tmp json d of
        (d1, False) \<Rightarrow> (d1, False)
      | (d1, True) \<Rightarrow> fs_rename io tmp p d1)"

lemma write_then_rename_ok:
  "write_then_rename io p json d = (d', True) \<Longrightarrow> d' p = Some json"
  by (auto simp: write_then_rename_def fs_write_def fs_rename_def Let_def
      split: if_splits)

lemma write_then_rename_succeeds:
  "io_write_ok io \<Longrightarrow> io_rename_ok io \<Longrightarrow> \<exists>d'. write_then_rename io p json d = (d', True)"
  by (simp add: write_then_rename_def fs_write_def fs_rename_def Let_def)

text \<open>Atomicity: a failed update leaves the target as it was.\<close>

lemma write_then_rename_failed:
  "write_then_rename io p json d = (d', False) \<Longrightarrow> with_extension p ''json.tmp'' \<noteq> p \<Longrightarrow> d' p = d p"
  by (auto simp: write_then_rename_def fs_write_def fs_rename_def Let_def
      split: if_splits)

lemma write_then_rename_other:
  "q \<noteq> p \<Longrightarrow> q \<noteq> with_extension p ''json.tmp'' \<Longrightarrow> fst (write_then_rename io p json d) q = d q"
  by (auto simp: write_then_rename_def fs_write_def fs_rename_def Let_def)

end
