(* ===== verification/Reputation.thy ===== *)
theory Reputation
  imports Merkle_Tree Node_Types File_System
begin

text \<open>The reputation stores of \<^verbatim>\<open>crates/reputation/src\<close>: the interface \<^verbatim>\<open>ReputationStore\<close>
  (\<^verbatim>\<open>store.rs\<close>) as a locale, the local store with its score, index and file (\<^verbatim>\<open>local.rs\<close>), and
  the gossiping store that wraps it (\<^verbatim>\<open>gossip.rs\<close>). The clock, the file system's answers, JSON
  encoding of the store file and floating-point rounding are arguments.\<close>

section \<open>State\<close>

record per_node_data =
  pnd_proofs :: "proof_of_inference list"
  pnd_score :: reputation_score

record node_state =
  ns_data :: per_node_data
  ns_tree :: merkle_tree
  ns_index :: "string \<rightharpoonup> nat"

record local_reputation_store =
  rep_local_peer_id :: string
  rep_file :: "path option"
  rep_state :: "string \<rightharpoonup> node_state"

text \<open>\<^verbatim>\<open>serde_json\<close> on the store file.\<close>

record store_json =
  sj_to_vec :: "(string \<rightharpoonup> per_node_data) \<Rightarrow> bytes option"
  sj_from_slice :: "bytes \<Rightarrow> (string \<rightharpoonup> per_node_data) option"

definition index_of :: "crypto_env \<Rightarrow> proof_of_inference list \<Rightarrow> string \<rightharpoonup> nat" where
  "index_of E proofs =
     fold (\<lambda>(i, p) m. m(hex_encode E (poi_id E p) \<mapsto> i)) (enumerate 0 proofs) Map.empty"

definition tree_of :: "crypto_env \<Rightarrow> proof_of_inference list \<Rightarrow> merkle_tree" where
  "tree_of E proofs = fold (\<lambda>p t. merkle_insert (poi_id E p) t) proofs merkle_new"

definition from_proofs ::
  "crypto_env \<Rightarrow> proof_of_inference list \<Rightarrow> reputation_score \<Rightarrow> node_state" where
  "from_proofs E proofs score =
     \<lparr>ns_data = \<lparr>pnd_proofs = proofs, pnd_score = score\<rparr>,
      ns_tree = tree_of E proofs, ns_index = index_of E proofs\<rparr>"

definition rep_in_memory :: "string \<Rightarrow> local_reputation_store" where
  "rep_in_memory peer = \<lparr>rep_local_peer_id = peer, rep_file = None, rep_state = Map.empty\<rparr>"

text \<open>\<open>readable\<close> is the operating system's answer to reading a file that exists; a failed read is an
  error, a file that does not parse counts as empty.\<close>

datatype store_error = StoreUnreadable

definition rep_from_file ::
  "crypto_env \<Rightarrow> store_json \<Rightarrow> bool \<Rightarrow> string \<Rightarrow> path \<Rightarrow> disk \<Rightarrow> (local_reputation_store, store_error) res" where
  "rep_from_file E J readable peer p d =
     (if d p \<noteq> None \<and> \<not> readable then Inl StoreUnreadable
      else
        let nodes = (case d p of
                       None \<Rightarrow> Map.empty
                     | Some raw \<Rightarrow> (case sj_from_slice J raw of None \<Rightarrow> Map.empty | Some f \<Rightarrow> f))
        in Inr \<lparr>rep_local_peer_id = peer, rep_file = Some p,
            rep_state = (\<lambda>k. map_option (\<lambda>nd. from_proofs E (pnd_proofs nd) (pnd_score nd)) (nodes k))\<rparr>)"

definition rep_flush ::
  "store_json \<Rightarrow> io_result \<Rightarrow> local_reputation_store \<Rightarrow> disk \<Rightarrow> disk" where
  "rep_flush J io s d =
     (case rep_file s of
        None \<Rightarrow> d
      | Some p \<Rightarrow>
          (case sj_to_vec J (\<lambda>k. map_option ns_data (rep_state s k)) of
             None \<Rightarrow> d
           | Some json \<Rightarrow> fst (write_then_rename io p json d)))"

section \<open>The score\<close>

text \<open>Floating-point operations are the exact ones followed by the rounding \<open>rnd\<close>.\<close>

definition compute_score ::
  "crypto_env \<Rightarrow> (rat \<Rightarrow> rat) \<Rightarrow> u64 \<Rightarrow> proof_of_inference list \<Rightarrow> bytes \<Rightarrow> reputation_score" where
  "compute_score E rnd now proofs merkle_rt =
     (if proofs = [] then reputation_default
      else
        let total_jobs = length proofs;
            verified = length (filter (poi_verify E) proofs);
            total_f = rnd (of_nat total_jobs);
            success_rate = rnd (rnd (of_nat verified) / total_f);
            avg_latency =
              rnd (foldl (\<lambda>acc p. rnd (acc + of_nat (unat (poi_latency_ms p)))) 0 proofs / total_f);
            latency_score = max (rnd (1 - min (rnd (avg_latency / 5000)) 1)) 0;
            val = rnd (rnd (rnd (6 / 10) * success_rate) + rnd (rnd (4 / 10) * latency_score))
        in \<lparr>rs_value = val, rs_total_jobs = of_nat total_jobs, rs_success_rate = success_rate,
            rs_avg_latency_ms = avg_latency, rs_verified_proofs = of_nat verified,
            rs_last_updated = now, rs_merkle_root = merkle_rt\<rparr>)"

section \<open>Operations of the local store\<close>

definition rep_record_proof ::
  "crypto_env \<Rightarrow> (rat \<Rightarrow> rat) \<Rightarrow> store_json \<Rightarrow> u64 \<times> io_result \<Rightarrow> proof_of_inference \<Rightarrow>
     local_reputation_store \<times> disk \<Rightarrow> local_reputation_store \<times> disk" where
  "rep_record_proof E rnd J x p st =
     (let s = fst st; d = snd st; now = fst x; io = snd x;
          node_id = poi_node_peer_id p;
          ns = (case rep_state s node_id of
                  Some n \<Rightarrow> n | None \<Rightarrow> from_proofs E [] reputation_default);
          proof_id = hex_encode E (poi_id E p)
      in if ns_index ns proof_id \<noteq> None then
           (s\<lparr>rep_state := (rep_state s)(node_id \<mapsto> ns)\<rparr>, d)
         else
           let leaf_index = merkle_len (ns_tree ns);
               tree = merkle_insert (poi_id E p) (ns_tree ns);
               index = (ns_index ns)(proof_id \<mapsto> leaf_index);
               proofs = pnd_proofs (ns_data ns) @ [p];
               score = compute_score E rnd now proofs (merkle_root (sha256 E) tree);
               ns' = \<lparr>ns_data = \<lparr>pnd_proofs = proofs, pnd_score = score\<rparr>,
                      ns_tree = tree, ns_index = index\<rparr>;
               s' = s\<lparr>rep_state := (rep_state s)(node_id \<mapsto> ns')\<rparr>
           in (s', rep_flush J io s' d))"

definition rep_get_score :: "string \<Rightarrow> local_reputation_store \<Rightarrow> reputation_score" where
  "rep_get_score node_id s =
     (case rep_state s node_id of None \<Rightarrow> reputation_default | Some n \<Rightarrow> pnd_score (ns_data n))"

definition rep_merkle_root :: "crypto_env \<Rightarrow> local_reputation_store \<Rightarrow> bytes" where
  "rep_merkle_root E s =
     (case rep_state s (rep_local_peer_id s) of
        None \<Rightarrow> replicate 32 0 | Some n \<Rightarrow> merkle_root (sha256 E) (ns_tree n))"

definition rep_merkle_proof ::
  "crypto_env \<Rightarrow> bytes \<Rightarrow> local_reputation_store \<Rightarrow> merkle_path_step list option outcome" where
  "rep_merkle_proof E proof_id s =
     (case rep_state s (rep_local_peer_id s) of
        None \<Rightarrow> Done None
      | Some n \<Rightarrow>
          (case ns_index n (hex_encode E proof_id) of
             None \<Rightarrow> Done None
           | Some leaf_index \<Rightarrow> merkle_proof (sha256 E) (ns_tree n) leaf_index))"

definition rep_all_proofs :: "local_reputation_store \<Rightarrow> proof_of_inference list" where
  "rep_all_proofs s =
     (case rep_state s (rep_local_peer_id s) of None \<Rightarrow> [] | Some n \<Rightarrow> pnd_proofs (ns_data n))"

section \<open>The gossiping store\<close>

text \<open>The broadcast channel is the bounded queue of roots not yet taken by the background
  task; \<^verbatim>\<open>try_send\<close> fails, and is only logged, when it is full or its receiver is gone.\<close>

record root_channel =
  rc_queue :: "bytes list"
  rc_capacity :: nat
  rc_open :: bool

definition try_send :: "bytes \<Rightarrow> root_channel \<Rightarrow> root_channel" where
  "try_send r c =
     (if rc_open c \<and> length (rc_queue c) < rc_capacity c
      then c\<lparr>rc_queue := rc_queue c @ [r]\<rparr> else c)"

record gossip_store =
  gs_inner :: "local_reputation_store \<times> disk"
  gs_broadcast_tx :: "root_channel option"

definition gossip_new :: "local_reputation_store \<times> disk \<Rightarrow> gossip_store" where
  "gossip_new inner = \<lparr>gs_inner = inner, gs_broadcast_tx = None\<rparr>"

definition gossip_new_with_broadcast ::
  "local_reputation_store \<times> disk \<Rightarrow> root_channel \<Rightarrow> gossip_store" where
  "gossip_new_with_broadcast inner tx = \<lparr>gs_inner = inner, gs_broadcast_tx = Some tx\<rparr>"

definition gossip_record_proof ::
  "crypto_env \<Rightarrow> (rat \<Rightarrow> rat) \<Rightarrow> store_json \<Rightarrow> u64 \<times> io_result \<Rightarrow> proof_of_inference \<Rightarrow>
     gossip_store \<Rightarrow> gossip_store" where
  "gossip_record_proof E rnd J x p g =
     (let inner = rep_record_proof E rnd J x p (gs_inner g);
          rt = rep_merkle_root E (fst inner)
      in g\<lparr>gs_inner := inner, gs_broadcast_tx := map_option (try_send rt) (gs_broadcast_tx g)\<rparr>)"

definition gossip_get_score :: "string \<Rightarrow> gossip_store \<Rightarrow> reputation_score" where
  "gossip_get_score node_id g = rep_get_score node_id (fst (gs_inner g))"

definition gossip_merkle_root :: "crypto_env \<Rightarrow> gossip_store \<Rightarrow> bytes" where
  "gossip_merkle_root E g = rep_merkle_root E (fst (gs_inner g))"

definition gossip_merkle_proof ::
  "crypto_env \<Rightarrow> bytes \<Rightarrow> gossip_store \<Rightarrow> merkle_path_step list option outcome" where
  "gossip_merkle_proof E proof_id g = rep_merkle_proof E proof_id (fst (gs_inner g))"

definition gossip_all_proofs :: "gossip_store \<Rightarrow> proof_of_inference list" where
  "gossip_all_proofs g = rep_all_proofs (fst (gs_inner g))"

section \<open>Tree and index of a list of proofs\<close>

lemma tree_of_eq: "tree_of E ps = \<lparr>leaves = map (poi_id E) ps\<rparr>"
  by (induction ps rule: rev_induct) (simp_all add: tree_of_def merkle_new_def merkle_insert_def)

lemma tree_of_snoc: "merkle_insert (poi_id E p) (tree_of E ps) = tree_of E (ps @ [p])"
  by (simp add: tree_of_eq merkle_insert_def)

lemma index_of_Nil [simp]: "index_of E [] = Map.empty"
  by (simp add: index_of_def)

lemma index_of_snoc [simp]:
  "index_of E (ps @ [p]) = (index_of E ps)(hex_encode E (poi_id E p) \<mapsto> length ps)"
  by (simp add: index_of_def enumerate_append_eq)

lemma index_of_None:
  "inj (hex_encode E) \<Longrightarrow>
     index_of E ps (hex_encode E h) = None \<longleftrightarrow> h \<notin> poi_id E ` set ps"
  by (induction ps rule: rev_induct) (auto dest: injD)

lemma index_of_Some:
  "inj (hex_encode E) \<Longrightarrow> distinct (map (poi_id E) ps) \<Longrightarrow>
     index_of E ps (hex_encode E h) = Some i \<longleftrightarrow> i < length ps \<and> poi_id E (ps ! i) = h"
proof (induction ps rule: rev_induct)
  case (snoc p ps)
  show ?case
  proof (cases "h = poi_id E p")
    case True
    have "poi_id E (ps ! i) \<noteq> poi_id E p" if "i < length ps"
      using snoc.prems(2) nth_mem [OF that] by (auto simp: image_iff)
    with True show ?thesis
      by (auto simp: nth_append less_Suc_eq)
  next
    case False
    then have "hex_encode E h \<noteq> hex_encode E (poi_id E p)"
      using snoc.prems(1) by (auto dest: injD)
    with False snoc show ?thesis
      by (auto simp: nth_append less_Suc_eq)
  qed
qed simp

section \<open>Well-formed stores\<close>

text \<open>The tree and the index of every node are those of its list of proofs, the ids of a node's
  proofs are distinct, and the proofs filed under a node name it.\<close>

definition node_ok :: "crypto_env \<Rightarrow> string \<Rightarrow> node_state \<Rightarrow> bool" where
  "node_ok E k ns \<longleftrightarrow>
     ns_tree ns = tree_of E (pnd_proofs (ns_data ns)) \<and>
     ns_index ns = index_of E (pnd_proofs (ns_data ns)) \<and>
     distinct (map (poi_id E) (pnd_proofs (ns_data ns))) \<and>
     list_all (\<lambda>p. poi_node_peer_id p = k) (pnd_proofs (ns_data ns))"

definition rep_inv :: "crypto_env \<Rightarrow> local_reputation_store \<Rightarrow> bool" where
  "rep_inv E s \<longleftrightarrow> inj (hex_encode E) \<and> pred_map_ok (\<lambda>k ns. node_ok E k ns) (rep_state s)"

lemma node_ok_from_proofs:
  "distinct (map (poi_id E) ps) \<Longrightarrow> list_all (\<lambda>p. poi_node_peer_id p = k) ps \<Longrightarrow>
     node_ok E k (from_proofs E ps sc)"
  by (simp add: node_ok_def from_proofs_def)

lemma node_ok_reload:
  "node_ok E k ns \<Longrightarrow> from_proofs E (pnd_proofs (ns_data ns)) (pnd_score (ns_data ns)) = ns"
  by (simp add: node_ok_def from_proofs_def)

text \<open>What recording does to the proofs of a node.\<close>

definition rep_proofs :: "string \<Rightarrow> local_reputation_store \<Rightarrow> proof_of_inference list" where
  "rep_proofs k s = (case rep_state s k of None \<Rightarrow> [] | Some n \<Rightarrow> pnd_proofs (ns_data n))"

definition known :: "crypto_env \<Rightarrow> proof_of_inference \<Rightarrow> proof_of_inference list \<Rightarrow> bool" where
  "known E p ps \<longleftrightarrow> poi_id E p \<in> poi_id E ` set ps"

lemma rep_record_cases:
  fixes p st E
  defines "k \<equiv> poi_node_peer_id p"
  assumes inv: "rep_inv E (fst st)"
  obtains (dup) ns where "rep_state (fst st) k = Some ns" "known E p (rep_proofs k (fst st))"
      "rep_record_proof E rnd J x p st = st"
    | (fresh) ns' where "\<not> known E p (rep_proofs k (fst st))"
      "ns_data ns' = \<lparr>pnd_proofs = rep_proofs k (fst st) @ [p],
         pnd_score = compute_score E rnd (fst x) (rep_proofs k (fst st) @ [p])
           (merkle_root (sha256 E) (tree_of E (rep_proofs k (fst st) @ [p])))\<rparr>"
      "node_ok E k ns'"
      "rep_record_proof E rnd J x p st =
         ((fst st)\<lparr>rep_state := (rep_state (fst st))(k \<mapsto> ns')\<rparr>,
          rep_flush J (snd x) ((fst st)\<lparr>rep_state := (rep_state (fst st))(k \<mapsto> ns')\<rparr>) (snd st))"
proof -
  define s where "s = fst st"
  note inv = inv [folded s_def]
  note dup = dup [folded s_def] and fresh = fresh [folded s_def]
  define ns where "ns = (case rep_state s k of
      Some n \<Rightarrow> n | None \<Rightarrow> from_proofs E [] reputation_default)"
  have hex: "inj (hex_encode E)"
    using inv by (simp add: rep_inv_def)
  have ok: "node_ok E k ns" and ps: "pnd_proofs (ns_data ns) = rep_proofs k s"
    using inv by (auto simp: ns_def rep_proofs_def rep_inv_def from_proofs_def node_ok_def
        dest: pred_map_okD split: option.splits)
  have look: "ns_index ns (hex_encode E (poi_id E p)) = None \<longleftrightarrow> \<not> known E p (rep_proofs k s)"
    using ok hex by (simp add: node_ok_def index_of_None ps known_def)
  show thesis
  proof (cases "known E p (rep_proofs k s)")
    case True
    then obtain n where "rep_state s k = Some n"
      by (cases "rep_state s k") (auto simp: known_def rep_proofs_def)
    with True look show thesis
      by (intro dup) (auto simp: rep_record_proof_def Let_def ns_def k_def s_def fun_upd_idem)
  next
    case False
    let ?ps = "rep_proofs k s @ [p]"
    let ?ns = "\<lparr>ns_data = \<lparr>pnd_proofs = ?ps, pnd_score = compute_score E rnd (fst x) ?ps
           (merkle_root (sha256 E) (tree_of E ?ps))\<rparr>, ns_tree = tree_of E ?ps,
           ns_index = index_of E ?ps\<rparr>"
    have ns': "node_ok E k ?ns"
      using ok False by (auto simp: node_ok_def ps known_def k_def)
    have "merkle_len (ns_tree ns) = length (rep_proofs k s)"
      using ok by (simp add: node_ok_def tree_of_eq merkle_len_def ps)
    with ok look False show thesis
      by (intro fresh [OF False _ ns'])
        (simp_all add: rep_record_proof_def Let_def s_def [symmetric] ns_def [symmetric] k_def [symmetric]
          node_ok_def tree_of_snoc ps)
  qed
qed

lemma rep_inv_upd:
  "rep_inv E s \<Longrightarrow> node_ok E k ns \<Longrightarrow> rep_inv E (s\<lparr>rep_state := (rep_state s)(k \<mapsto> ns)\<rparr>)"
  by (auto simp: rep_inv_def)

lemma rep_record_inv:
  assumes "rep_inv E (fst st)"
  shows "rep_inv E (fst (rep_record_proof E rnd J x p st))"
  using assms
  by (cases rule: rep_record_cases [where p = p and x = x and rnd = rnd and J = J])
    (auto intro: rep_inv_upd [OF assms] simp: assms)

lemma rep_record_peer [simp]:
  "rep_local_peer_id (fst (rep_record_proof E rnd J x p st)) = rep_local_peer_id (fst st)"
  by (simp add: rep_record_proof_def Let_def)

lemma rep_record_proofs:
  assumes "rep_inv E (fst st)"
  shows "rep_proofs k (fst (rep_record_proof E rnd J x p st)) =
       (if k = poi_node_peer_id p \<and> \<not> known E p (rep_proofs k (fst st))
        then rep_proofs k (fst st) @ [p] else rep_proofs k (fst st))"
  using assms
  by (cases rule: rep_record_cases [where p = p and x = x and rnd = rnd and J = J])
    (auto simp: rep_proofs_def)

lemma rep_all_proofs_eq: "rep_all_proofs s = rep_proofs (rep_local_peer_id s) s"
  by (simp add: rep_all_proofs_def rep_proofs_def)

lemma rep_merkle_root_eq:
  "rep_inv E s \<Longrightarrow>
     rep_merkle_root E s = merkle_root (sha256 E) \<lparr>leaves = map (poi_id E) (rep_all_proofs s)\<rparr>"
  by (auto simp: rep_merkle_root_def rep_all_proofs_def rep_inv_def node_ok_def tree_of_eq
      merkle_root_def dest!: pred_map_okD split: option.splits)

lemma rep_inv_distinct:
  "rep_inv E s \<Longrightarrow> distinct (map (poi_id E) (rep_proofs k s))"
  by (auto simp: rep_inv_def rep_proofs_def node_ok_def dest!: pred_map_okD split: option.splits)

lemma rep_opening_None:
  assumes "rep_inv E s" "h \<notin> poi_id E ` set (rep_all_proofs s)"
  shows "rep_merkle_proof E h s = Done None"
proof (cases "rep_state s (rep_local_peer_id s)")
  case (Some n)
  then have "inj (hex_encode E)" "node_ok E (rep_local_peer_id s) n"
    using assms(1) by (auto simp: rep_inv_def dest: pred_map_okD)
  with assms Some show ?thesis
    using index_of_None [of E "pnd_proofs (ns_data n)" h]
    by (simp add: rep_merkle_proof_def rep_all_proofs_def node_ok_def)
qed (simp add: rep_merkle_proof_def)

lemma rep_opening_Some:
  assumes "rep_inv E s" "i < length (rep_all_proofs s)" "poi_id E (rep_all_proofs s ! i) = h"
  shows "rep_merkle_proof E h s =
    merkle_proof (sha256 E) \<lparr>leaves = map (poi_id E) (rep_all_proofs s)\<rparr> i"
proof -
  obtain n where n: "rep_state s (rep_local_peer_id s) = Some n"
    using assms(2) by (auto simp: rep_all_proofs_def split: option.splits)
  then have "inj (hex_encode E)" "node_ok E (rep_local_peer_id s) n"
    using assms(1) by (auto simp: rep_inv_def dest: pred_map_okD)
  with assms n show ?thesis
    using index_of_Some [of E "pnd_proofs (ns_data n)" h i]
    by (simp add: rep_merkle_proof_def rep_all_proofs_def node_ok_def tree_of_eq)
qed

section \<open>The interface\<close>

text \<open>What \<^verbatim>\<open>ReputationStore\<close> promises: recording keeps the store's invariant, appends a new
  proof of the local node and ignores a known one; the root commits to the list of proofs in
  order; \<^verbatim>\<open>merkle_proof\<close> opens exactly the recorded ids.\<close>

locale reputation_store =
  fixes E :: crypto_env
    and inv :: "'s \<Rightarrow> bool"
    and me :: "'s \<Rightarrow> string"
    and rec :: "'x \<Rightarrow> proof_of_inference \<Rightarrow> 's \<Rightarrow> 's"
    and all_of :: "'s \<Rightarrow> proof_of_inference list"
    and root_of :: "'s \<Rightarrow> bytes"
    and open_of :: "bytes \<Rightarrow> 's \<Rightarrow> merkle_path_step list option outcome"
  assumes inv_rec: "inv s \<Longrightarrow> inv (rec x p s)"
    and me_rec: "inv s \<Longrightarrow> me (rec x p s) = me s"
    and all_rec: "inv s \<Longrightarrow> all_of (rec x p s) =
      (if poi_node_peer_id p = me s \<and> \<not> known E p (all_of s) then all_of s @ [p] else all_of s)"
    and distinct_all: "inv s \<Longrightarrow> distinct (map (poi_id E) (all_of s))"
    and root_all: "inv s \<Longrightarrow>
      root_of s = merkle_root (sha256 E) \<lparr>leaves = map (poi_id E) (all_of s)\<rparr>"
    and opening_None: "inv s \<Longrightarrow> h \<notin> poi_id E ` set (all_of s) \<Longrightarrow> open_of h s = Done None"
    and opening_Some: "inv s \<Longrightarrow> i < length (all_of s) \<Longrightarrow> poi_id E (all_of s ! i) = h \<Longrightarrow>
      open_of h s = merkle_proof (sha256 E) \<lparr>leaves = map (poi_id E) (all_of s)\<rparr> i"
begin

definition run :: "('x \<times> proof_of_inference) list \<Rightarrow> 's \<Rightarrow> 's" where
  "run xs s = fold (\<lambda>(x, p). rec x p) xs s"

lemma run_simps [simp]: "run [] s = s" "run ((x, p) # xs) s = run xs (rec x p s)"
  by (simp_all add: run_def)

lemma run_inv: "inv s \<Longrightarrow> inv (run xs s) \<and> me (run xs s) = me s"
  by (induction xs arbitrary: s) (auto simp: inv_rec me_rec)

text \<open>The history only grows at its end.\<close>

lemma run_prefix: "inv s \<Longrightarrow> \<exists>new. all_of (run xs s) = all_of s @ new"
proof (induction xs arbitrary: s)
  case (Cons a xs)
  then obtain new where "all_of (run xs (rec (fst a) (snd a) s)) = all_of (rec (fst a) (snd a) s) @ new"
    using inv_rec by blast
  then show ?case
    by (cases a) (auto simp: all_rec Cons.prems)
qed simp

lemma run_ids: "inv s \<Longrightarrow>
   poi_id E ` set (all_of (run xs s)) =
     poi_id E ` (set (all_of s) \<union> {p. p \<in> snd ` set xs \<and> poi_node_peer_id p = me s})"
proof (induction xs arbitrary: s)
  case (Cons a xs)
  obtain x p where a: "a = (x, p)"
    by fastforce
  have "poi_id E ` set (all_of (run xs (rec x p s))) =
      poi_id E ` (set (all_of (rec x p s)) \<union> {q. q \<in> snd ` set xs \<and> poi_node_peer_id q = me s})"
    using Cons.IH [of "rec x p s"] Cons.prems by (simp add: inv_rec me_rec)
  then show ?case
    by (auto simp: a all_rec Cons.prems known_def)
qed simp

text \<open>An opening that is returned verifies against the current root.\<close>

lemma opening_verifies:
  assumes "inv s" "open_of h s = Done (Some path)"
  shows "verify_proof (sha256 E) h path (root_of s) \<longleftrightarrow> length (all_of s) \<ge> 2 \<or> sha256 E (h @ h) = h"
proof -
  have "h \<in> poi_id E ` set (all_of s)"
    using assms opening_None by force
  then obtain i where i: "i < length (all_of s)" "poi_id E (all_of s ! i) = h"
    by (auto simp: in_set_conv_nth)
  from assms i have "merkle_proof (sha256 E) \<lparr>leaves = map (poi_id E) (all_of s)\<rparr> i = Done (Some path)"
    using opening_Some by simp
  note opened = this
  show ?thesis
  proof (cases "length (all_of s) \<ge> 2")
    case True
    with merkle_proof_path [OF opened] i assms show ?thesis
      by (auto simp: root_all verify_proof_def merkle_root_def build_level_pad)
  next
    case False
    then have "length (all_of s) = 1" "i = 0"
      using i(1) by auto
    then obtain p where p: "all_of s = [p]"
      by (auto simp: length_Suc_conv)
    with i have "poi_id E p = h"
      by simp
    with p opened \<open>i = 0\<close> assms(1) merkle_single_leaf [of "\<lparr>leaves = [h]\<rparr>" h "sha256 E"] show ?thesis
      by (simp add: root_all)
  qed
qed

end

text \<open>Both stores keep the contract.\<close>

interpretation local_rep: reputation_store E
    "\<lambda>st. rep_inv E (fst st)" "\<lambda>st. rep_local_peer_id (fst st)" "rep_record_proof E rnd J"
    "\<lambda>st. rep_all_proofs (fst st)" "\<lambda>st. rep_merkle_root E (fst st)"
    "\<lambda>h st. rep_merkle_proof E h (fst st)"
  for E rnd J
  by unfold_locales
    (auto simp: rep_record_inv rep_all_proofs_eq rep_record_proofs rep_inv_distinct
      rep_merkle_root_eq rep_opening_None rep_opening_Some)

interpretation gossip_rep: reputation_store E
    "\<lambda>g. rep_inv E (fst (gs_inner g))" "\<lambda>g. rep_local_peer_id (fst (gs_inner g))"
    "gossip_record_proof E rnd J" gossip_all_proofs "gossip_merkle_root E"
    "gossip_merkle_proof E"
  for E rnd J
  by unfold_locales
    (auto simp: gossip_record_proof_def Let_def gossip_all_proofs_def gossip_merkle_root_def
      gossip_merkle_proof_def rep_record_inv rep_all_proofs_eq rep_record_proofs
      rep_inv_distinct rep_merkle_root_eq rep_opening_None rep_opening_Some)

section \<open>Bounds of the score\<close>

text \<open>What is used of IEEE rounding: it is monotone, exact on representable numbers, among them
  zero and one, and the two weights of the score add up to one.\<close>

definition sound_rounding :: "(rat \<Rightarrow> rat) \<Rightarrow> bool" where
  "sound_rounding rnd \<longleftrightarrow> mono rnd \<and> (\<forall>x. rnd (rnd x) = rnd x) \<and> rnd 0 = 0 \<and> rnd 1 = 1 \<and> rnd (rnd (6 / 10) + rnd (4 / 10)) = 1"

lemma rounding_unit:
  "sound_rounding rnd \<Longrightarrow> 0 \<le> x \<Longrightarrow> x \<le> 1 \<Longrightarrow> 0 \<le> rnd x \<and> rnd x \<le> 1"
  unfolding sound_rounding_def by (metis monoD)

lemma rounding_nonneg: "sound_rounding rnd \<Longrightarrow> 0 \<le> x \<Longrightarrow> 0 \<le> rnd x"
  unfolding sound_rounding_def by (metis monoD)

lemma rounding_mono: "sound_rounding rnd \<Longrightarrow> x \<le> y \<Longrightarrow> rnd x \<le> rnd y"
  unfolding sound_rounding_def by (metis monoD)

text \<open>A rounded weighted mean of two values in the unit interval stays in it.\<close>

lemma rounding_mean:
  assumes r: "sound_rounding rnd" and a: "0 \<le> a" "a \<le> 1" and b: "0 \<le> b" "b \<le> 1"
  shows "0 \<le> rnd (rnd (rnd (6 / 10) * a) + rnd (rnd (4 / 10) * b))"
    and "rnd (rnd (rnd (6 / 10) * a) + rnd (rnd (4 / 10) * b)) \<le> 1"
proof -
  have w: "0 \<le> rnd (6 / 10)" "0 \<le> rnd (4 / 10)"
    by (rule rounding_nonneg [OF r]; simp)+
  show "0 \<le> rnd (rnd (rnd (6 / 10) * a) + rnd (rnd (4 / 10) * b))"
    using w a b by (simp add: rounding_nonneg [OF r])
  have "rnd (rnd (6 / 10) * a) \<le> rnd (rnd (6 / 10) * 1)"
    "rnd (rnd (4 / 10) * b) \<le> rnd (rnd (4 / 10) * 1)"
    using w a b by (intro rounding_mono [OF r] mult_left_mono; simp)+
  then have "rnd (rnd (6 / 10) * a) + rnd (rnd (4 / 10) * b) \<le> rnd (6 / 10) + rnd (4 / 10)"
    using r by (simp add: sound_rounding_def add_mono)
  then have "rnd (rnd (rnd (6 / 10) * a) + rnd (rnd (4 / 10) * b)) \<le> rnd (rnd (6 / 10) + rnd (4 / 10))"
    by (rule rounding_mono [OF r])
  then show "rnd (rnd (rnd (6 / 10) * a) + rnd (rnd (4 / 10) * b)) \<le> 1"
    using r by (simp add: sound_rounding_def)
qed

lemma rounding_ratio:
  assumes r: "sound_rounding rnd" and "v \<le> t" "0 < t"
  shows "0 \<le> rnd (rnd (of_nat v) / rnd (of_nat t)) \<and> rnd (rnd (of_nat v) / rnd (of_nat t)) \<le> 1"
proof -
  have "0 \<le> rnd (of_nat v)" "rnd (of_nat v) \<le> rnd (of_nat t)" "rnd 1 \<le> rnd (of_nat t)"
    using assms by (auto intro!: rounding_nonneg [OF r] rounding_mono [OF r])
  then show ?thesis
    using r by (intro rounding_unit [OF r]) (auto simp: sound_rounding_def divide_le_eq)
qed

lemma sound_rounding_id: "sound_rounding (\<lambda>x. x)"
  by (simp add: sound_rounding_def mono_def)

section \<open>Properties\<close>

text \<open>A concrete environment and receipt for the witnesses.\<close>

definition demo_env :: crypto_env where
  "demo_env = \<lparr>json_signable = (\<lambda>s. be_bytes 16 (unat (poi_request_id s))), sha256 = (\<lambda>b. b),
     vk_from_bytes_ok = (\<lambda>k. True), ed25519_verify = (\<lambda>k m s. True),
     hex_encode = map (\<lambda>b. char_of (unat b))\<rparr>"

definition demo_receipt :: "uuid \<Rightarrow> proof_of_inference" where
  "demo_receipt r = poi_unsigned r 1 ''n'' ''c'' ''m'' 10 20 1000 5 100 [1] [2] ''free'' None"

lemma demo_hex_inj: "inj (hex_encode demo_env)"
proof -
  have "inj (\<lambda>b :: u8. char_of (unat b) :: char)"
  proof (rule injI)
    fix a b :: u8
    assume "(char_of (unat a) :: char) = char_of (unat b)"
    then have "(of_char (char_of (unat a) :: char) :: nat) = of_char (char_of (unat b) :: char)"
      by (rule arg_cong)
    then have "unat a mod 256 = unat b mod 256"
      by (simp only: of_char_of)
    moreover have "unat a < 256" "unat b < 256"
      using unat_lt [of a] unat_lt [of b] by simp_all
    ultimately show "a = b"
      by (simp add: word_unat_eq_iff)
  qed
  then show ?thesis
    by (simp add: demo_env_def inj_mapI)
qed

lemma demo_receipt_id: "poi_id demo_env (demo_receipt r) = be_bytes 16 (unat r)"
  by (simp add: poi_id_def canonical_bytes_def demo_env_def demo_receipt_def poi_unsigned_def)

lemma demo_receipt_peer: "poi_node_peer_id (demo_receipt r) = ''n''"
  by (simp add: demo_receipt_def poi_unsigned_def)

text \<open>C5: openings of the history. From an empty store, after any sequence of recordings under any
  clock and file system, a Merkle proof the store hands out for a receipt id verifies against the
  root it advertises as soon as two receipts are in the history. While there is only one, its
  proof does not verify (unless the id happens to be the hash of itself twice).\<close>

theorem reputation_openings_verify:
  assumes "inj (hex_encode E)"
    and "st = fold (\<lambda>(x, p). rep_record_proof E rnd J x p) xs (rep_in_memory me, d)"
    and "rep_merkle_proof E h (fst st) = Done (Some path)"
  shows "verify_proof (sha256 E) h path (rep_merkle_root E (fst st)) \<longleftrightarrow>
    length (rep_all_proofs (fst st)) \<ge> 2 \<or> sha256 E (h @ h) = h"
proof -
  have "rep_inv E (rep_in_memory me)"
    using assms(1) by (simp add: rep_inv_def rep_in_memory_def)
  then have "rep_inv E (fst st)"
    using local_rep.run_inv [of E "(rep_in_memory me, d)" rnd J xs] assms(2)
    by (simp add: local_rep.run_def)
  from local_rep.opening_verifies [OF this assms(3)] show ?thesis .
qed

theorem reputation_openings_verify_witness:
  "verify_proof (sha256 demo_env) (be_bytes 16 2) [\<lparr>sibling = be_bytes 16 1, is_left = False\<rparr>]
     (be_bytes 16 1 @ be_bytes 16 2)"
proof -
  let ?io = "\<lparr>io_write_ok = True, io_rename_ok = True, io_partial = None\<rparr>"
  let ?J = "\<lparr>sj_to_vec = (\<lambda>f. None), sj_from_slice = (\<lambda>b. None)\<rparr>"
  let ?xs = "[((1, ?io), demo_receipt 1), ((2, ?io), demo_receipt 2)]"
  let ?s0 = "(rep_in_memory ''n'', Map.empty) :: local_reputation_store \<times> disk"
  define st where "st = fold (\<lambda>(x, p). rep_record_proof demo_env (\<lambda>x. x) ?J x p) ?xs ?s0"
  let ?path = "[\<lparr>sibling = be_bytes 16 1, is_left = False\<rparr>]"
  have inv: "rep_inv demo_env (fst ?s0)"
    by (simp add: rep_inv_def demo_hex_inj rep_in_memory_def)
  have ne: "be_bytes 16 1 \<noteq> be_bytes 16 2"
    using be_bytes_inj [of 16 1 2] by auto
  have empty: "rep_proofs ''n'' (rep_in_memory ''n'') = []"
    by (simp add: rep_proofs_def rep_in_memory_def)
  have all: "rep_all_proofs (fst st) = [demo_receipt 1, demo_receipt 2]"
    using inv ne empty by (simp add: st_def rep_all_proofs_eq rep_record_proofs rep_record_inv
        known_def demo_receipt_id demo_receipt_peer)
      (simp add: rep_in_memory_def)
  have inv': "rep_inv demo_env (fst st)"
    using inv by (simp add: st_def rep_record_inv)
  have open1: "rep_merkle_proof demo_env (be_bytes 16 2) (fst st) = Done (Some ?path)"
    using rep_opening_Some [OF inv', of 1 "be_bytes 16 2"]
    by (simp add: all demo_receipt_id merkle_proof_def pad_to_even_def proof_loop.simps hash_pairs_def)
  have "rep_merkle_root demo_env (fst st) = be_bytes 16 1 @ be_bytes 16 2"
    using rep_merkle_root_eq [OF inv']
    by (simp add: all demo_receipt_id merkle_root_def build_level.simps hash_pairs_def hash_pair_def
        pad_to_even_def) (simp add: demo_env_def)
  with reputation_openings_verify [OF demo_hex_inj st_def open1] show ?thesis
    by (simp add: all)
qed

text \<open>C6: exactly the submitted receipts that name the local node are in the history, each id
  once, however often and in whatever order they were submitted.\<close>

theorem reputation_history_exact:
  assumes "rep_inv E (fst st)"
    and "st' = fold (\<lambda>(x, p). rep_record_proof E rnd J x p) xs st"
  shows "distinct (map (poi_id E) (rep_all_proofs (fst st'))) \<and>
    (\<exists>new. rep_all_proofs (fst st') = rep_all_proofs (fst st) @ new) \<and>
    poi_id E ` set (rep_all_proofs (fst st')) =
      poi_id E ` (set (rep_all_proofs (fst st)) \<union>
        {p. p \<in> snd ` set xs \<and> poi_node_peer_id p = rep_local_peer_id (fst st)})"
  using local_rep.run_inv [OF assms(1), of rnd J xs] local_rep.run_prefix [OF assms(1), of rnd J xs]
    local_rep.run_ids [OF assms(1), of rnd J xs] local_rep.distinct_all [of E st']
  by (simp add: assms(2) local_rep.run_def)

theorem reputation_history_exact_witness:
  "poi_id demo_env ` set (rep_all_proofs (fst (fold (\<lambda>(x, p). rep_record_proof demo_env (\<lambda>x. x)
       \<lparr>sj_to_vec = (\<lambda>f. None), sj_from_slice = (\<lambda>b. None)\<rparr> x p)
       [((1, \<lparr>io_write_ok = True, io_rename_ok = True, io_partial = None\<rparr>), demo_receipt 1), ((2, \<lparr>io_write_ok = True, io_rename_ok = True, io_partial = None\<rparr>), demo_receipt 1)] (rep_in_memory ''n'', Map.empty))))
     = {be_bytes 16 1}"
proof -
  let ?J = "\<lparr>sj_to_vec = (\<lambda>f. None), sj_from_slice = (\<lambda>b. None)\<rparr>"
  have "rep_inv demo_env (rep_in_memory ''n'')"
    by (simp add: rep_inv_def demo_hex_inj rep_in_memory_def)
  with reputation_history_exact [of demo_env "(rep_in_memory ''n'', Map.empty)",
      OF _ refl [of "fold (\<lambda>(x, p). rep_record_proof demo_env (\<lambda>x. x) ?J x p)
        [((1, \<lparr>io_write_ok = True, io_rename_ok = True, io_partial = None\<rparr>), demo_receipt 1), ((2, \<lparr>io_write_ok = True, io_rename_ok = True, io_partial = None\<rparr>), demo_receipt 1)] (rep_in_memory ''n'', Map.empty)"]]
  have "poi_id demo_env ` set (rep_all_proofs (fst (fold (\<lambda>(x, p). rep_record_proof demo_env (\<lambda>x. x)
       ?J x p) [((1, \<lparr>io_write_ok = True, io_rename_ok = True, io_partial = None\<rparr>), demo_receipt 1), ((2, \<lparr>io_write_ok = True, io_rename_ok = True, io_partial = None\<rparr>), demo_receipt 1)]
       (rep_in_memory ''n'', Map.empty)))) =
     poi_id demo_env ` ({} \<union> {p. p \<in> {demo_receipt 1} \<and> poi_node_peer_id p = ''n''})"
    by (simp add: rep_in_memory_def rep_all_proofs_def)
  then show ?thesis
    by (auto simp: demo_receipt_id demo_receipt_peer)
qed

text \<open>The score of any list of receipts is well formed: the composite value and the success
  rate lie in the unit interval and the counters are those of the list.\<close>

theorem reputation_score_bounds:
  assumes "sound_rounding rnd" "length proofs < 2 ^ 64" "proofs \<noteq> []"
    and "sc = compute_score E rnd now proofs rt"
  shows "0 \<le> rs_value sc \<and> rs_value sc \<le> 1 \<and> 0 \<le> rs_success_rate sc \<and> rs_success_rate sc \<le> 1 \<and>
    unat (rs_total_jobs sc) = length proofs \<and>
    unat (rs_verified_proofs sc) = length (filter (poi_verify E) proofs) \<and> rs_merkle_root sc = rt"
proof -
  let ?v = "length (filter (poi_verify E) proofs)" and ?t = "length proofs"
  have v: "?v \<le> ?t" "0 < ?t"
    using assms(3) by simp_all
  have counts: "unat (of_nat ?t :: u64) = ?t" "unat (of_nat ?v :: u64) = ?v"
    using assms(2) le_less_trans [OF v(1) assms(2)] by (simp_all add: unat_of_nat)
  have lat: "0 \<le> max (rnd (1 - min z 1)) 0 \<and> max (rnd (1 - min z 1)) 0 \<le> 1" if "0 \<le> z" for z
    using rounding_unit [OF assms(1), of "1 - min z 1"] that by auto
  have sum: "0 \<le> foldl (\<lambda>acc p. rnd (acc + of_nat (unat (poi_latency_ms p)))) z ps"
    if "0 \<le> z" for z :: rat and ps :: "proof_of_inference list"
    using that by (induction ps arbitrary: z) (simp_all add: rounding_nonneg [OF assms(1)])
  show ?thesis
    using rounding_ratio [OF assms(1) v] rounding_mean [OF assms(1)] lat counts assms(3)
      rounding_nonneg [OF assms(1)] sum
    by (simp add: assms(4) compute_score_def Let_def)
qed

theorem reputation_score_bounds_witness:
  "rs_value (compute_score demo_env (\<lambda>x. x) 7 [demo_receipt 1, demo_receipt 2] []) \<le> 1"
  using reputation_score_bounds [of "\<lambda>x. x" "[demo_receipt 1, demo_receipt 2]"
      "compute_score demo_env (\<lambda>x. x) 7 [demo_receipt 1, demo_receipt 2] []" demo_env 7 "[]"]
  by (simp add: sound_rounding_id)

text \<open>Duplicates are decided by the id, which does not cover the signature: after any copy of a
  receipt has been recorded, whatever its signature, recording the receipt itself changes
  nothing, so the copy that arrives first is the one that is counted.\<close>

theorem reputation_first_copy_wins:
  "rep_record_proof E rnd J x p (rep_record_proof E rnd J y (p\<lparr>poi_signature := s\<rparr>) st) =
     rep_record_proof E rnd J y (p\<lparr>poi_signature := s\<rparr>) st"
  by (simp add: rep_record_proof_def Let_def split: option.split)

text \<open>A restart loses nothing. If the file holds the state of the store and the disk
  accepts the next update, then after recording a receipt the store rebuilt from the file equals
  the store in memory: proofs, scores, Merkle trees and indexes.\<close>

theorem reputation_reload:
  assumes "rep_inv E s" "rep_file s = Some f"
    and "rep_from_file E J True (rep_local_peer_id s) f d = Inr s"
    and "rep_record_proof E rnd J (now, io) p (s, d) = (s', d')"
    and "io_write_ok io" "io_rename_ok io"
    and "sj_to_vec J (\<lambda>k. map_option ns_data (rep_state s' k)) = Some json"
    and "sj_from_slice J json = Some (\<lambda>k. map_option ns_data (rep_state s' k))"
  shows "rep_from_file E J True (rep_local_peer_id s') f d' = Inr s'"
proof -
  have "rep_inv E (fst (s, d))"
    using assms(1) by simp
  then show ?thesis
  proof (cases rule: rep_record_cases [where p = p and x = "(now, io)" and rnd = rnd and J = J])
    case (dup ns)
    with assms show ?thesis
      by simp
  next
    case (fresh ns')
    have fl: "rep_file s' = Some f" and disk: "d' = rep_flush J io s' d"
      using fresh assms by auto
    have "rep_inv E s'"
      using rep_record_inv [of E "(s, d)" rnd J "(now, io)" p] assms by simp
    then have state: "map_option ((\<lambda>nd. from_proofs E (pnd_proofs nd) (pnd_score nd)) \<circ> ns_data)
        (rep_state s' k) = rep_state s' k" for k
      by (cases "rep_state s' k") (auto simp: rep_inv_def node_ok_reload dest: pred_map_okD)
    obtain d1 where "write_then_rename io f json d = (d1, True)"
      using write_then_rename_succeeds [OF assms(5,6)] by blast
    then have "d' f = Some json"
      using write_then_rename_ok [of io f json d d1] disk fl assms(7) by (simp add: rep_flush_def)
    then show ?thesis
      using assms(8) fl state by (simp add: rep_from_file_def option.map_comp)
  qed
qed

lemma rep_record_fst_json:
  "fst (rep_record_proof E rnd J x p st) = fst (rep_record_proof E rnd J' x p st)"
  by (simp add: rep_record_proof_def Let_def)

theorem reputation_reload_witness:
  "\<exists>J d. rep_from_file demo_env J True ''n'' ''r.json'' d =
     Inr (fst (rep_record_proof demo_env (\<lambda>x. x) J
            (1, \<lparr>io_write_ok = True, io_rename_ok = True, io_partial = None\<rparr>) (demo_receipt 1)
            (\<lparr>rep_local_peer_id = ''n'', rep_file = Some ''r.json'', rep_state = Map.empty\<rparr>, Map.empty)))"
proof -
  let ?s = "\<lparr>rep_local_peer_id = ''n'', rep_file = Some ''r.json'', rep_state = Map.empty\<rparr>"
  let ?io = "\<lparr>io_write_ok = True, io_rename_ok = True, io_partial = None\<rparr>"
  let ?J0 = "\<lparr>sj_to_vec = (\<lambda>f. None), sj_from_slice = (\<lambda>b. None)\<rparr>"
  define s' where
    "s' = fst (rep_record_proof demo_env (\<lambda>x. x) ?J0 (1, ?io) (demo_receipt 1) (?s, Map.empty))"
  define J where "J = \<lparr>sj_to_vec = (\<lambda>f. Some [1]),
      sj_from_slice = (\<lambda>b. Some (\<lambda>k. map_option ns_data (rep_state s' k)))\<rparr>"
  define d' where
    "d' = snd (rep_record_proof demo_env (\<lambda>x. x) J (1, ?io) (demo_receipt 1) (?s, Map.empty))"
  have s': "s' = fst (rep_record_proof demo_env (\<lambda>x. x) J (1, ?io) (demo_receipt 1) (?s, Map.empty))"
    unfolding s'_def by (rule rep_record_fst_json)
  have peer: "rep_local_peer_id s' = ''n''"
    by (simp add: s')
  have run: "rep_record_proof demo_env (\<lambda>x. x) J (1, ?io) (demo_receipt 1) (?s, Map.empty)
      = (s', d')"
    using s' d'_def by (simp add: prod_eq_iff)
  have js: "sj_to_vec J f = Some [1]"
    "sj_from_slice J b = Some (\<lambda>k. map_option ns_data (rep_state s' k))" for f b
    by (simp_all add: J_def)
  have "rep_from_file demo_env J True (rep_local_peer_id s') ''r.json'' d' = Inr s'"
    by (rule reputation_reload [OF _ _ _ run])
      (simp_all add: rep_inv_def demo_hex_inj rep_from_file_def js)
  then show ?thesis
    using s' peer by metis
qed

end
