(* ===== verification/Rust_String.thy ===== *)
theory Rust_String
  imports Prelude
begin

text \<open>The string operations of Rust's standard library that the node uses. A string is the list
  of its UTF-8 bytes; operations on characters group the bytes of one character. Lower-casing
  is that of the ASCII letters, the only ones in the addresses and hashes it is applied to.\<close>

section \<open>Prefixes and slices\<close>

text \<open>\<^verbatim>\<open>as_bytes\<close>.\<close>

definition str_bytes :: "string \<Rightarrow> bytes" where
  "str_bytes s = map (\<lambda>c. word_of_nat (of_char c)) s"

definition starts_with :: "string \<Rightarrow> string \<Rightarrow> bool" where
  "starts_with p m = (take (length p) m = p)"

definition strip_prefix :: "string \<Rightarrow> string \<Rightarrow> string option" where
  "strip_prefix p m = (if starts_with p m then Some (drop (length p) m) else None)"

function trim_start_matches :: "string \<Rightarrow> string \<Rightarrow> string" where
  "trim_start_matches p m =
     (if p \<noteq> [] \<and> starts_with p m then trim_start_matches p (drop (length p) m) else m)"
  by pat_completeness auto

termination
proof (relation "measure (length \<circ> snd)")
  fix p m :: string
  assume "p \<noteq> [] \<and> starts_with p m"
  then show "((p, drop (length p) m), (p, m)) \<in> measure (length \<circ> snd)"
    by (cases m) (auto simp: starts_with_def)
qed simp

declare trim_start_matches.simps [simp del]

text \<open>An index is a character boundary unless a continuation byte starts there.\<close>

definition char_boundary :: "string \<Rightarrow> nat \<Rightarrow> bool" where
  "char_boundary s n =
     (n = 0 \<or> n = length s \<or>
      n < length s \<and> \<not> (128 \<le> (of_char (s ! n) :: nat) \<and> (of_char (s ! n) :: nat) < 192))"

text \<open>\<^verbatim>\<open>&s[s.len().saturating_sub(n)..]\<close>, a panic off a character boundary.\<close>

definition last_bytes :: "nat \<Rightarrow> string \<Rightarrow> string outcome" where
  "last_bytes n s =
     (let k = length s - n in if char_boundary s k then Done (drop k s) else Panic)"

lemma last_bytes_length: "last_bytes n s = Done t \<Longrightarrow> length t = min n (length s)"
  by (auto simp: last_bytes_def Let_def split: if_splits)

lemma starts_with_iff: "starts_with p m \<longleftrightarrow> (\<exists>t. m = p @ t)"
  unfolding starts_with_def by (metis append_eq_conv_conj append_take_drop_id)

section \<open>Case and numbers\<close>

definition lower_char :: "char \<Rightarrow> char" where
  "lower_char c = (let n = of_char c :: nat in if 65 \<le> n \<and> n \<le> 90 then char_of (n + 32) else c)"

definition to_lowercase :: "string \<Rightarrow> string" where
  "to_lowercase = map lower_char"

lemma length_to_lowercase [simp]: "length (to_lowercase s) = length s"
  by (simp add: to_lowercase_def)

fun decimal :: "nat \<Rightarrow> string" where
  "decimal n = (if n < 10 then [char_of (48 + n)] else decimal (n div 10) @ [char_of (48 + n mod 10)])"

declare decimal.simps [simp del]

text \<open>The number a string of digits denotes.\<close>

definition digits_value :: "string \<Rightarrow> nat" where
  "digits_value ds = foldl (\<lambda>n c. 10 * n + (of_char c - 48)) 0 ds"

lemma digits_value_append1: "digits_value (ds @ [c]) = 10 * digits_value ds + (of_char c - 48)"
  by (simp add: digits_value_def)

lemma digit_char: "d < 10 \<Longrightarrow> of_char (char_of (48 + d) :: char) - 48 = (d :: nat)"
  by simp

lemma digits_value_decimal [simp]: "digits_value (decimal n) = n"
proof (induction n rule: decimal.induct)
  case (1 n)
  show ?case
  proof (cases "n < 10")
    case True
    then show ?thesis
      by (subst decimal.simps) (simp add: digits_value_def)
  next
    case False
    then show ?thesis
      using 1 by (subst decimal.simps) (simp add: digits_value_append1)
  qed
qed

lemma length_decimal: "n < 10 ^ k \<Longrightarrow> 0 < k \<Longrightarrow> length (decimal n) \<le> k"
proof (induction n arbitrary: k rule: decimal.induct)
  case (1 n)
  show ?case
  proof (cases "n < 10")
    case True
    then show ?thesis
      using 1(3) by (subst decimal.simps) simp
  next
    case False
    obtain j where j: "k = Suc j"
      using 1(3) by (cases k) simp_all
    with False 1(2) have "0 < j" "n div 10 < 10 ^ j"
      by (cases j; simp add: less_mult_imp_div_less mult.commute)+
    then show ?thesis
      using 1(1) [OF False, of j] False j by (subst decimal.simps) simp
  qed
qed

lemma digits_value_zeros: "digits_value (replicate k (CHR ''0'') @ ds) = digits_value ds"
  by (induction k) (simp_all add: digits_value_def)

text \<open>\<^verbatim>\<open>chars().take(n)\<close>: a character is a byte and the continuation bytes after it.\<close>

definition continuation :: "char \<Rightarrow> bool" where
  "continuation c \<longleftrightarrow> 128 \<le> (of_char c :: nat) \<and> (of_char c :: nat) < 192"

fun take_chars :: "nat \<Rightarrow> string \<Rightarrow> string" where
  "take_chars 0 s = []"
| "take_chars (Suc n) [] = []"
| "take_chars (Suc n) (c # s) = c # takeWhile continuation s @ take_chars n (dropWhile continuation s)"

lemma decimal_inj [simp]: "decimal m = decimal n \<longleftrightarrow> m = n"
  by (metis digits_value_decimal)

section \<open>White space\<close>

text \<open>The length of the white-space character a string begins with, zero if there is none: the
  code points of Unicode's property \<^verbatim>\<open>White_Space\<close> as UTF-8.\<close>

definition ws_len :: "string \<Rightarrow> nat" where
  "ws_len s =
     (case map (of_char :: char \<Rightarrow> nat) (take 3 s) of
        [] \<Rightarrow> 0
      | a # r \<Rightarrow>
          if (9 \<le> a \<and> a \<le> 13) \<or> a = 32 then 1
          else (case r of
             [] \<Rightarrow> 0
           | b # r' \<Rightarrow>
               if a = 194 \<and> (b = 133 \<or> b = 160) then 2
               else (case r' of
                  [] \<Rightarrow> 0
                | c # _ \<Rightarrow>
                    if (a = 225 \<and> b = 154 \<and> c = 128) \<or>
                       (a = 226 \<and> b = 128 \<and> ((128 \<le> c \<and> c \<le> 138) \<or> c = 168 \<or> c = 169 \<or> c = 175)) \<or>
                       (a = 226 \<and> b = 129 \<and> c = 159) \<or> (a = 227 \<and> b = 128 \<and> c = 128)
                    then 3 else 0)))"

function trim_start :: "string \<Rightarrow> string" where
  "trim_start s = (if s \<noteq> [] \<and> 0 < ws_len s then trim_start (drop (ws_len s) s) else s)"
  by pat_completeness auto

termination
  by (relation "measure length") auto

text \<open>The length of the white-space character a string ends with.\<close>

definition ws_last :: "string \<Rightarrow> nat" where
  "ws_last s =
     (if ws_len (drop (length s - 1) s) = 1 then 1
      else if ws_len (drop (length s - 2) s) = 2 \<and> 2 \<le> length s then 2
      else if ws_len (drop (length s - 3) s) = 3 \<and> 3 \<le> length s then 3 else 0)"

function trim_end :: "string \<Rightarrow> string" where
  "trim_end s = (if s \<noteq> [] \<and> 0 < ws_last s then trim_end (take (length s - ws_last s) s) else s)"
  by pat_completeness auto

termination
  by (relation "measure length") auto

declare trim_start.simps [simp del] trim_end.simps [simp del]

definition trim :: "string \<Rightarrow> string" where
  "trim s = trim_end (trim_start s)"

text \<open>\<^verbatim>\<open>s.split_whitespace().count()\<close>: the flag tells whether the last byte was inside a word.\<close>

function word_count :: "bool \<Rightarrow> string \<Rightarrow> nat" where
  "word_count inside [] = 0"
| "word_count inside (c # s) =
     (if 0 < ws_len (c # s) then word_count False (drop (ws_len (c # s)) (c # s))
      else (if inside then 0 else 1) + word_count True s)"
  by pat_completeness auto

termination
  by (relation "measure (length \<circ> snd)") auto

declare word_count.simps(2) [simp del]

definition split_whitespace_count :: "string \<Rightarrow> nat" where
  "split_whitespace_count s = word_count False s"

section \<open>Joining\<close>

fun join :: "string \<Rightarrow> string list \<Rightarrow> string" where
  "join sep [] = []"
| "join sep [s] = s"
| "join sep (s # t # ss) = s @ sep @ join sep (t # ss)"

text \<open>\<^verbatim>\<open>s.split(c).next()\<close>: what precedes the first separator.\<close>

definition split_first :: "char \<Rightarrow> string \<Rightarrow> string" where
  "split_first c s = takeWhile (\<lambda>x. x \<noteq> c) s"

section \<open>Parsing\<close>

text \<open>\<^verbatim>\<open>str::parse::<u64>\<close>: an optional plus sign and at least one digit, within range.\<close>

definition parse_u64 :: "string \<Rightarrow> u64 option" where
  "parse_u64 s =
     (let ds = (case s of [] \<Rightarrow> [] | c # t \<Rightarrow> if c = CHR ''+'' then t else s)
      in if ds \<noteq> [] \<and> list_all (\<lambda>c. 48 \<le> (of_char c :: nat) \<and> (of_char c :: nat) \<le> 57) ds \<and> digits_value ds < 2 ^ 64
         then Some (word_of_nat (digits_value ds)) else None)"

end
