(* ===== verification/Evm_Codec.thy ===== *)
theory Evm_Codec
  imports Rust_String
begin

text \<open>The encodings of \<^verbatim>\<open>crates/settlement/src/evm.rs\<close>: RLP, ABI words and calls, hexadecimal
  quantities and addresses, and the EIP-1559 transaction. Keccak-256, secp256k1 and the
  \<^verbatim>\<open>hex\<close> crate are fields of the parameter record \<open>evm_env\<close>. A Rust string is the list of
  its UTF-8 bytes, as characters.\<close>

section \<open>Third-party functions\<close>

text \<open>\<open>sk_public\<close> is the uncompressed public key of a seed (\<open>None\<close> if the seed is not a valid
  key), \<open>sk_sign\<close> the recovery id and the two signature halves of a prehash.\<close>

record evm_env =
  keccak256 :: "bytes \<Rightarrow> bytes"
  evm_hex_encode :: "bytes \<Rightarrow> string"
  evm_hex_decode :: "string \<Rightarrow> bytes option"
  sk_public :: "bytes \<Rightarrow> bytes option"
  sk_sign :: "bytes \<Rightarrow> bytes \<Rightarrow> (u8 \<times> bytes \<times> bytes) option"

datatype codec_error =
    InvalidSecretKey
  | SigningFailed
  | BadHexNumber
  | BadHexAddress
  | AddressLength

section \<open>RLP\<close>

definition trim_zeros :: "bytes \<Rightarrow> bytes" where
  "trim_zeros bs = dropWhile (\<lambda>b. b = 0) bs"

definition rlp_len_prefix :: "nat \<Rightarrow> u8 \<Rightarrow> bytes" where
  "rlp_len_prefix len offset =
     (if len < 56 then [offset + word_of_nat len]
      else let trimmed = trim_zeros (be_bytes 8 len)
           in (offset + 55 + word_of_nat (length trimmed)) # trimmed)"

definition rlp_bytes :: "bytes \<Rightarrow> bytes" where
  "rlp_bytes data =
     (if length data = 1 \<and> data ! 0 < 0x80 then data
      else rlp_len_prefix (length data) 0x80 @ data)"

definition rlp_list :: "bytes list \<Rightarrow> bytes" where
  "rlp_list items = (let payload = concat items in rlp_len_prefix (length payload) 0xc0 @ payload)"

definition rlp_uint :: "u128 \<Rightarrow> bytes" where
  "rlp_uint n = (if n = 0 then [0x80] else rlp_bytes (trim_zeros (be_bytes 16 (unat n))))"

section \<open>ABI\<close>

definition abi_selector :: "evm_env \<Rightarrow> string \<Rightarrow> bytes" where
  "abi_selector E sig = take 4 (keccak256 E (str_bytes sig))"

definition abi_address :: "bytes \<Rightarrow> bytes" where
  "abi_address addr = replicate 12 0 @ addr"

definition abi_uint256 :: "u64 \<Rightarrow> bytes" where
  "abi_uint256 n = replicate 24 0 @ be_bytes 8 (unat n)"

definition abi_bytes32 :: "bytes \<Rightarrow> bytes" where
  "abi_bytes32 data = take 32 data @ replicate (32 - length data) 0"

definition abi_call :: "bytes \<Rightarrow> bytes list \<Rightarrow> bytes" where
  "abi_call selector args = selector @ concat args"

section \<open>Addresses and signing\<close>

definition eth_address :: "evm_env \<Rightarrow> bytes \<Rightarrow> (bytes \<times> string, codec_error) res" where
  "eth_address E seed =
     (case sk_public E seed of
        None \<Rightarrow> Err InvalidSecretKey
      | Some pub_bytes \<Rightarrow>
          let hash = keccak256 E (drop 1 pub_bytes);
              addr = drop 12 hash
          in Okay (addr, ''0x'' @ evm_hex_encode E addr))"

text \<open>The nine unsigned fields in their order on the wire.\<close>

definition eip1559_fields ::
  "u64 \<Rightarrow> u64 \<Rightarrow> u64 \<Rightarrow> u64 \<Rightarrow> u64 \<Rightarrow> bytes \<Rightarrow> u64 \<Rightarrow> bytes \<Rightarrow> bytes list" where
  "eip1559_fields chain_id nonce max_priority_fee max_fee gas_limit to_addr val data =
     [rlp_uint (ucast chain_id), rlp_uint (ucast nonce), rlp_uint (ucast max_priority_fee),
      rlp_uint (ucast max_fee), rlp_uint (ucast gas_limit), rlp_bytes to_addr,
      rlp_uint (ucast val), rlp_bytes data, rlp_list []]"

definition eip1559_signing_input ::
  "u64 \<Rightarrow> u64 \<Rightarrow> u64 \<Rightarrow> u64 \<Rightarrow> u64 \<Rightarrow> bytes \<Rightarrow> u64 \<Rightarrow> bytes \<Rightarrow> bytes" where
  "eip1559_signing_input chain_id nonce prio fee gas to_addr val data =
     0x02 # rlp_list (eip1559_fields chain_id nonce prio fee gas to_addr val data)"

definition sign_eip1559 ::
  "evm_env \<Rightarrow> u64 \<Rightarrow> u64 \<Rightarrow> u64 \<Rightarrow> u64 \<Rightarrow> u64 \<Rightarrow> bytes \<Rightarrow> u64 \<Rightarrow> bytes \<Rightarrow> bytes \<Rightarrow>
     (bytes, codec_error) res" where
  "sign_eip1559 E chain_id nonce max_priority_fee max_fee gas_limit to_addr val data seed =
     (if sk_public E seed = None then Err InvalidSecretKey
      else
        let hash = keccak256 E
              (eip1559_signing_input chain_id nonce max_priority_fee max_fee gas_limit to_addr val data)
        in case sk_sign E seed hash of
             None \<Rightarrow> Err SigningFailed
           | Some (v, r, s) \<Rightarrow>
               Okay (0x02 # rlp_list
                 (eip1559_fields chain_id nonce max_priority_fee max_fee gas_limit to_addr val data @
                  [rlp_uint (ucast v), rlp_bytes r, rlp_bytes s])))"

section \<open>Hexadecimal quantities\<close>

definition strip_0x :: "string \<Rightarrow> string" where
  "strip_0x s = (if take 2 s = ''0x'' then drop 2 s else s)"

definition hex_digit :: "char \<Rightarrow> nat option" where
  "hex_digit c =
     (let n = of_char c :: nat in
      if 48 \<le> n \<and> n \<le> 57 then Some (n - 48)
      else if 97 \<le> n \<and> n \<le> 102 then Some (n - 87)
      else if 65 \<le> n \<and> n \<le> 70 then Some (n - 55)
      else None)"

text \<open>The loop of \<^verbatim>\<open>from_str_radix(s, 16)\<close>: an invalid digit or an overflow is an error.\<close>

fun radix16_loop :: "nat \<Rightarrow> nat \<Rightarrow> string \<Rightarrow> nat option" where
  "radix16_loop bits acc [] = Some acc"
| "radix16_loop bits acc (c # cs) =
     (case hex_digit c of
        None \<Rightarrow> None
      | Some d \<Rightarrow> if 16 * acc + d < 2 ^ bits then radix16_loop bits (16 * acc + d) cs else None)"

text \<open>An empty string and a lone sign are errors, a leading plus sign is skipped.\<close>

definition from_str_radix16 :: "nat \<Rightarrow> string \<Rightarrow> nat option" where
  "from_str_radix16 bits s =
     (case s of
        [] \<Rightarrow> None
      | c # cs \<Rightarrow>
          if c = CHR ''+'' then (if cs = [] then None else radix16_loop bits 0 cs)
          else radix16_loop bits 0 s)"

definition parse_hex_u64 :: "string \<Rightarrow> (u64, codec_error) res" where
  "parse_hex_u64 s =
     (case from_str_radix16 64 (strip_0x s) of None \<Rightarrow> Err BadHexNumber | Some n \<Rightarrow> Okay (word_of_nat n))"

definition parse_hex_u128 :: "string \<Rightarrow> (u128, codec_error) res" where
  "parse_hex_u128 s =
     (case from_str_radix16 128 (strip_0x s) of None \<Rightarrow> Err BadHexNumber | Some n \<Rightarrow> Okay (word_of_nat n))"

definition parse_addr :: "evm_env \<Rightarrow> string \<Rightarrow> (bytes, codec_error) res" where
  "parse_addr E s =
     (case evm_hex_decode E (strip_0x s) of
        None \<Rightarrow> Err BadHexAddress
      | Some b \<Rightarrow> if length b = 20 then Okay b else Err AddressLength)"

text \<open>\<^verbatim>\<open>{value:x}\<close>: lower-case hexadecimal without leading zeros.\<close>

definition hex_char :: "nat \<Rightarrow> char" where
  "hex_char d = (if d < 10 then char_of (48 + d) else char_of (87 + d))"

fun lower_hex :: "nat \<Rightarrow> string" where
  "lower_hex n = (if n < 16 then [hex_char n] else lower_hex (n div 16) @ [hex_char (n mod 16)])"

declare lower_hex.simps [simp del]

definition hex_quantity :: "u64 \<Rightarrow> string" where
  "hex_quantity n = ''0x'' @ lower_hex (unat n)"

section \<open>Calls and identifiers\<close>

definition uuid_to_bytes32 :: "uuid \<Rightarrow> bytes" where
  "uuid_to_bytes32 u = be_bytes 16 (unat u) @ replicate 16 0"

definition tx_hash_to_escrow_id :: "evm_env \<Rightarrow> string \<Rightarrow> u64 outcome" where
  "tx_hash_to_escrow_id E tx_hash =
     (let h = strip_0x tx_hash;
          n = min (length h) 16
      in if char_boundary h n then
           let b = (case evm_hex_decode E (take n h) of None \<Rightarrow> [] | Some b \<Rightarrow> b);
               m = min (length b) 8
           in Done (word_of_nat (of_be_bytes (take m b @ replicate (8 - m) 0)))
         else Panic)"

definition encode_register_call :: "evm_env \<Rightarrow> string \<Rightarrow> string \<Rightarrow> bytes" where
  "encode_register_call E agent_addr uri =
     (let selector = abi_selector E ''register(address,string)'';
          addr_bytes = (case parse_addr E agent_addr of Inl e \<Rightarrow> replicate 20 0 | Inr a \<Rightarrow> a);
          addr_word = abi_address addr_bytes;
          offset_word = abi_uint256 64;
          uri_bytes = str_bytes uri;
          len_word = abi_uint256 (word_of_nat (length uri_bytes));
          padded_len = ((length uri_bytes + 31) div 32) * 32;
          padded_data = uri_bytes @ replicate (padded_len - length uri_bytes) 0
      in selector @ addr_word @ offset_word @ len_word @ padded_data)"

definition encode_update_reputation_call :: "evm_env \<Rightarrow> string \<Rightarrow> u64 \<Rightarrow> bytes" where
  "encode_update_reputation_call E agent_addr score =
     (let selector = abi_selector E ''updateReputation(address,uint256)'';
          addr_bytes = (case parse_addr E agent_addr of Inl e \<Rightarrow> replicate 20 0 | Inr a \<Rightarrow> a)
      in selector @ abi_address addr_bytes @ abi_uint256 score)"

section \<open>RLP is prefix free\<close>

lemma length_trim_zeros: "length (trim_zeros bs) \<le> length bs"
  by (simp add: trim_zeros_def length_dropWhile_le)

lemma of_be_bytes_trim_zeros [simp]: "of_be_bytes (trim_zeros bs) = of_be_bytes bs"
  by (simp add: trim_zeros_def of_be_bytes_trim)

text \<open>A reference decoder: splits the first item off, telling strings from lists.\<close>

fun rlp_split :: "bytes \<Rightarrow> (bool \<times> bytes \<times> bytes) option" where
  "rlp_split [] = None"
| "rlp_split (b # bs) =
     (let t = unat b in
      if t < 128 then Some (False, [b], bs)
      else if t < 184 then Some (False, take (t - 128) bs, drop (t - 128) bs)
      else if t < 192 then
        (let n = of_be_bytes (take (t - 183) bs); r = drop (t - 183) bs
         in Some (False, take n r, drop n r))
      else if t < 248 then Some (True, take (t - 192) bs, drop (t - 192) bs)
      else
        (let n = of_be_bytes (take (t - 247) bs); r = drop (t - 247) bs
         in Some (True, take n r, drop n r)))"

text \<open>The long form of a length prefix: its size bytes and their value.\<close>

lemma trimmed_length:
  assumes "56 \<le> n" "n < 2 ^ 64"
  shows "1 \<le> length (trim_zeros (be_bytes 8 n)) \<and> length (trim_zeros (be_bytes 8 n)) \<le> 8 \<and>
    of_be_bytes (trim_zeros (be_bytes 8 n)) = n"
proof -
  have v: "of_be_bytes (trim_zeros (be_bytes 8 n)) = n"
    using assms(2) by (simp add: of_be_bytes_be_bytes)
  have "trim_zeros (be_bytes 8 n) \<noteq> []"
  proof
    assume "trim_zeros (be_bytes 8 n) = []"
    then have "of_be_bytes (trim_zeros (be_bytes 8 n)) = 0"
      by (simp only: of_be_bytes_Nil)
    with v assms(1) show False
      by linarith
  qed
  with v show ?thesis
    using length_trim_zeros [of "be_bytes 8 n"] by (simp add: Suc_le_eq)
qed

lemma unat_prefix:
  "k < 56 \<Longrightarrow> unat (0x80 + word_of_nat k :: u8) = 128 + k"
  "k < 56 \<Longrightarrow> unat (0xc0 + word_of_nat k :: u8) = 192 + k"
  "k \<le> 8 \<Longrightarrow> unat (0x80 + 55 + word_of_nat k :: u8) = 183 + k"
  "k \<le> 8 \<Longrightarrow> unat (0xc0 + 55 + word_of_nat k :: u8) = 247 + k"
  by (simp_all add: unat_word_ariths unat_of_nat)

lemma rlp_split_bytes:
  assumes "length d < 2 ^ 64"
  shows "rlp_split (rlp_bytes d @ r) = Some (False, d, r)"
proof (cases "length d = 1 \<and> d ! 0 < 0x80")
  case True
  then obtain b where "d = [b]" "unat b < 128"
    by (auto simp: length_Suc_conv word_less_nat_alt)
  then show ?thesis
    using True by (simp add: rlp_bytes_def)
next
  case False
  show ?thesis
  proof (cases "length d < 56")
    case True
    with False have "rlp_bytes d = (0x80 + word_of_nat (length d)) # d"
      by (auto simp: rlp_bytes_def rlp_len_prefix_def)
    with True show ?thesis
      by (simp only: append_Cons rlp_split.simps Let_def unat_prefix(1)) simp
  next
    case long: False
    define t where "t = trim_zeros (be_bytes 8 (length d))"
    have t: "1 \<le> length t" "length t \<le> 8" "of_be_bytes t = length d"
      using trimmed_length [of "length d"] long assms by (simp_all add: t_def)
    have "rlp_bytes d = (0x80 + 55 + word_of_nat (length t)) # t @ d"
      using long False by (simp add: rlp_bytes_def rlp_len_prefix_def t_def Let_def)
    moreover have "t \<noteq> []"
      using t(1) by auto
    ultimately show ?thesis
      using t by (simp only: append_Cons rlp_split.simps Let_def unat_prefix(3) [OF t(2)]) simp
  qed
qed

lemma rlp_split_list:
  assumes "length (concat items) < 2 ^ 64"
  shows "rlp_split (rlp_list items @ r) = Some (True, concat items, r)"
proof (cases "length (concat items) < 56")
  case True
  then show ?thesis
    by (simp only: rlp_list_def rlp_len_prefix_def Let_def if_True append_Cons append_Nil
        rlp_split.simps unat_prefix(2)) simp
next
  case long: False
  define d where "d = concat items"
  define t where "t = trim_zeros (be_bytes 8 (length d))"
  have t: "1 \<le> length t" "length t \<le> 8" "of_be_bytes t = length d"
    using trimmed_length [of "length d"] long assms by (simp_all add: t_def d_def)
  have "rlp_list items = (0xc0 + 55 + word_of_nat (length t)) # t @ d"
    using long by (simp add: rlp_list_def rlp_len_prefix_def t_def d_def Let_def)
  moreover have "t \<noteq> []"
    using t(1) by auto
  ultimately show ?thesis
    using t by (simp only: append_Cons rlp_split.simps Let_def unat_prefix(4) [OF t(2)])
      (simp add: d_def)
qed

lemma rlp_bytes_prefix_free:
  assumes "rlp_bytes a @ r = rlp_bytes b @ s" "length a < 2 ^ 64" "length b < 2 ^ 64"
  shows "a = b \<and> r = s"
proof -
  have "rlp_split (rlp_bytes a @ r) = rlp_split (rlp_bytes b @ s)"
    by (simp only: assms(1))
  then show ?thesis
    by (simp only: rlp_split_bytes assms(2,3) option.inject prod.inject simp_thms)
qed

text \<open>Integers are encoded as their canonical byte strings: zero as the empty one.\<close>

lemma trim_zeros_be_bytes_0: "trim_zeros (be_bytes n 0) = []"
proof -
  have "le_bytes n 0 = replicate n 0"
    by (induction n) simp_all
  then show ?thesis
    by (simp add: trim_zeros_def be_bytes_def dropWhile_eq_Nil_conv)
qed

lemma rlp_uint_bytes: "rlp_uint n = rlp_bytes (trim_zeros (be_bytes 16 (unat n)))"
  by (simp add: rlp_uint_def trim_zeros_be_bytes_0) (simp add: rlp_bytes_def rlp_len_prefix_def)

lemma rlp_uint_prefix_free:
  assumes "rlp_uint m @ r = rlp_uint n @ s"
  shows "m = n \<and> r = s"
proof -
  have "length (trim_zeros (be_bytes 16 (unat x))) < 2 ^ 64" for x :: u128
    using length_trim_zeros [of "be_bytes 16 (unat x)"] by simp
  with rlp_bytes_prefix_free assms
  have "trim_zeros (be_bytes 16 (unat m)) = trim_zeros (be_bytes 16 (unat n)) \<and> r = s"
    unfolding rlp_uint_bytes by blast
  moreover have "of_be_bytes (trim_zeros (be_bytes 16 (unat x))) = unat x" for x :: u128
    using unat_lt [of x] by (simp add: of_be_bytes_be_bytes)
  ultimately show ?thesis
    by (metis word_unat_eq_iff)
qed

lemma unat_ucast_u64: "unat (ucast (a :: u64) :: u128) = unat a"
  by transfer (simp add: take_bit_eq_mod)

lemma ucast_u64_inj: "(ucast (a :: u64) :: u128) = ucast b \<Longrightarrow> a = b"
  by (metis unat_ucast_u64 word_unat_eq_iff)

lemma length_rlp_bytes: "length (rlp_bytes d) \<le> length d + 9"
  using length_trim_zeros [of "be_bytes 8 (length d)"]
  by (simp add: rlp_bytes_def rlp_len_prefix_def Let_def)

lemma length_rlp_uint: "length (rlp_uint n) \<le> 25"
  using length_rlp_bytes [of "trim_zeros (be_bytes 16 (unat n))"]
    length_trim_zeros [of "be_bytes 16 (unat n)"]
  by (simp add: rlp_uint_bytes)

text \<open>The fields of a transaction are determined by the concatenation of their encodings.\<close>

lemma eip1559_fields_inj:
  assumes eq: "concat (eip1559_fields c n p f g t v d) @ r = concat (eip1559_fields c' n' p' f' g' t' v' d') @ r'"
    and len: "length t = 20" "length t' = 20" "length d < 2 ^ 64" "length d' < 2 ^ 64"
  shows "(c, n, p, f, g, t, v, d) = (c', n', p', f', g', t', v', d')"
proof -
  note u = rlp_uint_prefix_free and b = rlp_bytes_prefix_free
  have tl: "length t < 2 ^ 64" "length t' < 2 ^ 64"
    using len by simp_all
  note eq [unfolded eip1559_fields_def concat.simps append_assoc]
  note 1 = u [OF this]
  note 2 = u [OF conjunct2 [OF 1]]
  note 3 = u [OF conjunct2 [OF 2]]
  note 4 = u [OF conjunct2 [OF 3]]
  note 5 = u [OF conjunct2 [OF 4]]
  note 6 = b [OF conjunct2 [OF 5] tl]
  note 7 = u [OF conjunct2 [OF 6]]
  note 8 = b [OF conjunct2 [OF 7] len(3,4)]
  show ?thesis
    using 1 2 3 4 5 6 7 8 by (simp add: ucast_u64_inj)
qed

lemma length_concat_fields:
  "length t = 20 \<Longrightarrow> length (concat (eip1559_fields c n p f g t v d)) \<le> length d + 200"
  using length_rlp_bytes [of t] length_rlp_bytes [of d] length_rlp_uint [of "ucast c"]
    length_rlp_uint [of "ucast n"] length_rlp_uint [of "ucast p"] length_rlp_uint [of "ucast f"]
    length_rlp_uint [of "ucast g"] length_rlp_uint [of "ucast v"]
  by (simp add: eip1559_fields_def rlp_list_def rlp_len_prefix_def)

section \<open>Hexadecimal round trip\<close>

lemma hex_digit_char: "d < 16 \<Longrightarrow> hex_digit (hex_char d) = Some d"
  by (auto simp: hex_digit_def hex_char_def Let_def)

lemma radix16_append:
  "radix16_loop bits acc (xs @ ys) =
     (case radix16_loop bits acc xs of None \<Rightarrow> None | Some a \<Rightarrow> radix16_loop bits a ys)"
  by (induction xs arbitrary: acc) (auto split: option.split)

lemma radix16_lower_hex: "n < 2 ^ bits \<Longrightarrow> radix16_loop bits 0 (lower_hex n) = Some n"
proof (induction n rule: lower_hex.induct)
  case (1 n)
  show ?case
  proof (cases "n < 16")
    case True
    with 1 show ?thesis
      by (simp add: lower_hex.simps hex_digit_char)
  next
    case False
    have "n div 16 < 2 ^ bits"
      using 1(2) div_le_dividend le_less_trans by blast
    with False 1 show ?thesis
      by (simp add: lower_hex.simps [of n] radix16_append hex_digit_char)
  qed
qed

lemma hex_char_not_plus: "d < 16 \<Longrightarrow> hex_char d \<noteq> CHR ''+''"
proof
  assume "d < 16" "hex_char d = CHR ''+''"
  then have "hex_digit CHR ''+'' = Some d"
    by (metis hex_digit_char)
  then show False
    by (simp add: hex_digit_def)
qed

lemma lower_hex_head: "\<exists>d rest. lower_hex n = hex_char d # rest \<and> d < 16"
proof (induction n rule: lower_hex.induct)
  case (1 n)
  show ?case
  proof (cases "n < 16")
    case True
    then show ?thesis
      by (simp add: lower_hex.simps) blast
  next
    case False
    with 1 show ?thesis
      by (auto simp: lower_hex.simps [of n])
  qed
qed

lemma from_str_radix16_lower_hex: "n < 2 ^ bits \<Longrightarrow> from_str_radix16 bits (lower_hex n) = Some n"
  using lower_hex_head [of n] radix16_lower_hex [of n bits] hex_char_not_plus
  by (auto simp: from_str_radix16_def)

lemma radix16_bound: "radix16_loop bits acc s = Some n \<Longrightarrow> acc < 2 ^ bits \<Longrightarrow> n < 2 ^ bits"
  by (induction s arbitrary: acc) (auto split: option.splits if_splits)

section \<open>Properties\<close>

text \<open>C7: RLP is uniquely decodable. The reference decoder splits every encoded string,
  integer and list off whatever follows it and recovers the payload, integers in their canonical
  form without leading zeros.\<close>

theorem rlp_roundtrip:
  assumes "length d < 2 ^ 64" "length (concat items) < 2 ^ 64"
  shows "rlp_split (rlp_bytes d @ r) = Some (False, d, r) \<and>
    rlp_split (rlp_list items @ r) = Some (True, concat items, r) \<and>
    (\<exists>b. rlp_split (rlp_uint n @ r) = Some (False, b, r) \<and> of_be_bytes b = unat n \<and>
         (b \<noteq> [] \<longrightarrow> hd b \<noteq> 0))"
proof -
  let ?b = "trim_zeros (be_bytes 16 (unat n))"
  have "length ?b < 2 ^ 64"
    using length_trim_zeros [of "be_bytes 16 (unat n)"] by simp
  then have "rlp_split (rlp_uint n @ r) = Some (False, ?b, r)"
    unfolding rlp_uint_bytes by (rule rlp_split_bytes)
  moreover have "of_be_bytes ?b = unat n"
    using unat_lt [of n] by (simp add: of_be_bytes_be_bytes)
  moreover have "?b \<noteq> [] \<longrightarrow> hd ?b \<noteq> 0"
    unfolding trim_zeros_def using hd_dropWhile by blast
  ultimately show ?thesis
    using rlp_split_bytes [OF assms(1)] rlp_split_list [OF assms(2)] by blast
qed

theorem rlp_roundtrip_witness:
  "rlp_split (rlp_list [rlp_uint 1024, rlp_bytes [7]] @ [9]) = Some (True, [0x82, 4, 0, 7], [9])"
proof -
  have items: "concat [rlp_uint 1024, rlp_bytes [7]] = [0x82, 4, 0, 7]"
    by code_simp
  show ?thesis
    using rlp_roundtrip [of "[]" "[rlp_uint 1024, rlp_bytes [7]]" "[9]" 0] unfolding items by simp
qed

text \<open>C8: what the node signs determines the transaction. Two EIP-1559 transactions with the
  same signing input agree in chain id, nonce, both fees, gas limit, recipient, value and
  calldata, so a signature cannot be moved to another transaction or another chain.\<close>

theorem eip1559_signing_input_injective:
  assumes "eip1559_signing_input c n p f g t v d = eip1559_signing_input c' n' p' f' g' t' v' d'"
    and "length t = 20" "length t' = 20" "length d < 2 ^ 63" "length d' < 2 ^ 63"
  shows "(c, n, p, f, g, t, v, d) = (c', n', p', f', g', t', v', d')"
proof -
  let ?F = "eip1559_fields c n p f g t v d" and ?F' = "eip1559_fields c' n' p' f' g' t' v' d'"
  have len: "length (concat ?F) < 2 ^ 64" "length (concat ?F') < 2 ^ 64"
    using length_concat_fields [OF assms(2), of c n p f g v d]
      length_concat_fields [OF assms(3), of c' n' p' f' g' v' d'] assms(4,5)
    by (simp_all del: length_concat)
  have "rlp_split (rlp_list ?F @ []) = rlp_split (rlp_list ?F' @ [])"
    using assms(1) by (simp add: eip1559_signing_input_def)
  then have "concat ?F @ [] = concat ?F' @ []"
    by (simp only: rlp_split_list [OF len(1)] rlp_split_list [OF len(2)] option.inject prod.inject)
  then show ?thesis
    by (rule eip1559_fields_inj) (use assms in simp_all)
qed

theorem eip1559_signing_input_injective_witness:
  "eip1559_signing_input 1 0 1 1 1 (replicate 20 0) 0 [] \<noteq>
   eip1559_signing_input 10 0 1 1 1 (replicate 20 0) 0 []"
  using eip1559_signing_input_injective [of 1 0 1 1 1 "replicate 20 0" 0 "[]" 10 0 1 1 1
      "replicate 20 0" 0 "[]"]
  by auto

text \<open>The hexadecimal quantities the node writes into JSON-RPC requests are those it
  reads back from responses, for every 64-bit value.\<close>

theorem hex_quantity_roundtrip: "parse_hex_u64 (hex_quantity v) = Okay v"
proof -
  have "from_str_radix16 64 (lower_hex (unat v)) = Some (unat v)"
    using unat_lt [of v] by (intro from_str_radix16_lower_hex) simp
  then show ?thesis
    by (simp add: parse_hex_u64_def hex_quantity_def strip_0x_def)
qed

text \<open>Layout of the \<^verbatim>\<open>register(address,string)\<close> call: after the selector come whole
  32-byte words, the offset word points at the length word, the length word holds the size of
  the string and the string itself follows, padded with zeros.\<close>

theorem encode_register_call_layout:
  assumes "\<And>x. length (keccak256 E x) = 32" "length uri < 2 ^ 64"
    and "out = encode_register_call E agent uri"
  shows "take 4 out = abi_selector E ''register(address,string)'' \<and>
    length (drop 4 out) mod 32 = 0 \<and>
    (let off = of_be_bytes (take 32 (drop 36 out)) in
       of_be_bytes (take 32 (drop (4 + off) out)) = length uri \<and>
       take (length uri) (drop (4 + off + 32) out) = str_bytes uri)"
proof -
  let ?sel = "abi_selector E ''register(address,string)''"
  let ?addr = "abi_address (case parse_addr E agent of Inl e \<Rightarrow> replicate 20 0 | Inr a \<Rightarrow> a)"
  let ?n = "length uri"
  let ?pad = "replicate (((?n + 31) div 32) * 32 - ?n) 0 :: bytes"
  have sel: "length ?sel = 4"
    by (simp add: abi_selector_def assms(1))
  have addr: "length ?addr = 32"
    by (simp add: abi_address_def parse_addr_def split: option.split sum.split)
  have word: "length (abi_uint256 w) = 32" "of_be_bytes (abi_uint256 w) = unat w" for w
  proof -
    have "of_be_bytes (replicate k 0 @ bs) = of_be_bytes bs" for k bs
      by (induction k) (simp_all add: of_be_bytes_Cons)
    then show "length (abi_uint256 w) = 32" "of_be_bytes (abi_uint256 w) = unat w"
      using unat_lt [of w] by (simp_all add: abi_uint256_def of_be_bytes_be_bytes)
  qed
  have str: "length (str_bytes uri) = ?n"
    by (simp add: str_bytes_def)
  have nn: "unat (word_of_nat ?n :: u64) = ?n"
    using assms(2) by (simp add: unat_of_nat)
  have out: "out = ?sel @ ?addr @ abi_uint256 64 @ abi_uint256 (word_of_nat ?n) @ str_bytes uri @ ?pad"
    by (simp add: assms(3) encode_register_call_def Let_def str)
  have "?n \<le> ((?n + 31) div 32) * 32"
    by presburger
  then have "length (drop 4 out) = 96 + ((?n + 31) div 32) * 32"
    by (simp add: out sel addr word str)
  moreover have "(96 + k * 32) mod 32 = 0" for k :: nat
    by presburger
  moreover have "drop 36 out = abi_uint256 64 @ abi_uint256 (word_of_nat ?n) @ str_bytes uri @ ?pad"
    by (simp add: out sel addr)
  moreover have "drop 68 out = abi_uint256 (word_of_nat ?n) @ str_bytes uri @ ?pad"
    by (simp add: out sel addr word)
  moreover have "drop 100 out = str_bytes uri @ ?pad"
    by (simp add: out sel addr word)
  moreover have "take 4 out = ?sel"
    by (simp add: out sel)
  ultimately show ?thesis
    by (simp add: word str nn Let_def)
qed

theorem encode_register_call_layout_witness:
  "\<exists>out. out = encode_register_call
     \<lparr>keccak256 = (\<lambda>x. replicate 32 0), evm_hex_encode = (\<lambda>b. []), evm_hex_decode = (\<lambda>s. None),
      sk_public = (\<lambda>s. None), sk_sign = (\<lambda>s h. None)\<rparr> ''a'' ''uri'' \<and>
     of_be_bytes (take 32 (drop (4 + of_be_bytes (take 32 (drop 36 out))) out)) = 3"
proof -
  let ?E = "\<lparr>keccak256 = (\<lambda>x. replicate 32 0), evm_hex_encode = (\<lambda>b. []), evm_hex_decode = (\<lambda>s. None),
      sk_public = (\<lambda>s. None), sk_sign = (\<lambda>s h. None)\<rparr>"
  show ?thesis
    using encode_register_call_layout [of ?E "''uri''", OF _ _ refl, of "''a''"]
    by (simp add: Let_def)
qed

end
