(* ===== verification/Rpc_Client.thy ===== *)
theory Rpc_Client
  imports Evm_Codec
begin

text \<open>JSON documents as the settlement code builds and inspects them, fallible computations over
  an external world, and the JSON-RPC call shared by the chain clients of
  \<^verbatim>\<open>crates/settlement/src\<close>. The HTTP client is a parameter: a function of the URL and the body
  that answers from, and changes, a world of any type.\<close>

section \<open>JSON values\<close>

datatype json =
    JNull
  | JBool bool
  | JNum int
  | JStr string
  | JArr "json list"
  | JObj "(string \<times> json) list"

definition as_str :: "json \<Rightarrow> string option" where
  "as_str v = (case v of JStr s \<Rightarrow> Some s | _ \<Rightarrow> None)"

definition as_u64 :: "json \<Rightarrow> u64 option" where
  "as_u64 v =
     (case v of JNum n \<Rightarrow> if 0 \<le> n \<and> n < 2 ^ 64 then Some (word_of_int n) else None | _ \<Rightarrow> None)"

definition json_get :: "string \<Rightarrow> json \<Rightarrow> json option" where
  "json_get k v = (case v of JObj fs \<Rightarrow> map_of fs k | _ \<Rightarrow> None)"

definition json_u64 :: "u64 \<Rightarrow> json" where
  "json_u64 n = JNum (int (unat n))"

lemma as_str_simps [simp]: "as_str (JStr s) = Some s"
  by (simp add: as_str_def)

lemma as_str_Some: "as_str v = Some s \<longleftrightarrow> v = JStr s"
  by (cases v) (simp_all add: as_str_def)

lemma json_get_obj [simp]: "json_get k (JObj fs) = map_of fs k"
  by (simp add: json_get_def)

lemma as_u64_json_u64 [simp]: "as_u64 (json_u64 n) = Some n"
proof -
  have "uint n < 2 ^ LENGTH(64)"
    by (rule unsigned_less)
  then show ?thesis
    by (simp add: as_u64_def json_u64_def)
qed

section \<open>Computations over the network\<close>

text \<open>The errors of the chain clients, one constructor per \<^verbatim>\<open>Err\<close> site; \<open>Ctx\<close> is
  \<^verbatim>\<open>.context(..)\<close>. \<open>Panicked\<close> stands for an unwinding panic, which no caller catches.\<close>

datatype net_error =
    HttpError
  | RpcFailed int string
  | NullResult string
  | NotAString string
  | CodecFailed codec_error
  | NoSigner
  | MissingEscrowId
  | BadBase58 string
  | WrongLength
  | BadHex
  | MissingField string
  | BadReply string
  | NoCoin
  | Panicked
  | Ctx string net_error

type_synonym ('w, 'a) net = "'w \<Rightarrow> ('a, net_error) res \<times> 'w"

definition ret :: "'a \<Rightarrow> ('w, 'a) net" where
  "ret a w = (Inr a, w)"

definition fail :: "net_error \<Rightarrow> ('w, 'a) net" where
  "fail e w = (Inl e, w)"

definition andThen :: "('w, 'a) net \<Rightarrow> ('a \<Rightarrow> ('w, 'b) net) \<Rightarrow> ('w, 'b) net" where
  "andThen m f w = (case m w of (Inl e, w') \<Rightarrow> (Inl e, w') | (Inr a, w') \<Rightarrow> f a w')"

definition lift_codec :: "('a, codec_error) res \<Rightarrow> ('w, 'a) net" where
  "lift_codec r = (case r of Inl e \<Rightarrow> fail (CodecFailed e) | Inr a \<Rightarrow> ret a)"

definition lift_opt :: "net_error \<Rightarrow> 'a option \<Rightarrow> ('w, 'a) net" where
  "lift_opt e r = (case r of None \<Rightarrow> fail e | Some a \<Rightarrow> ret a)"

definition lift_outcome :: "'a outcome \<Rightarrow> ('w, 'a) net" where
  "lift_outcome r = (case r of Panic \<Rightarrow> fail Panicked | Done a \<Rightarrow> ret a)"

text \<open>\<^verbatim>\<open>.context(..)\<close> and \<^verbatim>\<open>.unwrap_or(..)\<close> on a computation.\<close>

definition with_ctx :: "string \<Rightarrow> ('w, 'a) net \<Rightarrow> ('w, 'a) net" where
  "with_ctx c m w = (case m w of (Inl e, w') \<Rightarrow> (Inl (Ctx c e), w') | (Inr a, w') \<Rightarrow> (Inr a, w'))"

definition or_default :: "('w, 'a) net \<Rightarrow> 'a \<Rightarrow> ('w, 'a) net" where
  "or_default m d w = (case m w of (Inl e, w') \<Rightarrow> (Inr d, w') | (Inr a, w') \<Rightarrow> (Inr a, w'))"

named_theorems net_simps \<open>results of network computations\<close>

lemma andThen_Inr [net_simps]:
  "andThen m f w = (Inr b, w'') \<longleftrightarrow> (\<exists>a w'. m w = (Inr a, w') \<and> f a w' = (Inr b, w''))"
  by (auto simp: andThen_def split: prod.splits sum.splits)

lemma ret_Inr [net_simps]: "ret a w = (Inr b, w') \<longleftrightarrow> a = b \<and> w = w'"
  by (auto simp: ret_def)

lemma fail_Inr [net_simps]: "\<not> fail e w = (Inr b, w')"
  by (simp add: fail_def)

lemma lift_codec_Inr [net_simps]: "lift_codec r w = (Inr b, w') \<longleftrightarrow> r = Inr b \<and> w = w'"
  by (auto simp: lift_codec_def ret_def fail_def split: sum.split)

lemma lift_opt_Inr [net_simps]: "lift_opt e r w = (Inr b, w') \<longleftrightarrow> r = Some b \<and> w = w'"
  by (auto simp: lift_opt_def ret_def fail_def split: option.split)

lemma lift_outcome_Inr [net_simps]: "lift_outcome r w = (Inr a, w') \<longleftrightarrow> r = Done a \<and> w = w'"
  by (auto simp: lift_outcome_def ret_def fail_def split: outcome.split)

lemma with_ctx_Inr [net_simps]: "with_ctx c m w = (Inr b, w') \<longleftrightarrow> m w = (Inr b, w')"
  by (auto simp: with_ctx_def split: prod.splits sum.splits)

section \<open>JSON-RPC\<close>

record rpc_envelope =
  rpc_result :: "json option"
  rpc_error :: "(int \<times> string) option"

type_synonym 'w http = "string \<Rightarrow> json \<Rightarrow> ('w, rpc_envelope) net"

definition rpc_body :: "string \<Rightarrow> json \<Rightarrow> json" where
  "rpc_body meth params =
     JObj [(''jsonrpc'', JStr ''2.0''), (''id'', JNum 1), (''method'', JStr meth), (''params'', params)]"

definition json_rpc :: "'w http \<Rightarrow> string \<Rightarrow> string \<Rightarrow> json \<Rightarrow> ('w, json) net" where
  "json_rpc post url meth params =
     andThen (post url (rpc_body meth params)) (\<lambda>env.
       case rpc_error env of
         Some (code, msg) \<Rightarrow> fail (RpcFailed code msg)
       | None \<Rightarrow>
           (case rpc_result env of None \<Rightarrow> fail (NullResult meth) | Some v \<Rightarrow> ret v))"

end
