(* ===== verification/Settlement_Adapter.thy ===== *)
theory Settlement_Adapter
  imports Rpc_Client Node_Types
begin

text \<open>\<^verbatim>\<open>crates/settlement/src/adapter.rs\<close>: the data and the trait of the settlement backends,
  the matching of bids and adapters, and the two adapters without a chain, \<^verbatim>\<open>free.rs\<close> and
  \<^verbatim>\<open>receipt.rs\<close>. A trait object is a record of functions over a state of any type.\<close>

section \<open>Data\<close>

record escrow_params =
  ep_request_id :: uuid
  ep_amount_nanox :: nanox
  ep_client_address :: string
  ep_node_address :: string
  ep_token_id :: string

record escrow_handle =
  eh_settlement_id :: string
  eh_request_id :: uuid
  eh_amount_nanox :: nanox
  eh_chain_tx_id :: "string option"
  eh_payload :: json

record settlement_capabilities =
  cap_has_escrow :: bool
  cap_has_token :: bool
  cap_is_trustless :: bool
  cap_finality_seconds :: u64
  cap_min_payment_nanox :: nanox
  cap_accepted_tokens :: "string list"

datatype settle_error =
    EscrowNotSupported string
  | ChannelExists
  | ChannelMissing
  | CostExceedsBalance nanox nanox
  | NetError net_error

type_synonym ('s, 'a) settle = "'s \<Rightarrow> ('a, settle_error) res \<times> 's"

text \<open>A network computation as a call of an adapter.\<close>

definition in_settle :: "('w, 'a) net \<Rightarrow> ('w, 'a) settle" where
  "in_settle m w = (case m w of (Inl e, w') \<Rightarrow> (Inl (NetError e), w') | (Inr a, w') \<Rightarrow> (Inr a, w'))"

lemma in_settle_Inr [net_simps]: "in_settle m w = (Inr a, w') \<longleftrightarrow> m w = (Inr a, w')"
  by (auto simp: in_settle_def split: prod.splits sum.splits)

section \<open>The trait\<close>

record 's adapter =
  ad_id :: string
  ad_capabilities :: settlement_capabilities
  ad_lock :: "escrow_params \<Rightarrow> ('s, escrow_handle) settle"
  ad_release :: "escrow_handle \<Rightarrow> proof_of_inference \<Rightarrow> ('s, unit) settle"
  ad_refund :: "escrow_handle \<Rightarrow> ('s, unit) settle"
  ad_balance :: "string \<Rightarrow> ('s, nanox) settle"
  ad_anchor :: "bytes \<Rightarrow> string \<Rightarrow> ('s, string option) settle"

text \<open>The default methods.\<close>

definition default_lock :: "string \<Rightarrow> escrow_params \<Rightarrow> ('s, escrow_handle) settle" where
  "default_lock i params s = (Inl (EscrowNotSupported i), s)"

definition default_release :: "escrow_handle \<Rightarrow> proof_of_inference \<Rightarrow> ('s, unit) settle" where
  "default_release h p s = (Inr (), s)"

definition default_refund :: "escrow_handle \<Rightarrow> ('s, unit) settle" where
  "default_refund h s = (Inr (), s)"

definition default_balance :: "string \<Rightarrow> ('s, nanox) settle" where
  "default_balance addr s = (Inr (- 1), s)"

definition default_anchor :: "bytes \<Rightarrow> string \<Rightarrow> ('s, string option) settle" where
  "default_anchor h label s = (Inr None, s)"

section \<open>Free settlement\<close>

definition free_capabilities :: settlement_capabilities where
  "free_capabilities = \<lparr>cap_has_escrow = False, cap_has_token = False, cap_is_trustless = True,
     cap_finality_seconds = 0, cap_min_payment_nanox = 0, cap_accepted_tokens = []\<rparr>"

definition free_lock :: "escrow_params \<Rightarrow> ('s, escrow_handle) settle" where
  "free_lock params s =
     (Inr \<lparr>eh_settlement_id = ''free'', eh_request_id = ep_request_id params, eh_amount_nanox = 0,
           eh_chain_tx_id = None, eh_payload = JNull\<rparr>, s)"

definition free_adapter :: "'s adapter" where
  "free_adapter = \<lparr>ad_id = ''free'', ad_capabilities = free_capabilities, ad_lock = free_lock,
     ad_release = default_release, ad_refund = default_refund, ad_balance = default_balance,
     ad_anchor = default_anchor\<rparr>"

section \<open>Signed receipts\<close>

record receipt_record =
  rr_request_id :: string
  rr_amount_nanox :: nanox
  rr_timestamp :: u64
  rr_proof_id :: string

definition receipt_capabilities :: settlement_capabilities where
  "receipt_capabilities = \<lparr>cap_has_escrow = False, cap_has_token = False, cap_is_trustless = False,
     cap_finality_seconds = 0, cap_min_payment_nanox = 0, cap_accepted_tokens = []\<rparr>"

definition receipt_lock :: "escrow_params \<Rightarrow> ('s, escrow_handle) settle" where
  "receipt_lock params s =
     (Inr \<lparr>eh_settlement_id = ''receipt'', eh_request_id = ep_request_id params,
           eh_amount_nanox = ep_amount_nanox params, eh_chain_tx_id = None,
           eh_payload = JObj [(''client'', JStr (ep_client_address params)),
                              (''node'', JStr (ep_node_address params))]\<rparr>, s)"

text \<open>\<open>uuid_str\<close> is the text form of a UUID, \<open>now\<close> the clock; the state of the adapter is its list of
  receipts.\<close>

definition receipt_release ::
  "crypto_env \<Rightarrow> (uuid \<Rightarrow> string) \<Rightarrow> u64 \<Rightarrow> escrow_handle \<Rightarrow> proof_of_inference \<Rightarrow>
     (receipt_record list, unit) settle" where
  "receipt_release E uuid_str now h p receipts =
     (let proof_id = hex_encode E (poi_id E p)
      in (Inr (), receipts @ [\<lparr>rr_request_id = uuid_str (eh_request_id h),
            rr_amount_nanox = eh_amount_nanox h, rr_timestamp = now, rr_proof_id = proof_id\<rparr>]))"

definition receipt_adapter ::
  "crypto_env \<Rightarrow> (uuid \<Rightarrow> string) \<Rightarrow> u64 \<Rightarrow> receipt_record list adapter" where
  "receipt_adapter E uuid_str now = \<lparr>ad_id = ''receipt'', ad_capabilities = receipt_capabilities,
     ad_lock = receipt_lock, ad_release = receipt_release E uuid_str now,
     ad_refund = default_refund, ad_balance = default_balance, ad_anchor = default_anchor\<rparr>"

section \<open>Matching\<close>

definition compatible_bids :: "inference_bid list \<Rightarrow> string list \<Rightarrow> inference_bid list" where
  "compatible_bids bids client_settlements =
     filter (\<lambda>bid. list_ex (\<lambda>offer. so_settlement_id offer \<in> set client_settlements)
                     (ib_accepted_settlements bid)) bids"

definition select_adapter :: "'s adapter list \<Rightarrow> string list \<Rightarrow> 's adapter option" where
  "select_adapter adapters client_settlements =
     find (\<lambda>a. ad_id a \<in> set client_settlements) adapters"

definition ensure_free_fallback :: "'s adapter list \<Rightarrow> 's adapter list" where
  "ensure_free_fallback adapters =
     (if \<not> list_ex (\<lambda>a. ad_id a = ''free'') adapters then adapters @ [free_adapter] else adapters)"

lemma select_adapter_Some:
  "select_adapter as ws = Some a \<Longrightarrow> a \<in> set as \<and> ad_id a \<in> set ws"
  by (auto simp: select_adapter_def find_Some_iff)

lemma select_adapter_free:
  "''free'' \<in> set ws \<Longrightarrow> \<exists>a. select_adapter (ensure_free_fallback as) ws = Some a"
  by (cases "select_adapter (ensure_free_fallback as) ws")
    (auto simp: select_adapter_def find_None_iff ensure_free_fallback_def list_ex_iff free_adapter_def
      split: if_splits)

section \<open>The contract of an adapter\<close>

text \<open>What the node relies on: a handle names the request and the adapter that issued it and never
  holds more than was asked for, and a lock that fails has not changed what \<open>ledger\<close> observes
  of the adapter's own state.\<close>

locale settlement_adapter =
  fixes A :: "'s adapter"
    and ledger :: "'s \<Rightarrow> 'v"
  assumes lock_handle: "ad_lock A p s = (Inr h, s') \<Longrightarrow>
      eh_request_id h = ep_request_id p \<and> eh_settlement_id h = ad_id A \<and>
      eh_amount_nanox h \<le> ep_amount_nanox p"
    and lock_failed: "ad_lock A p s = (Inl e, s') \<Longrightarrow> ledger s' = ledger s"
begin

text \<open>Lock and, when that succeeds, release: the two calls of every settlement.\<close>

definition lock_release ::
  "escrow_params \<Rightarrow> (escrow_handle \<Rightarrow> proof_of_inference) \<Rightarrow> 's \<Rightarrow> escrow_handle option \<times> 's" where
  "lock_release p mk s =
     (case ad_lock A p s of
        (Inl e, s') \<Rightarrow> (None, s')
      | (Inr h, s') \<Rightarrow> (Some h, snd (ad_release A h (mk h) s')))"

lemma lock_release_handle:
  "lock_release p mk s = (Some h, s') \<Longrightarrow>
     eh_request_id h = ep_request_id p \<and> eh_settlement_id h = ad_id A \<and>
     eh_amount_nanox h \<le> ep_amount_nanox p"
  by (auto simp: lock_release_def split: prod.splits sum.splits dest: lock_handle)

lemma lock_release_none: "lock_release p mk s = (None, s') \<Longrightarrow> ledger s' = ledger s"
  by (auto simp: lock_release_def split: prod.splits sum.splits dest: lock_failed)

end

interpretation free: settlement_adapter free_adapter "\<lambda>s. s"
  by unfold_locales (auto simp: free_adapter_def free_lock_def)

interpretation receipt: settlement_adapter "receipt_adapter E uuid_str now" "\<lambda>s. s"
  for E uuid_str now
  by unfold_locales (auto simp: receipt_adapter_def receipt_lock_def)

end
