(* ===== verification/Evm_Settlement.thy ===== *)
theory Evm_Settlement
  imports Rpc_Client Node_Types Settlement_Adapter
begin

text \<open>The client side of \<^verbatim>\<open>crates/settlement/src/evm.rs\<close>: JSON-RPC helpers, the dispatch of a
  signed transaction, the escrow contract calls, the ERC-8004 registry calls and the
  \<^verbatim>\<open>SettlementAdapter\<close> implementation.\<close>

record evm_config =
  ec_id :: string
  ec_rpc_url :: string
  ec_contract_address :: string
  ec_chain_id :: u64
  ec_price_per_1k :: nanox
  ec_token_id :: string
  ec_signer_seed :: "bytes option"

section \<open>JSON-RPC helpers\<close>

definition evm_seed :: "evm_config \<Rightarrow> ('w, bytes) net" where
  "evm_seed cfg = lift_opt NoSigner (ec_signer_seed cfg)"

definition evm_rpc :: "'w http \<Rightarrow> evm_config \<Rightarrow> string \<Rightarrow> json \<Rightarrow> ('w, json) net" where
  "evm_rpc post cfg meth params = json_rpc post (ec_rpc_url cfg) meth params"

definition evm_get_nonce :: "'w http \<Rightarrow> evm_config \<Rightarrow> string \<Rightarrow> ('w, u64) net" where
  "evm_get_nonce post cfg addr =
     andThen (evm_rpc post cfg ''eth_getTransactionCount'' (JArr [JStr addr, JStr ''pending''])) (\<lambda>v.
     andThen (lift_opt (NotAString ''nonce'') (as_str v)) (\<lambda>s.
     lift_codec (parse_hex_u64 s)))"

definition evm_fee_params :: "'w http \<Rightarrow> evm_config \<Rightarrow> ('w, u64 \<times> u64) net" where
  "evm_fee_params post cfg =
     andThen
       (or_default
         (andThen (evm_rpc post cfg ''eth_maxPriorityFeePerGas'' (JArr [])) (\<lambda>v.
            let s = (case as_str v of None \<Rightarrow> ''0x77359400'' | Some s \<Rightarrow> s)
            in ret (case parse_hex_u64 s of Inl e \<Rightarrow> 2000000000 | Inr p \<Rightarrow> p)))
         2000000000) (\<lambda>priority.
     andThen (evm_rpc post cfg ''eth_gasPrice'' (JArr [])) (\<lambda>base_v.
     andThen (lift_opt (NotAString ''gasPrice'') (as_str base_v)) (\<lambda>s.
     andThen (lift_codec (parse_hex_u64 s)) (\<lambda>base.
     let max_fee = sat_add (sat_mul base 2) priority
     in ret (priority, max_fee)))))"

definition evm_estimate_gas_to ::
  "evm_env \<Rightarrow> 'w http \<Rightarrow> evm_config \<Rightarrow> string \<Rightarrow> string \<Rightarrow> bytes \<Rightarrow> u64 \<Rightarrow> ('w, u64) net" where
  "evm_estimate_gas_to E post cfg from_a to_a calldata val =
     andThen (evm_rpc post cfg ''eth_estimateGas''
        (JArr [JObj [(''from'', JStr from_a), (''to'', JStr to_a),
                     (''data'', JStr (''0x'' @ evm_hex_encode E calldata)),
                     (''value'', JStr (hex_quantity val))]])) (\<lambda>v.
     andThen (lift_opt (NotAString ''gas estimate'') (as_str v)) (\<lambda>s.
     andThen (lift_codec (parse_hex_u64 s)) (\<lambda>gas.
     ret (gas + gas div 5))))"

definition evm_estimate_gas ::
  "evm_env \<Rightarrow> 'w http \<Rightarrow> evm_config \<Rightarrow> string \<Rightarrow> bytes \<Rightarrow> u64 \<Rightarrow> ('w, u64) net" where
  "evm_estimate_gas E post cfg from_a calldata val =
     andThen (evm_rpc post cfg ''eth_estimateGas''
        (JArr [JObj [(''from'', JStr from_a), (''to'', JStr (ec_contract_address cfg)),
                     (''data'', JStr (''0x'' @ evm_hex_encode E calldata)),
                     (''value'', JStr (hex_quantity val))]])) (\<lambda>v.
     andThen (lift_opt (NotAString ''gas estimate'') (as_str v)) (\<lambda>s.
     andThen (lift_codec (parse_hex_u64 s)) (\<lambda>gas.
     ret (gas + gas div 5))))"

section \<open>Transactions\<close>

definition evm_send_tx ::
  "evm_env \<Rightarrow> 'w http \<Rightarrow> evm_config \<Rightarrow> bytes \<Rightarrow> u64 \<Rightarrow> ('w, string) net" where
  "evm_send_tx E post cfg calldata val =
     andThen (evm_seed cfg) (\<lambda>seed.
     andThen (lift_codec (eth_address E seed)) (\<lambda>(addr, from_str).
     andThen (with_ctx ''invalid contract_address'' (lift_codec (parse_addr E (ec_contract_address cfg)))) (\<lambda>to_b.
     andThen (evm_get_nonce post cfg from_str) (\<lambda>nonce.
     andThen (evm_fee_params post cfg) (\<lambda>(max_prio, max_fee).
     andThen (or_default (evm_estimate_gas E post cfg from_str calldata val) 300000) (\<lambda>gas.
     andThen (lift_codec
       (sign_eip1559 E (ec_chain_id cfg) nonce max_prio max_fee gas to_b val calldata seed)) (\<lambda>raw.
     andThen (with_ctx ''eth_sendRawTransaction failed''
       (evm_rpc post cfg ''eth_sendRawTransaction'' (JArr [JStr (''0x'' @ evm_hex_encode E raw)]))) (\<lambda>v.
     lift_opt (NotAString ''eth_sendRawTransaction'') (as_str v)))))))))"

definition evm_send_transaction ::
  "evm_env \<Rightarrow> 'w http \<Rightarrow> evm_config \<Rightarrow> string \<Rightarrow> bytes \<Rightarrow> u64 \<Rightarrow> ('w, string) net" where
  "evm_send_transaction E post cfg to_a data val =
     andThen (evm_seed cfg) (\<lambda>seed.
     andThen (lift_codec (eth_address E seed)) (\<lambda>(addr, from_str).
     andThen (with_ctx ''invalid to address'' (lift_codec (parse_addr E to_a))) (\<lambda>to_b.
     andThen (evm_get_nonce post cfg from_str) (\<lambda>nonce.
     andThen (evm_fee_params post cfg) (\<lambda>(max_prio, max_fee).
     andThen (or_default (evm_estimate_gas_to E post cfg from_str to_a data val) 300000) (\<lambda>gas.
     andThen (lift_codec
       (sign_eip1559 E (ec_chain_id cfg) nonce max_prio max_fee gas to_b val data seed)) (\<lambda>raw.
     andThen (with_ctx ''eth_sendRawTransaction failed''
       (evm_rpc post cfg ''eth_sendRawTransaction'' (JArr [JStr (''0x'' @ evm_hex_encode E raw)]))) (\<lambda>v.
     lift_opt (NotAString ''eth_sendRawTransaction'') (as_str v)))))))))"

definition evm_lock_on_chain ::
  "evm_env \<Rightarrow> 'w http \<Rightarrow> evm_config \<Rightarrow> bytes \<Rightarrow> bytes \<Rightarrow> u64 \<Rightarrow> ('w, string) net" where
  "evm_lock_on_chain E post cfg req_bytes node amount =
     evm_send_tx E post cfg
       (abi_call (abi_selector E ''lockEscrow(bytes32,address)'')
         [abi_bytes32 req_bytes, abi_address node]) amount"

definition evm_release_on_chain ::
  "evm_env \<Rightarrow> 'w http \<Rightarrow> evm_config \<Rightarrow> u64 \<Rightarrow> bytes \<Rightarrow> ('w, unit) net" where
  "evm_release_on_chain E post cfg escrow_id proof_hash =
     andThen (evm_send_tx E post cfg
       (abi_call (abi_selector E ''releaseEscrow(uint256,bytes32)'')
         [abi_uint256 escrow_id, abi_bytes32 proof_hash]) 0) (\<lambda>_. ret ())"

definition evm_refund_on_chain :: "evm_env \<Rightarrow> 'w http \<Rightarrow> evm_config \<Rightarrow> u64 \<Rightarrow> ('w, unit) net" where
  "evm_refund_on_chain E post cfg escrow_id =
     andThen (evm_send_tx E post cfg
       (abi_call (abi_selector E ''refundEscrow(uint256)'') [abi_uint256 escrow_id]) 0) (\<lambda>_. ret ())"

definition evm_anchor_on_chain ::
  "evm_env \<Rightarrow> 'w http \<Rightarrow> evm_config \<Rightarrow> bytes \<Rightarrow> bytes \<Rightarrow> ('w, string) net" where
  "evm_anchor_on_chain E post cfg rt label =
     evm_send_tx E post cfg
       (abi_call (abi_selector E ''anchorRoot(bytes32,bytes32)'') [abi_bytes32 rt, abi_bytes32 label]) 0"

section \<open>ERC-8004\<close>

definition arc_testnet :: u64 where
  "arc_testnet = 5042002"

definition arc_mainnet :: u64 where
  "arc_mainnet = 1243"

text \<open>\<open>to_json\<close> is \<^verbatim>\<open>serde_json::to_string\<close> of the list of models.\<close>

definition agent_metadata_uri ::
  "(string list \<Rightarrow> string option) \<Rightarrow> string \<Rightarrow> string option \<Rightarrow> string list \<Rightarrow> string" where
  "agent_metadata_uri to_json node_pubkey api_url models =
     ''data:application/json,{\"name\":\"Pinaivu Node\",\"pubkey\":\"'' @ node_pubkey @
     ''\",\"apiUrl\":\"'' @ (case api_url of None \<Rightarrow> [] | Some u \<Rightarrow> u) @
     ''\",\"models\":'' @ (case to_json models of None \<Rightarrow> ''[]'' | Some j \<Rightarrow> j) @ ''}''"

definition evm_register_erc8004_agent ::
  "evm_env \<Rightarrow> 'w http \<Rightarrow> (string list \<Rightarrow> string option) \<Rightarrow> evm_config \<Rightarrow> string \<Rightarrow> string option \<Rightarrow>
     string list \<Rightarrow> ('w, string option) net" where
  "evm_register_erc8004_agent E post to_json cfg node_pubkey api_url models =
     (if ec_chain_id cfg \<noteq> arc_testnet \<and> ec_chain_id cfg \<noteq> arc_mainnet then ret None
      else
        andThen (evm_seed cfg) (\<lambda>seed.
        andThen (lift_codec (eth_address E seed)) (\<lambda>(addr, agent_addr).
        let calldata = encode_register_call E agent_addr
              (agent_metadata_uri to_json node_pubkey api_url models)
        in or_default
             (andThen (evm_send_transaction E post cfg
                ''0x8004A818BFB912233c491871b3d84c89A494BD9e'' calldata 0) (\<lambda>tx. ret (Some tx)))
             None)))"

definition evm_update_erc8004_reputation ::
  "evm_env \<Rightarrow> 'w http \<Rightarrow> evm_config \<Rightarrow> u64 \<Rightarrow> ('w, string option) net" where
  "evm_update_erc8004_reputation E post cfg score_bps =
     (if ec_chain_id cfg \<noteq> arc_testnet \<and> ec_chain_id cfg \<noteq> arc_mainnet then ret None
      else
        andThen (evm_seed cfg) (\<lambda>seed.
        andThen (lift_codec (eth_address E seed)) (\<lambda>(addr, agent_addr).
        let calldata = encode_update_reputation_call E agent_addr score_bps
        in or_default
             (andThen (evm_send_transaction E post cfg
                ''0x8004B663056A597Dffe9eCcC1965A193B7388713'' calldata 0) (\<lambda>tx. ret (Some tx)))
             None)))"

section \<open>The adapter\<close>

definition evm_capabilities :: settlement_capabilities where
  "evm_capabilities = \<lparr>cap_has_escrow = True, cap_has_token = True, cap_is_trustless = True,
     cap_finality_seconds = 15, cap_min_payment_nanox = 1000, cap_accepted_tokens = [''native'']\<rparr>"

text \<open>The node address of the bid when it is an EVM address, else the address of the signer.\<close>

definition evm_node_address :: "evm_env \<Rightarrow> evm_config \<Rightarrow> string \<Rightarrow> ('w, bytes) net" where
  "evm_node_address E cfg node_address =
     (case parse_addr E node_address of
        Inr a \<Rightarrow> ret a
      | Inl _ \<Rightarrow>
          with_ctx ''cannot resolve node address''
            (andThen (evm_seed cfg) (\<lambda>seed.
             andThen (lift_codec (eth_address E seed)) (\<lambda>(addr, s). ret addr))))"

definition evm_lock_funds ::
  "evm_env \<Rightarrow> 'w http \<Rightarrow> evm_config \<Rightarrow> escrow_params \<Rightarrow> ('w, escrow_handle) net" where
  "evm_lock_funds E post cfg params =
     andThen (evm_node_address E cfg (ep_node_address params)) (\<lambda>node_addr.
     let req_bytes = uuid_to_bytes32 (ep_request_id params)
     in andThen (with_ctx ''lockEscrow failed''
          (evm_lock_on_chain E post cfg req_bytes node_addr (ep_amount_nanox params))) (\<lambda>tx_hash.
        andThen (lift_outcome (tx_hash_to_escrow_id E tx_hash)) (\<lambda>escrow_id.
        ret \<lparr>eh_settlement_id = ec_id cfg, eh_request_id = ep_request_id params,
             eh_amount_nanox = ep_amount_nanox params, eh_chain_tx_id = Some tx_hash,
             eh_payload = JObj [(''tx_hash'', JStr tx_hash), (''escrow_id'', json_u64 escrow_id),
                                (''chain_id'', json_u64 (ec_chain_id cfg))]\<rparr>)))"

definition evm_handle_escrow_id :: "escrow_handle \<Rightarrow> ('w, u64) net" where
  "evm_handle_escrow_id h =
     lift_opt MissingEscrowId (Option.bind (json_get ''escrow_id'' (eh_payload h)) as_u64)"

definition evm_release_funds ::
  "crypto_env \<Rightarrow> evm_env \<Rightarrow> 'w http \<Rightarrow> evm_config \<Rightarrow> escrow_handle \<Rightarrow> proof_of_inference \<Rightarrow>
     ('w, unit) net" where
  "evm_release_funds C E post cfg h p =
     andThen (evm_handle_escrow_id h) (\<lambda>escrow_id.
     let proof_hash = poi_id C p
     in with_ctx ''releaseEscrow failed'' (evm_release_on_chain E post cfg escrow_id proof_hash))"

definition evm_refund_funds :: "evm_env \<Rightarrow> 'w http \<Rightarrow> evm_config \<Rightarrow> escrow_handle \<Rightarrow> ('w, unit) net" where
  "evm_refund_funds E post cfg h =
     andThen (evm_handle_escrow_id h) (\<lambda>escrow_id.
     with_ctx ''refundEscrow failed'' (evm_refund_on_chain E post cfg escrow_id))"

definition evm_get_balance :: "'w http \<Rightarrow> evm_config \<Rightarrow> string \<Rightarrow> ('w, nanox) net" where
  "evm_get_balance post cfg address =
     andThen (evm_rpc post cfg ''eth_getBalance'' (JArr [JStr address, JStr ''latest''])) (\<lambda>v.
     andThen (lift_opt (NotAString ''eth_getBalance'') (as_str v)) (\<lambda>s.
     case parse_hex_u64 s of
       Inr n \<Rightarrow> ret n
     | Inl _ \<Rightarrow> (case parse_hex_u128 s of Inl e \<Rightarrow> fail (CodecFailed e) | Inr _ \<Rightarrow> ret (- 1))))"

definition evm_anchor_hash ::
  "evm_env \<Rightarrow> 'w http \<Rightarrow> evm_config \<Rightarrow> bytes \<Rightarrow> string \<Rightarrow> ('w, string option) net" where
  "evm_anchor_hash E post cfg hash label =
     (let label_bytes = abi_bytes32 (str_bytes label)
      in andThen (with_ctx ''anchorRoot failed'' (evm_anchor_on_chain E post cfg hash label_bytes))
           (\<lambda>tx_hash. ret (Some tx_hash)))"

definition evm_adapter :: "crypto_env \<Rightarrow> evm_env \<Rightarrow> 'w http \<Rightarrow> evm_config \<Rightarrow> 'w adapter" where
  "evm_adapter C E post cfg = \<lparr>ad_id = ec_id cfg, ad_capabilities = evm_capabilities,
     ad_lock = (\<lambda>p. in_settle (evm_lock_funds E post cfg p)),
     ad_release = (\<lambda>h p. in_settle (evm_release_funds C E post cfg h p)),
     ad_refund = (\<lambda>h. in_settle (evm_refund_funds E post cfg h)),
     ad_balance = (\<lambda>a. in_settle (evm_get_balance post cfg a)),
     ad_anchor = (\<lambda>h l. in_settle (evm_anchor_hash E post cfg h l))\<rparr>"

lemma evm_lock_funds_handle:
  "evm_lock_funds E post cfg p w = (Inr h, w') \<Longrightarrow>
     eh_settlement_id h = ec_id cfg \<and> eh_request_id h = ep_request_id p \<and>
     eh_amount_nanox h = ep_amount_nanox p \<and>
     (\<exists>tx i. eh_chain_tx_id h = Some tx \<and> tx_hash_to_escrow_id E tx = Done i \<and>
        Option.bind (json_get ''escrow_id'' (eh_payload h)) as_u64 = Some i)"
  by (auto simp: evm_lock_funds_def net_simps Let_def)

text \<open>The adapter keeps nothing of its own: all its state is the chain.\<close>

interpretation evm: settlement_adapter "evm_adapter C E post cfg" "\<lambda>w. ()"
  for C E post cfg
  by unfold_locales (auto simp: evm_adapter_def net_simps dest: evm_lock_funds_handle)

section \<open>Properties\<close>

text \<open>Fees are valid for EIP-1559: whatever the endpoint answers, the maximum fee the node
  offers is at least the priority fee, and it is twice the gas price plus the priority fee
  unless that does not fit into 64 bits.\<close>

theorem evm_fee_params_valid:
  assumes "evm_fee_params post cfg w = (Inr (priority, max_fee), w')"
  shows "priority \<le> max_fee \<and>
    (\<exists>base :: u64. unat max_fee = min (min (2 * unat base) (2 ^ 64 - 1) + unat priority) (2 ^ 64 - 1))"
proof -
  obtain base where "max_fee = sat_add (sat_mul base 2) priority"
    using assms by (auto simp: evm_fee_params_def net_simps Let_def)
  then have m: "unat max_fee = min (min (2 * unat base) (2 ^ 64 - 1) + unat priority) (2 ^ 64 - 1)"
    by (simp add: word_arith mult.commute)
  moreover have "unat priority \<le> 2 ^ 64 - 1"
    using unat_lt [of priority] by simp
  ultimately have "unat priority \<le> unat max_fee"
    by simp
  then have "priority \<le> max_fee"
    by (simp add: word_le_nat_alt)
  with m show ?thesis
    by blast
qed

theorem evm_fee_params_valid_witness:
  "\<exists>w'. evm_fee_params (\<lambda>url body w. (Inr \<lparr>rpc_result = Some (JStr ''0x5''), rpc_error = None\<rparr>, w))
      \<lparr>ec_id = ''e'', ec_rpc_url = ''u'', ec_contract_address = ''c'',
      ec_chain_id = 1, ec_price_per_1k = 1, ec_token_id = ''native'', ec_signer_seed = None\<rparr> ()
    = (Inr (5, 15), w') \<and> (5 :: u64) \<le> 15"
proof -
  let ?post = "(\<lambda>url body w. (Inr \<lparr>rpc_result = Some (JStr ''0x5''), rpc_error = None\<rparr>, w)) :: unit http"
  let ?cfg = "\<lparr>ec_id = ''e'', ec_rpc_url = ''u'', ec_contract_address = ''c'',
      ec_chain_id = 1, ec_price_per_1k = 1, ec_token_id = ''native'', ec_signer_seed = None\<rparr>"
  have "parse_hex_u64 ''0x5'' = Okay 5"
    by (simp add: parse_hex_u64_def strip_0x_def from_str_radix16_def hex_digit_def Let_def)
  then have run: "evm_fee_params ?post ?cfg () = (Inr (5, 15), ())"
    by (simp add: evm_fee_params_def evm_rpc_def json_rpc_def andThen_def ret_def or_default_def
        lift_opt_def lift_codec_def sat_add_def sat_mul_def)
  show ?thesis
    using run evm_fee_params_valid [OF run] by blast
qed

text \<open>A handle issued by \<^verbatim>\<open>lock_funds\<close> is usable: release and refund never fail for a missing
  escrow id and call the contract with the id derived from the transaction hash of the lock.\<close>

theorem evm_handle_usable:
  assumes "evm_lock_funds E post cfg p w = (Inr h, w')"
  shows "\<exists>tx i. eh_chain_tx_id h = Some tx \<and> tx_hash_to_escrow_id E tx = Done i \<and>
    evm_release_funds C E post cfg h prf =
      with_ctx ''releaseEscrow failed'' (evm_release_on_chain E post cfg i (poi_id C prf)) \<and>
    evm_refund_funds E post cfg h =
      with_ctx ''refundEscrow failed'' (evm_refund_on_chain E post cfg i)"
proof -
  obtain tx i where t: "eh_chain_tx_id h = Some tx" "tx_hash_to_escrow_id E tx = Done i"
    and i: "Option.bind (json_get ''escrow_id'' (eh_payload h)) as_u64 = Some i"
    using evm_lock_funds_handle [OF assms] by blast
  from i have "evm_release_funds C E post cfg h prf =
      with_ctx ''releaseEscrow failed'' (evm_release_on_chain E post cfg i (poi_id C prf))"
    and "evm_refund_funds E post cfg h =
      with_ctx ''refundEscrow failed'' (evm_refund_on_chain E post cfg i)"
    by (simp_all add: evm_release_funds_def evm_refund_funds_def evm_handle_escrow_id_def
        lift_opt_def andThen_def ret_def Let_def fun_eq_iff)
  with t show ?thesis
    by blast
qed

theorem evm_handle_usable_witness:
  "\<exists>E post cfg p h i. evm_lock_funds E post cfg p () = (Inr h, ()) \<and>
     evm_refund_funds E post cfg h =
       with_ctx ''refundEscrow failed'' (evm_refund_on_chain E post cfg i)"
proof -
  define E where "E = \<lparr>keccak256 = (\<lambda>x. replicate 32 0), evm_hex_encode = (\<lambda>b. []),
      evm_hex_decode = (\<lambda>s. Some (replicate 20 0)), sk_public = (\<lambda>s. Some (replicate 65 0)),
      sk_sign = (\<lambda>s h. Some (0, [], []))\<rparr>"
  let ?post = "(\<lambda>url body w. (Inr \<lparr>rpc_result = Some (JStr ''0x5''), rpc_error = None\<rparr>, w)) :: unit http"
  let ?cfg = "\<lparr>ec_id = ''e'', ec_rpc_url = ''u'', ec_contract_address = ''c'', ec_chain_id = 1,
      ec_price_per_1k = 1, ec_token_id = ''native'', ec_signer_seed = Some (replicate 32 1)\<rparr>"
  let ?p = "\<lparr>ep_request_id = 1, ep_amount_nanox = 5, ep_client_address = ''c'',
      ep_node_address = ''n'', ep_token_id = ''native''\<rparr>"
  have num: "parse_hex_u64 ''0x5'' = Okay 5"
    by (simp add: parse_hex_u64_def strip_0x_def from_str_radix16_def hex_digit_def Let_def)
  have addr: "parse_addr E s = Okay (replicate 20 0)" for s
    by (simp add: E_def parse_addr_def)
  obtain a b where own: "eth_address E (replicate 32 1) = Okay (a, b)"
    by (simp add: E_def eth_address_def Let_def)
  have signed: "\<exists>raw. sign_eip1559 E 1 n f g m t v d k = Okay raw" for n f g m t v d k
    by (simp add: E_def sign_eip1559_def Let_def)
  have sent: "evm_send_tx E ?post ?cfg d v () = (Inr ''0x5'', ())" for d v
    using signed [of 5 5 15 6 "replicate 20 0" v d "replicate 32 1"]
    by (auto simp: evm_send_tx_def evm_seed_def evm_get_nonce_def evm_fee_params_def
        evm_estimate_gas_def evm_rpc_def json_rpc_def andThen_def addr own num
        ret_def or_default_def with_ctx_def lift_opt_def lift_codec_def sat_add_def sat_mul_def)
  have "\<exists>h. evm_lock_funds E ?post ?cfg ?p () = (Inr h, ())"
    by (simp add: evm_lock_funds_def evm_node_address_def addr evm_lock_on_chain_def sent
        andThen_def ret_def with_ctx_def lift_outcome_def tx_hash_to_escrow_id_def strip_0x_def
        char_boundary_def Let_def)
  then obtain h where "evm_lock_funds E ?post ?cfg ?p () = (Inr h, ())"
    by blast
  with evm_handle_usable [OF this] show ?thesis
    by blast
qed

end
