(* ===== verification/Payment_Channel.thy ===== *)
theory Payment_Channel
  imports Evm_Settlement
begin

text \<open>The payment channel adapter of \<^verbatim>\<open>crates/settlement/src/channel.rs\<close>: off-chain channel
  states with optional on-chain open, close and refund. The chain helper repeats the JSON-RPC
  code of the EVM adapter on its own configuration. The state of the adapter is the pair of its
  channels and the external world.\<close>

section \<open>Chain helper\<close>

record channel_chain_config =
  cc_rpc_url :: string
  cc_contract_address :: string
  cc_chain_id :: u64
  cc_signer_seed :: bytes

text \<open>The chain configuration in the form the JSON-RPC helpers take.\<close>

definition chain_as_evm :: "channel_chain_config \<Rightarrow> evm_config" where
  "chain_as_evm cfg = \<lparr>ec_id = ''channel'', ec_rpc_url = cc_rpc_url cfg,
     ec_contract_address = cc_contract_address cfg, ec_chain_id = cc_chain_id cfg,
     ec_price_per_1k = 0, ec_token_id = ''native'', ec_signer_seed = Some (cc_signer_seed cfg)\<rparr>"

definition ch_rpc :: "'w http \<Rightarrow> channel_chain_config \<Rightarrow> string \<Rightarrow> json \<Rightarrow> ('w, json) net" where
  "ch_rpc post cfg meth params = json_rpc post (cc_rpc_url cfg) meth params"

definition ch_get_nonce :: "'w http \<Rightarrow> channel_chain_config \<Rightarrow> string \<Rightarrow> ('w, u64) net" where
  "ch_get_nonce post cfg addr = evm_get_nonce post (chain_as_evm cfg) addr"

definition ch_fee_params :: "'w http \<Rightarrow> channel_chain_config \<Rightarrow> ('w, u64 \<times> u64) net" where
  "ch_fee_params post cfg = evm_fee_params post (chain_as_evm cfg)"

definition ch_estimate_gas ::
  "evm_env \<Rightarrow> 'w http \<Rightarrow> channel_chain_config \<Rightarrow> string \<Rightarrow> bytes \<Rightarrow> u64 \<Rightarrow> ('w, u64) net" where
  "ch_estimate_gas E post cfg from_a calldata val =
     evm_estimate_gas E post (chain_as_evm cfg) from_a calldata val"

definition ch_send_tx ::
  "evm_env \<Rightarrow> 'w http \<Rightarrow> channel_chain_config \<Rightarrow> bytes \<Rightarrow> u64 \<Rightarrow> ('w, string) net" where
  "ch_send_tx E post cfg calldata val =
     (let seed = cc_signer_seed cfg in
     andThen (lift_codec (eth_address E seed)) (\<lambda>(addr, from_str).
     andThen (with_ctx ''invalid contract_address'' (lift_codec (parse_addr E (cc_contract_address cfg)))) (\<lambda>to_b.
     andThen (ch_get_nonce post cfg from_str) (\<lambda>nonce.
     andThen (ch_fee_params post cfg) (\<lambda>(max_prio, max_fee).
     andThen (or_default (ch_estimate_gas E post cfg from_str calldata val) 300000) (\<lambda>gas.
     andThen (lift_codec
       (sign_eip1559 E (cc_chain_id cfg) nonce max_prio max_fee gas to_b val calldata seed)) (\<lambda>raw.
     andThen (with_ctx ''eth_sendRawTransaction failed''
       (ch_rpc post cfg ''eth_sendRawTransaction'' (JArr [JStr (''0x'' @ evm_hex_encode E raw)]))) (\<lambda>v.
     lift_opt (NotAString ''eth_sendRawTransaction'') (as_str v)))))))))"

definition ch_open_channel ::
  "evm_env \<Rightarrow> 'w http \<Rightarrow> channel_chain_config \<Rightarrow> bytes \<Rightarrow> bytes \<Rightarrow> u64 \<Rightarrow> ('w, string) net" where
  "ch_open_channel E post cfg channel_id node amount =
     ch_send_tx E post cfg
       (abi_call (abi_selector E ''openChannel(bytes32,address)'')
         [abi_bytes32 channel_id, abi_address node]) amount"

definition ch_close_channel ::
  "evm_env \<Rightarrow> 'w http \<Rightarrow> channel_chain_config \<Rightarrow> bytes \<Rightarrow> u64 \<Rightarrow> ('w, unit) net" where
  "ch_close_channel E post cfg channel_id node_balance =
     andThen (ch_send_tx E post cfg
       (abi_call (abi_selector E ''closeChannel(bytes32,uint256)'')
         [abi_bytes32 channel_id, abi_uint256 node_balance]) 0) (\<lambda>_. ret ())"

definition ch_refund_channel ::
  "evm_env \<Rightarrow> 'w http \<Rightarrow> channel_chain_config \<Rightarrow> bytes \<Rightarrow> ('w, unit) net" where
  "ch_refund_channel E post cfg channel_id =
     andThen (ch_send_tx E post cfg
       (abi_call (abi_selector E ''refundChannel(bytes32)'') [abi_bytes32 channel_id]) 0) (\<lambda>_. ret ())"

definition channel_id_from_uuid :: "uuid \<Rightarrow> bytes" where
  "channel_id_from_uuid u = be_bytes 16 (unat u) @ replicate 16 0"

section \<open>Channel states\<close>

record channel_state =
  cs_request_id :: uuid
  cs_balance_client :: nanox
  cs_balance_node :: nanox
  cs_seq :: u64
  cs_opened_at :: u64
  cs_settled :: bool

record payment_channel =
  pc_channels :: "string \<rightharpoonup> channel_state"
  pc_total_settled :: nanox
  pc_chain :: "channel_chain_config option"

definition channel_new :: payment_channel where
  "channel_new = \<lparr>pc_channels = Map.empty, pc_total_settled = 0, pc_chain = None\<rparr>"

definition channel_with_chain :: "channel_chain_config \<Rightarrow> payment_channel" where
  "channel_with_chain cfg = \<lparr>pc_channels = Map.empty, pc_total_settled = 0, pc_chain = Some cfg\<rparr>"

definition channel_total_settled :: "payment_channel \<Rightarrow> nanox" where
  "channel_total_settled c = pc_total_settled c"

definition channel_capabilities :: settlement_capabilities where
  "channel_capabilities = \<lparr>cap_has_escrow = True, cap_has_token = True, cap_is_trustless = True,
     cap_finality_seconds = 0, cap_min_payment_nanox = 1, cap_accepted_tokens = [''native'']\<rparr>"

text \<open>The environment of the adapter: hashing and signing, HTTP, the text form of UUIDs and the
  clock.\<close>

record 'w channel_env =
  ce_evm :: evm_env
  ce_crypto :: crypto_env
  ce_post :: "'w http"
  ce_uuid_str :: "uuid \<Rightarrow> string"
  ce_now :: u64

text \<open>The on-chain half of \<^verbatim>\<open>lock_funds\<close>: transaction hash and handle payload.\<close>

definition channel_open_on_chain ::
  "'w channel_env \<Rightarrow> channel_chain_config option \<Rightarrow> escrow_params \<Rightarrow> ('w, string option \<times> json) net" where
  "channel_open_on_chain N chain params =
     (case chain of
        None \<Rightarrow> ret (None, JObj [(''client'', JStr (ep_client_address params)),
                               (''node'', JStr (ep_node_address params)), (''seq'', JNum 0)])
      | Some cfg \<Rightarrow>
          let E = ce_evm N; channel_id = channel_id_from_uuid (ep_request_id params) in
          andThen (with_ctx ''cannot resolve node address''
            (case parse_addr E (ep_node_address params) of
               Inr a \<Rightarrow> ret a
             | Inl _ \<Rightarrow> andThen (lift_codec (eth_address E (cc_signer_seed cfg))) (\<lambda>(addr, s). ret addr))) (\<lambda>node_addr.
          andThen (with_ctx ''openChannel failed''
            (ch_open_channel E (ce_post N) cfg channel_id node_addr (ep_amount_nanox params))) (\<lambda>tx_hash.
          ret (Some tx_hash,
               JObj [(''client'', JStr (ep_client_address params)),
                     (''node'', JStr (ep_node_address params)), (''seq'', JNum 0),
                     (''channel_id'', JStr (evm_hex_encode E channel_id)),
                     (''tx_hash'', JStr tx_hash), (''chain_id'', json_u64 (cc_chain_id cfg))]))))"

definition channel_lock_funds ::
  "'w channel_env \<Rightarrow> escrow_params \<Rightarrow> (payment_channel \<times> 'w, escrow_handle) settle" where
  "channel_lock_funds N params st =
     (let c = fst st; w = snd st; key = ce_uuid_str N (ep_request_id params)
      in if pc_channels c key \<noteq> None then (Inl ChannelExists, st)
         else case channel_open_on_chain N (pc_chain c) params w of
                (Inl e, w') \<Rightarrow> (Inl (NetError e), (c, w'))
              | (Inr (chain_tx_id, payload), w') \<Rightarrow>
                  let state = \<lparr>cs_request_id = ep_request_id params,
                        cs_balance_client = ep_amount_nanox params, cs_balance_node = 0, cs_seq = 0,
                        cs_opened_at = ce_now N, cs_settled = False\<rparr>
                  in (Inr \<lparr>eh_settlement_id = ''channel'', eh_request_id = ep_request_id params,
                           eh_amount_nanox = ep_amount_nanox params, eh_chain_tx_id = chain_tx_id,
                           eh_payload = payload\<rparr>,
                      (c\<lparr>pc_channels := (pc_channels c)(key \<mapsto> state)\<rparr>, w')))"

definition channel_release_funds ::
  "'w channel_env \<Rightarrow> escrow_handle \<Rightarrow> proof_of_inference \<Rightarrow> (payment_channel \<times> 'w, unit) settle" where
  "channel_release_funds N h p st =
     (let c = fst st; w = snd st; key = ce_uuid_str N (eh_request_id h)
      in case pc_channels c key of
           None \<Rightarrow> (Inl ChannelMissing, st)
         | Some state \<Rightarrow>
             if cs_settled state then (Inr (), st)
             else
               let cost = poi_price_paid_nanox p in
               if cost > cs_balance_client state then
                 (Inl (CostExceedsBalance cost (cs_balance_client state)), st)
               else
                 let state' = state\<lparr>cs_balance_client := cs_balance_client state - cost,
                       cs_balance_node := cs_balance_node state + cost,
                       cs_seq := cs_seq state + 1, cs_settled := True\<rparr>;
                     c' = c\<lparr>pc_channels := (pc_channels c)(key \<mapsto> state'),
                            pc_total_settled := pc_total_settled c + cost\<rparr>
                 in case pc_chain c of
                      None \<Rightarrow> (Inr (), (c', w))
                    | Some cfg \<Rightarrow>
                        (Inr (), (c', snd (ch_close_channel (ce_evm N) (ce_post N) cfg
                           (channel_id_from_uuid (eh_request_id h)) (cs_balance_node state') w))))"

definition channel_refund_funds ::
  "'w channel_env \<Rightarrow> escrow_handle \<Rightarrow> (payment_channel \<times> 'w, unit) settle" where
  "channel_refund_funds N h st =
     (let c = fst st; w = snd st; key = ce_uuid_str N (eh_request_id h)
      in case pc_channels c key of
           None \<Rightarrow> (Inl ChannelMissing, st)
         | Some state \<Rightarrow>
             if cs_settled state then (Inr (), st)
             else
               let c' = c\<lparr>pc_channels := (pc_channels c)(key \<mapsto> state\<lparr>cs_settled := True\<rparr>)\<rparr>
               in case pc_chain c of
                    None \<Rightarrow> (Inr (), (c', w))
                  | Some cfg \<Rightarrow>
                      (Inr (), (c', snd (ch_refund_channel (ce_evm N) (ce_post N) cfg
                         (channel_id_from_uuid (eh_request_id h)) w))))"

definition channel_adapter :: "'w channel_env \<Rightarrow> (payment_channel \<times> 'w) adapter" where
  "channel_adapter N = \<lparr>ad_id = ''channel'', ad_capabilities = channel_capabilities,
     ad_lock = channel_lock_funds N, ad_release = channel_release_funds N,
     ad_refund = channel_refund_funds N, ad_balance = default_balance, ad_anchor = default_anchor\<rparr>"

text \<open>A lock that fails leaves the channels as they were, even if the chain has moved.\<close>

interpretation channel: settlement_adapter "channel_adapter N" fst
  for N
  by unfold_locales
    (auto simp: channel_adapter_def channel_lock_funds_def Let_def split: if_splits prod.splits sum.splits)

section \<open>Steps and runs\<close>

text \<open>One call on the adapter, under any environment, or a move of the outside world. The label is
  what a successful lock has put into a channel.\<close>

inductive channel_step ::
  "payment_channel \<times> 'w \<Rightarrow> (string \<times> nanox) option \<Rightarrow> payment_channel \<times> 'w \<Rightarrow> bool"
where
  lock: "channel_lock_funds N p st = (Inr h, st') \<Longrightarrow>
    channel_step st (Some (ce_uuid_str N (ep_request_id p), ep_amount_nanox p)) st'"
| lock_failed: "channel_lock_funds N p st = (Inl e, st') \<Longrightarrow> channel_step st None st'"
| release: "channel_release_funds N h p st = (r, st') \<Longrightarrow> channel_step st None st'"
| refund: "channel_refund_funds N h st = (r, st') \<Longrightarrow> channel_step st None st'"
| world: "channel_step (c, w) None (c, w')"

text \<open>Runs from a new adapter, with everything that was ever locked.\<close>

inductive channel_run :: "(string \<rightharpoonup> nanox) \<Rightarrow> payment_channel \<times> 'w \<Rightarrow> bool" where
  new: "channel_run Map.empty (channel_new, w)"
| with_chain: "channel_run Map.empty (channel_with_chain cfg, w)"
| locked: "channel_run L st \<Longrightarrow> channel_step st (Some (k, a)) st' \<Longrightarrow> channel_run (L(k \<mapsto> a)) st'"
| other: "channel_run L st \<Longrightarrow> channel_step st None st' \<Longrightarrow> channel_run L st'"

text \<open>What a step does to the channels: nothing, open a new one, or settle an open one.\<close>

definition channel_effect ::
  "payment_channel \<Rightarrow> (string \<times> nanox) option \<Rightarrow> payment_channel \<Rightarrow> bool" where
  "channel_effect c l c' \<longleftrightarrow>
     (l = None \<and> c' = c) \<or>
     (\<exists>k a s. l = Some (k, a) \<and> pc_channels c k = None \<and>
        cs_balance_client s = a \<and> cs_balance_node s = 0 \<and> \<not> cs_settled s \<and>
        pc_channels c' = (pc_channels c)(k \<mapsto> s) \<and> pc_total_settled c' = pc_total_settled c) \<or>
     (\<exists>k s cost. l = None \<and> pc_channels c k = Some s \<and> \<not> cs_settled s \<and> cost \<le> cs_balance_client s \<and>
        (\<exists>s'. cs_settled s' \<and> cs_balance_client s' = cs_balance_client s - cost \<and>
           cs_balance_node s' = cs_balance_node s + cost \<and>
           pc_channels c' = (pc_channels c)(k \<mapsto> s')) \<and>
        pc_total_settled c' = pc_total_settled c + cost)"

lemma channel_lock_effect:
  assumes "channel_lock_funds N p st = (Inr h, st')"
  shows "channel_effect (fst st) (Some (ce_uuid_str N (ep_request_id p), ep_amount_nanox p)) (fst st')"
proof -
  let ?k = "ce_uuid_str N (ep_request_id p)"
  let ?s = "\<lparr>cs_request_id = ep_request_id p, cs_balance_client = ep_amount_nanox p,
      cs_balance_node = 0, cs_seq = 0, cs_opened_at = ce_now N, cs_settled = False\<rparr>"
  have "pc_channels (fst st) ?k = None"
    and "fst st' = (fst st)\<lparr>pc_channels := (pc_channels (fst st))(?k \<mapsto> ?s)\<rparr>"
    using assms by (auto simp: channel_lock_funds_def Let_def split: if_splits prod.splits sum.splits)
  then show ?thesis
    unfolding channel_effect_def
    by (intro disjI2 disjI1 exI [of _ ?k] exI [of _ "ep_amount_nanox p"] exI [of _ ?s] conjI) simp_all
qed

lemma channel_lock_failed_effect:
  "channel_lock_funds N p st = (Inl e, st') \<Longrightarrow> channel_effect (fst st) None (fst st')"
  by (auto simp: channel_lock_funds_def channel_effect_def Let_def split: if_splits prod.splits sum.splits)

lemma channel_release_effect:
  assumes "channel_release_funds N h p st = (r, st')"
  shows "channel_effect (fst st) None (fst st')"
proof (cases "fst st' = fst st")
  case False
  with assms obtain s where s: "pc_channels (fst st) (ce_uuid_str N (eh_request_id h)) = Some s"
      "\<not> cs_settled s" "poi_price_paid_nanox p \<le> cs_balance_client s"
    by (auto simp: channel_release_funds_def Let_def not_less split: option.splits if_splits)
  let ?s = "s\<lparr>cs_balance_client := cs_balance_client s - poi_price_paid_nanox p,
      cs_balance_node := cs_balance_node s + poi_price_paid_nanox p,
      cs_seq := cs_seq s + 1, cs_settled := True\<rparr>"
  have "fst st' = (fst st)\<lparr>pc_channels := (pc_channels (fst st))(ce_uuid_str N (eh_request_id h) \<mapsto> ?s),
      pc_total_settled := pc_total_settled (fst st) + poi_price_paid_nanox p\<rparr>"
    using assms s by (auto simp: channel_release_funds_def Let_def not_less split: option.splits if_splits)
  with s show ?thesis
    unfolding channel_effect_def by (intro disjI2 exI [of _ "ce_uuid_str N (eh_request_id h)"]
        exI [of _ s] exI [of _ "poi_price_paid_nanox p"] conjI exI [of _ ?s]) simp_all
qed (simp add: channel_effect_def)

lemma channel_refund_effect:
  assumes "channel_refund_funds N h st = (r, st')"
  shows "channel_effect (fst st) None (fst st')"
proof (cases "fst st' = fst st")
  case False
  with assms obtain s where s: "pc_channels (fst st) (ce_uuid_str N (eh_request_id h)) = Some s"
      "\<not> cs_settled s"
    by (auto simp: channel_refund_funds_def Let_def split: option.splits if_splits)
  have "fst st' = (fst st)\<lparr>pc_channels :=
      (pc_channels (fst st))(ce_uuid_str N (eh_request_id h) \<mapsto> s\<lparr>cs_settled := True\<rparr>)\<rparr>"
    using assms s by (auto simp: channel_refund_funds_def Let_def split: option.splits)
  with s show ?thesis
    unfolding channel_effect_def by (intro disjI2 exI [of _ "ce_uuid_str N (eh_request_id h)"]
        exI [of _ s] exI [of _ 0] conjI exI [of _ "s\<lparr>cs_settled := True\<rparr>"]) simp_all
qed (simp add: channel_effect_def)

lemmas channel_effects = channel_lock_effect channel_lock_failed_effect channel_release_effect
  channel_refund_effect

lemma channel_step_effect: "channel_step st l st' \<Longrightarrow> channel_effect (fst st) l (fst st')"
proof (induction rule: channel_step.induct)
  case (world c w w')
  then show ?case
    by (simp add: channel_effect_def)
qed (rule channel_effects; assumption)+

section \<open>Conservation\<close>

definition node_total :: "(string \<rightharpoonup> channel_state) \<Rightarrow> nanox" where
  "node_total m = (\<Sum>k\<in>dom m. cs_balance_node (the (m k)))"

lemma node_total_upd_new:
  "finite (dom m) \<Longrightarrow> m k = None \<Longrightarrow> node_total (m(k \<mapsto> s)) = cs_balance_node s + node_total m"
proof -
  assume fin: "finite (dom m)" and new: "m k = None"
  then have "node_total (m(k \<mapsto> s)) =
      cs_balance_node s + (\<Sum>j\<in>dom m. cs_balance_node (the ((m(k \<mapsto> s)) j)))"
    by (simp add: node_total_def domIff)
  also have "(\<Sum>j\<in>dom m. cs_balance_node (the ((m(k \<mapsto> s)) j))) = node_total m"
    unfolding node_total_def using new by (intro sum.cong) (auto simp: domIff)
  finally show ?thesis .
qed

lemma node_total_upd:
  assumes "finite (dom m)" "m k = Some s"
  shows "node_total (m(k \<mapsto> s')) = node_total m - cs_balance_node s + cs_balance_node s'"
proof -
  let ?r = "m(k := None)"
  have "m = ?r(k \<mapsto> s)" "m(k \<mapsto> s') = ?r(k \<mapsto> s')"
    using assms(2) by auto
  moreover have "finite (dom ?r)"
    using assms(1) by simp
  ultimately show ?thesis
    using node_total_upd_new [of ?r k s] node_total_upd_new [of ?r k s'] by simp
qed

text \<open>Every channel holds exactly what was locked into it, money is paid to the node only in a
  settled channel, and the running total is the sum of all payments.\<close>

definition channel_inv :: "(string \<rightharpoonup> nanox) \<Rightarrow> payment_channel \<Rightarrow> bool" where
  "channel_inv L c \<longleftrightarrow>
     finite (dom (pc_channels c)) \<and> dom (pc_channels c) = dom L \<and>
     pred_map_ok (\<lambda>k s. unat (cs_balance_client s) + unat (cs_balance_node s) = unat (the (L k)) \<and>
        (cs_balance_node s = 0 \<or> cs_settled s)) (pc_channels c) \<and>
     pc_total_settled c = node_total (pc_channels c)"

lemma channel_inv_open:
  assumes "channel_inv L c" "channel_effect c (Some (k, a)) c'"
  shows "channel_inv (L(k \<mapsto> a)) c'"
proof -
  obtain s where s: "pc_channels c k = None" "cs_balance_client s = a" "cs_balance_node s = 0"
      "pc_channels c' = (pc_channels c)(k \<mapsto> s)" "pc_total_settled c' = pc_total_settled c"
    using assms(2) by (auto simp: channel_effect_def)
  with assms(1) show ?thesis
    by (auto simp: channel_inv_def node_total_upd_new pred_map_ok_def)
qed

lemma channel_inv_settle:
  assumes "channel_inv L c" "channel_effect c None c'"
  shows "channel_inv L c'"
proof (cases "c' = c")
  case False
  then obtain k s s' cost where s: "pc_channels c k = Some s" "\<not> cs_settled s"
      "cost \<le> cs_balance_client s" "cs_settled s'"
      "cs_balance_client s' = cs_balance_client s - cost"
      "cs_balance_node s' = cs_balance_node s + cost"
      "pc_channels c' = (pc_channels c)(k \<mapsto> s')"
      "pc_total_settled c' = pc_total_settled c + cost"
    using assms(2) by (auto simp: channel_effect_def)
  have old: "unat (cs_balance_client s) + unat (cs_balance_node s) = unat (the (L k))"
      "cs_balance_node s = 0"
    using assms(1) s(1,2) by (auto simp: channel_inv_def dest: pred_map_okD)
  have "unat (cs_balance_client s - cost) + unat cost = unat (cs_balance_client s)"
    using s(3) by (simp add: unat_sub word_le_nat_alt)
  with assms(1) s old show ?thesis
    by (auto simp: channel_inv_def node_total_upd pred_map_ok_def)
qed (use assms in simp)

lemma channel_run_inv: "channel_run L st \<Longrightarrow> channel_inv L (fst st)"
proof (induction rule: channel_run.induct)
  case (locked L st k a st')
  then show ?case
    using channel_inv_open channel_step_effect by blast
next
  case (other L st st')
  then show ?case
    using channel_inv_settle channel_step_effect by blast
qed (simp_all add: channel_inv_def channel_new_def channel_with_chain_def node_total_def)

section \<open>Properties\<close>

text \<open>An environment for the witnesses: no chain, requests named by a constant.\<close>

definition demo_channel_env :: "unit channel_env" where
  "demo_channel_env = \<lparr>ce_evm = \<lparr>keccak256 = (\<lambda>x. []), evm_hex_encode = (\<lambda>b. []),
      evm_hex_decode = (\<lambda>s. None), sk_public = (\<lambda>s. None), sk_sign = (\<lambda>s h. None)\<rparr>,
     ce_crypto = \<lparr>json_signable = (\<lambda>s. []), sha256 = (\<lambda>b. b), vk_from_bytes_ok = (\<lambda>k. True),
      ed25519_verify = (\<lambda>k m s. True), hex_encode = (\<lambda>b. [])\<rparr>,
     ce_post = (\<lambda>url body w. (Inl HttpError, w)), ce_uuid_str = (\<lambda>u. ''r''), ce_now = 7\<rparr>"

definition demo_lock :: escrow_params where
  "demo_lock = \<lparr>ep_request_id = 1, ep_amount_nanox = 10, ep_client_address = ''c'',
     ep_node_address = ''n'', ep_token_id = ''native''\<rparr>"

lemma demo_lock_step:
  "channel_step (channel_new, ()) (Some (''r'', 10))
     (channel_new\<lparr>pc_channels := [''r'' \<mapsto> \<lparr>cs_request_id = 1, cs_balance_client = 10,
        cs_balance_node = 0, cs_seq = 0, cs_opened_at = 7, cs_settled = False\<rparr>]\<rparr>, ())"
proof -
  have "\<exists>h. channel_lock_funds demo_channel_env demo_lock (channel_new, ()) = (Inr h,
     (channel_new\<lparr>pc_channels := [''r'' \<mapsto> \<lparr>cs_request_id = 1, cs_balance_client = 10,
        cs_balance_node = 0, cs_seq = 0, cs_opened_at = 7, cs_settled = False\<rparr>]\<rparr>, ()))"
    by (simp add: channel_lock_funds_def channel_open_on_chain_def channel_new_def
        demo_channel_env_def demo_lock_def ret_def Let_def)
  then show ?thesis
    using channel_step.lock [of demo_channel_env demo_lock]
    by (auto simp: demo_channel_env_def demo_lock_def)
qed

text \<open>C9: conservation. In every reachable state of the channel adapter, with or without a
  chain, each channel splits exactly the amount that was locked for it between client and node,
  the node is paid only in a settled channel, and the adapter's total is the sum of what the
  node was paid.\<close>

theorem channel_conservation:
  assumes "channel_run L (c, w)"
  shows "dom (pc_channels c) = dom L \<and>
    pred_map_ok (\<lambda>k s. unat (cs_balance_client s) + unat (cs_balance_node s) = unat (the (L k)) \<and>
       (cs_balance_node s = 0 \<or> cs_settled s)) (pc_channels c) \<and>
    channel_total_settled c = node_total (pc_channels c)"
  using channel_run_inv [OF assms] by (simp add: channel_inv_def channel_total_settled_def)

theorem channel_conservation_witness:
  "\<exists>c. dom (pc_channels c) = {''r''} \<and> channel_total_settled c = node_total (pc_channels c)"
proof -
  define c where "c = channel_new\<lparr>pc_channels := [''r'' \<mapsto> \<lparr>cs_request_id = 1,
      cs_balance_client = 10, cs_balance_node = 0, cs_seq = 0, cs_opened_at = 7, cs_settled = False\<rparr>]\<rparr>"
  have run: "channel_run ((\<lambda>k. None)(''r'' \<mapsto> 10)) (c, ())"
    unfolding c_def by (rule channel_run.locked [OF channel_run.new demo_lock_step])
  note all = channel_conservation [OF run]
  have "dom (pc_channels c) = {''r''}"
    using conjunct1 [OF all] by (simp only: dom_fun_upd option.simps if_False dom_empty)
  moreover have "channel_total_settled c = node_total (pc_channels c)"
    using all by (elim conjE)
  ultimately show ?thesis
    by blast
qed

text \<open>C10: settlement is final. Whatever calls follow, with whatever handles, proofs and chain
  answers, a settled channel never changes again: no second payment, no refund after a payment,
  no payment after a refund, no reopening under the same request.\<close>

theorem channel_settled_final:
  assumes "(\<lambda>st st'. \<exists>l. channel_step st l st')\<^sup>*\<^sup>* st st'"
    and "pc_channels (fst st) k = Some s" "cs_settled s"
  shows "pc_channels (fst st') k = Some s"
  using assms(1)
proof (induction rule: rtranclp_induct)
  case (step st1 st2)
  then obtain l where "channel_effect (fst st1) l (fst st2)"
    using channel_step_effect by blast
  with step.IH assms(3) show ?case
    by (auto simp: channel_effect_def)
qed (rule assms(2))

theorem channel_settled_final_witness:
  "pc_channels (fst (snd (channel_refund_funds demo_channel_env
      \<lparr>eh_settlement_id = ''channel'', eh_request_id = 1, eh_amount_nanox = 10, eh_chain_tx_id = None,
       eh_payload = JNull\<rparr>
     (channel_new\<lparr>pc_channels := [''r'' \<mapsto> \<lparr>cs_request_id = 1, cs_balance_client = 4,
        cs_balance_node = 6, cs_seq = 1, cs_opened_at = 7, cs_settled = True\<rparr>]\<rparr>, ())))) ''r''
   = Some \<lparr>cs_request_id = 1, cs_balance_client = 4, cs_balance_node = 6, cs_seq = 1,
           cs_opened_at = 7, cs_settled = True\<rparr>"
proof -
  let ?h = "\<lparr>eh_settlement_id = ''channel'', eh_request_id = 1, eh_amount_nanox = 10,
      eh_chain_tx_id = None, eh_payload = JNull\<rparr>"
  let ?s = "\<lparr>cs_request_id = 1, cs_balance_client = 4, cs_balance_node = 6, cs_seq = 1,
      cs_opened_at = 7, cs_settled = True\<rparr>"
  let ?st = "(channel_new\<lparr>pc_channels := [''r'' \<mapsto> ?s]\<rparr>, ())"
  have "(\<lambda>st st'. \<exists>l. channel_step st l st')\<^sup>*\<^sup>* ?st
      (snd (channel_refund_funds demo_channel_env ?h ?st))"
    by (intro r_into_rtranclp exI) (rule channel_step.refund [OF prod.collapse [symmetric]])
  from channel_settled_final [OF this, of "''r''" ?s] show ?thesis
    by simp
qed

text \<open>What release does on every branch: an unknown request is an error, a settled channel
  is left alone, a price above the client's balance is an error, and otherwise the channel is
  settled with exactly that price moved, even if closing it on chain fails.\<close>

theorem channel_release_spec:
  fixes h :: escrow_handle and N :: "'w channel_env"
  defines "k \<equiv> ce_uuid_str N (eh_request_id h)"
  shows "case pc_channels c k of
      None \<Rightarrow> channel_release_funds N h p (c, w) = (Inl ChannelMissing, (c, w))
    | Some s \<Rightarrow>
        (if cs_settled s then channel_release_funds N h p (c, w) = (Inr (), (c, w))
         else if cs_balance_client s < poi_price_paid_nanox p then
           channel_release_funds N h p (c, w)
             = (Inl (CostExceedsBalance (poi_price_paid_nanox p) (cs_balance_client s)), (c, w))
         else \<exists>s' w'. channel_release_funds N h p (c, w) =
             (Inr (), (c\<lparr>pc_channels := (pc_channels c)(k \<mapsto> s'),
                         pc_total_settled := pc_total_settled c + poi_price_paid_nanox p\<rparr>, w')) \<and>
           cs_settled s' \<and> cs_seq s' = cs_seq s + 1 \<and>
           cs_balance_client s' = cs_balance_client s - poi_price_paid_nanox p \<and>
           cs_balance_node s' = cs_balance_node s + poi_price_paid_nanox p)"
proof (cases "pc_channels c k")
  case (Some s)
  then show ?thesis
    by (cases "pc_chain c") (auto simp: channel_release_funds_def Let_def k_def [symmetric])
qed (simp add: channel_release_funds_def Let_def k_def)

end
