(* ===== verification/Peer_Registry.thy ===== *)
theory Peer_Registry
  imports Node_Types
begin

text \<open>\<^verbatim>\<open>crates/persistence/src/peer.rs\<close> and \<^verbatim>\<open>nonce.rs\<close>: the registry of live peers and the
  replay-protection set, in memory and over Redis. The clock is an argument in milliseconds; the
  iteration order of a hash map is an argument \<open>order\<close>; a Redis connection is a record of
  the commands the code issues.\<close>

section \<open>Peers in memory\<close>

definition default_peer_ttl_ms :: u64 where
  "default_peer_ttl_ms = 600000"

record peer_entry =
  pe_caps :: node_capabilities
  pe_last_seen_ms :: u64

record peer_store =
  ps_inner :: "string \<rightharpoonup> peer_entry"
  ps_ttl_ms :: u64

definition peer_new :: "u64 \<Rightarrow> peer_store" where
  "peer_new ttl_ms = \<lparr>ps_inner = Map.empty, ps_ttl_ms = ttl_ms\<rparr>"

definition peer_with_default_ttl :: peer_store where
  "peer_with_default_ttl = peer_new default_peer_ttl_ms"

definition peer_is_live :: "peer_store \<Rightarrow> peer_entry \<Rightarrow> u64 \<Rightarrow> bool" where
  "peer_is_live s e now = (sat_sub now (pe_last_seen_ms e) < ps_ttl_ms s)"

definition peer_upsert :: "u64 \<Rightarrow> node_capabilities \<Rightarrow> peer_store \<Rightarrow> peer_store" where
  "peer_upsert now caps s =
     s\<lparr>ps_inner := (ps_inner s)(nc_peer_id caps \<mapsto> \<lparr>pe_caps = caps, pe_last_seen_ms = now\<rparr>)\<rparr>"

definition peer_get :: "u64 \<Rightarrow> string \<Rightarrow> peer_store \<Rightarrow> node_capabilities option" where
  "peer_get now peer_id s =
     (case ps_inner s peer_id of
        None \<Rightarrow> None
      | Some e \<Rightarrow> if peer_is_live s e now then Some (pe_caps e) else None)"

definition peer_all :: "((string \<rightharpoonup> peer_entry) \<Rightarrow> string list) \<Rightarrow> u64 \<Rightarrow> peer_store \<Rightarrow> node_capabilities list" where
  "peer_all order now s =
     map pe_caps (filter (\<lambda>e. peer_is_live s e now)
       (List.map_filter (ps_inner s) (order (ps_inner s))))"

definition peer_evict_expired :: "u64 \<Rightarrow> peer_store \<Rightarrow> peer_store" where
  "peer_evict_expired now s =
     s\<lparr>ps_inner := map_retain (\<lambda>_ e. sat_sub now (pe_last_seen_ms e) < ps_ttl_ms s) (ps_inner s)\<rparr>"

section \<open>Peers over Redis\<close>

text \<open>\<^verbatim>\<open>SET .. EX\<close>, \<^verbatim>\<open>GET\<close>, \<^verbatim>\<open>KEYS\<close> and \<^verbatim>\<open>SET .. NX EX\<close>; \<open>None\<close> is a failed command.\<close>

record 'r redis_conn =
  rd_set_ex :: "string \<Rightarrow> string \<Rightarrow> u64 \<Rightarrow> 'r \<Rightarrow> unit option \<times> 'r"
  rd_get :: "string \<Rightarrow> 'r \<Rightarrow> string option option \<times> 'r"
  rd_keys :: "string \<Rightarrow> 'r \<Rightarrow> string list option \<times> 'r"
  rd_set_nx_ex :: "string \<Rightarrow> u64 \<Rightarrow> 'r \<Rightarrow> string option option \<times> 'r"

text \<open>\<^verbatim>\<open>serde_json\<close> on capabilities.\<close>

record caps_json =
  cj_to_string :: "node_capabilities \<Rightarrow> string option"
  cj_from_str :: "string \<Rightarrow> node_capabilities option"

definition redis_peer_key :: "string \<Rightarrow> string" where
  "redis_peer_key peer_id = ''peer:'' @ peer_id"

definition redis_peer_upsert ::
  "'r redis_conn \<Rightarrow> caps_json \<Rightarrow> u64 \<Rightarrow> node_capabilities \<Rightarrow> 'r \<Rightarrow> 'r" where
  "redis_peer_upsert R J ttl_secs caps r =
     (case cj_to_string J caps of
        None \<Rightarrow> r
      | Some json \<Rightarrow> snd (rd_set_ex R (redis_peer_key (nc_peer_id caps)) json ttl_secs r))"

definition redis_peer_get ::
  "'r redis_conn \<Rightarrow> caps_json \<Rightarrow> string \<Rightarrow> 'r \<Rightarrow> node_capabilities option \<times> 'r" where
  "redis_peer_get R J peer_id r =
     (case rd_get R (redis_peer_key peer_id) r of
        (None, r') \<Rightarrow> (None, r')
      | (Some None, r') \<Rightarrow> (None, r')
      | (Some (Some j), r') \<Rightarrow> (cj_from_str J j, r'))"

fun redis_peer_collect ::
  "'r redis_conn \<Rightarrow> caps_json \<Rightarrow> string list \<Rightarrow> 'r \<Rightarrow> node_capabilities list \<times> 'r" where
  "redis_peer_collect R J [] r = ([], r)"
| "redis_peer_collect R J (key # keys) r =
     (let (v, r1) = rd_get R key r;
          caps = (case v of Some (Some j) \<Rightarrow> cj_from_str J j | _ \<Rightarrow> None);
          (rest, r2) = redis_peer_collect R J keys r1
      in ((case caps of None \<Rightarrow> rest | Some c \<Rightarrow> c # rest), r2))"

definition redis_peer_all :: "'r redis_conn \<Rightarrow> caps_json \<Rightarrow> 'r \<Rightarrow> node_capabilities list \<times> 'r" where
  "redis_peer_all R J r =
     (case rd_keys R ''peer:*'' r of
        (None, r') \<Rightarrow> ([], r')
      | (Some keys, r') \<Rightarrow> redis_peer_collect R J keys r')"

section \<open>Replay protection\<close>

type_synonym nonce_store = "uuid \<rightharpoonup> u64"

definition nonce_new :: nonce_store where
  "nonce_new = Map.empty"

text \<open>\<^verbatim>\<open>true\<close> means the id was already present.\<close>

definition nonce_check_and_set :: "u64 \<Rightarrow> uuid \<Rightarrow> u64 \<Rightarrow> nonce_store \<Rightarrow> bool \<times> nonce_store" where
  "nonce_check_and_set now i ttl_secs s =
     (let expiry = now + sat_mul ttl_secs 1000;
          m = map_retain (\<lambda>_ e. e > now) s
      in if m i \<noteq> None then (True, m) else (False, m(i \<mapsto> expiry)))"

definition redis_nonce_check_and_set ::
  "'r redis_conn \<Rightarrow> (uuid \<Rightarrow> string) \<Rightarrow> uuid \<Rightarrow> u64 \<Rightarrow> 'r \<Rightarrow> bool \<times> 'r" where
  "redis_nonce_check_and_set R uuid_str i ttl_secs r =
     (case rd_set_nx_ex R (''nonce:'' @ uuid_str i) ttl_secs r of
        (Some (Some ok), r') \<Rightarrow> (False, r')
      | (Some None, r') \<Rightarrow> (True, r')
      | (None, r') \<Rightarrow> (False, r'))"

section \<open>Contract of a replay set\<close>

text \<open>\<open>holds s i t\<close>: the set remembers \<open>i\<close> at time \<open>t\<close>.\<close>

locale replay_set =
  fixes check :: "u64 \<Rightarrow> uuid \<Rightarrow> u64 \<Rightarrow> 's \<Rightarrow> bool \<times> 's"
    and holds :: "'s \<Rightarrow> uuid \<Rightarrow> u64 \<Rightarrow> bool"
  assumes check_result: "fst (check now i ttl s) = holds s i now"
    and check_keeps: "holds s j t \<Longrightarrow> now \<le> t \<Longrightarrow> holds (snd (check now i ttl s)) j t"
    and check_sets: "\<not> holds s i now \<Longrightarrow> now \<le> t \<Longrightarrow>
      unat t < unat now + unat ttl * 1000 \<Longrightarrow> unat now + unat ttl * 1000 < 2 ^ 64 \<Longrightarrow>
      holds (snd (check now i ttl s)) i t"
    and check_adds_only: "holds (snd (check now i ttl s)) j t \<Longrightarrow> j \<noteq> i \<Longrightarrow> holds s j t"
begin

definition after :: "(u64 \<times> uuid \<times> u64) list \<Rightarrow> 's \<Rightarrow> 's" where
  "after xs s = fold (\<lambda>(now, i, ttl) s. snd (check now i ttl s)) xs s"

lemma after_simps [simp]:
  "after [] s = s" "after ((now, i, ttl) # xs) s = after xs (snd (check now i ttl s))"
  by (simp_all add: after_def)

lemma after_keeps: "holds s j t \<Longrightarrow> \<forall>(now, i, ttl)\<in>set xs. now \<le> t \<Longrightarrow> holds (after xs s) j t"
proof (induction xs arbitrary: s)
  case (Cons a xs)
  obtain now i ttl where a: "a = (now, i, ttl)"
    by (cases a)
  have "holds (snd (check now i ttl s)) j t"
    using Cons.prems by (intro check_keeps) (auto simp: a)
  with Cons show ?case
    by (simp add: a)
qed simp

lemma after_fresh: "\<not> holds s j t \<Longrightarrow> \<forall>(now, i, ttl)\<in>set xs. i \<noteq> j \<Longrightarrow> \<not> holds (after xs s) j t"
proof (induction xs arbitrary: s)
  case (Cons a xs)
  obtain now i ttl where a: "a = (now, i, ttl)"
    by (cases a)
  have "\<not> holds (snd (check now i ttl s)) j t"
    using Cons.prems check_adds_only [of now i ttl s j t] by (auto simp: a)
  with Cons show ?case
    by (simp add: a)
qed simp

text \<open>A second check within the lifetime is a replay, whatever was checked in between.\<close>

lemma replay_detected:
  assumes "fst (check t1 i ttl s) = False" "t1 \<le> t2"
    and "unat t2 < unat t1 + unat ttl * 1000" "unat t1 + unat ttl * 1000 < 2 ^ 64"
    and "\<forall>(now, j, l)\<in>set xs. now \<le> t2"
  shows "fst (check t2 i ttl' (after xs (snd (check t1 i ttl s)))) = True"
  using assms check_sets [of s i t1 t2 ttl] after_keeps [of "snd (check t1 i ttl s)" i t2 xs]
  by (simp add: check_result)

end

lemma nonce_expiry:
  "unat (now :: u64) + unat (ttl :: u64) * 1000 < 2 ^ 64 \<Longrightarrow>
     unat (now + sat_mul ttl 1000) = unat now + unat ttl * 1000"
  by (simp add: unat_word_ariths word_arith)

interpretation nonce: replay_set nonce_check_and_set
    "\<lambda>s i t. (case s i of None \<Rightarrow> False | Some e \<Rightarrow> t < e)"
proof unfold_locales
  fix now t ttl :: u64 and i and s :: nonce_store
  assume "\<not> (case s i of None \<Rightarrow> False | Some e \<Rightarrow> now < e)" "now \<le> t"
    and t: "unat t < unat now + unat ttl * 1000" "unat now + unat ttl * 1000 < 2 ^ 64"
  then show "case snd (nonce_check_and_set now i ttl s) i of None \<Rightarrow> False | Some e \<Rightarrow> t < e"
    by (auto simp: nonce_check_and_set_def Let_def word_less_nat_alt nonce_expiry split: option.splits)
qed (auto simp: nonce_check_and_set_def Let_def map_retain_def split: option.splits if_splits)

section \<open>Properties\<close>

text \<open>C11: replays are caught. If an id was fresh at \<open>t1\<close>, then any later check of it inside its
  lifetime is reported as a replay, no matter which other ids were checked in between and pruned
  the set on the way; and an id that was never checked is never reported.\<close>

theorem nonce_replay_detected:
  assumes "fst (nonce_check_and_set t1 i ttl s) = False" "t1 \<le> t2"
    and "unat t2 < unat t1 + unat ttl * 1000" "unat t1 + unat ttl * 1000 < 2 ^ 64"
    and "\<forall>(now, j, l)\<in>set xs. now \<le> t2"
    and "s' = fold (\<lambda>(now, j, l) s. snd (nonce_check_and_set now j l s)) xs
                (snd (nonce_check_and_set t1 i ttl s))"
  shows "fst (nonce_check_and_set t2 i ttl' s') = True"
  using nonce.replay_detected [OF assms(1-5)] assms(6) by (simp add: nonce.after_def)

theorem nonce_replay_detected_witness:
  "fst (nonce_check_and_set 1500 7 300
     (snd (nonce_check_and_set 1400 8 1 (snd (nonce_check_and_set 1000 7 300 nonce_new))))) = True"
  using nonce_replay_detected [of 1000 7 300 nonce_new 1500 "[(1400, 8, 1)]"]
  by (simp add: nonce_check_and_set_def nonce_new_def Let_def map_retain_def)

text \<open>No false alarms: from an empty set, an id that was not among the checked ones is
  reported fresh.\<close>

theorem nonce_fresh_accepted:
  assumes "\<forall>(now, j, l)\<in>set xs. j \<noteq> i"
  shows "fst (nonce_check_and_set t i ttl
    (fold (\<lambda>(now, j, l) s. snd (nonce_check_and_set now j l s)) xs nonce_new)) = False"
  using nonce.after_fresh [where s = nonce_new and j = i and t = t and xs = xs] assms nonce.check_result
  by (simp add: nonce.after_def nonce_new_def)

theorem nonce_fresh_accepted_witness:
  "fst (nonce_check_and_set 1500 7 300 (snd (nonce_check_and_set 1400 8 1 nonce_new))) = False"
  using nonce_fresh_accepted [of "[(1400, 8, 1)]" 7 1500 300] by simp

end
