(* ===== verification/Job_Store.thy ===== *)
theory Job_Store
  imports Peer_Registry
begin

text \<open>The job queue: \<^verbatim>\<open>crates/persistence/src/job.rs\<close> (records, the in-memory and the Postgres
  store) and the deadline watcher of \<^verbatim>\<open>crates/node/src/jobs.rs\<close>. The Postgres store is modelled
  on its table; the queries are read off the SQL text, and each statement can fail before or
  after taking effect.\<close>

section \<open>Records\<close>

datatype job_status = Dispatched | Acked | Completed | TimedOut | Failed

definition status_str :: "job_status \<Rightarrow> string" where
  "status_str s = (case s of Dispatched \<Rightarrow> ''Dispatched'' | Acked \<Rightarrow> ''Acked''
     | Completed \<Rightarrow> ''Completed'' | TimedOut \<Rightarrow> ''TimedOut'' | Failed \<Rightarrow> ''Failed'')"

definition status_from_str :: "string \<Rightarrow> job_status option" where
  "status_from_str s =
     (if s = ''Dispatched'' then Some Dispatched
      else if s = ''Acked'' then Some Acked
      else if s = ''Completed'' then Some Completed
      else if s = ''TimedOut'' then Some TimedOut
      else if s = ''Failed'' then Some Failed
      else None)"

definition is_terminal :: "job_status \<Rightarrow> bool" where
  "is_terminal s = (s = Completed \<or> s = Failed)"

record job_record =
  job_request_id :: uuid
  job_model :: string
  job_primary_peer_id :: "string option"
  job_status :: job_status
  job_dispatched_at_ms :: u64
  job_deadline_ms :: u64
  job_attempts :: u32
  job_input_tokens :: u32
  job_output_tokens :: u32
  job_latency_ms :: u64
  job_fallback_from :: "string option"

record job_metrics =
  jm_input_tokens :: u32
  jm_output_tokens :: u32
  jm_latency_ms :: u64
  jm_fallback_from :: "string option"

definition job_dispatched :: "u64 \<Rightarrow> uuid \<Rightarrow> string \<Rightarrow> string option \<Rightarrow> u64 \<Rightarrow> job_record" where
  "job_dispatched now request_id model primary_peer_id timeout_ms =
     \<lparr>job_request_id = request_id, job_model = model, job_primary_peer_id = primary_peer_id,
      job_status = Dispatched, job_dispatched_at_ms = now,
      job_deadline_ms = sat_add now timeout_ms, job_attempts = 1, job_input_tokens = 0,
      job_output_tokens = 0, job_latency_ms = 0, job_fallback_from = None\<rparr>"

section \<open>The trait\<close>

type_synonym ('s, 'e, 'a) job_op = "'s \<Rightarrow> ('a, 'e) res \<times> 's"

record ('s, 'e) job_store =
  js_push :: "job_record \<Rightarrow> ('s, 'e, unit) job_op"
  js_get :: "uuid \<Rightarrow> ('s, 'e, job_record option) job_op"
  js_mark :: "uuid \<Rightarrow> job_status \<Rightarrow> ('s, 'e, unit) job_op"
  js_complete :: "uuid \<Rightarrow> job_metrics \<Rightarrow> ('s, 'e, unit) job_op"
  js_due :: "u64 \<Rightarrow> ('s, 'e, job_record list) job_op"
  js_all :: "('s, 'e, job_record list) job_op"

section \<open>In memory\<close>

type_synonym job_map = "uuid \<rightharpoonup> job_record"

definition mem_push :: "job_record \<Rightarrow> (job_map, 'e, unit) job_op" where
  "mem_push job m =
     (Inr (), if m (job_request_id job) = None then m(job_request_id job \<mapsto> job) else m)"

definition mem_get :: "uuid \<Rightarrow> (job_map, 'e, job_record option) job_op" where
  "mem_get i m = (Inr (m i), m)"

definition mem_mark :: "uuid \<Rightarrow> job_status \<Rightarrow> (job_map, 'e, unit) job_op" where
  "mem_mark i st m =
     (case m i of
        Some job \<Rightarrow> (Inr (), m(i \<mapsto> job\<lparr>job_status := st\<rparr>))
      | None \<Rightarrow> (Inr (), m))"

definition finish_job :: "job_metrics \<Rightarrow> job_record \<Rightarrow> job_record" where
  "finish_job mt job = job\<lparr>job_status := Completed, job_input_tokens := jm_input_tokens mt,
     job_output_tokens := jm_output_tokens mt, job_latency_ms := jm_latency_ms mt,
     job_fallback_from := jm_fallback_from mt\<rparr>"

definition mem_complete :: "uuid \<Rightarrow> job_metrics \<Rightarrow> (job_map, 'e, unit) job_op" where
  "mem_complete i mt m =
     (case m i of
        Some job \<Rightarrow> (Inr (), m(i \<mapsto> finish_job mt job))
      | None \<Rightarrow> (Inr (), m))"

definition job_is_due :: "u64 \<Rightarrow> job_record \<Rightarrow> bool" where
  "job_is_due now j \<longleftrightarrow>
     \<not> is_terminal (job_status j) \<and> job_status j \<noteq> TimedOut \<and> job_deadline_ms j \<le> now"

definition mem_due ::
  "(job_map \<Rightarrow> uuid list) \<Rightarrow> u64 \<Rightarrow> (job_map, 'e, job_record list) job_op" where
  "mem_due order now m = (Inr (filter (job_is_due now) (List.map_filter m (order m))), m)"

definition mem_all :: "(job_map \<Rightarrow> uuid list) \<Rightarrow> (job_map, 'e, job_record list) job_op" where
  "mem_all order m = (Inr (List.map_filter m (order m)), m)"

definition mem_job_store :: "(job_map \<Rightarrow> uuid list) \<Rightarrow> (job_map, 'e) job_store" where
  "mem_job_store order = \<lparr>js_push = mem_push, js_get = mem_get, js_mark = mem_mark,
     js_complete = mem_complete, js_due = mem_due order, js_all = mem_all order\<rparr>"

section \<open>Postgres\<close>

text \<open>A row of \<^verbatim>\<open>inference_jobs\<close>: \<^verbatim>\<open>BIGINT\<close> and \<^verbatim>\<open>INTEGER\<close> columns are signed words (the casts \<^verbatim>\<open>as i64\<close>
  and \<^verbatim>\<open>as i32\<close> keep the bits), the status is text.\<close>

record job_row =
  row_request_id :: uuid
  row_model :: string
  row_primary_peer_id :: "string option"
  row_status :: string
  row_dispatched_at_ms :: i64
  row_deadline_ms :: i64
  row_attempts :: u32
  row_input_tokens :: u32
  row_output_tokens :: u32
  row_latency_ms :: i64
  row_fallback_from :: "string option"

text \<open>What happens to a statement: it succeeds, fails without effect, or takes effect although
  the client sees an error (the connection is lost before the answer). \<open>pg_order\<close> is the order
  in which rows come back.\<close>

datatype fault = NoFault | FailBefore | FailAfter

record pg_state =
  pg_table :: "uuid \<rightharpoonup> job_row"
  pg_faults :: "fault list"

datatype db_error = DbError

definition pg_run ::
  "((uuid \<rightharpoonup> job_row) \<Rightarrow> 'a \<times> (uuid \<rightharpoonup> job_row)) \<Rightarrow> (pg_state, db_error, 'a) job_op" where
  "pg_run q s =
     (let fault = (case pg_faults s of [] \<Rightarrow> NoFault | f # fs \<Rightarrow> f);
          s1 = s\<lparr>pg_faults := tl (pg_faults s)\<rparr>;
          (a, t) = q (pg_table s)
      in case fault of
           NoFault \<Rightarrow> (Inr a, s1\<lparr>pg_table := t\<rparr>)
         | FailBefore \<Rightarrow> (Inl DbError, s1)
         | FailAfter \<Rightarrow> (Inl DbError, s1\<lparr>pg_table := t\<rparr>))"

definition row_to_record :: "job_row \<Rightarrow> job_record" where
  "row_to_record r =
     \<lparr>job_request_id = row_request_id r, job_model = row_model r,
      job_primary_peer_id = row_primary_peer_id r,
      job_status = (case status_from_str (row_status r) of None \<Rightarrow> Failed | Some s \<Rightarrow> s),
      job_dispatched_at_ms = row_dispatched_at_ms r, job_deadline_ms = row_deadline_ms r,
      job_attempts = row_attempts r, job_input_tokens = row_input_tokens r,
      job_output_tokens = row_output_tokens r, job_latency_ms = row_latency_ms r,
      job_fallback_from = row_fallback_from r\<rparr>"

definition job_insert_row :: "job_record \<Rightarrow> job_row" where
  "job_insert_row job =
     \<lparr>row_request_id = job_request_id job, row_model = job_model job,
      row_primary_peer_id = job_primary_peer_id job, row_status = status_str (job_status job),
      row_dispatched_at_ms = job_dispatched_at_ms job, row_deadline_ms = job_deadline_ms job,
      row_attempts = job_attempts job, row_input_tokens = 0, row_output_tokens = 0,
      row_latency_ms = 0, row_fallback_from = None\<rparr>"

definition pg_push :: "job_record \<Rightarrow> (pg_state, db_error, unit) job_op" where
  "pg_push job = pg_run (\<lambda>t.
     ((), if t (job_request_id job) = None then t(job_request_id job \<mapsto> job_insert_row job) else t))"

definition pg_get :: "uuid \<Rightarrow> (pg_state, db_error, job_record option) job_op" where
  "pg_get i = pg_run (\<lambda>t. (map_option row_to_record (t i), t))"

definition pg_mark :: "uuid \<Rightarrow> job_status \<Rightarrow> (pg_state, db_error, unit) job_op" where
  "pg_mark i st = pg_run (\<lambda>t.
     ((), case t i of None \<Rightarrow> t | Some r \<Rightarrow> t(i \<mapsto> r\<lparr>row_status := status_str st\<rparr>)))"

definition pg_complete :: "uuid \<Rightarrow> job_metrics \<Rightarrow> (pg_state, db_error, unit) job_op" where
  "pg_complete i mt = pg_run (\<lambda>t.
     ((), case t i of
            None \<Rightarrow> t
          | Some r \<Rightarrow> t(i \<mapsto> r\<lparr>row_status := ''Completed'', row_input_tokens := jm_input_tokens mt,
               row_output_tokens := jm_output_tokens mt, row_latency_ms := jm_latency_ms mt,
               row_fallback_from := jm_fallback_from mt\<rparr>)))"

definition pg_due ::
  "((uuid \<rightharpoonup> job_row) \<Rightarrow> uuid list) \<Rightarrow> u64 \<Rightarrow> (pg_state, db_error, job_record list) job_op" where
  "pg_due pg_order now = pg_run (\<lambda>t.
     (map row_to_record (filter (\<lambda>r. row_status r \<in> {''Dispatched'', ''Acked''} \<and>
         row_deadline_ms r \<le>s now) (List.map_filter t (pg_order t))), t))"

definition pg_all ::
  "((uuid \<rightharpoonup> job_row) \<Rightarrow> uuid list) \<Rightarrow> (pg_state, db_error, job_record list) job_op" where
  "pg_all pg_order = pg_run (\<lambda>t. (map row_to_record (List.map_filter t (pg_order t)), t))"

definition pg_job_store ::
  "((uuid \<rightharpoonup> job_row) \<Rightarrow> uuid list) \<Rightarrow> (pg_state, db_error) job_store" where
  "pg_job_store pg_order = \<lparr>js_push = pg_push, js_get = pg_get, js_mark = pg_mark,
     js_complete = pg_complete, js_due = pg_due pg_order, js_all = pg_all pg_order\<rparr>"

section \<open>The deadline watcher\<close>

record watcher_config =
  wc_poll_secs :: u64
  wc_max_attempts :: u32

definition watcher_from_secs :: "u64 \<Rightarrow> watcher_config" where
  "watcher_from_secs poll_secs = \<lparr>wc_poll_secs = max poll_secs 1, wc_max_attempts = 1\<rparr>"

text \<open>The loop of \<^verbatim>\<open>sweep\<close>: an error of either \<^verbatim>\<open>mark\<close> leaves it at once.\<close>

fun compensate :: "('s, 'e) job_store \<Rightarrow> job_record list \<Rightarrow> ('s, 'e, unit) job_op" where
  "compensate S [] s = (Inr (), s)"
| "compensate S (job # due) s =
     (case js_mark S (job_request_id job) TimedOut s of
        (Inl e, s1) \<Rightarrow> (Inl e, s1)
      | (Inr _, s1) \<Rightarrow>
          (case js_mark S (job_request_id job) Failed s1 of
             (Inl e, s2) \<Rightarrow> (Inl e, s2)
           | (Inr _, s2) \<Rightarrow> compensate S due s2))"

definition sweep ::
  "('s, 'e) job_store \<Rightarrow> u64 \<Rightarrow> u64 \<Rightarrow> 's \<times> peer_store \<Rightarrow> (unit, 'e) res \<times> ('s \<times> peer_store)" where
  "sweep S now evict_now st =
     (let s = fst st; ps = snd st in
      case js_due S now s of
        (Inl e, s1) \<Rightarrow> (Inl e, (s1, ps))
      | (Inr due, s1) \<Rightarrow>
          (case compensate S due s1 of
             (Inl e, s2) \<Rightarrow> (Inl e, (s2, ps))
           | (Inr _, s2) \<Rightarrow> (Inr (), (s2, peer_evict_expired evict_now ps))))"

section \<open>Abstract queue\<close>

text \<open>The queue a store implements: a map from ids to records.\<close>

definition spec_push :: "job_record \<Rightarrow> job_map \<Rightarrow> job_map" where
  "spec_push j m = (if m (job_request_id j) = None then m(job_request_id j \<mapsto> j) else m)"

definition spec_update :: "uuid \<Rightarrow> (job_record \<Rightarrow> job_record) \<Rightarrow> job_map \<Rightarrow> job_map" where
  "spec_update i f m = m(i := map_option f (m i))"

definition set_status :: "job_status \<Rightarrow> job_record \<Rightarrow> job_record" where
  "set_status st j = j\<lparr>job_status := st\<rparr>"

definition due_jobs :: "u64 \<Rightarrow> job_map \<Rightarrow> job_record set" where
  "due_jobs now m = {j. m (job_request_id j) = Some j \<and> job_is_due now j}"

text \<open>What one sweep is meant to do, independently of how the stores look for due jobs: a job that is
  dispatched or acknowledged, and whose deadline is not in the future, has failed.\<close>

definition overdue :: "u64 \<Rightarrow> job_record \<Rightarrow> bool" where
  "overdue now j \<longleftrightarrow> job_status j \<in> {Dispatched, Acked} \<and> unat (job_deadline_ms j) \<le> unat now"

definition swept :: "u64 \<Rightarrow> job_map \<Rightarrow> job_map" where
  "swept now m = (\<lambda>i. map_option (\<lambda>j. if overdue now j then set_status Failed j else j) (m i))"

lemma job_is_due_overdue: "job_is_due now j \<longleftrightarrow> overdue now j"
  by (cases "job_status j") (auto simp: job_is_due_def overdue_def is_terminal_def word_le_nat_alt)

lemma set_status_id [simp]: "job_request_id (set_status st j) = job_request_id j"
  by (simp add: set_status_def)

lemma set_status_status [simp]: "job_status (set_status st j) = st"
  by (simp add: set_status_def)

lemma set_status_twice [simp]: "set_status a (set_status b j) = set_status a j"
  by (simp add: set_status_def)

lemma finish_job_id [simp]: "job_request_id (finish_job mt j) = job_request_id j"
  by (simp add: finish_job_def)

lemma finish_job_status [simp]: "job_status (finish_job mt j) = Completed"
  by (simp add: finish_job_def)

lemma spec_update_apply [simp]:
  "spec_update i f m k = (if k = i then map_option f (m i) else m k)"
  by (simp add: spec_update_def)

lemma status_roundtrip [simp]: "status_from_str (status_str s) = Some s"
  by (cases s) (simp_all add: status_from_str_def status_str_def)

lemma status_str_inj: "status_str a = status_str b \<Longrightarrow> a = b"
  by (metis option.inject status_roundtrip)

text \<open>Records are filed under their own id.\<close>

definition keyed :: "job_map \<Rightarrow> bool" where
  "keyed m \<longleftrightarrow> pred_map_ok (\<lambda>i j. job_request_id j = i) m"

lemma keyed_push: "keyed m \<Longrightarrow> keyed (spec_push j m)"
  by (auto simp: keyed_def spec_push_def)

lemma keyed_update: "keyed m \<Longrightarrow> (\<And>j. job_request_id (f j) = job_request_id j) \<Longrightarrow> keyed (spec_update i f m)"
  by (auto simp: keyed_def pred_map_ok_def)

section \<open>Contract of a job store\<close>

text \<open>Under its invariant a store that answers \<^verbatim>\<open>Ok\<close> has done what the queue does. An update that
  reports an error may or may not have happened. \<open>adm_job\<close> and \<open>adm_now\<close> bound the
  records and the clock a store represents.\<close>

locale job_queue =
  fixes S :: "('s, 'e) job_store"
    and inv :: "'s \<Rightarrow> bool"
    and abs :: "'s \<Rightarrow> job_map"
    and adm_job :: "job_record \<Rightarrow> bool"
    and adm_now :: "u64 \<Rightarrow> bool"
  assumes inv_keyed: "inv s \<Longrightarrow> keyed (abs s)"
    and push_ok: "inv s \<Longrightarrow> adm_job j \<Longrightarrow> js_push S j s = (Inr u, s') \<Longrightarrow>
      inv s' \<and> abs s' = spec_push j (abs s)"
    and get_ok: "inv s \<Longrightarrow> js_get S i s = (Inr r, s') \<Longrightarrow> inv s' \<and> abs s' = abs s \<and> r = abs s i"
    and mark_ok: "inv s \<Longrightarrow> js_mark S i st s = (Inr u, s') \<Longrightarrow>
      inv s' \<and> abs s' = spec_update i (set_status st) (abs s)"
    and mark_err: "inv s \<Longrightarrow> js_mark S i st s = (Inl e, s') \<Longrightarrow>
      inv s' \<and> (abs s' = abs s \<or> abs s' = spec_update i (set_status st) (abs s))"
    and complete_ok: "inv s \<Longrightarrow> js_complete S i mt s = (Inr u, s') \<Longrightarrow>
      inv s' \<and> abs s' = spec_update i (finish_job mt) (abs s)"
    and due_ok: "inv s \<Longrightarrow> adm_now now \<Longrightarrow> js_due S now s = (Inr due, s') \<Longrightarrow>
      inv s' \<and> abs s' = abs s \<and> set due = due_jobs now (abs s)"
    and due_err: "inv s \<Longrightarrow> js_due S now s = (Inl e, s') \<Longrightarrow> inv s' \<and> abs s' = abs s"
begin

lemma compensate_ok:
  "inv s \<Longrightarrow> compensate S due s = (Inr u, s') \<Longrightarrow>
     inv s' \<and> abs s' = (\<lambda>i. if i \<in> job_request_id ` set due
                          then map_option (set_status Failed) (abs s i) else abs s i)"
proof (induction due arbitrary: s)
  case (Cons j due)
  let ?i = "job_request_id j"
  obtain s1 s2 where 1: "js_mark S ?i TimedOut s = (Inr (), s1)"
    and 2: "js_mark S ?i Failed s1 = (Inr (), s2)" and 3: "compensate S due s2 = (Inr u, s')"
    using Cons.prems(2) by (auto split: prod.splits sum.splits)
  note m1 = mark_ok [OF Cons.prems(1) 1]
  note m2 = mark_ok [OF conjunct1 [OF m1] 2]
  have "abs s2 = spec_update ?i (set_status Failed) (abs s)"
    using m1 m2 by (auto simp: fun_eq_iff option.map_comp comp_def)
  with Cons.IH [OF conjunct1 [OF m2] 3] show ?case
    by (auto simp: fun_eq_iff option.map_comp comp_def)
qed simp

text \<open>Whatever happens, a job that is not in the list is untouched.\<close>

lemma compensate_other:
  "inv s \<Longrightarrow> compensate S due s = (r, s') \<Longrightarrow> i \<notin> job_request_id ` set due \<Longrightarrow>
     inv s' \<and> abs s' i = abs s i"
proof (induction due arbitrary: s)
  case (Cons j due)
  let ?i = "job_request_id j"
  have keep: "inv s2 \<and> abs s2 i = abs s1 i"
    if "inv s1" "js_mark S ?i st s1 = (q, s2)" for q s1 s2 st
    using mark_ok [of s1 ?i st _ s2] mark_err [of s1 ?i st _ s2] that Cons.prems(3)
    by (cases q) auto
  obtain q1 s1 where 1: "js_mark S ?i TimedOut s = (q1, s1)"
    by fastforce
  obtain q2 s2 where 2: "js_mark S ?i Failed s1 = (q2, s2)"
    by fastforce
  note k1 = keep [OF Cons.prems(1) 1]
  note k2 = keep [OF conjunct1 [OF k1] 2]
  show ?case
  proof (cases "\<exists>e. q1 = Inl e \<or> q2 = Inl e")
    case True
    with Cons.prems(2) 1 2 k1 k2 show ?thesis
      by (auto split: sum.splits)
  next
    case False
    then have "compensate S due s2 = (r, s')"
      using Cons.prems(2) 1 2 by (cases q1; cases q2) auto
    with Cons k1 k2 show ?thesis
      by auto
  qed
qed simp

lemma due_in: "inv s \<Longrightarrow> j \<in> due_jobs now (abs s) \<Longrightarrow> i = job_request_id j \<Longrightarrow>
    abs s i = Some j \<and> job_is_due now j"
  by (simp add: due_jobs_def)

text \<open>A sweep that reports success has swept.\<close>

lemma sweep_ok:
  assumes "inv s" "adm_now now" "sweep S now en (s, ps) = (Inr u, (s', ps'))"
  shows "inv s' \<and> abs s' = swept now (abs s) \<and> ps' = peer_evict_expired en ps"
proof -
  obtain due s1 where d: "js_due S now s = (Inr due, s1)" and c: "compensate S due s1 = (Inr (), s')"
    and ps: "ps' = peer_evict_expired en ps"
    using assms(3) by (auto simp: sweep_def Let_def split: prod.splits sum.splits)
  note dd = due_ok [OF assms(1,2) d]
  have iff: "i \<in> job_request_id ` set due \<longleftrightarrow> (\<exists>j. abs s i = Some j \<and> job_is_due now j)" for i
    using dd inv_keyed [OF assms(1)]
    by (auto simp: due_jobs_def keyed_def image_iff dest: pred_map_okD)
  have "abs s' i = swept now (abs s) i" for i
    using compensate_ok [OF conjunct1 [OF dd] c] dd iff [of i]
    by (cases "abs s i") (auto simp: swept_def job_is_due_overdue)
  then show ?thesis
    using compensate_ok [OF conjunct1 [OF dd] c] ps by auto
qed

text \<open>A job in state \<open>TimedOut\<close> is never looked at again.\<close>

lemma sweep_skips_timed_out:
  assumes "inv s" "adm_now now" "abs s i = Some j" "job_status j = TimedOut"
    and "sweep S now en (s, ps) = (r, (s', ps'))"
  shows "inv s' \<and> abs s' i = Some j"
proof (cases "js_due S now s")
  case (Pair q s1)
  show ?thesis
  proof (cases q)
    case (Inl e)
    have "s1 = s'"
      using assms(5) by (simp add: sweep_def Pair Inl)
    with due_err [OF assms(1) Pair [unfolded Inl]] assms(3) show ?thesis
      by metis
  next
    case (Inr due)
    note dd = due_ok [OF assms(1,2) Pair [unfolded Inr]]
    have fresh: "i \<notin> job_request_id ` set due"
    proof
      assume "i \<in> job_request_id ` set due"
      then obtain j' where "j' \<in> due_jobs now (abs s)" "i = job_request_id j'"
        using dd by blast
      from due_in [OF assms(1) this] assms(3,4) show False
        by (simp add: job_is_due_def)
    qed
    obtain r' s2 where run: "compensate S due s1 = (r', s2)"
      by fastforce
    then have "s2 = s'"
      using assms(5) by (simp add: sweep_def Pair Inr split: sum.splits)
    with compensate_other [OF conjunct1 [OF dd] run fresh] dd assms(3) show ?thesis
      by metis
  qed
qed

end

section \<open>The in-memory store keeps the contract\<close>

definition good_order :: "(('k \<rightharpoonup> 'v) \<Rightarrow> 'k list) \<Rightarrow> bool" where
  "good_order order \<longleftrightarrow> (\<forall>m. finite (dom m) \<longrightarrow> set (order m) = dom m)"

definition mem_inv :: "(job_map \<Rightarrow> uuid list) \<Rightarrow> job_map \<Rightarrow> bool" where
  "mem_inv order m \<longleftrightarrow> good_order order \<and> finite (dom m) \<and> keyed m"

lemma good_order_sorted: "good_order (\<lambda>m :: 'k::linorder \<rightharpoonup> 'v. sorted_list_of_set (dom m))"
  by (simp add: good_order_def)

lemma set_values: "good_order order \<Longrightarrow> finite (dom m) \<Longrightarrow> set (List.map_filter m (order m)) = ran m"
  by (auto simp: good_order_def List.map_filter_def ran_def image_iff dom_def) force

lemma ran_keyed: "keyed m \<Longrightarrow> j \<in> ran m \<longleftrightarrow> m (job_request_id j) = Some j"
  by (auto simp: keyed_def ran_def dest: pred_map_okD)

lemma finite_dom_update: "finite (dom m) \<Longrightarrow> finite (dom (spec_update i f m))"
  by (simp add: spec_update_def)

lemma finite_dom_push: "finite (dom m) \<Longrightarrow> finite (dom (spec_push j m))"
  by (simp add: spec_push_def)

lemma mem_mark_eq: "mem_mark i st m = (Inr (), spec_update i (set_status st) m)"
  by (auto simp: mem_mark_def spec_update_def set_status_def fun_upd_idem split: option.split)

lemma mem_complete_eq: "mem_complete i mt m = (Inr (), spec_update i (finish_job mt) m)"
  by (auto simp: mem_complete_def spec_update_def fun_upd_idem split: option.split)

lemma mem_push_eq: "mem_push j m = (Inr (), spec_push j m)"
  by (simp add: mem_push_def spec_push_def)

lemma mem_due_set:
  "mem_inv order m \<Longrightarrow> mem_due order now m = (Inr due, m') \<Longrightarrow> m' = m \<and> set due = due_jobs now m"
  by (auto simp: mem_due_def mem_inv_def set_values ran_keyed due_jobs_def)

interpretation mem: job_queue "mem_job_store order" "mem_inv order" "\<lambda>m. m" "\<lambda>j. True" "\<lambda>now. True"
  for order
proof unfold_locales
  fix now m due m'
  assume "mem_inv order m" "js_due (mem_job_store order) now m = (Inr due, m')"
  then show "mem_inv order m' \<and> m' = m \<and> set due = due_jobs now m"
    by (auto simp: mem_job_store_def dest: mem_due_set)
qed (auto simp: mem_job_store_def mem_inv_def mem_push_eq mem_get_def mem_mark_eq mem_complete_eq
    mem_due_def keyed_push keyed_update finite_dom_push finite_dom_update)

section \<open>The Postgres store keeps the contract\<close>

text \<open>On times below \<open>2 ^ 63\<close> the signed comparison of the query is the unsigned one of the record.\<close>

lemma uint_small: "unat (a :: u64) < 2 ^ 63 \<longleftrightarrow> uint a < 2 ^ 63"
proof -
  have "unat a < 2 ^ 63 \<longleftrightarrow> int (unat a) < int (2 ^ 63)"
    by (simp only: of_nat_less_iff)
  then show ?thesis
    by simp
qed

lemma sint_small:
  assumes "unat (a :: u64) < 2 ^ 63"
  shows "sint a = uint a"
proof -
  have "- (2 ^ 63) \<le> uint a"
    by (rule order_trans [of _ 0]) simp_all
  then have "signed_take_bit 63 (uint a) = uint a"
    using assms unfolding uint_small by (intro signed_take_bit_int_eq_self)
  then show ?thesis
    by (simp add: sint_uint)
qed

lemma sint_large:
  fixes a :: u64
  assumes "2 ^ 63 \<le> unat a"
  shows "sint a < 0"
proof (rule ccontr)
  assume nonneg: "\<not> sint a < 0"
  have "uint a = take_bit 64 (sint a)"
    using uint_sint [of a] by simp
  moreover have "sint a < 2 ^ 63"
    using sint_lt [of a] by simp
  ultimately have "uint a < 2 ^ 63"
    using nonneg by (simp add: take_bit_int_eq_self)
  then have "unat a < 2 ^ 63"
    by (simp only: uint_small)
  then show False
    using assms by linarith
qed

lemma sle_small:
  "unat (a :: u64) < 2 ^ 63 \<Longrightarrow> unat b < 2 ^ 63 \<Longrightarrow> a \<le>s b \<longleftrightarrow> a \<le> b"
  by (simp add: word_sle_eq sint_small word_le_def)

definition pg_abs :: "pg_state \<Rightarrow> job_map" where
  "pg_abs s = (\<lambda>i. map_option row_to_record (pg_table s i))"

definition row_ok :: "uuid \<Rightarrow> job_row \<Rightarrow> bool" where
  "row_ok i r \<longleftrightarrow> row_request_id r = i \<and> unat (row_deadline_ms r) < 2 ^ 63"

definition pg_inv :: "((uuid \<rightharpoonup> job_row) \<Rightarrow> uuid list) \<Rightarrow> pg_state \<Rightarrow> bool" where
  "pg_inv order s \<longleftrightarrow>
     good_order order \<and> finite (dom (pg_table s)) \<and> pred_map_ok row_ok (pg_table s)"

text \<open>Records as \<open>job_dispatched\<close> makes them, with a deadline that fits a \<^verbatim>\<open>BIGINT\<close>.\<close>

definition pg_adm_job :: "job_record \<Rightarrow> bool" where
  "pg_adm_job j \<longleftrightarrow> unat (job_deadline_ms j) < 2 ^ 63 \<and> job_input_tokens j = 0 \<and>
     job_output_tokens j = 0 \<and> job_latency_ms j = 0 \<and> job_fallback_from j = None"

lemma pg_run_ok: "pg_run q s = (Inr a, s') \<Longrightarrow> q (pg_table s) = (a, pg_table s')"
  by (auto simp: pg_run_def Let_def split: prod.splits fault.splits)

lemma pg_run_err:
  "pg_run q s = (Inl e, s') \<Longrightarrow> pg_table s' = pg_table s \<or> pg_table s' = snd (q (pg_table s))"
  by (auto simp: pg_run_def Let_def split: prod.splits fault.splits)

lemma row_to_insert_row: "pg_adm_job j \<Longrightarrow> row_to_record (job_insert_row j) = j"
  by (simp add: pg_adm_job_def row_to_record_def job_insert_row_def)

lemma row_due:
  "row_ok i r \<Longrightarrow> unat now < 2 ^ 63 \<Longrightarrow>
     (row_status r \<in> {''Dispatched'', ''Acked''} \<and> row_deadline_ms r \<le>s now) =
       job_is_due now (row_to_record r)"
  by (simp add: row_ok_def sle_small job_is_due_def row_to_record_def status_from_str_def
      is_terminal_def)

lemma pg_mark_table:
  "pg_abs (s\<lparr>pg_table := (case pg_table s i of None \<Rightarrow> pg_table s
       | Some r \<Rightarrow> (pg_table s)(i \<mapsto> r\<lparr>row_status := status_str st\<rparr>))\<rparr>)
     = spec_update i (set_status st) (pg_abs s)"
  by (auto simp: pg_abs_def fun_eq_iff row_to_record_def set_status_def split: option.split)

lemma pg_abs_cong: "pg_table s = pg_table t \<Longrightarrow> pg_abs s = pg_abs t"
  by (simp add: pg_abs_def)

lemma pg_inv_cong: "pg_table s = pg_table t \<Longrightarrow> pg_inv order s = pg_inv order t"
  by (simp add: pg_inv_def)

text \<open>The table after an update of one row.\<close>

definition row_update :: "uuid \<Rightarrow> (job_row \<Rightarrow> job_row) \<Rightarrow> (uuid \<rightharpoonup> job_row) \<Rightarrow> (uuid \<rightharpoonup> job_row)" where
  "row_update i f t = (case t i of None \<Rightarrow> t | Some r \<Rightarrow> t(i \<mapsto> f r))"

lemma row_update_inv:
  assumes "pg_inv order s" "pg_table s' = row_update i f (pg_table s)"
    and "\<And>r. row_request_id (f r) = row_request_id r \<and> row_deadline_ms (f r) = row_deadline_ms r"
  shows "pg_inv order s'"
  using assms by (auto simp: pg_inv_def row_update_def row_ok_def pred_map_ok_def split: option.splits)

lemma row_update_abs:
  assumes "pg_table s' = row_update i f (pg_table s)" "\<And>r. row_to_record (f r) = g (row_to_record r)"
  shows "pg_abs s' = spec_update i g (pg_abs s)"
  using assms by (auto simp: pg_abs_def row_update_def fun_eq_iff split: option.splits)

definition row_mark :: "job_status \<Rightarrow> job_row \<Rightarrow> job_row" where
  "row_mark st r = r\<lparr>row_status := status_str st\<rparr>"

definition row_finish :: "job_metrics \<Rightarrow> job_row \<Rightarrow> job_row" where
  "row_finish mt r = r\<lparr>row_status := ''Completed'', row_input_tokens := jm_input_tokens mt,
     row_output_tokens := jm_output_tokens mt, row_latency_ms := jm_latency_ms mt,
     row_fallback_from := jm_fallback_from mt\<rparr>"

lemma row_mark_record: "row_to_record (row_mark st r) = set_status st (row_to_record r)"
  by (simp add: row_mark_def row_to_record_def set_status_def)

lemma row_finish_record: "row_to_record (row_finish mt r) = finish_job mt (row_to_record r)"
  by (simp add: row_finish_def row_to_record_def finish_job_def status_from_str_def)

lemma pg_mark_eq: "pg_mark i st = pg_run (\<lambda>t. ((), row_update i (row_mark st) t))"
  unfolding pg_mark_def row_update_def row_mark_def ..

lemma pg_complete_eq: "pg_complete i mt = pg_run (\<lambda>t. ((), row_update i (row_finish mt) t))"
  unfolding pg_complete_def row_update_def row_finish_def ..

lemma row_mark_result:
  assumes "pg_inv order s" "pg_table s' = row_update i (row_mark st) (pg_table s)"
  shows "pg_inv order s' \<and> pg_abs s' = spec_update i (set_status st) (pg_abs s)"
proof
  show "pg_inv order s'"
    by (rule row_update_inv [OF assms]) (simp add: row_mark_def)
  show "pg_abs s' = spec_update i (set_status st) (pg_abs s)"
    by (rule row_update_abs [OF assms(2) row_mark_record])
qed

lemma row_finish_result:
  assumes "pg_inv order s" "pg_table s' = row_update i (row_finish mt) (pg_table s)"
  shows "pg_inv order s' \<and> pg_abs s' = spec_update i (finish_job mt) (pg_abs s)"
proof
  show "pg_inv order s'"
    by (rule row_update_inv [OF assms]) (simp add: row_finish_def)
  show "pg_abs s' = spec_update i (finish_job mt) (pg_abs s)"
    by (rule row_update_abs [OF assms(2) row_finish_record])
qed

lemma same_table_result:
  "pg_inv order s \<Longrightarrow> pg_table s' = pg_table s \<Longrightarrow> pg_inv order s' \<and> pg_abs s' = pg_abs s"
  using pg_abs_cong [of s' s] pg_inv_cong [of s' s order] by simp

lemma pg_due_set:
  assumes inv: "pg_inv order s" and now: "unat now < 2 ^ 63"
  shows "row_to_record ` {r \<in> set (List.map_filter (pg_table s) (order (pg_table s))).
     row_status r \<in> {''Dispatched'', ''Acked''} \<and> row_deadline_ms r \<le>s now} = due_jobs now (pg_abs s)"
proof -
  have vals: "set (List.map_filter (pg_table s) (order (pg_table s))) = ran (pg_table s)"
    using inv by (simp add: pg_inv_def set_values)
  have ok: "row_ok i r" if "pg_table s i = Some r" for i r
    using inv that by (auto simp: pg_inv_def dest: pred_map_okD)
  have A: "j \<in> row_to_record ` {r \<in> ran (pg_table s).
     row_status r \<in> {''Dispatched'', ''Acked''} \<and> row_deadline_ms r \<le>s now} \<longleftrightarrow>
     (\<exists>i r. pg_table s i = Some r \<and> j = row_to_record r \<and> job_is_due now j)" for j
    using row_due [OF ok now] by (auto simp: ran_def image_iff)
  have B: "(\<exists>i r. pg_table s i = Some r \<and> j = row_to_record r \<and> job_is_due now j) \<longleftrightarrow>
     j \<in> due_jobs now (pg_abs s)" for j
  proof
    assume "\<exists>i r. pg_table s i = Some r \<and> j = row_to_record r \<and> job_is_due now j"
    then obtain i r where r: "pg_table s i = Some r" "j = row_to_record r" "job_is_due now j"
      by blast
    then have "job_request_id j = i"
      using ok by (simp add: row_ok_def row_to_record_def)
    with r show "j \<in> due_jobs now (pg_abs s)"
      by (simp add: due_jobs_def pg_abs_def)
  next
    assume "j \<in> due_jobs now (pg_abs s)"
    then have 1: "map_option row_to_record (pg_table s (job_request_id j)) = Some j"
      and 2: "job_is_due now j"
      by (simp_all only: due_jobs_def pg_abs_def mem_Collect_eq)
    from 1 obtain r where r: "pg_table s (job_request_id j) = Some r" "row_to_record r = j"
      unfolding map_option_eq_Some by (elim exE conjE)
    show "\<exists>i r. pg_table s i = Some r \<and> j = row_to_record r \<and> job_is_due now j"
      by (intro exI conjI) (rule r(1), rule r(2) [symmetric], rule 2)
  qed
  show ?thesis
    unfolding vals by (rule set_eqI) (rule trans [OF A B])
qed

interpretation pg: job_queue "pg_job_store order" "pg_inv order" pg_abs pg_adm_job
    "\<lambda>now. unat now < 2 ^ 63"
  for order
proof unfold_locales
  fix s
  assume "pg_inv order s"
  then show "keyed (pg_abs s)"
    by (auto simp: pg_inv_def keyed_def pg_abs_def row_ok_def row_to_record_def pred_map_ok_def)
next
  fix s j u s'
  assume inv: "pg_inv order s" and adm: "pg_adm_job j"
    and run: "js_push (pg_job_store order) j s = (Inr u, s')"
  have t: "pg_table s' = (if pg_table s (job_request_id j) = None
      then (pg_table s)(job_request_id j \<mapsto> job_insert_row j) else pg_table s)"
    using run by (auto simp: pg_job_store_def pg_push_def dest!: pg_run_ok)
  have "row_ok (job_request_id j) (job_insert_row j)"
    using adm by (simp add: row_ok_def job_insert_row_def pg_adm_job_def)
  with inv t have "pg_inv order s'"
    by (auto simp: pg_inv_def)
  moreover have "pg_abs s' = spec_push j (pg_abs s)"
    using t adm by (auto simp: pg_abs_def spec_push_def fun_eq_iff row_to_insert_row)
  ultimately show "pg_inv order s' \<and> pg_abs s' = spec_push j (pg_abs s)"
    by simp
next
  fix s i r s'
  assume inv: "pg_inv order s" and run: "js_get (pg_job_store order) i s = (Inr r, s')"
  then have "pg_table s' = pg_table s" "r = pg_abs s i"
    by (auto simp: pg_job_store_def pg_get_def pg_abs_def dest!: pg_run_ok)
  then show "pg_inv order s' \<and> pg_abs s' = pg_abs s \<and> r = pg_abs s i"
    using inv pg_abs_cong pg_inv_cong by metis
next
  fix s i st u s'
  assume inv: "pg_inv order s" and run: "js_mark (pg_job_store order) i st s = (Inr u, s')"
  then show "pg_inv order s' \<and> pg_abs s' = spec_update i (set_status st) (pg_abs s)"
    by (intro row_mark_result) (auto simp: pg_job_store_def pg_mark_eq dest: pg_run_ok)
next
  fix s i st e s'
  assume inv: "pg_inv order s" and run: "js_mark (pg_job_store order) i st s = (Inl e, s')"
  then have "pg_table s' = pg_table s \<or> pg_table s' = row_update i (row_mark st) (pg_table s)"
    by (auto simp: pg_job_store_def pg_mark_eq dest: pg_run_err)
  then show "pg_inv order s' \<and> (pg_abs s' = pg_abs s \<or> pg_abs s' = spec_update i (set_status st) (pg_abs s))"
    using same_table_result [OF inv] row_mark_result [OF inv] by blast
next
  fix s i mt u s'
  assume inv: "pg_inv order s" and run: "js_complete (pg_job_store order) i mt s = (Inr u, s')"
  then show "pg_inv order s' \<and> pg_abs s' = spec_update i (finish_job mt) (pg_abs s)"
    by (intro row_finish_result) (auto simp: pg_job_store_def pg_complete_eq dest: pg_run_ok)
next
  fix s now due s'
  assume inv: "pg_inv order s" and now: "unat now < 2 ^ 63"
    and run: "js_due (pg_job_store order) now s = (Inr due, s')"
  then have "pg_due order now s = (Inr due, s')"
    by (simp add: pg_job_store_def)
  note q = pg_run_ok [OF this [unfolded pg_due_def]]
  note q' = q [unfolded prod.inject]
  have "set due = due_jobs now (pg_abs s)"
    unfolding conjunct1 [OF q', symmetric] set_map set_filter by (rule pg_due_set [OF inv now])
  with same_table_result [OF inv conjunct2 [OF q', symmetric]]
  show "pg_inv order s' \<and> pg_abs s' = pg_abs s \<and> set due = due_jobs now (pg_abs s)"
    by blast
next
  fix s now e s'
  assume inv: "pg_inv order s" and run: "js_due (pg_job_store order) now s = (Inl e, s')"
  then have "pg_table s' = pg_table s"
    by (auto simp: pg_job_store_def pg_due_def dest!: pg_run_err)
  then show "pg_inv order s' \<and> pg_abs s' = pg_abs s"
    by (rule same_table_result [OF inv])
qed

text \<open>Without faults a sweep over Postgres succeeds.\<close>

lemma pg_run_no_fault:
  "pg_faults s = [] \<Longrightarrow> \<exists>a s'. pg_run q s = (Inr a, s') \<and> pg_faults s' = []"
  by (simp add: pg_run_def Let_def split: prod.split)

lemma pg_mark_no_fault:
  "pg_faults s = [] \<Longrightarrow>
     \<exists>s'. js_mark (pg_job_store order) i st s = (Inr (), s') \<and> pg_faults s' = []"
  using pg_run_no_fault [of s "\<lambda>t. ((), row_update i (row_mark st) t)"]
  by (simp add: pg_job_store_def pg_mark_eq)

lemma pg_compensate_no_fault:
  "pg_faults s = [] \<Longrightarrow> \<exists>s'. compensate (pg_job_store order) due s = (Inr (), s')"
proof (induction due arbitrary: s)
  case (Cons j due)
  obtain s1 where 1: "js_mark (pg_job_store order) (job_request_id j) TimedOut s = (Inr (), s1)"
    "pg_faults s1 = []"
    using pg_mark_no_fault [OF Cons.prems] by blast
  obtain s2 where 2: "js_mark (pg_job_store order) (job_request_id j) Failed s1 = (Inr (), s2)"
    "pg_faults s2 = []"
    using pg_mark_no_fault [OF 1(2)] by blast
  show ?case
    using Cons.IH [OF 2(2)] by (simp add: 1(1) 2(1))
qed simp

lemma pg_sweep_no_fault:
  assumes "pg_faults s = []"
  shows "\<exists>s'. sweep (pg_job_store order) now en (s, ps) = (Inr (), (s', peer_evict_expired en ps))"
proof -
  have "\<exists>due s1. pg_due order now s = (Inr due, s1) \<and> pg_faults s1 = []"
    unfolding pg_due_def by (rule pg_run_no_fault [OF assms])
  then obtain due s1 where 1: "pg_due order now s = (Inr due, s1)" "pg_faults s1 = []"
    by blast
  obtain s' where "compensate (pg_job_store order) due s1 = (Inr (), s')"
    using pg_compensate_no_fault [OF 1(2)] by blast
  moreover have "js_due (pg_job_store order) = pg_due order"
    by (simp add: pg_job_store_def)
  ultimately show ?thesis
    using 1(1) by (simp add: sweep_def)
qed

section \<open>Properties\<close>

text \<open>A concrete iteration order and overdue job for the witnesses.\<close>

definition demo_order :: "(uuid \<rightharpoonup> 'v) \<Rightarrow> uuid list" where
  "demo_order m = sorted_list_of_set (dom m)"

lemma demo_order_good: "good_order demo_order"
  unfolding demo_order_def by (rule good_order_sorted)

definition demo_job :: "u64 \<Rightarrow> job_record" where
  "demo_job timeout = job_dispatched 1000 1 ''m'' None timeout"

lemma demo_mem_inv: "mem_inv demo_order [1 \<mapsto> demo_job t]"
  by (simp add: mem_inv_def demo_order_good keyed_def pred_map_ok_def demo_job_def job_dispatched_def)

text \<open>C12: one sweep over the in-memory queue always succeeds, fails every job that is dispatched or
  acknowledged and whose deadline is not in the future, leaves every other job as it was (the ones
  already marked as timed out among them), and drops the expired peers.\<close>

theorem sweep_memory:
  assumes "good_order order" "finite (dom m)" "keyed m"
  shows "sweep (mem_job_store order :: (job_map, 'e) job_store) now en (m, ps)
    = (Inr (), (swept now m, peer_evict_expired en ps))"
proof -
  let ?S = "mem_job_store order :: (job_map, 'e) job_store"
  have inv: "mem_inv order m"
    using assms by (simp add: mem_inv_def)
  have "\<exists>s'. compensate ?S due s = (Inr (), s')" for due s
    by (induction due arbitrary: s) (auto simp: mem_job_store_def mem_mark_eq)
  then obtain s' where c: "compensate ?S
      (filter (job_is_due now) (List.map_filter m (order m))) m = (Inr (), s')"
    by blast
  have "js_due ?S = mem_due order"
    by (simp add: mem_job_store_def)
  with c have "sweep ?S now en (m, ps) = (Inr (), (s', peer_evict_expired en ps))"
    by (simp add: sweep_def mem_due_def)
  with mem.sweep_ok [OF inv TrueI this] show ?thesis
    by simp
qed

theorem sweep_memory_witness:
  "job_status (demo_job 100) = Dispatched \<and> job_deadline_ms (demo_job 100) = 1100 \<and>
   fst (snd (sweep (mem_job_store demo_order) 1100 0 ([1 \<mapsto> demo_job 100], peer_new 1))) 1 =
     Some (set_status Failed (demo_job 100)) \<and>
   fst (snd (sweep (mem_job_store demo_order) 1099 0 ([1 \<mapsto> demo_job 100], peer_new 1))) 1 =
     Some (demo_job 100)"
proof -
  have sweep: "sweep (mem_job_store demo_order) now 0 ([1 \<mapsto> demo_job 100], peer_new 1) =
      (Inr (), swept now [1 \<mapsto> demo_job 100], peer_evict_expired 0 (peer_new 1))" for now
    by (rule sweep_memory) (use demo_mem_inv [of 100] in \<open>simp_all add: mem_inv_def\<close>)
  have "job_status (demo_job 100) = Dispatched \<and> job_deadline_ms (demo_job 100) = 1100"
    by (simp add: demo_job_def job_dispatched_def sat_add_def)
  then show ?thesis
    by (simp add: sweep swept_def overdue_def)
qed

text \<open>C13: the Postgres queue refines the abstract one. On tables whose deadlines fit the signed
  column, a sweep that the database lets through leaves a table that reads back as the swept
  queue, the result the in-memory store computes.\<close>

theorem sweep_postgres_refines:
  assumes "pg_inv order s" "unat now < 2 ^ 63"
    and "sweep (pg_job_store order) now en (s, ps) = (Inr (), (s', ps'))"
  shows "pg_abs s' = swept now (pg_abs s) \<and> pg_inv order s' \<and> ps' = peer_evict_expired en ps"
  using pg.sweep_ok [OF assms] by blast

theorem sweep_postgres_refines_witness:
  "\<exists>s'. pg_abs s' = swept 1500 (pg_abs \<lparr>pg_table = [1 \<mapsto> job_insert_row (demo_job 100)], pg_faults = []\<rparr>)"
proof -
  let ?s = "\<lparr>pg_table = [1 \<mapsto> job_insert_row (demo_job 100)], pg_faults = []\<rparr>"
  have inv: "pg_inv demo_order ?s"
    by (simp add: pg_inv_def demo_order_good pred_map_ok_def row_ok_def job_insert_row_def
        demo_job_def job_dispatched_def sat_add_def)
  obtain s' where "sweep (pg_job_store demo_order) 1500 0 (?s, peer_new 1)
      = (Inr (), (s', peer_evict_expired 0 (peer_new 1)))"
    using pg_sweep_no_fault [of ?s demo_order 1500 0 "peer_new 1"] by auto
  from sweep_postgres_refines [OF inv _ this] show ?thesis
    by auto
qed

text \<open>A job can get stuck. Once a job is \<open>TimedOut\<close>, the state between the two updates of the
  compensation, no later sweep touches it, whatever the database answers: a sweep that loses
  the second update leaves the job unfinished for good.\<close>

theorem sweep_leaves_timed_out:
  assumes "pg_inv order s" "unat now < 2 ^ 63" "pg_abs s i = Some j" "job_status j = TimedOut"
    and "sweep (pg_job_store order) now en (s, ps) = (r, (s', ps'))"
  shows "pg_abs s' i = Some j"
  using pg.sweep_skips_timed_out [OF assms] by blast

theorem sweep_leaves_timed_out_witness:
  "\<exists>s'. pg_abs s' 1 = Some (set_status TimedOut (demo_job 100))"
proof -
  let ?j = "set_status TimedOut (demo_job 100)"
  let ?s = "\<lparr>pg_table = [1 \<mapsto> job_insert_row ?j], pg_faults = []\<rparr>"
  have inv: "pg_inv demo_order ?s"
    by (simp add: pg_inv_def demo_order_good pred_map_ok_def row_ok_def job_insert_row_def
        set_status_def demo_job_def job_dispatched_def sat_add_def)
  have "pg_adm_job ?j"
    by (simp add: pg_adm_job_def set_status_def demo_job_def job_dispatched_def sat_add_def)
  then have held: "pg_abs ?s 1 = Some ?j"
    by (simp add: pg_abs_def row_to_insert_row)
  obtain s' where run: "sweep (pg_job_store demo_order) 1500 0 (?s, peer_new 1)
      = (Inr (), (s', peer_evict_expired 0 (peer_new 1)))"
    using pg_sweep_no_fault [of ?s demo_order 1500 0 "peer_new 1"] by auto
  have "unat (1500 :: u64) < 2 ^ 63"
    by simp
  from sweep_leaves_timed_out [OF inv this held set_status_status run] show ?thesis
    by blast
qed

text \<open>The two stores disagree on far deadlines. A waiting job whose deadline is \<open>2 ^ 63\<close> or
  more, as the saturating addition produces for a long timeout, is due at once in Postgres, where the
  comparison is signed, and not due in memory.\<close>

theorem postgres_far_deadline_due:
  assumes "job_status j = Dispatched" "2 ^ 63 \<le> unat (job_deadline_ms j)" "unat now < 2 ^ 63"
    and "i = job_request_id j"
  shows "job_request_id ` set (case fst (pg_due (\<lambda>t. [i]) now \<lparr>pg_table = [i \<mapsto> job_insert_row j],
       pg_faults = []\<rparr>) of Inl e \<Rightarrow> [] | Inr js \<Rightarrow> js) = {i} \<and>
    mem_due (\<lambda>m. [i]) now [i \<mapsto> j] = (Inr [], [i \<mapsto> j])"
proof -
  have "sint (job_deadline_ms j) < 0" "0 \<le> sint now"
    using sint_large [OF assms(2)] sint_small [OF assms(3)] by simp_all
  then have "job_deadline_ms j \<le>s now"
    by (simp add: word_sle_eq)
  moreover have "\<not> job_deadline_ms j \<le> now"
    using assms(2,3) by (simp add: word_le_nat_alt)
  ultimately show ?thesis
    using assms(1,4) by (simp add: pg_due_def pg_run_def mem_due_def List.map_filter_def
        job_insert_row_def status_str_def job_is_due_def row_to_record_def)
qed

theorem postgres_far_deadline_due_witness:
  "mem_due (\<lambda>m. [1]) 1500 [1 \<mapsto> demo_job (- 1)] = (Inr [], [1 \<mapsto> demo_job (- 1)]) \<and>
   job_request_id ` set (case fst (pg_due (\<lambda>t. [1]) 1500 \<lparr>pg_table = [1 \<mapsto> job_insert_row (demo_job (- 1))],
       pg_faults = []\<rparr>) of Inl e \<Rightarrow> [] | Inr js \<Rightarrow> js) = {1}"
proof -
  have "job_deadline_ms (demo_job (- 1)) = - 1"
    by (simp add: demo_job_def job_dispatched_def sat_add_def unat_all_ones)
  then have "2 ^ 63 \<le> unat (job_deadline_ms (demo_job (- 1)))"
    by (simp add: unat_all_ones)
  moreover have "job_status (demo_job (- 1)) = Dispatched" "1 = job_request_id (demo_job (- 1))"
    by (simp_all add: demo_job_def job_dispatched_def)
  moreover have "unat (1500 :: u64) < 2 ^ 63"
    by simp
  ultimately show ?thesis
    by (intro conjI conjunct2 [OF postgres_far_deadline_due] conjunct1 [OF postgres_far_deadline_due])
qed

text \<open>Terminal states are not final. \<^verbatim>\<open>complete\<close> does not look at the current status: a
  job the watcher has failed is recorded as completed when its inference finishes late.\<close>

theorem complete_overwrites_failed:
  "mem_complete i mt (swept now [i \<mapsto> j]) = (Inr (), [i \<mapsto> finish_job mt
     (if overdue now j then set_status Failed j else j)])"
  by (simp add: mem_complete_eq swept_def spec_update_def fun_eq_iff)

end
