(* ===== verification/Scheduler.thy ===== *)
theory Scheduler
  imports Prelude "HOL-Library.Multiset"
begin

text \<open>The job scheduler of \<^verbatim>\<open>crates/inference/src/scheduler.rs\<close> as a step relation. A call of
  \<^verbatim>\<open>submit\<close> and the task it spawns interleave with all others at their \<^verbatim>\<open>await\<close> points: the
  depth check and the push of a submission are two steps, and a task goes through waiting for a
  permit, leaving the queue, entering the active set, running, leaving the active set and
  dropping its permit.\<close>

section \<open>State\<close>

datatype task = Waiting uuid | Permitted uuid | Dequeued uuid | Running uuid | Finished uuid | Removed uuid

record scheduler =
  sd_max_concurrent :: nat
  sd_max_queue :: nat
  sd_permits :: nat
  sd_active :: "uuid set"
  sd_queue :: "uuid list"
  sd_checked :: "uuid multiset"
  sd_tasks :: "task multiset"

definition scheduler_new :: "nat \<Rightarrow> nat \<Rightarrow> scheduler" where
  "scheduler_new max_concurrent max_queue =
     \<lparr>sd_max_concurrent = max max_concurrent 1, sd_max_queue = max_queue,
      sd_permits = max max_concurrent 1, sd_active = {}, sd_queue = [], sd_checked = {#},
      sd_tasks = {#}\<rparr>"

definition active_count :: "scheduler \<Rightarrow> nat" where
  "active_count s = card (sd_active s)"

definition queue_depth :: "scheduler \<Rightarrow> nat" where
  "queue_depth s = length (sd_queue s)"

definition total_in_flight :: "scheduler \<Rightarrow> nat" where
  "total_in_flight s = active_count s + queue_depth s"

section \<open>Steps\<close>

text \<open>The submission: refused when the queue is full; otherwise, later, pushed and spawned.\<close>

definition submit_refused :: "scheduler \<Rightarrow> bool" where
  "submit_refused s = (queue_depth s \<ge> sd_max_queue s)"

definition submit_push :: "uuid \<Rightarrow> scheduler \<Rightarrow> scheduler" where
  "submit_push i s = s\<lparr>sd_queue := sd_queue s @ [i], sd_checked := sd_checked s - {#i#},
     sd_tasks := add_mset (Waiting i) (sd_tasks s)\<rparr>"

inductive submit_step :: "scheduler \<Rightarrow> scheduler \<Rightarrow> bool" where
  check: "\<not> submit_refused s \<Longrightarrow> submit_step s (s\<lparr>sd_checked := add_mset i (sd_checked s)\<rparr>)"
| push: "i \<in># sd_checked s \<Longrightarrow> submit_step s (submit_push i s)"

text \<open>The spawned task.\<close>

inductive task_step :: "scheduler \<Rightarrow> scheduler \<Rightarrow> bool" where
  acquire: "Waiting i \<in># sd_tasks s \<Longrightarrow> sd_permits s > 0 \<Longrightarrow>
    task_step s (s\<lparr>sd_permits := sd_permits s - 1,
      sd_tasks := add_mset (Permitted i) (sd_tasks s - {#Waiting i#})\<rparr>)"
| dequeue: "Permitted i \<in># sd_tasks s \<Longrightarrow>
    task_step s (s\<lparr>sd_queue := filter (\<lambda>j. j \<noteq> i) (sd_queue s),
      sd_tasks := add_mset (Dequeued i) (sd_tasks s - {#Permitted i#})\<rparr>)"
| activate: "Dequeued i \<in># sd_tasks s \<Longrightarrow>
    task_step s (s\<lparr>sd_active := insert i (sd_active s),
      sd_tasks := add_mset (Running i) (sd_tasks s - {#Dequeued i#})\<rparr>)"
| finish: "Running i \<in># sd_tasks s \<Longrightarrow>
    task_step s (s\<lparr>sd_tasks := add_mset (Finished i) (sd_tasks s - {#Running i#})\<rparr>)"
| remove: "Finished i \<in># sd_tasks s \<Longrightarrow>
    task_step s (s\<lparr>sd_active := sd_active s - {i},
      sd_tasks := add_mset (Removed i) (sd_tasks s - {#Finished i#})\<rparr>)"
| release: "Removed i \<in># sd_tasks s \<Longrightarrow>
    task_step s (s\<lparr>sd_permits := sd_permits s + 1, sd_tasks := sd_tasks s - {#Removed i#}\<rparr>)"

inductive sched_reachable :: "nat \<Rightarrow> nat \<Rightarrow> scheduler \<Rightarrow> bool" for c q where
  start: "sched_reachable c q (scheduler_new c q)"
| submit: "sched_reachable c q s \<Longrightarrow> submit_step s s' \<Longrightarrow> sched_reachable c q s'"
| task: "sched_reachable c q s \<Longrightarrow> task_step s s' \<Longrightarrow> sched_reachable c q s'"

section \<open>Invariant\<close>

definition holds_permit :: "task \<Rightarrow> bool" where
  "holds_permit t = (case t of Waiting i \<Rightarrow> False | _ \<Rightarrow> True)"

definition occupies :: "task \<Rightarrow> uuid option" where
  "occupies t = (case t of Running i \<Rightarrow> Some i | Finished i \<Rightarrow> Some i | _ \<Rightarrow> None)"

definition in_queue :: "task \<Rightarrow> uuid option" where
  "in_queue t = (case t of Waiting i \<Rightarrow> Some i | Permitted i \<Rightarrow> Some i | _ \<Rightarrow> None)"

lemmas task_views = holds_permit_def occupies_def in_queue_def

text \<open>Permits are conserved, active requests have a task that occupies a slot, and queued ids have
  a task that has not left the queue.\<close>

definition sched_inv :: "nat \<Rightarrow> scheduler \<Rightarrow> bool" where
  "sched_inv c s \<longleftrightarrow>
     sd_max_concurrent s = max c 1 \<and>
     sd_permits s + size (filter_mset holds_permit (sd_tasks s)) = sd_max_concurrent s \<and>
     Some ` sd_active s \<subseteq> occupies ` set_mset (sd_tasks s) \<and>
     Some ` set (sd_queue s) \<subseteq> in_queue ` set_mset (sd_tasks s)"

lemma sched_inv_start: "sched_inv c (scheduler_new c q)"
  by (simp add: sched_inv_def scheduler_new_def)

lemma sched_inv_submit: "submit_step s s' \<Longrightarrow> sched_inv c s \<Longrightarrow> sched_inv c s'"
  by (induction rule: submit_step.induct) (auto simp: sched_inv_def submit_push_def task_views)

lemma sched_inv_task: "task_step s s' \<Longrightarrow> sched_inv c s \<Longrightarrow> sched_inv c s'"
proof (induction rule: task_step.induct)
  case (acquire i s)
  then obtain M where "sd_tasks s = add_mset (Waiting i) M"
    by (auto dest: multi_member_split)
  with acquire show ?case
    by (auto simp: sched_inv_def task_views)
next
  case (dequeue i s)
  then obtain M where "sd_tasks s = add_mset (Permitted i) M"
    by (auto dest: multi_member_split)
  with dequeue show ?case
    by (auto simp: sched_inv_def task_views)
next
  case (activate i s)
  then obtain M where "sd_tasks s = add_mset (Dequeued i) M"
    by (auto dest: multi_member_split)
  with activate show ?case
    by (auto simp: sched_inv_def task_views)
next
  case (finish i s)
  then obtain M where "sd_tasks s = add_mset (Running i) M"
    by (auto dest: multi_member_split)
  with finish show ?case
    by (auto simp: sched_inv_def task_views)
next
  case (remove i s)
  then obtain M where "sd_tasks s = add_mset (Finished i) M"
    by (auto dest: multi_member_split)
  with remove show ?case
    by (auto simp: sched_inv_def task_views)
next
  case (release i s)
  then obtain M where "sd_tasks s = add_mset (Removed i) M"
    by (auto dest: multi_member_split)
  with release show ?case
    by (auto simp: sched_inv_def task_views)
qed

lemma sched_reachable_inv: "sched_reachable c q s \<Longrightarrow> sched_inv c s"
  by (induction rule: sched_reachable.induct)
    (simp_all add: sched_inv_start sched_inv_submit sched_inv_task)

lemma card_set_mset_le_size: "card (set_mset M) \<le> size M"
  by (induction M) (auto simp: card_insert_if)

lemma sched_inv_active:
  assumes "sched_inv c s"
  shows "finite (sd_active s) \<and> active_count s \<le> size (filter_mset holds_permit (sd_tasks s))"
proof -
  let ?T = "set_mset (filter_mset holds_permit (sd_tasks s))"
  have hp: "holds_permit t" if "occupies t = Some i" for t i
    using that by (cases t) (simp_all add: task_views)
  have sub: "Some ` sd_active s \<subseteq> occupies ` ?T"
  proof
    fix x assume x: "x \<in> Some ` sd_active s"
    then obtain i where i: "x = Some i" by blast
    have "x \<in> occupies ` set_mset (sd_tasks s)"
      using assms x unfolding sched_inv_def by blast
    then obtain t where t: "t \<in># sd_tasks s" "x = occupies t" by (rule imageE)
    then have "t \<in> ?T" using hp [of t i] i by simp
    with t show "x \<in> occupies ` ?T" by blast
  qed
  then have fin: "finite (Some ` sd_active s)"
    by (rule finite_subset) simp
  have "card (sd_active s) = card (Some ` sd_active s)"
    by (simp add: card_image)
  moreover have "card (Some ` sd_active s) \<le> card ?T"
    using sub by (rule surj_card_le [rotated]) simp
  moreover have "card ?T \<le> size (filter_mset holds_permit (sd_tasks s))"
    by (rule card_set_mset_le_size)
  ultimately show ?thesis
    using fin by (simp add: active_count_def finite_image_iff)
qed

section \<open>Progress\<close>

text \<open>The number of steps a task still has to make.\<close>

definition task_rank :: "task \<Rightarrow> nat" where
  "task_rank t = (case t of Waiting i \<Rightarrow> 6 | Permitted i \<Rightarrow> 5 | Dequeued i \<Rightarrow> 4 | Running i \<Rightarrow> 3
     | Finished i \<Rightarrow> 2 | Removed i \<Rightarrow> 1)"

definition sched_work :: "scheduler \<Rightarrow> nat" where
  "sched_work s = sum_mset (image_mset task_rank (sd_tasks s))"

lemma task_step_work: "task_step s s' \<Longrightarrow> sched_work s = Suc (sched_work s')"
  by (induction rule: task_step.induct)
    (auto simp: sched_work_def task_rank_def dest!: multi_member_split)

lemma task_step_checked: "task_step s s' \<Longrightarrow> sd_checked s' = sd_checked s"
  by (induction rule: task_step.induct) simp_all

text \<open>No deadlock: while there are tasks, one of them can move.\<close>

lemma task_progress:
  assumes "sched_inv c s" "sd_tasks s \<noteq> {#}"
  shows "\<exists>s'. task_step s s'"
proof (cases "\<exists>t\<in>#sd_tasks s. holds_permit t")
  case True
  then obtain t where t: "t \<in># sd_tasks s" "holds_permit t"
    by blast
  show ?thesis
  proof (cases t)
    case (Waiting i)
    with t show ?thesis
      by (simp add: holds_permit_def)
  next
    case (Permitted i)
    with t task_step.dequeue show ?thesis by blast
  next
    case (Dequeued i)
    with t task_step.activate show ?thesis by blast
  next
    case (Running i)
    with t task_step.finish show ?thesis by blast
  next
    case (Finished i)
    with t task_step.remove show ?thesis by blast
  next
    case (Removed i)
    with t task_step.release show ?thesis by blast
  qed
next
  case False
  then have "size (filter_mset holds_permit (sd_tasks s)) = 0"
    by simp
  then have "sd_permits s > 0"
    using assms(1) unfolding sched_inv_def by linarith
  moreover obtain t where t: "t \<in># sd_tasks s"
    using assms(2) by (meson multiset_nonemptyE)
  then obtain i where "t = Waiting i"
    using False by (cases t) (auto simp: holds_permit_def)
  ultimately show ?thesis
    using t task_step.acquire by blast
qed

lemma task_drain:
  "sched_inv c s \<Longrightarrow> \<exists>s'. task_step\<^sup>*\<^sup>* s s' \<and> sd_tasks s' = {#} \<and> sched_inv c s'"
proof (induction "sched_work s" arbitrary: s rule: less_induct)
  case less
  show ?case
  proof (cases "sd_tasks s = {#}")
    case False
    then obtain s1 where s1: "task_step s s1"
      using task_progress less.prems by blast
    then have "sched_work s1 < sched_work s" "sched_inv c s1"
      using task_step_work sched_inv_task less.prems by auto
    with less.hyps obtain s' where "task_step\<^sup>*\<^sup>* s1 s'" "sd_tasks s' = {#}" "sched_inv c s'"
      by blast
    with s1 show ?thesis
      by (meson converse_rtranclp_into_rtranclp)
  qed (use less.prems in blast)
qed

section \<open>Properties\<close>

text \<open>C14: the concurrency limit holds. However submissions and tasks interleave, permits are
  conserved and the number of active jobs never exceeds the configured number of slots (at
  least one).\<close>

theorem scheduler_bounded:
  assumes "sched_reachable c q s"
  shows "active_count s \<le> max c 1 \<and> sd_permits s \<le> max c 1"
  using sched_inv_active [OF sched_reachable_inv [OF assms]] sched_reachable_inv [OF assms]
  by (simp add: sched_inv_def)

theorem scheduler_bounded_witness:
  "active_count (submit_push 7 (scheduler_new 2 4)\<lparr>sd_checked := {#}\<rparr>) \<le> 2"
proof -
  let ?s = "scheduler_new 2 4"
  have 1: "sched_reachable 2 4 (?s\<lparr>sd_checked := add_mset 7 (sd_checked ?s)\<rparr>)"
    by (intro sched_reachable.submit [OF sched_reachable.start] submit_step.check)
      (simp add: submit_refused_def queue_depth_def scheduler_new_def)
  have 2: "sched_reachable 2 4 (submit_push 7 (?s\<lparr>sd_checked := add_mset 7 (sd_checked ?s)\<rparr>))"
    by (intro sched_reachable.submit [OF 1] submit_step.push) simp
  from scheduler_bounded [OF 2] show ?thesis
    by (simp add: submit_push_def active_count_def scheduler_new_def)
qed

text \<open>C15: no job is stranded. From every reachable state the tasks can always move until
  none is left, every further step of a task brings that closer, and then all permits are back,
  no request is active and the queue is empty.\<close>

theorem scheduler_drains:
  assumes "sched_reachable c q s"
  shows "(sd_tasks s \<noteq> {#} \<longrightarrow> (\<exists>s'. task_step s s')) \<and>
    (\<forall>s'. task_step s s' \<longrightarrow> sched_work s = Suc (sched_work s')) \<and>
    (\<exists>s'. task_step\<^sup>*\<^sup>* s s' \<and> sd_tasks s' = {#} \<and> sd_permits s' = max c 1 \<and>
       active_count s' = 0 \<and> queue_depth s' = 0)"
proof -
  note inv = sched_reachable_inv [OF assms]
  obtain s' where s': "task_step\<^sup>*\<^sup>* s s'" "sd_tasks s' = {#}" "sched_inv c s'"
    using task_drain [OF inv] by blast
  then have "sd_permits s' = max c 1" "sd_active s' = {}" "sd_queue s' = []"
    by (auto simp: sched_inv_def)
  with s' show ?thesis
    using task_progress [OF inv] task_step_work by (auto simp: active_count_def queue_depth_def)
qed

theorem scheduler_drains_witness:
  "\<exists>s'. task_step\<^sup>*\<^sup>* (scheduler_new 2 4) s' \<and> sd_permits s' = 2 \<and> queue_depth s' = 0"
  using scheduler_drains [OF sched_reachable.start [of 2 4]] by auto

text \<open>The queue bound does not hold under concurrent submissions. The depth is read in one
  critical section and the id pushed in another, so any list of submissions can pass the check
  before the first of them is queued, and all of them end up in a queue that was to hold one.\<close>

theorem scheduler_queue_overrun:
  "\<exists>s. sched_reachable c (Suc 0) s \<and> sd_max_queue s = Suc 0 \<and> queue_depth s = length ids \<and>
     sd_queue s = ids"
proof -
  have checked: "\<exists>s. sched_reachable c (Suc 0) s \<and> sd_queue s = [] \<and> sd_max_queue s = Suc 0 \<and>
      sd_checked s = mset js" for js
  proof (induction js)
    case Nil
    show ?case
      by (intro exI [of _ "scheduler_new c (Suc 0)"] conjI, rule sched_reachable.start)
        (simp_all add: scheduler_new_def)
  next
    case (Cons j js)
    then obtain s where s: "sched_reachable c (Suc 0) s" "sd_queue s = []" "sd_max_queue s = Suc 0"
      "sd_checked s = mset js"
      by blast
    then have "submit_step s (s\<lparr>sd_checked := add_mset j (sd_checked s)\<rparr>)"
      by (intro submit_step.check) (simp add: submit_refused_def queue_depth_def)
    with s show ?case
      by (intro exI [of _ "s\<lparr>sd_checked := add_mset j (sd_checked s)\<rparr>"])
        (auto intro: sched_reachable.submit)
  qed
  have pushed: "\<exists>s. sched_reachable c (Suc 0) s \<and> sd_max_queue s = Suc 0 \<and> sd_queue s = js \<and>
      sd_checked s = mset ks" if "js @ ks = ids" for js ks
    using that
  proof (induction js arbitrary: ks rule: rev_induct)
    case Nil
    then show ?case
      using checked [of ks] by blast
  next
    case (snoc j js)
    then obtain s where s: "sched_reachable c (Suc 0) s" "sd_max_queue s = Suc 0" "sd_queue s = js"
      "sd_checked s = mset (j # ks)"
      using snoc.IH [of "j # ks"] by auto
    then have "submit_step s (submit_push j s)"
      by (intro submit_step.push) simp
    with s show ?case
      by (intro exI [of _ "submit_push j s"])
        (auto simp: submit_push_def intro: sched_reachable.submit)
  qed
  show ?thesis
    using pushed [of ids "[]"] by (auto simp: queue_depth_def)
qed

end
