(* ===== verification/Node_Config.thy ===== *)
theory Node_Config
  imports Node_Types
begin

text \<open>The configuration of \<^verbatim>\<open>crates/common/src/config.rs\<close>: one record per section with its
  default, and the whole \<^verbatim>\<open>NodeConfig\<close>. Reading and writing TOML is third-party code.\<close>

datatype operation_mode = Standalone | Network | NetworkPaid

definition operation_mode_default :: operation_mode where
  "operation_mode_default = Standalone"

record node_section =
  ns_mode :: operation_mode
  ns_node_id :: string
  ns_data_dir :: string
  ns_log_level :: string

definition node_section_default :: node_section where
  "node_section_default = \<lparr>ns_mode = Network, ns_node_id = [], ns_data_dir = ''~/.pinaivu/data'',
     ns_log_level = ''info''\<rparr>"

record storage_section =
  st_backend :: string
  st_sessions_dir :: string
  st_ipfs_api :: string
  st_walrus_aggregator :: string
  st_walrus_publisher :: string

definition storage_section_default :: storage_section where
  "storage_section_default = \<lparr>st_backend = ''local'', st_sessions_dir = ''~/.pinaivu/sessions'',
     st_ipfs_api = ''http://localhost:5001'',
     st_walrus_aggregator = ''https://aggregator.walrus.site'',
     st_walrus_publisher = ''https://publisher.walrus.site''\<rparr>"

datatype context_store_kind = ContextMemory | ContextLocal | ContextRedis

record context_section =
  cx_store :: context_store_kind
  cx_redis_url :: string
  cx_ttl_seconds :: u64
  cx_max_messages :: u64

definition context_section_default :: context_section where
  "context_section_default = \<lparr>cx_store = ContextMemory, cx_redis_url = ''redis://127.0.0.1:6379'',
     cx_ttl_seconds = 86400, cx_max_messages = 100\<rparr>"

record gpu_section =
  gpu_device :: string
  gpu_max_vram_usage :: f32
  gpu_concurrent_jobs :: u64

definition gpu_section_default :: gpu_section where
  "gpu_section_default = \<lparr>gpu_device = ''auto'', gpu_max_vram_usage = 9 / 10, gpu_concurrent_jobs = 1\<rparr>"

record inference_section =
  inf_engine :: string
  inf_default_model :: string
  inf_max_context_length :: u32
  inf_max_output_tokens :: u32
  inf_temperature_default :: f32

definition inference_section_default :: inference_section where
  "inference_section_default = \<lparr>inf_engine = ''ollama'', inf_default_model = ''llama3.1:8b'',
     inf_max_context_length = 8192, inf_max_output_tokens = 4096, inf_temperature_default = 7 / 10\<rparr>"

record network_section =
  net_listen_port :: u16
  net_bootstrap_nodes :: "string list"
  net_max_peers :: u64
  net_nat_traversal :: bool
  net_announce_heartbeat_secs :: u64

definition network_section_default :: network_section where
  "network_section_default = \<lparr>net_listen_port = 7771, net_bootstrap_nodes =
     [''/ip4/13.48.204.156/tcp/4001/p2p/12D3KooWBoxCVGU2BpCYLqDN27AtyAtXJyY6MeCRssSARYL4NnU9''],
     net_max_peers = 50, net_nat_traversal = True, net_announce_heartbeat_secs = 60\<rparr>"

record pricing_section =
  pr_price_per_1k_tokens :: u64
  pr_min_escrow :: u64
  pr_auto_pricing :: bool

definition pricing_section_default :: pricing_section where
  "pricing_section_default = \<lparr>pr_price_per_1k_tokens = 10, pr_min_escrow = 100, pr_auto_pricing = False\<rparr>"

record wallet_section =
  wal_address :: string
  wal_keystore :: string

definition wallet_section_default :: wallet_section where
  "wallet_section_default = \<lparr>wal_address = [], wal_keystore = []\<rparr>"

record privacy_section =
  pv_memory_wipe :: bool
  pv_tee_enabled :: bool

definition privacy_section_default :: privacy_section where
  "privacy_section_default = \<lparr>pv_memory_wipe = True, pv_tee_enabled = False\<rparr>"

record health_section =
  hl_metrics_port :: u16
  hl_api_port :: u16
  hl_heartbeat_interval :: string
  hl_api_url :: "string option"

definition health_section_default :: health_section where
  "health_section_default = \<lparr>hl_metrics_port = 7770, hl_api_port = 4002,
     hl_heartbeat_interval = ''30s'', hl_api_url = None\<rparr>"

record updates_section =
  up_auto_update :: bool
  up_update_channel :: string

definition updates_section_default :: updates_section where
  "updates_section_default = \<lparr>up_auto_update = True, up_update_channel = ''stable''\<rparr>"

datatype reputation_store_kind = ReputationLocal | ReputationGossip | ReputationAnchored

record reputation_section =
  rps_store :: reputation_store_kind
  rps_anchor_settlement :: "string option"
  rps_anchor_interval :: u64

definition reputation_section_default :: reputation_section where
  "reputation_section_default = \<lparr>rps_store = ReputationLocal, rps_anchor_settlement = None,
     rps_anchor_interval = 3600\<rparr>"

record settlement_adapter_config =
  sac_id :: string
  sac_price_per_1k :: u64
  sac_token_id :: string
  sac_rpc_url :: "string option"
  sac_contract_address :: "string option"
  sac_token_address :: "string option"
  sac_package_id :: "string option"
  sac_chain_id :: "u64 option"
  sac_signer_key_hex :: "string option"
  sac_node_pubkey_hex :: "string option"
  sac_circle_api_key :: "string option"

definition settlement_adapter_config_default :: settlement_adapter_config where
  "settlement_adapter_config_default = \<lparr>sac_id = [], sac_price_per_1k = 0, sac_token_id = [],
     sac_rpc_url = None, sac_contract_address = None, sac_token_address = None,
     sac_package_id = None, sac_chain_id = None, sac_signer_key_hex = None,
     sac_node_pubkey_hex = None, sac_circle_api_key = None\<rparr>"

record api_section =
  api_key :: string

definition api_section_default :: api_section where
  "api_section_default = \<lparr>api_key = []\<rparr>"

record x402_section =
  x402_enabled :: bool
  x402_usdc_address :: string
  x402_price_units :: u64
  x402_network :: string
  x402_node_evm_address :: string
  x402_rpc_url :: string

definition x402_section_default :: x402_section where
  "x402_section_default = \<lparr>x402_enabled = False, x402_usdc_address = [], x402_price_units = 1000,
     x402_network = ''arc-testnet'', x402_node_evm_address = [], x402_rpc_url = []\<rparr>"

record settlement_section =
  sts_adapters :: "settlement_adapter_config list"

definition settlement_section_default :: settlement_section where
  "settlement_section_default = \<lparr>sts_adapters =
     [settlement_adapter_config_default\<lparr>sac_id := ''free'', sac_token_id := ''native''\<rparr>]\<rparr>"

datatype peer_store_kind = PeerMemory | PeerRedis

datatype job_store_kind = JobMemory | JobPostgres

record persistence_section =
  per_peer_store :: peer_store_kind
  per_job_store :: job_store_kind
  per_redis_url :: string
  per_database_url :: string
  per_peer_ttl_secs :: u64
  per_job_timeout_secs :: u64
  per_job_poll_secs :: u64

definition persistence_section_default :: persistence_section where
  "persistence_section_default = \<lparr>per_peer_store = PeerMemory, per_job_store = JobMemory,
     per_redis_url = ''redis://127.0.0.1:6379'', per_database_url = ''postgres://localhost/deai'',
     per_peer_ttl_secs = 600, per_job_timeout_secs = 120, per_job_poll_secs = 10\<rparr>"

record node_config =
  cfg_node :: node_section
  cfg_gpu :: gpu_section
  cfg_inference :: inference_section
  cfg_network :: network_section
  cfg_storage :: storage_section
  cfg_context :: context_section
  cfg_pricing :: pricing_section
  cfg_wallet :: wallet_section
  cfg_privacy :: privacy_section
  cfg_health :: health_section
  cfg_updates :: updates_section
  cfg_reputation :: reputation_section
  cfg_settlement :: settlement_section
  cfg_x402 :: x402_section
  cfg_api :: api_section
  cfg_persistence :: persistence_section

definition node_config_default :: node_config where
  "node_config_default = \<lparr>cfg_node = node_section_default, cfg_gpu = gpu_section_default,
     cfg_inference = inference_section_default, cfg_network = network_section_default,
     cfg_storage = storage_section_default, cfg_context = context_section_default,
     cfg_pricing = pricing_section_default, cfg_wallet = wallet_section_default,
     cfg_privacy = privacy_section_default, cfg_health = health_section_default,
     cfg_updates = updates_section_default, cfg_reputation = reputation_section_default,
     cfg_settlement = settlement_section_default, cfg_x402 = x402_section_default,
     cfg_api = api_section_default, cfg_persistence = persistence_section_default\<rparr>"

end
