(* ===== verification/Bidding.thy ===== *)
theory Bidding
  imports Scheduler Node_Config Rust_String
begin

text \<open>The bid decision engine of \<^verbatim>\<open>crates/inference/src/bid.rs\<close>. The models the inference
  backend lists, the two counters of the scheduler and the clock are arguments; integers are
  those of a release build, where arithmetic wraps. An instant is a number of nanoseconds.\<close>

section \<open>Throttle\<close>

type_synonym instant = int

definition throttle_window :: int where
  "throttle_window = 60 * 10 ^ 9"

definition bid_record_win :: "instant \<Rightarrow> instant list \<Rightarrow> instant list" where
  "bid_record_win now wins = wins @ [now]"

definition throttle_check :: "node_config \<Rightarrow> instant \<Rightarrow> instant list \<Rightarrow> bool \<times> instant list" where
  "throttle_check cfg now wins =
     (let max_wins = gpu_concurrent_jobs (cfg_gpu cfg) * 4;
          cutoff = now - throttle_window;
          wins' = dropWhile (\<lambda>t. t < cutoff) wins
      in (length wins' < unat max_wins, wins'))"

section \<open>Decision\<close>

definition bid_have_model :: "string list \<Rightarrow> string \<Rightarrow> bool" where
  "bid_have_model available model =
     list_ex (\<lambda>m. m = model \<or> starts_with (model @ '':'') m) available"

text \<open>The clock is read only when the first five checks pass; a failed listing of the models
  counts as an empty one.\<close>

definition should_bid ::
  "node_config \<Rightarrow> (string list, 'e) res \<Rightarrow> u64 \<Rightarrow> u64 \<Rightarrow> instant \<Rightarrow> inference_request \<Rightarrow> instant list \<Rightarrow>
     bool \<times> instant list" where
  "should_bid cfg models active depth now req wins =
     (let available = (case models of Inl e \<Rightarrow> [] | Inr ms \<Rightarrow> ms);
          jobs = gpu_concurrent_jobs (cfg_gpu cfg);
          min_cost = sat_mul (pr_price_per_1k_tokens (cfg_pricing cfg)) 100 div 1000
      in if \<not> bid_have_model available (ir_model_preference req) then (False, wins)
         else if active \<ge> jobs then (False, wins)
         else if depth > jobs * 2 then (False, wins)
         else if ir_budget_nanox req < max min_cost (pr_min_escrow (cfg_pricing cfg)) then (False, wins)
         else if ir_privacy_level req = Maximum \<and> \<not> pv_tee_enabled (cfg_privacy cfg) then (False, wins)
         else throttle_check cfg now wins)"

section \<open>The bid\<close>

definition auto_price :: "nanox \<Rightarrow> nanox" where
  "auto_price budget = max (budget * 800 div 1000 div 100) 1"

definition bid_offer :: "nanox \<Rightarrow> settlement_adapter_config \<Rightarrow> settlement_offer" where
  "bid_offer price_per_1k a =
     \<lparr>so_settlement_id = sac_id a,
      so_price_per_1k = (if sac_price_per_1k a > 0 then sac_price_per_1k a else price_per_1k),
      so_token_id = sac_token_id a\<rparr>"

definition build_bid ::
  "node_config \<Rightarrow> u64 \<Rightarrow> u64 \<Rightarrow> inference_request \<Rightarrow> string \<Rightarrow> inference_bid outcome" where
  "build_bid cfg active queue req peer_id =
     (let cap = max (gpu_concurrent_jobs (cfg_gpu cfg)) 1;
          price_per_1k = (if pr_auto_pricing (cfg_pricing cfg) then auto_price (ir_budget_nanox req)
                          else pr_price_per_1k_tokens (cfg_pricing cfg))
      in if cap * 3 = 0 then Panic
         else Done \<lparr>ib_request_id = ir_request_id req, ib_node_peer_id = peer_id,
           ib_estimated_latency_ms = 200 + ucast active * 100,
           ib_current_load_pct = ucast (min ((active + queue) * 100 div (cap * 3)) 100),
           ib_model_id = ir_model_preference req,
           ib_max_context_len = inf_max_context_length (cfg_inference cfg),
           ib_has_tee = pv_tee_enabled (cfg_privacy cfg),
           ib_reputation = reputation_default,
           ib_accepted_settlements = map (bid_offer price_per_1k) (sts_adapters (cfg_settlement cfg))\<rparr>)"

section \<open>Lemmas\<close>

lemma dropWhile_sorted: "sorted xs \<Longrightarrow> dropWhile (\<lambda>t. t < c) xs = filter (\<lambda>t. \<not> t < (c :: 'a::linorder)) xs"
proof (induction xs)
  case (Cons x xs)
  then show ?case
    by (cases "x < c") (auto intro!: filter_True [symmetric])
qed simp

text \<open>A history of the engine: wins recorded and checks made, each with the time it happened.\<close>

datatype throttle_event = Won instant | Checked instant

fun event_time :: "throttle_event \<Rightarrow> instant" where
  "event_time (Won t) = t"
| "event_time (Checked t) = t"

fun throttle_run :: "node_config \<Rightarrow> throttle_event list \<Rightarrow> instant list \<Rightarrow> instant list" where
  "throttle_run cfg [] wins = wins"
| "throttle_run cfg (Won t # es) wins = throttle_run cfg es (bid_record_win t wins)"
| "throttle_run cfg (Checked t # es) wins = throttle_run cfg es (snd (throttle_check cfg t wins))"

fun win_times :: "throttle_event list \<Rightarrow> instant list" where
  "win_times [] = []"
| "win_times (Won t # es) = t # win_times es"
| "win_times (Checked t # es) = win_times es"

text \<open>What a history keeps: a sorted suffix of the wins that misses only wins too old for any
  later check.\<close>

lemma throttle_run_append: "throttle_run cfg (es @ fs) ws = throttle_run cfg fs (throttle_run cfg es ws)"
  by (induction cfg es ws rule: throttle_run.induct) simp_all

lemma win_times_append: "win_times (es @ fs) = win_times es @ win_times fs"
  by (induction es rule: win_times.induct) simp_all

lemma win_times_subset: "set (win_times es) \<subseteq> event_time ` set es"
  by (induction es rule: win_times.induct) auto

lemma win_times_sorted: "sorted (map event_time es) \<Longrightarrow> sorted (win_times es)"
  by (induction es rule: win_times.induct) (use win_times_subset in \<open>fastforce simp: image_iff\<close>)+

lemma throttle_run_window:
  assumes "sorted (map event_time es)" "\<forall>e\<in>set es. event_time e \<le> now"
  shows "filter (\<lambda>t. \<not> t < now - throttle_window) (throttle_run cfg es []) =
      filter (\<lambda>t. \<not> t < now - throttle_window) (win_times es) \<and>
    sorted (throttle_run cfg es []) \<and> set (throttle_run cfg es []) \<subseteq> set (win_times es)"
  using assms
proof (induction es arbitrary: now rule: rev_induct)
  case (snoc e es)
  note app = throttle_run_append win_times_append sorted_append
  have prev: "sorted (map event_time es)" "\<forall>x\<in>set es. event_time x \<le> event_time e"
    using snoc.prems by (auto simp: sorted_append)
  have "event_time e \<le> now"
    using snoc.prems by simp
  have now: "filter (\<lambda>t. \<not> t < now - throttle_window) (throttle_run cfg es []) =
      filter (\<lambda>t. \<not> t < now - throttle_window) (win_times es)"
    and IH: "sorted (throttle_run cfg es [])" "set (throttle_run cfg es []) \<subseteq> set (win_times es)"
    using snoc.IH [of now] snoc.prems prev by auto
  show ?case
  proof (cases e)
    case (Won t)
    have "\<forall>x\<in>set (throttle_run cfg es []). x \<le> t"
      using IH(2) win_times_subset [of es] prev(2) Won by fastforce
    then show ?thesis
      using now IH Won by (auto simp: app bid_record_win_def)
  next
    case (Checked t)
    have "(\<not> x < t - throttle_window) \<and> (\<not> x < now - throttle_window) \<longleftrightarrow> \<not> x < now - throttle_window" for x
      using \<open>event_time e \<le> now\<close> Checked by auto
    then show ?thesis
      using now IH Checked
      by (auto simp: app throttle_check_def Let_def dropWhile_sorted sorted_filter [of id, simplified]
          conj_commute)
  qed
qed simp

lemma mult_3_nonzero: "1 \<le> c \<Longrightarrow> c * 3 \<noteq> (0 :: u64)"
proof
  have "(3 * 12297829382473034411 :: u64) = 1"
    by simp
  then have "c * 3 * 12297829382473034411 = c"
    by (simp only: mult.assoc mult_1_right)
  moreover assume "c * 3 = 0"
  ultimately have "c = 0"
    by (metis mult_zero_left)
  moreover assume "1 \<le> c"
  ultimately show False
    by simp
qed

section \<open>Properties\<close>

definition bid_example_request :: inference_request where
  "bid_example_request = \<lparr>ir_request_id = 1, ir_session_id = 2, ir_model_preference = ''llama'',
     ir_context_blob_id = None, ir_prompt_encrypted = [], ir_prompt_nonce = [], ir_max_tokens = 256,
     ir_temperature = 7 / 10, ir_escrow_tx_id = [], ir_budget_nanox = 10000, ir_timestamp = 0,
     ir_client_peer_id = [], ir_privacy_level = Standard, ir_accepted_settlements = [''free''],
     ir_target_peer_id = None, ir_response_topic = None, ir_prompt_plain = None\<rparr>"

text \<open>The throttle is an exact sliding window. After any history of wins and checks in the
  order of time, a check at a later time passes iff fewer than four times the configured number
  of jobs were won in the sixty seconds before it, counted over the whole history.\<close>

theorem throttle_exact:
  assumes "sorted (map event_time es)" "\<forall>e\<in>set es. event_time e \<le> now"
  shows "fst (throttle_check cfg now (throttle_run cfg es [])) \<longleftrightarrow>
    length (filter (\<lambda>t. now - throttle_window \<le> t) (win_times es)) <
      unat (gpu_concurrent_jobs (cfg_gpu cfg) * 4)"
  using throttle_run_window [OF assms]
  by (simp add: throttle_check_def Let_def dropWhile_sorted not_less)

theorem throttle_exact_witness:
  "fst (throttle_check node_config_default (70 * 10 ^ 9)
     (throttle_run node_config_default [Won 0, Won 5, Checked (50 * 10 ^ 9), Won (60 * 10 ^ 9)] []))"
  by (subst throttle_exact) (simp_all add: throttle_window_def node_config_default_def gpu_section_default_def)

text \<open>A bid is well formed. Building a bid never divides by zero, the load it states is a
  percentage, and it makes exactly one offer per configured adapter, in the configured order,
  at the price of the adapter or, where that is zero, at the price of the node.\<close>

theorem build_bid_well_formed:
  "\<exists>b. build_bid cfg active queue req peer = Done b \<and> unat (ib_current_load_pct b) \<le> 100 \<and>
     map so_settlement_id (ib_accepted_settlements b) = map sac_id (sts_adapters (cfg_settlement cfg)) \<and>
     (pr_price_per_1k_tokens (cfg_pricing cfg) > 0 \<longrightarrow>
       (\<forall>o'\<in>set (ib_accepted_settlements b). so_price_per_1k o' > 0))"
proof -
  let ?l = "min ((active + queue) * 100 div (max (gpu_concurrent_jobs (cfg_gpu cfg)) 1 * 3)) (100 :: u64)"
  have "?l \<le> 100"
    by simp
  then have "unat ?l \<le> 100"
    by (simp add: word_le_nat_alt)
  then have "unat (ucast ?l :: u8) \<le> 100"
    by (simp add: unsigned_ucast_eq take_bit_eq_mod)
  moreover have "max (gpu_concurrent_jobs (cfg_gpu cfg)) 1 * 3 \<noteq> 0"
    by (rule mult_3_nonzero) simp
  moreover have "auto_price b > 0" for b
    by (simp add: auto_price_def less_max_iff_disj)
  ultimately show ?thesis
    by (auto simp: build_bid_def Let_def bid_offer_def o_def)
qed

theorem build_bid_well_formed_witness:
  "\<exists>b o'. build_bid node_config_default 2 1 bid_example_request ''me'' = Done b \<and>
     o' \<in> set (ib_accepted_settlements b) \<and> so_price_per_1k o' > 0"
proof -
  obtain b where b: "build_bid node_config_default 2 1 bid_example_request ''me'' = Done b"
    "map so_settlement_id (ib_accepted_settlements b) = map sac_id (sts_adapters (cfg_settlement node_config_default))"
    "pr_price_per_1k_tokens (cfg_pricing node_config_default) > 0 \<longrightarrow>
       (\<forall>o'\<in>set (ib_accepted_settlements b). so_price_per_1k o' > 0)"
    using build_bid_well_formed [of node_config_default 2 1 bid_example_request "''me''"] by blast
  have "pr_price_per_1k_tokens (cfg_pricing node_config_default) > 0"
    by (simp add: node_config_default_def pricing_section_default_def)
  then have pos: "so_price_per_1k o' > 0" if "o' \<in> set (ib_accepted_settlements b)" for o'
    using b(3) that by blast
  have "ib_accepted_settlements b \<noteq> []"
    using b(2) by (auto simp: node_config_default_def settlement_section_default_def)
  then have "hd (ib_accepted_settlements b) \<in> set (ib_accepted_settlements b)"
    by simp
  with b(1) pos show ?thesis
    by blast
qed

text \<open>Auto-pricing stays within eighty percent of the budget only below the point where
  multiplying it by 800 wraps around; just above that point the price collapses to one.\<close>

theorem auto_price_within_budget:
  assumes "unat budget * 800 < 2 ^ 64" "125 \<le> unat budget"
  shows "unat (auto_price budget) * 100 * 1000 \<le> unat budget * 800 \<and>
    auto_price 23058430092136939 = 184467440737095 \<and> auto_price 23058430092136940 = 1"
proof -
  have "unat (budget * 800) = unat budget * 800"
    using assms(1) by (simp add: unat_word_ariths)
  then have p: "unat (budget * 800 div 1000 div 100) = unat budget * 800 div 1000 div 100"
    by (simp add: unat_div)
  moreover have "1 \<le> unat budget * 800 div 1000 div 100"
    using assms(2) by linarith
  ultimately have "unat (auto_price budget) = unat budget * 800 div 1000 div 100"
    by (simp add: auto_price_def max_def word_le_nat_alt)
  moreover have "unat budget * 800 div 1000 div 100 * 100 * 1000 \<le> unat budget * 800"
    using div_times_less_eq_dividend [of "unat budget * 800" "100 * 1000"]
    by (simp add: div_mult2_eq mult.assoc)
  moreover have "auto_price 23058430092136939 = 184467440737095" "auto_price 23058430092136940 = 1"
    by (simp_all add: auto_price_def max_def word_le_nat_alt)
  ultimately show ?thesis
    by simp
qed

theorem auto_price_within_budget_witness:
  "unat (auto_price 10000) * 100 * 1000 \<le> unat (10000 :: u64) * 800"
  using auto_price_within_budget [of 10000] by simp

text \<open>A positive decision means the request can be served: the model is listed (by name or
  with a tag), a job slot is free, the budget covers one hundred tokens and the minimum escrow,
  a request that needs a trusted environment meets one, and the throttle passes.\<close>

theorem should_bid_safe:
  assumes "should_bid cfg models active depth now req wins = (True, wins')"
  shows "(\<exists>ms m. models = Inr ms \<and> m \<in> set ms \<and>
        (m = ir_model_preference req \<or> (\<exists>tag. m = ir_model_preference req @ '':'' @ tag))) \<and>
      active < gpu_concurrent_jobs (cfg_gpu cfg) \<and>
      pr_min_escrow (cfg_pricing cfg) \<le> ir_budget_nanox req \<and>
      min (unat (pr_price_per_1k_tokens (cfg_pricing cfg)) * 100) (2 ^ 64 - 1) div 1000
        \<le> unat (ir_budget_nanox req) \<and>
      (ir_privacy_level req = Maximum \<longrightarrow> pv_tee_enabled (cfg_privacy cfg)) \<and>
      throttle_check cfg now wins = (True, wins')"
proof -
  let ?avail = "case models of Inl e \<Rightarrow> [] | Inr ms \<Rightarrow> ms"
  let ?min = "sat_mul (pr_price_per_1k_tokens (cfg_pricing cfg)) 100 div 1000"
  have a: "bid_have_model ?avail (ir_model_preference req)"
    and b: "active < gpu_concurrent_jobs (cfg_gpu cfg)"
    and c: "max ?min (pr_min_escrow (cfg_pricing cfg)) \<le> ir_budget_nanox req"
    and d: "ir_privacy_level req = Maximum \<longrightarrow> pv_tee_enabled (cfg_privacy cfg)"
    and e: "throttle_check cfg now wins = (True, wins')"
    using assms by (auto simp: should_bid_def Let_def not_le not_less split: if_splits)
  obtain m where m: "m \<in> set ?avail"
    "m = ir_model_preference req \<or> starts_with (ir_model_preference req @ '':'') m"
    using a by (auto simp: bid_have_model_def list_ex_iff)
  obtain ms where ms: "models = Inr ms" "m \<in> set ms"
    using m(1) by (cases models) auto
  have "m = (ir_model_preference req @ '':'') @ drop (length (ir_model_preference req @ '':'')) m"
    if "starts_with (ir_model_preference req @ '':'') m"
    using that append_take_drop_id [of "length (ir_model_preference req @ '':'')" m]
    unfolding starts_with_def by metis
  then have "m = ir_model_preference req \<or> (\<exists>tag. m = ir_model_preference req @ '':'' @ tag)"
    using m(2) by (metis append.assoc)
  moreover have "unat ?min \<le> unat (ir_budget_nanox req)" "pr_min_escrow (cfg_pricing cfg) \<le> ir_budget_nanox req"
    using c by (simp_all add: word_le_nat_alt [symmetric])
  ultimately show ?thesis
    using ms b d e by (auto simp: unat_div unat_sat_mul)
qed

theorem should_bid_safe_witness:
  "pr_min_escrow (cfg_pricing node_config_default) \<le> ir_budget_nanox bid_example_request"
proof -
  have "should_bid node_config_default (Inr [''llama:8b''] :: (string list, unit) res) 0 0 5 bid_example_request []
      = (True, [])"
    by (simp add: should_bid_def bid_have_model_def starts_with_def bid_example_request_def throttle_check_def
        node_config_default_def gpu_section_default_def pricing_section_default_def sat_mul_def Let_def)
  from should_bid_safe [OF this] show ?thesis
    by blast
qed

end
