(* ===== verification/Node_Receipt.thy ===== *)
theory Node_Receipt
  imports Settlement_Adapter Rust_String
begin

text \<open>Signing and settling one inference: the node's identity (\<^verbatim>\<open>crates/node/src/identity.rs\<close>),
  \<^verbatim>\<open>build_receipt\<close> and \<^verbatim>\<open>settle_and_build_receipt\<close> of \<^verbatim>\<open>crates/node/src/api/mod.rs\<close>. The Ed25519
  and X25519 primitives are parameters.\<close>

section \<open>Identity\<close>

record node_identity =
  ni_public_key_bytes :: bytes
  ni_sign :: "bytes \<Rightarrow> bytes"
  ni_diffie_hellman :: "bytes \<Rightarrow> bytes"

definition public_key_hex :: "crypto_env \<Rightarrow> node_identity \<Rightarrow> string" where
  "public_key_hex E I = hex_encode E (ni_public_key_bytes I)"

definition sign_proof :: "crypto_env \<Rightarrow> node_identity \<Rightarrow> proof_of_inference \<Rightarrow> proof_of_inference" where
  "sign_proof E I p =
     (let p1 = p\<lparr>poi_node_pubkey := ni_public_key_bytes I\<rparr>
      in p1\<lparr>poi_signature := ni_sign I (canonical_bytes E p1)\<rparr>)"

definition derive_aes_key :: "crypto_env \<Rightarrow> bytes \<Rightarrow> bytes" where
  "derive_aes_key E shared_secret = sha256 E (str_bytes ''deai-aes-key-v1'' @ shared_secret)"

text \<open>What Ed25519 promises of a key pair.\<close>

definition identity_lawful :: "crypto_env \<Rightarrow> node_identity \<Rightarrow> bool" where
  "identity_lawful E I \<longleftrightarrow> vk_from_bytes_ok E (ni_public_key_bytes I) \<and>
     (\<forall>m. length (ni_sign I m) = 64 \<and> ed25519_verify E (ni_public_key_bytes I) m (ni_sign I m))"

lemma sign_proof_verifies: "identity_lawful E I \<Longrightarrow> poi_verify E (sign_proof E I p)"
  by (simp add: identity_lawful_def poi_verify_def sign_proof_def Let_def)

section \<open>Receipts\<close>

record receipt_info =
  ri_proof_id :: string
  ri_settlement_id :: string
  ri_proof_valid :: bool
  ri_input_tokens :: u32
  ri_output_tokens :: u32
  ri_latency_ms :: u32
  ri_node_pubkey :: string
  ri_signature :: string
  ri_canonical_bytes_hex :: string
  ri_chain_tx_id :: "string option"

record token_chunk =
  tc_token :: string
  tc_is_final :: bool
  tc_receipt :: "receipt_info option"

text \<open>What one settlement needs to know of the inference.\<close>

record usage =
  us_request_id :: uuid
  us_model_id :: string
  us_input_tokens :: u32
  us_output_tokens :: u32
  us_latency_ms :: u32
  us_amount_nanox :: u64
  us_prompt :: string
  us_output :: string

definition build_receipt ::
  "crypto_env \<Rightarrow> node_identity \<Rightarrow> u64 \<Rightarrow> string \<Rightarrow> usage \<Rightarrow> string option \<Rightarrow>
     proof_of_inference \<times> receipt_info" where
  "build_receipt E I now_secs adapter_id u chain_tx_id =
     (let input_hash = sha256 E (str_bytes (us_prompt u));
          output_hash = sha256 E (str_bytes (us_output u));
          proof = sign_proof E I
            (poi_unsigned (us_request_id u) 0 (public_key_hex E I) ''http-api-client'' (us_model_id u)
               (us_input_tokens u) (us_output_tokens u) (us_latency_ms u) (us_amount_nanox u) now_secs
               input_hash output_hash adapter_id None)
      in (proof,
          \<lparr>ri_proof_id = hex_encode E (poi_id E proof), ri_settlement_id = adapter_id,
           ri_proof_valid = poi_verify E proof, ri_input_tokens = us_input_tokens u,
           ri_output_tokens = us_output_tokens u, ri_latency_ms = us_latency_ms u,
           ri_node_pubkey = public_key_hex E I, ri_signature = hex_encode E (poi_signature proof),
           ri_canonical_bytes_hex = hex_encode E (canonical_bytes E proof),
           ri_chain_tx_id = chain_tx_id\<rparr>))"

definition wanted_or_default :: "string list option \<Rightarrow> string list" where
  "wanted_or_default w = (case w of None \<Rightarrow> [''receipt'', ''free''] | Some ws \<Rightarrow> ws)"

definition settle_params :: "crypto_env \<Rightarrow> node_identity \<Rightarrow> usage \<Rightarrow> escrow_params" where
  "settle_params E I u = \<lparr>ep_request_id = us_request_id u, ep_amount_nanox = us_amount_nanox u,
     ep_client_address = ''http-api-client'', ep_node_address = public_key_hex E I,
     ep_token_id = ''native''\<rparr>"

definition settle_and_build_receipt ::
  "crypto_env \<Rightarrow> node_identity \<Rightarrow> 's adapter list \<Rightarrow> u64 \<Rightarrow> string list option \<Rightarrow> usage \<Rightarrow> 's \<Rightarrow>
     receipt_info option \<times> 's" where
  "settle_and_build_receipt E I settlements now_secs wanted u s =
     (case select_adapter settlements (wanted_or_default wanted) of
        None \<Rightarrow> (None, s)
      | Some adapter \<Rightarrow>
          (case ad_lock adapter (settle_params E I u) s of
             (Inl e, s1) \<Rightarrow> (None, s1)
           | (Inr handle, s1) \<Rightarrow>
               let (proof, receipt) =
                     build_receipt E I now_secs (ad_id adapter) u (eh_chain_tx_id handle);
                   s2 = snd (ad_release adapter handle proof s1)
               in (Some receipt, s2)))"

section \<open>Properties\<close>

lemma build_receipt_proof:
  assumes "build_receipt E I t i u tx = (p, r)"
  shows "poi_request_id p = us_request_id u \<and> poi_settlement_id p = i \<and>
    poi_price_paid_nanox p = us_amount_nanox u \<and>
    poi_input_hash p = sha256 E (str_bytes (us_prompt u)) \<and>
    poi_output_hash p = sha256 E (str_bytes (us_output u)) \<and>
    poi_node_pubkey p = ni_public_key_bytes I \<and>
    ri_settlement_id r = i \<and> ri_chain_tx_id r = tx \<and> ri_proof_valid r = poi_verify E p \<and>
    ri_proof_id r = hex_encode E (poi_id E p) \<and>
    ri_canonical_bytes_hex r = hex_encode E (canonical_bytes E p) \<and>
    ri_signature r = hex_encode E (poi_signature p)"
  using assms by (auto simp: build_receipt_def Let_def sign_proof_def poi_unsigned_def)

lemma build_receipt_verifies:
  "identity_lawful E I \<Longrightarrow> build_receipt E I t i u tx = (p, r) \<Longrightarrow> poi_verify E p"
  by (auto simp: build_receipt_def Let_def sign_proof_verifies)

text \<open>C20: a receipt handed to a client is good. Its settlement is one the client accepts, the funds
  were locked for exactly this request and amount, and there is a proof, valid under the node's
  key, over the hashes of the very prompt and output and the price, which the receipt
  describes and against which the lock was released.\<close>

theorem receipt_end_to_end:
  assumes "settle_and_build_receipt E I settlements now wanted u s = (Some r, s')"
    and "identity_lawful E I"
  shows "\<exists>a h s1 p. a \<in> set settlements \<and> ad_id a \<in> set (wanted_or_default wanted) \<and>
      ad_lock a (settle_params E I u) s = (Inr h, s1) \<and> s' = snd (ad_release a h p s1) \<and>
      poi_verify E p \<and> ri_proof_valid r \<and> poi_request_id p = us_request_id u \<and>
      poi_settlement_id p = ad_id a \<and> ri_settlement_id r = ad_id a \<and>
      poi_price_paid_nanox p = us_amount_nanox u \<and>
      poi_input_hash p = sha256 E (str_bytes (us_prompt u)) \<and>
      poi_output_hash p = sha256 E (str_bytes (us_output u)) \<and>
      poi_node_pubkey p = ni_public_key_bytes I \<and>
      ri_proof_id r = hex_encode E (poi_id E p) \<and> ri_chain_tx_id r = eh_chain_tx_id h"
proof -
  obtain a where a: "select_adapter settlements (wanted_or_default wanted) = Some a"
    using assms(1) by (auto simp: settle_and_build_receipt_def split: option.splits)
  obtain h s1 where lock: "ad_lock a (settle_params E I u) s = (Inr h, s1)"
    using assms(1) a by (auto simp: settle_and_build_receipt_def split: prod.splits sum.splits)
  obtain p r' where b: "build_receipt E I now (ad_id a) u (eh_chain_tx_id h) = (p, r')"
    by fastforce
  have r: "r' = r" "s' = snd (ad_release a h p s1)"
    using assms(1) a lock b by (simp_all add: settle_and_build_receipt_def)
  from select_adapter_Some [OF a] lock r build_receipt_proof [OF b]
    build_receipt_verifies [OF assms(2) b] show ?thesis
    by blast
qed

text \<open>A toy signature scheme that is lawful.\<close>

definition toy_crypto :: crypto_env where
  "toy_crypto = \<lparr>json_signable = \<lambda>p. [], sha256 = \<lambda>b. replicate 32 0, vk_from_bytes_ok = \<lambda>b. True,
     ed25519_verify = \<lambda>k m s. s = replicate 64 7, hex_encode = \<lambda>b. []\<rparr>"

definition toy_identity :: node_identity where
  "toy_identity = \<lparr>ni_public_key_bytes = replicate 32 1, ni_sign = \<lambda>m. replicate 64 7,
     ni_diffie_hellman = \<lambda>p. replicate 32 2\<rparr>"

definition toy_usage :: usage where
  "toy_usage = \<lparr>us_request_id = 5, us_model_id = ''llama'', us_input_tokens = 2, us_output_tokens = 3,
     us_latency_ms = 10, us_amount_nanox = 1000, us_prompt = ''hi'', us_output = ''hello''\<rparr>"

lemma toy_identity_lawful: "identity_lawful toy_crypto toy_identity"
  by (simp add: identity_lawful_def toy_crypto_def toy_identity_def)

theorem receipt_end_to_end_witness:
  "\<exists>p. poi_verify toy_crypto p \<and> poi_settlement_id p = ''free'' \<and> poi_price_paid_nanox p = 1000"
proof -
  obtain r s' where s: "settle_and_build_receipt toy_crypto toy_identity [free_adapter] 9 None toy_usage ()
      = (Some r, s')"
    by (cases "build_receipt toy_crypto toy_identity 9 ''free'' toy_usage None")
      (simp add: settle_and_build_receipt_def select_adapter_def wanted_or_default_def free_adapter_def
        free_lock_def)
  from receipt_end_to_end [OF s toy_identity_lawful] show ?thesis
    by (auto simp: free_adapter_def toy_usage_def)
qed

end
