(* ===== verification/Context_Window.thy ===== *)
theory Context_Window
  imports Node_Types Rust_String
begin

text \<open>The contexts sent to a model: trimming to a token budget
  (\<^verbatim>\<open>crates/node/src/api/support.rs\<close>), the window built from a session
  (\<^verbatim>\<open>crates/context/src/session.rs\<close>), the split before a summary and the summary itself
  (\<^verbatim>\<open>crates/context/src/summariser.rs\<close>), and the conversion of chat messages
  (\<^verbatim>\<open>crates/node/src/api/mod.rs\<close>). Token counts are \<^verbatim>\<open>u32\<close> and wrap as in a release build.\<close>

section \<open>Trimming a window\<close>

text \<open>\<^verbatim>\<open>n as f32\<close>: rounding to 24 significant bits, to even on a tie.\<close>

fun bit_length :: "nat \<Rightarrow> nat" where
  "bit_length n = (if n = 0 then 0 else Suc (bit_length (n div 2)))"

declare bit_length.simps [simp del]

definition f32_of_nat :: "nat \<Rightarrow> nat" where
  "f32_of_nat n =
     (if n < 2 ^ 24 then n
      else
        let e = bit_length n - 24; q = n div 2 ^ e; r = n mod 2 ^ e; half = 2 ^ (e - 1)
        in (q + (if half < r \<or> (r = half \<and> odd q) then 1 else 0)) * 2 ^ e)"

text \<open>\<^verbatim>\<open>((s.len() as f32) / 4.0).ceil() as u32\<close>; the division by four and the ceiling are exact and
  the cast saturates.\<close>

definition api_estimate_tokens :: "string \<Rightarrow> u32" where
  "api_estimate_tokens s = word_of_nat (min ((f32_of_nat (length s) + 3) div 4) (2 ^ 32 - 1))"

definition trim_cost :: "message \<Rightarrow> u32" where
  "trim_cost msg = api_estimate_tokens (msg_content msg) + 4"

fun trim_loop :: "u32 \<Rightarrow> u32 \<Rightarrow> nat \<Rightarrow> (nat \<times> message) list \<Rightarrow> nat" where
  "trim_loop budget used keep_from [] = keep_from"
| "trim_loop budget used keep_from ((i, msg) # rest) =
     (let toks = trim_cost msg in
      if used + toks > budget then i + 1
      else trim_loop budget (used + toks) (if i = 0 then 0 else keep_from) rest)"

definition trim_context_window :: "context_window \<Rightarrow> u32 \<Rightarrow> context_window \<times> nat" where
  "trim_context_window cw max_tokens =
     (if max_tokens = 0 then (cw, 0)
      else
        let system_tokens =
              (case cw_system_prompt cw of None \<Rightarrow> 0 | Some s \<Rightarrow> api_estimate_tokens s);
            budget = sat_sub max_tokens system_tokens;
            msgs = cw_recent_messages cw;
            dropped = trim_loop budget 0 (length msgs) (rev (enumerate 0 msgs))
        in (if dropped > 0 then cw\<lparr>cw_recent_messages := drop dropped msgs\<rparr> else cw, dropped))"

section \<open>Sessions and summaries\<close>

definition estimate_tokens :: "string \<Rightarrow> u32" where
  "estimate_tokens text = max (word_of_nat (length text) div 4) 1"

fun build_loop :: "u32 \<Rightarrow> u32 \<Rightarrow> message list \<Rightarrow> message list \<Rightarrow> message list \<times> u32" where
  "build_loop budget used recent [] = (recent, used)"
| "build_loop budget used recent (msg # rest) =
     (let cost = estimate_tokens (msg_content msg) in
      if used + cost > budget then (recent, used)
      else build_loop budget (used + cost) (recent @ [msg]) rest)"

definition build_context_window :: "session_context \<Rightarrow> u32 \<Rightarrow> context_window" where
  "build_context_window session model_max_tokens =
     (let budget = max (model_max_tokens * 3 div 4) 512;
          (recent, used) = build_loop budget 0 [] (rev (sc_messages session))
      in \<lparr>cw_system_prompt = cw_system_prompt (sc_context_window session),
          cw_summary = cw_summary (sc_context_window session),
          cw_recent_messages = rev recent, cw_total_tokens = used\<rparr>)"

definition needs_summarisation :: "message list \<Rightarrow> u32 \<Rightarrow> bool" where
  "needs_summarisation msgs threshold_tokens =
     (fold (\<lambda>m total. total + estimate_tokens (msg_content m)) msgs 0 > threshold_tokens)"

fun split_loop :: "u32 \<Rightarrow> u32 \<Rightarrow> nat \<Rightarrow> (nat \<times> message) list \<Rightarrow> nat" where
  "split_loop keep_tokens kept keep_from [] = keep_from"
| "split_loop keep_tokens kept keep_from ((i, msg) # rest) =
     (let cost = estimate_tokens (msg_content msg) in
      if kept + cost > keep_tokens then i + 1
      else split_loop keep_tokens (kept + cost) i rest)"

definition split_messages :: "message list \<Rightarrow> u32 \<Rightarrow> message list \<times> message list" where
  "split_messages msgs keep_tokens =
     (let keep_from = split_loop keep_tokens 0 (length msgs) (rev (enumerate 0 msgs))
      in (take keep_from msgs, drop keep_from msgs))"

definition newline :: char where
  "newline = char_of (10 :: nat)"

definition role_label :: "role \<Rightarrow> string" where
  "role_label r = (case r of User \<Rightarrow> ''User'' | Assistant \<Rightarrow> ''Assistant'' | System \<Rightarrow> ''System'')"

definition build_summary_prompt :: "message list \<Rightarrow> string option \<Rightarrow> string" where
  "build_summary_prompt msgs existing_summary =
     (case existing_summary of
        Some prior \<Rightarrow>
          ''Prior summary of earlier conversation:'' @ [newline] @ prior @ [newline, newline] @
          ''Additional messages to incorporate:'' @ [newline]
      | None \<Rightarrow> ''Summarise the following conversation:'' @ [newline]) @
     concat (map (\<lambda>m. role_label (msg_role m) @ '': '' @ msg_content m @ [newline]) msgs) @
     [newline] @ ''Provide a concise summary:''"

definition summary_system_prompt :: string where
  "summary_system_prompt =
     ''You are a conversation summariser. Your job is to produce a concise, '' @
     ''factual summary of a conversation. Focus on key topics, decisions, and '' @
     ''facts discussed. Be brief '' @ [CHR 0xE2, CHR 0x80, CHR 0x94] @
     '' 2-4 sentences maximum. Do not editorialize.''"

record inference_params =
  ip_max_tokens :: u32
  ip_temperature :: f32
  ip_request_id :: uuid

text \<open>An inference backend: it may refuse a run, and answers with a finite stream of chunks or
  errors.\<close>

type_synonym 'e run_inference =
  "string \<Rightarrow> context_window \<Rightarrow> string \<Rightarrow> inference_params \<Rightarrow>
     ((inference_stream_chunk, 'e) res list, 'e) res"

fun collect_summary :: "(inference_stream_chunk, 'e) res list \<Rightarrow> string \<Rightarrow> (string, 'e) res" where
  "collect_summary [] summary = Inr summary"
| "collect_summary (Inl e # cs) summary = Inl e"
| "collect_summary (Inr c # cs) summary =
     (let summary' = summary @ sk_token c in
      if sk_is_final c then Inr summary' else collect_summary cs summary')"

definition summarise ::
  "'e run_inference \<Rightarrow> string \<Rightarrow> uuid \<Rightarrow> message list \<Rightarrow> string option \<Rightarrow> (string, 'e) res" where
  "summarise run model_id rid msgs existing_summary =
     (if msgs = [] then Inr (case existing_summary of None \<Rightarrow> [] | Some s \<Rightarrow> s)
      else
        let prompt = build_summary_prompt msgs existing_summary;
            cw = \<lparr>cw_system_prompt = Some summary_system_prompt, cw_summary = None,
                  cw_recent_messages = [], cw_total_tokens = 0\<rparr>
        in case run model_id cw prompt
               \<lparr>ip_max_tokens = 512, ip_temperature = 3 / 10, ip_request_id = rid\<rparr> of
             Inl e \<Rightarrow> Inl e
           | Inr stream \<Rightarrow>
               (case collect_summary stream [] of Inl e \<Rightarrow> Inl e | Inr s \<Rightarrow> Inr (trim s)))"

section \<open>Chat messages\<close>

record oai_chat_message =
  oai_role :: string
  oai_content :: string

record stored_message =
  sg_role :: string
  sg_content :: string

definition context_window_default :: context_window where
  "context_window_default = \<lparr>cw_system_prompt = None, cw_summary = None, cw_recent_messages = [],
     cw_total_tokens = 0\<rparr>"

definition parse_role :: "string \<Rightarrow> role" where
  "parse_role r = (if r = ''assistant'' then Assistant else if r = ''system'' then System else User)"

definition plain_message :: "role \<Rightarrow> string \<Rightarrow> message" where
  "plain_message r c = \<lparr>msg_role = r, msg_content = c, msg_timestamp = 0, msg_node_id = None,
     msg_token_count = 0\<rparr>"

definition stored_messages_to_context_window :: "stored_message list \<Rightarrow> context_window" where
  "stored_messages_to_context_window history =
     fold (\<lambda>m cw. cw\<lparr>cw_recent_messages := cw_recent_messages cw @
         [plain_message (parse_role (sg_role m)) (sg_content m)]\<rparr>) history context_window_default"

text \<open>The loop of \<^verbatim>\<open>messages_to_context\<close>: the index, the number of messages, and the three
  variables it updates.\<close>

fun mtc_loop ::
  "nat \<Rightarrow> nat \<Rightarrow> oai_chat_message list \<Rightarrow> message list \<times> string list \<times> string \<Rightarrow>
     message list \<times> string list \<times> string" where
  "mtc_loop n i [] acc = acc"
| "mtc_loop n i (msg # msgs) (recent, system_parts, prompt) =
     (let is_last = (i = n - 1);
          acc' =
            (if oai_role msg = ''system'' then (recent, system_parts @ [oai_content msg], prompt)
             else if is_last \<and> oai_role msg = ''user'' then (recent, system_parts, oai_content msg)
             else if i < n - 1 then
               (recent @ [plain_message (parse_role (oai_role msg)) (oai_content msg)], system_parts, prompt)
             else (recent, system_parts, prompt))
      in mtc_loop n (i + 1) msgs acc')"

definition messages_to_context :: "oai_chat_message list \<Rightarrow> context_window \<times> string" where
  "messages_to_context messages =
     (let (recent, system_parts, prompt) = mtc_loop (length messages) 0 messages ([], [], []);
          cw = context_window_default\<lparr>cw_recent_messages := recent,
            cw_system_prompt := (if system_parts \<noteq> [] then Some (join [newline] system_parts) else None)\<rparr>;
          prompt' = (if prompt = [] \<and> messages \<noteq> [] then oai_content (last messages) else prompt)
      in (cw, prompt'))"

section \<open>The longest suffix that fits\<close>

text \<open>What all three loops compute: the number of messages to leave out so that the rest is the
  longest suffix within the budget.\<close>

definition suffix_cost :: "('m \<Rightarrow> u32) \<Rightarrow> 'm list \<Rightarrow> nat" where
  "suffix_cost c ms = sum_list (map (\<lambda>m. unat (c m)) ms)"

definition longest_suffix :: "('m \<Rightarrow> u32) \<Rightarrow> nat \<Rightarrow> 'm list \<Rightarrow> nat \<Rightarrow> bool" where
  "longest_suffix c budget ms k \<longleftrightarrow>
     k \<le> length ms \<and> suffix_cost c (drop k ms) \<le> budget \<and>
     (0 < k \<longrightarrow> budget < suffix_cost c (drop (k - 1) ms))"

fun keep_from :: "('m \<Rightarrow> u32) \<Rightarrow> u32 \<Rightarrow> u32 \<Rightarrow> 'm list \<Rightarrow> nat" where
  "keep_from c budget used [] = 0"
| "keep_from c budget used (m # rest) =
     (if used + c m > budget then length rest + 1 else keep_from c budget (used + c m) rest)"

lemma suffix_cost_simps [simp]:
  "suffix_cost c [] = 0" "suffix_cost c (m # ms) = unat (c m) + suffix_cost c ms"
  "suffix_cost c (xs @ ys) = suffix_cost c xs + suffix_cost c ys"
  by (simp_all add: suffix_cost_def)

lemma suffix_cost_drop: "suffix_cost c (drop k ms) \<le> suffix_cost c ms"
  using suffix_cost_simps(3) [of c "take k ms" "drop k ms"] by simp

lemma keep_from_le: "keep_from c b u ms \<le> length ms"
  by (induction c b u ms rule: keep_from.induct) (simp_all add: le_SucI)

lemma keep_from_longest:
  assumes "unat used + suffix_cost c ms < 2 ^ 32" "used \<le> budget"
  shows "let k = keep_from c budget used (rev ms) in
    unat used + suffix_cost c (drop k ms) \<le> unat budget \<and>
    (0 < k \<longrightarrow> unat budget < unat used + suffix_cost c (drop (k - 1) ms))"
  using assms
proof (induction ms arbitrary: used rule: rev_induct)
  case Nil
  then show ?case
    by (simp add: word_le_nat_alt)
next
  case (snoc m ms)
  have sum: "unat (used + c m) = unat used + unat (c m)"
    using snoc.prems(1) by (simp add: unat_word_ariths)
  show ?case
  proof (cases "budget < used + c m")
    case True
    then show ?thesis
      using sum snoc.prems(2) by (simp add: word_less_nat_alt word_le_nat_alt)
  next
    case False
    have le: "keep_from c budget (used + c m) (rev ms) \<le> length ms"
      using keep_from_le [of c budget "used + c m" "rev ms"] by simp
    then have le': "keep_from c budget (used + c m) (rev ms) - 1 - length ms = 0"
      "keep_from c budget (used + c m) (rev ms) - length ms = 0"
      by simp_all
    have "unat (used + c m) + suffix_cost c ms < 2 ^ 32"
      using snoc.prems(1) sum by simp
    from snoc.IH [OF this] False le le' sum show ?thesis
      by (simp add: Let_def not_less ac_simps)
  qed
qed

lemma keep_from_longest_suffix:
  "suffix_cost c ms < 2 ^ 32 \<Longrightarrow> longest_suffix c (unat budget) ms (keep_from c budget 0 (rev ms))"
  using keep_from_longest [of 0 c ms budget] keep_from_le [of c budget 0 "rev ms"]
  by (simp add: longest_suffix_def Let_def)

lemma rev_enumerate_snoc [simp]:
  "rev (enumerate 0 (ms @ [m])) = (length ms, m) # rev (enumerate 0 ms)"
  by (simp add: enumerate_append_eq)

lemma trim_loop_keep_from:
  "trim_loop budget used k (rev (enumerate 0 ms)) =
     (if ms = [] then k else keep_from trim_cost budget used (rev ms))"
  by (induction ms arbitrary: used k rule: rev_induct) (auto simp: Let_def)

lemma split_loop_keep_from:
  "split_loop budget used k (rev (enumerate 0 ms)) =
     (if ms = [] then k else keep_from (\<lambda>m. estimate_tokens (msg_content m)) budget used (rev ms))"
  by (induction ms arbitrary: used k rule: rev_induct) (auto simp: Let_def)

lemma build_loop_keep_from:
  "fst (build_loop budget used acc rms) =
     acc @ take (length rms - keep_from (\<lambda>m. estimate_tokens (msg_content m)) budget used rms) rms"
proof (induction rms arbitrary: used acc)
  case (Cons m rms)
  have "keep_from (\<lambda>m. estimate_tokens (msg_content m)) budget u rms \<le> length rms" for u
    by (rule keep_from_le)
  then show ?case
    using Cons by (simp add: Let_def Suc_diff_le)
qed simp

lemma build_loop_used:
  "unat used + suffix_cost (\<lambda>m. estimate_tokens (msg_content m)) rms < 2 ^ 32 \<Longrightarrow>
     build_loop budget used acc rms = (acc @ kept, u) \<Longrightarrow>
     unat u = unat used + suffix_cost (\<lambda>m. estimate_tokens (msg_content m)) kept"
proof (induction rms arbitrary: used acc kept)
  case (Cons m rms)
  let ?c = "estimate_tokens (msg_content m)"
  have sum: "unat (used + ?c) = unat used + unat ?c"
    using Cons.prems(1) by (simp add: unat_word_ariths)
  show ?case
  proof (cases "budget < used + ?c")
    case False
    then have step: "build_loop budget (used + ?c) (acc @ [m]) rms = (acc @ kept, u)"
      using Cons.prems(2) by (simp add: Let_def)
    then obtain kept' where kept': "kept = m # kept'"
      using build_loop_keep_from [of budget "used + ?c" "acc @ [m]" rms] by auto
    have "unat (used + ?c) + suffix_cost (\<lambda>m. estimate_tokens (msg_content m)) rms < 2 ^ 32"
      using Cons.prems(1) sum by simp
    from Cons.IH [OF this, of "acc @ [m]" kept'] step kept' sum show ?thesis
      by simp
  qed (use Cons.prems in simp)
qed simp

lemma longest_suffix_unique:
  assumes "longest_suffix c b ms k" "longest_suffix c b ms k'"
  shows "k = k'"
proof -
  have "k \<le> k'" if a: "longest_suffix c b ms k" "longest_suffix c b ms k'" for k k'
  proof (rule ccontr)
    assume "\<not> k \<le> k'"
    then have "0 < k" "k - 1 = k' + (k - 1 - k')"
      by simp_all
    then have "suffix_cost c (drop (k - 1) ms) \<le> suffix_cost c (drop k' ms)"
      by (metis drop_drop add.commute suffix_cost_drop)
    with a \<open>0 < k\<close> show False
      by (simp add: longest_suffix_def)
  qed
  with assms show ?thesis
    by (simp add: le_antisym)
qed

lemma mtc_loop_spec:
  "i + length ms = n \<Longrightarrow>
     mtc_loop n i ms (recent, parts, prompt) =
       (recent @ map (\<lambda>m. plain_message (parse_role (oai_role m)) (oai_content m))
          (filter (\<lambda>m. oai_role m \<noteq> ''system'') (butlast ms)),
        parts @ map oai_content (filter (\<lambda>m. oai_role m = ''system'') ms),
        if ms \<noteq> [] \<and> oai_role (last ms) = ''user'' then oai_content (last ms) else prompt)"
  by (induction n i ms "(recent, parts, prompt)" arbitrary: recent parts prompt rule: mtc_loop.induct)
    (auto simp: Let_def)

section \<open>Properties\<close>

text \<open>C17: trimming keeps the longest suffix of the conversation whose estimated tokens, with four
  per message, fit into what the budget leaves beside the system prompt; nothing else of the
  window changes.\<close>

theorem trim_keeps_longest_suffix:
  assumes "trim_context_window cw max_tokens = (cw', dropped)" "max_tokens \<noteq> 0"
    and "suffix_cost trim_cost (cw_recent_messages cw) < 2 ^ 32"
  shows "cw' = cw\<lparr>cw_recent_messages := drop dropped (cw_recent_messages cw)\<rparr> \<and>
    longest_suffix trim_cost
      (unat max_tokens - (case cw_system_prompt cw of None \<Rightarrow> 0 | Some s \<Rightarrow> unat (api_estimate_tokens s)))
      (cw_recent_messages cw) dropped"
proof -
  let ?sys = "case cw_system_prompt cw of None \<Rightarrow> 0 | Some s \<Rightarrow> api_estimate_tokens s"
  have k: "dropped = keep_from trim_cost (sat_sub max_tokens ?sys) 0 (rev (cw_recent_messages cw))"
    and cw': "cw' = cw\<lparr>cw_recent_messages := drop dropped (cw_recent_messages cw)\<rparr>"
    using assms(1,2)
    by (auto simp: trim_context_window_def Let_def trim_loop_keep_from split: if_splits)
  have "unat ?sys = (case cw_system_prompt cw of None \<Rightarrow> 0 | Some s \<Rightarrow> unat (api_estimate_tokens s))"
    by (simp split: option.split)
  with keep_from_longest_suffix [OF assms(3), of "sat_sub max_tokens ?sys"] k cw' show ?thesis
    by (simp add: unat_sat_sub)
qed

theorem trim_keeps_longest_suffix_witness:
  "longest_suffix trim_cost 7 [plain_message User ''hello world'', plain_message Assistant ''hi there''] 1"
proof -
  have "trim_context_window (context_window_default\<lparr>cw_recent_messages :=
      [plain_message User ''hello world'', plain_message Assistant ''hi there'']\<rparr>) 7 =
    (context_window_default\<lparr>cw_recent_messages := [plain_message Assistant ''hi there'']\<rparr>, 1)"
    by (simp add: trim_context_window_def context_window_default_def sat_sub_def Let_def trim_cost_def
        plain_message_def api_estimate_tokens_def f32_of_nat_def enumerate_eq_zip)
  from trim_keeps_longest_suffix [OF this] show ?thesis
    by (simp add: context_window_default_def trim_cost_def plain_message_def api_estimate_tokens_def
        f32_of_nat_def)
qed

text \<open>C18: the context window of a session and the split before a summary agree. With the same
  budget, the messages the window keeps are exactly those the split does not hand to the
  summariser, they are the longest suffix within the budget, and the total the window states is
  their cost.\<close>

theorem window_agrees_with_split:
  assumes "suffix_cost (\<lambda>m. estimate_tokens (msg_content m)) (sc_messages s) < 2 ^ 32"
    and "budget = max (max_tokens * 3 div 4) 512"
  shows "cw_recent_messages (build_context_window s max_tokens) = snd (split_messages (sc_messages s) budget) \<and>
    fst (split_messages (sc_messages s) budget) @ cw_recent_messages (build_context_window s max_tokens) =
      sc_messages s \<and>
    unat (cw_total_tokens (build_context_window s max_tokens)) =
      suffix_cost (\<lambda>m. estimate_tokens (msg_content m)) (cw_recent_messages (build_context_window s max_tokens)) \<and>
    longest_suffix (\<lambda>m. estimate_tokens (msg_content m)) (unat budget) (sc_messages s)
      (length (fst (split_messages (sc_messages s) budget)))"
proof -
  let ?c = "\<lambda>m. estimate_tokens (msg_content m)" and ?ms = "sc_messages s"
  let ?k = "keep_from ?c budget 0 (rev ?ms)"
  have le: "?k \<le> length ?ms"
    using keep_from_le [of ?c budget 0 "rev ?ms"] by simp
  obtain recent used where loop: "build_loop budget 0 [] (rev ?ms) = (recent, used)"
    by fastforce
  have recent: "recent = take (length ?ms - ?k) (rev ?ms)"
    using build_loop_keep_from [of budget 0 "[]" "rev ?ms"] loop by simp
  then have kept: "rev recent = drop ?k ?ms"
    using le by (simp add: rev_take)
  have split: "split_messages ?ms budget = (take ?k ?ms, drop ?k ?ms)"
    by (auto simp: split_messages_def Let_def split_loop_keep_from)
  have perm: "suffix_cost ?c (rev xs) = suffix_cost ?c xs" for xs :: "message list"
    by (induction xs) simp_all
  have "unat used = suffix_cost ?c recent"
    using build_loop_used [of 0 "rev ?ms" budget "[]" recent used] loop assms(1) perm by simp
  then show ?thesis
    using kept split le loop perm [of recent] keep_from_longest_suffix [OF assms(1), of budget] assms(2)
    by (simp add: build_context_window_def)
qed

theorem window_agrees_with_split_witness:
  "\<exists>s. cw_recent_messages (build_context_window s 8) = sc_messages s \<and> length (sc_messages s) = 1"
proof -
  define s :: session_context where "s = \<lparr>sc_session_id = 1, sc_user_address = [], sc_model_id = [],
    sc_messages = [plain_message User ''hello''], sc_context_window = context_window_default,
    sc_metadata = undefined\<rparr>"
  have ms: "sc_messages s = [plain_message User ''hello'']"
    by (simp add: s_def)
  have "suffix_cost (\<lambda>m. estimate_tokens (msg_content m)) (sc_messages s) < 2 ^ 32"
    by (simp add: ms estimate_tokens_def plain_message_def)
  moreover have "512 = max ((8 :: u32) * 3 div 4) 512"
    by simp
  ultimately have "fst (split_messages (sc_messages s) 512) @ cw_recent_messages (build_context_window s 8) =
      sc_messages s"
    using window_agrees_with_split [of s 512 8] by blast
  moreover have "fst (split_messages (sc_messages s) 512) = []"
    by (simp add: ms split_messages_def Let_def enumerate_eq_zip estimate_tokens_def plain_message_def)
  ultimately show ?thesis
    using ms by (intro exI [of _ s]) simp
qed

text \<open>How a chat request is read. The prompt is the content of the last message whoever wrote
  it, the system prompt joins all system messages by newlines, and the history is every other
  message before the last, in order.\<close>

theorem messages_to_context_spec:
  "messages_to_context ms =
     (\<lparr>cw_system_prompt =
         (let sys = map oai_content (filter (\<lambda>m. oai_role m = ''system'') ms)
          in if sys = [] then None else Some (join [newline] sys)),
       cw_summary = None,
       cw_recent_messages = map (\<lambda>m. plain_message (parse_role (oai_role m)) (oai_content m))
         (filter (\<lambda>m. oai_role m \<noteq> ''system'') (butlast ms)),
       cw_total_tokens = 0\<rparr>,
      if ms = [] then [] else oai_content (last ms))"
  by (auto simp: messages_to_context_def Let_def mtc_loop_spec context_window_default_def)

end
