(* ===== verification/Context_Store.thy ===== *)
theory Context_Store
  imports Context_Window File_System "HOL-Library.Countable"
begin

text \<open>The conversation stores of \<^verbatim>\<open>crates/context/src/store.rs\<close>: in memory and one JSON file per
  session. Clock readings are arguments, the JSON codec and the file system's answers are
  parameters.\<close>

section \<open>Turns\<close>

text \<open>Appending a user and an assistant message and dropping the oldest beyond the limit; zero means
  no limit.\<close>

definition push_turn :: "nat \<Rightarrow> string \<Rightarrow> string \<Rightarrow> stored_message list \<Rightarrow> stored_message list" where
  "push_turn max_msgs user_msg asst_msg msgs =
     (let msgs' = msgs @ [\<lparr>sg_role = ''user'', sg_content = user_msg\<rparr>,
                          \<lparr>sg_role = ''assistant'', sg_content = asst_msg\<rparr>]
      in if max_msgs > 0 \<and> length msgs' > max_msgs then drop (length msgs' - max_msgs) msgs' else msgs')"

section \<open>In memory\<close>

record session_entry =
  se_messages :: "stored_message list"
  se_last_touched :: u64

record mem_context =
  mc_sessions :: "string \<rightharpoonup> session_entry"
  mc_max_msgs :: nat
  mc_ttl_secs :: u64

definition mem_context_new :: "nat \<Rightarrow> u64 \<Rightarrow> mem_context" where
  "mem_context_new max_messages ttl =
     \<lparr>mc_sessions = Map.empty, mc_max_msgs = max_messages, mc_ttl_secs = ttl\<rparr>"

text \<open>One round of the background task, which runs only with a positive time to live.\<close>

definition mem_context_cleanup :: "u64 \<Rightarrow> mem_context \<Rightarrow> mem_context" where
  "mem_context_cleanup now s =
     (let cutoff = sat_sub now (mc_ttl_secs s)
      in s\<lparr>mc_sessions := map_retain (\<lambda>_ e. se_last_touched e > cutoff) (mc_sessions s)\<rparr>)"

definition mem_get_messages ::
  "u64 \<Rightarrow> u64 \<Rightarrow> string \<Rightarrow> mem_context \<Rightarrow> stored_message list \<times> mem_context" where
  "mem_get_messages now now' sid s =
     (case mc_sessions s sid of
        None \<Rightarrow> ([], s)
      | Some entry \<Rightarrow>
          if mc_ttl_secs s > 0 \<and> sat_sub now (se_last_touched entry) > mc_ttl_secs s
          then ([], s\<lparr>mc_sessions := map_remove sid (mc_sessions s)\<rparr>)
          else (se_messages entry,
                s\<lparr>mc_sessions := (mc_sessions s)(sid \<mapsto> entry\<lparr>se_last_touched := now'\<rparr>)\<rparr>))"

definition mem_append :: "u64 \<Rightarrow> string \<Rightarrow> string \<Rightarrow> string \<Rightarrow> mem_context \<Rightarrow> mem_context" where
  "mem_append now sid user_msg asst_msg s =
     (let msgs = (case mc_sessions s sid of None \<Rightarrow> [] | Some entry \<Rightarrow> se_messages entry)
      in s\<lparr>mc_sessions := (mc_sessions s)(sid \<mapsto>
             \<lparr>se_messages = push_turn (mc_max_msgs s) user_msg asst_msg msgs, se_last_touched = now\<rparr>)\<rparr>)"

definition mem_clear :: "string \<Rightarrow> mem_context \<Rightarrow> mem_context" where
  "mem_clear sid s = s\<lparr>mc_sessions := map_remove sid (mc_sessions s)\<rparr>"

section \<open>Files\<close>

text \<open>Files with the second of their last modification, the answers of the file system during one
  operation, and the JSON codec for a list of messages.\<close>

type_synonym dated_disk = "path \<rightharpoonup> bytes \<times> u64"

record ctx_io =
  ci_meta_ok :: bool
  ci_remove_ok :: bool
  ci_read_ok :: bool
  ci_write_ok :: bool
  ci_partial :: "(bytes \<times> u64) option"

record stored_json =
  sj_to_vec :: "stored_message list \<Rightarrow> bytes option"
  sj_from_slice :: "bytes \<Rightarrow> stored_message list option"

record local_context =
  lc_dir :: path
  lc_max_msgs :: nat
  lc_ttl_secs :: u64

text \<open>The characters of a string: a byte that does not continue one starts one.\<close>

fun utf8_chars :: "string \<Rightarrow> string list" where
  "utf8_chars [] = []"
| "utf8_chars (c # s) =
     (case utf8_chars s of
        [] \<Rightarrow> [[c]]
      | w # ws \<Rightarrow>
          (case w of
             [] \<Rightarrow> [c] # ws
           | d # _ \<Rightarrow>
               if 128 \<le> (of_char d :: nat) \<and> (of_char d :: nat) < 192 then (c # w) # ws
               else [c] # w # ws))"

text \<open>\<^verbatim>\<open>char::is_alphanumeric\<close>; \<open>uni\<close> is the Unicode table for characters beyond ASCII.\<close>

definition is_alphanumeric :: "(string \<Rightarrow> bool) \<Rightarrow> string \<Rightarrow> bool" where
  "is_alphanumeric uni ch =
     (case ch of
        [c] \<Rightarrow> (let n = of_char c :: nat in
                  (48 \<le> n \<and> n \<le> 57) \<or> (65 \<le> n \<and> n \<le> 90) \<or> (97 \<le> n \<and> n \<le> 122))
      | _ \<Rightarrow> uni ch)"

definition safe_name :: "(string \<Rightarrow> bool) \<Rightarrow> string \<Rightarrow> string" where
  "safe_name uni sid = concat (filter (\<lambda>ch. is_alphanumeric uni ch \<or> ch = ''-'') (utf8_chars sid))"

definition path_join :: "path \<Rightarrow> string \<Rightarrow> path" where
  "path_join dir name = (if dir = [] \<or> last dir = CHR ''/'' then dir @ name else dir @ ''/'' @ name)"

definition local_path :: "(string \<Rightarrow> bool) \<Rightarrow> local_context \<Rightarrow> string \<Rightarrow> path" where
  "local_path uni L sid = path_join (lc_dir L) (safe_name uni sid @ ''.json'')"

definition local_read ::
  "stored_json \<Rightarrow> ctx_io \<Rightarrow> path \<Rightarrow> dated_disk \<Rightarrow> stored_message list" where
  "local_read J io p d =
     (case d p of
        None \<Rightarrow> []
      | Some (content, _) \<Rightarrow>
          if ci_read_ok io then (case sj_from_slice J content of None \<Rightarrow> [] | Some ms \<Rightarrow> ms) else [])"

definition local_get_messages ::
  "(string \<Rightarrow> bool) \<Rightarrow> stored_json \<Rightarrow> local_context \<Rightarrow> ctx_io \<Rightarrow> u64 \<Rightarrow> string \<Rightarrow> dated_disk \<Rightarrow>
     stored_message list \<times> dated_disk" where
  "local_get_messages uni J L io now sid d =
     (let p = local_path uni L sid in
      case d p of
        Some (content, mtime) \<Rightarrow>
          if lc_ttl_secs L > 0 \<and> ci_meta_ok io \<and> sat_sub now mtime > lc_ttl_secs L
          then ([], if ci_remove_ok io then d(p := None) else d)
          else (local_read J io p d, d)
      | None \<Rightarrow> ([], d))"

definition local_append ::
  "(string \<Rightarrow> bool) \<Rightarrow> stored_json \<Rightarrow> local_context \<Rightarrow> ctx_io \<Rightarrow> u64 \<Rightarrow> string \<Rightarrow> string \<Rightarrow> string \<Rightarrow>
     dated_disk \<Rightarrow> bool \<times> dated_disk" where
  "local_append uni J L io now sid user_msg asst_msg d =
     (let p = local_path uni L sid;
          msgs = push_turn (lc_max_msgs L) user_msg asst_msg (local_read J io p d)
      in case sj_to_vec J msgs of
           None \<Rightarrow> (False, d)
         | Some data \<Rightarrow>
             if ci_write_ok io then (True, d(p \<mapsto> (data, now))) else (False, d(p := ci_partial io)))"

definition local_clear ::
  "(string \<Rightarrow> bool) \<Rightarrow> local_context \<Rightarrow> ctx_io \<Rightarrow> string \<Rightarrow> dated_disk \<Rightarrow> dated_disk" where
  "local_clear uni L io sid d =
     (if ci_remove_ok io then d(local_path uni L sid := None) else d)"

text \<open>\<^verbatim>\<open>Path::extension\<close>, and one round of eviction over the entries the directory lists.\<close>

definition path_extension :: "path \<Rightarrow> string option" where
  "path_extension p =
     (let name = rev (takeWhile (\<lambda>c. c \<noteq> CHR ''/'') (rev p))
      in if CHR ''.'' \<in> set (tl name) then Some (rev (takeWhile (\<lambda>c. c \<noteq> CHR ''.'') (rev name)))
         else None)"

definition local_evict_one :: "ctx_io \<Rightarrow> u64 \<Rightarrow> path \<Rightarrow> dated_disk \<Rightarrow> dated_disk" where
  "local_evict_one io cutoff p d =
     (if path_extension p \<noteq> Some ''json'' then d
      else
        let mtime = (case d p of Some (_, t) \<Rightarrow> if ci_meta_ok io then t else 0 | None \<Rightarrow> 0)
        in if mtime < cutoff \<and> ci_remove_ok io then d(p := None) else d)"

definition local_evict_expired ::
  "local_context \<Rightarrow> ctx_io \<Rightarrow> u64 \<Rightarrow> path list \<Rightarrow> dated_disk \<Rightarrow> dated_disk" where
  "local_evict_expired L io now entries d =
     fold (local_evict_one io (sat_sub now (lc_ttl_secs L))) entries d"

section \<open>The contract of a store\<close>

text \<open>The most recent messages within the limit.\<close>

definition recent_messages :: "nat \<Rightarrow> 'm list \<Rightarrow> 'm list" where
  "recent_messages n ms = (if n = 0 then ms else drop (length ms - n) ms)"

definition turn_messages :: "string \<Rightarrow> string \<Rightarrow> stored_message list" where
  "turn_messages u a = [\<lparr>sg_role = ''user'', sg_content = u\<rparr>, \<lparr>sg_role = ''assistant'', sg_content = a\<rparr>]"

lemma push_turn_recent: "push_turn n u a ms = recent_messages n (ms @ turn_messages u a)"
  by (auto simp: push_turn_def recent_messages_def turn_messages_def Let_def)

lemma recent_messages_append:
  "recent_messages n (recent_messages n xs @ ys) = recent_messages n (xs @ ys)"
proof (cases "length xs \<le> n")
  case False
  then have "length (drop (length xs - n) xs @ ys) - n = length ys"
    by simp
  moreover have "drop (length ys) (drop (length xs - n) xs @ ys) = drop (length (xs @ ys) - n) (xs @ ys)"
    using False by (simp add: drop_drop add.commute)
  ultimately show ?thesis
    by (simp add: recent_messages_def)
qed (simp add: recent_messages_def)

lemma recent_messages_Nil [simp]: "recent_messages n [] = []"
  by (simp add: recent_messages_def)

text \<open>A session is addressed through a slot; appending to a slot keeps the recent messages and leaves
  the other slots alone, clearing empties it.\<close>

datatype ctx_event = Turn u64 string string string | Cleared string

primrec ctx_run ::
  "(u64 \<Rightarrow> string \<Rightarrow> string \<Rightarrow> string \<Rightarrow> 's \<Rightarrow> 's) \<Rightarrow> (string \<Rightarrow> 's \<Rightarrow> 's) \<Rightarrow> ctx_event list \<Rightarrow> 's \<Rightarrow> 's" where
  "ctx_run put wipe [] s = s"
| "ctx_run put wipe (e # es) s =
     ctx_run put wipe es (case e of Turn now sid u a \<Rightarrow> put now sid u a s | Cleared sid \<Rightarrow> wipe sid s)"

text \<open>The messages of the turns of one slot since it was last cleared.\<close>

primrec ctx_history ::
  "(string \<Rightarrow> 'k) \<Rightarrow> 'k \<Rightarrow> ctx_event list \<Rightarrow> stored_message list \<Rightarrow> stored_message list" where
  "ctx_history slot k [] acc = acc"
| "ctx_history slot k (e # es) acc =
     ctx_history slot k es
       (case e of Turn now sid u a \<Rightarrow> (if slot sid = k then acc @ turn_messages u a else acc)
        | Cleared sid \<Rightarrow> (if slot sid = k then [] else acc))"

locale context_store =
  fixes view :: "'s \<Rightarrow> string \<Rightarrow> stored_message list"
    and put :: "u64 \<Rightarrow> string \<Rightarrow> string \<Rightarrow> string \<Rightarrow> 's \<Rightarrow> 's"
    and wipe :: "string \<Rightarrow> 's \<Rightarrow> 's"
    and slot :: "string \<Rightarrow> 'k"
    and limit :: nat
    and ok :: "'s \<Rightarrow> bool"
  assumes put_ok: "ok s \<Longrightarrow> ok (put now sid u a s)"
    and wipe_ok: "ok s \<Longrightarrow> ok (wipe sid s)"
    and view_put: "ok s \<Longrightarrow> view (put now sid u a s) sid' =
      (if slot sid' = slot sid then push_turn limit u a (view s sid) else view s sid')"
    and view_wipe: "ok s \<Longrightarrow> view (wipe sid s) sid' = (if slot sid' = slot sid then [] else view s sid')"
begin

lemma run_history:
  assumes "ok s" "\<And>sid'. slot sid' = slot sid \<Longrightarrow> view s sid' = recent_messages limit acc"
  shows "view (ctx_run put wipe es s) sid = recent_messages limit (ctx_history slot (slot sid) es acc)"
  using assms
proof (induction es arbitrary: s acc)
  case (Cons e es)
  show ?case
  proof (cases e)
    case (Turn now sid1 u a)
    have "ok (put now sid1 u a s)"
      using Cons.prems(1) by (rule put_ok)
    moreover have "view (put now sid1 u a s) sid' =
        recent_messages limit (if slot sid1 = slot sid then acc @ turn_messages u a else acc)"
      if "slot sid' = slot sid" for sid'
      using that Cons.prems by (simp add: view_put push_turn_recent recent_messages_append)
    ultimately show ?thesis
      using Cons.IH Turn by simp
  next
    case (Cleared sid1)
    have "ok (wipe sid1 s)"
      using Cons.prems(1) by (rule wipe_ok)
    moreover have "view (wipe sid1 s) sid' = recent_messages limit (if slot sid1 = slot sid then [] else acc)"
      if "slot sid' = slot sid" for sid'
      using that Cons.prems by (simp add: view_wipe)
    ultimately show ?thesis
      using Cons.IH Cleared by simp
  qed
qed simp

end

text \<open>The memory store, seen without expiry.\<close>

definition mem_view :: "mem_context \<Rightarrow> string \<Rightarrow> stored_message list" where
  "mem_view s sid = (case mc_sessions s sid of None \<Rightarrow> [] | Some e \<Rightarrow> se_messages e)"

interpretation ctx_mem: context_store mem_view mem_append mem_clear "\<lambda>sid. sid" limit
    "\<lambda>s. mc_max_msgs s = limit" for limit
  by unfold_locales (auto simp: mem_view_def mem_append_def mem_clear_def Let_def split: option.splits)

text \<open>The file store, with a codec that reads back what it wrote and a disk that obeys: the slot of a
  session is its file.\<close>

definition lawful_json :: "stored_json \<Rightarrow> bool" where
  "lawful_json J \<longleftrightarrow> (\<forall>ms. \<exists>b. sj_to_vec J ms = Some b \<and> sj_from_slice J b = Some ms)"

definition io_fine :: ctx_io where
  "io_fine = \<lparr>ci_meta_ok = True, ci_remove_ok = True, ci_read_ok = True, ci_write_ok = True, ci_partial = None\<rparr>"

definition local_view ::
  "(string \<Rightarrow> bool) \<Rightarrow> stored_json \<Rightarrow> local_context \<Rightarrow> dated_disk \<Rightarrow> string \<Rightarrow> stored_message list" where
  "local_view uni J L d sid = local_read J io_fine (local_path uni L sid) d"

definition local_put ::
  "(string \<Rightarrow> bool) \<Rightarrow> stored_json \<Rightarrow> local_context \<Rightarrow> u64 \<Rightarrow> string \<Rightarrow> string \<Rightarrow> string \<Rightarrow> dated_disk \<Rightarrow> dated_disk" where
  "local_put uni J L now sid u a d = snd (local_append uni J L io_fine now sid u a d)"

interpretation ctx_local: context_store "local_view uni J L" "local_put uni J L"
    "local_clear uni L io_fine" "local_path uni L" "lc_max_msgs L" "\<lambda>d. lawful_json J"
  for uni J L
proof unfold_locales
  fix d :: dated_disk and now sid u a sid'
  let ?ms = "push_turn (lc_max_msgs L) u a (local_read J io_fine (local_path uni L sid) d)"
  assume "lawful_json J"
  then obtain b where "sj_to_vec J ?ms = Some b" "sj_from_slice J b = Some ?ms"
    unfolding lawful_json_def by blast
  then show "local_view uni J L (local_put uni J L now sid u a d) sid' =
      (if local_path uni L sid' = local_path uni L sid
       then push_turn (lc_max_msgs L) u a (local_view uni J L d sid) else local_view uni J L d sid')"
    by (simp add: local_put_def local_append_def local_view_def Let_def io_fine_def)
      (simp add: local_read_def)
qed (auto simp: local_view_def local_clear_def local_read_def io_fine_def)

section \<open>Properties\<close>

lemma mem_run_settings:
  "mc_max_msgs (ctx_run mem_append mem_clear es s) = mc_max_msgs s \<and>
   mc_ttl_secs (ctx_run mem_append mem_clear es s) = mc_ttl_secs s"
  by (induction es arbitrary: s) (auto simp: mem_append_def mem_clear_def Let_def split: ctx_event.split)

lemma mem_get_view:
  "fst (mem_get_messages now now' sid s) = mem_view s sid \<or>
   (mc_ttl_secs s > 0 \<and> fst (mem_get_messages now now' sid s) = [])"
  by (auto simp: mem_get_messages_def mem_view_def split: option.split)

text \<open>A session's history. After any interleaving of turns and clears of any sessions, reading a
  session returns exactly the messages of its own turns since it was last cleared, the most
  recent ones within the limit, or, only when a time to live is set, nothing.\<close>

theorem context_recent_turns:
  "fst (mem_get_messages now now' sid (ctx_run mem_append mem_clear es (mem_context_new n ttl))) =
      recent_messages n (ctx_history (\<lambda>x. x) sid es []) \<or>
    (ttl > 0 \<and>
     fst (mem_get_messages now now' sid (ctx_run mem_append mem_clear es (mem_context_new n ttl))) = [])"
proof -
  have "mem_view (ctx_run mem_append mem_clear es (mem_context_new n ttl)) sid =
      recent_messages n (ctx_history (\<lambda>x. x) sid es [])"
    by (rule ctx_mem.run_history) (simp_all add: mem_context_new_def mem_view_def)
  moreover have "mc_ttl_secs (ctx_run mem_append mem_clear es (mem_context_new n ttl)) = ttl"
    by (simp add: mem_run_settings) (simp add: mem_context_new_def)
  ultimately show ?thesis
    using mem_get_view by metis
qed

text \<open>Sessions on disk are not separate. The file of a session is named by the letters, digits
  and dashes of its id only, so a turn appended to one session appears at the end of the
  history of every session whose id agrees in those characters.\<close>

theorem local_sessions_collide:
  assumes "safe_name uni sid = safe_name uni sid'" "lawful_json J"
    and "local_append uni J L io_fine now sid u a d = (ok, d')"
  shows "ok \<and> fst (local_get_messages uni J L io_fine now sid' d') =
    recent_messages (lc_max_msgs L) (local_view uni J L d sid' @ turn_messages u a)"
proof -
  have p: "local_path uni L sid = local_path uni L sid'"
    using assms(1) by (simp add: local_path_def)
  let ?ms = "push_turn (lc_max_msgs L) u a (local_read J io_fine (local_path uni L sid') d)"
  obtain b where "sj_to_vec J ?ms = Some b" "sj_from_slice J b = Some ?ms"
    using assms(2) unfolding lawful_json_def by blast
  with assms(3) p show ?thesis
    by (auto simp: local_append_def local_get_messages_def local_view_def push_turn_recent Let_def
        io_fine_def sat_sub_def)
      (simp_all add: local_read_def)
qed

text \<open>A lawful codec.\<close>

definition unary_json :: stored_json where
  "unary_json = \<lparr>sj_to_vec = \<lambda>ms. Some (replicate (to_nat (map (\<lambda>m. (sg_role m, sg_content m)) ms)) 0),
     sj_from_slice = \<lambda>b. Some (map (\<lambda>(r, c). \<lparr>sg_role = r, sg_content = c\<rparr>) (from_nat (length b)))\<rparr>"

lemma unary_json_lawful: "lawful_json unary_json"
proof -
  have "(\<lambda>x. \<lparr>sg_role = sg_role x, sg_content = sg_content x\<rparr>) = (\<lambda>x :: stored_message. x)"
    by (rule ext) simp
  then show ?thesis
    by (simp add: lawful_json_def unary_json_def o_def)
qed

theorem local_sessions_collide_witness:
  "\<exists>d. fst (local_get_messages (\<lambda>ch. False) unary_json \<lparr>lc_dir = ''/ctx'', lc_max_msgs = 100, lc_ttl_secs = 0\<rparr>
     io_fine 7 ''alice1'' d) = turn_messages ''secret'' ''noted''"
proof -
  let ?L = "\<lparr>lc_dir = ''/ctx'', lc_max_msgs = 100, lc_ttl_secs = 0\<rparr>"
  have safe: "safe_name (\<lambda>ch. False) ''alice/1'' = safe_name (\<lambda>ch. False) ''alice1''"
    by code_simp
  obtain ok d where d: "local_append (\<lambda>ch. False) unary_json ?L io_fine 7 ''alice/1'' ''secret'' ''noted'' Map.empty = (ok, d)"
    by fastforce
  have "local_view (\<lambda>ch. False) unary_json ?L Map.empty ''alice1'' = []"
    by (simp add: local_view_def local_read_def)
  with local_sessions_collide [OF safe unary_json_lawful d] show ?thesis
    by (auto simp: recent_messages_def turn_messages_def)
qed

end
