(* ===== verification/X402.thy ===== *)
theory X402
  imports Rpc_Client Node_Config
begin

text \<open>The payment gate of \<^verbatim>\<open>crates/node/src/x402.rs\<close>. Base64, the JSON parser and the HTTP
  client are parameters; request headers are a function from the lower-case header name to the
  value, when it is visible ASCII. Every rejection is an HTTP 402 whose JSON body is described by
  \<open>payment_rejection\<close>.\<close>

section \<open>Wire types\<close>

record payment_payload_inner =
  ppi_transaction :: string
  ppi_signature :: string

record payment_payload =
  pp_x402_version :: u32
  pp_scheme :: string
  pp_network :: string
  pp_payload :: payment_payload_inner

record tx_log =
  tl_topics :: "string list"
  tl_data :: string

record tx_receipt =
  tr_status :: "string option"
  tr_to :: "string option"
  tr_logs :: "tx_log list"

record x402_envelope =
  xv_result :: "tx_receipt option"
  xv_error :: "json option"

datatype http_failure = ClientBuild | SendFailed | ParseFailed

datatype x402_error =
    BadBase64 | BadPayload | BadVersion u32 | BadScheme string | BadNetwork string string
  | MissingHash | BadHash nat
  | NoRpcUrl | X402Http http_failure | X402Rpc json | TxNotFound | TxReverted string | NoStatus
  | AmountTooSmall u64 u64 | NoTransfer string

datatype payment_rejection =
    PaymentRequired json
  | PaymentInvalid x402_error
  | PaymentUnverified x402_error string

type_synonym headers = "string \<Rightarrow> string option"

type_synonym 'w x402_http = "string \<Rightarrow> json \<Rightarrow> 'w \<Rightarrow> (x402_envelope, http_failure) res \<times> 'w"

record x402_env =
  xe_base64_decode :: "string \<Rightarrow> bytes option"
  xe_parse_payload :: "bytes \<Rightarrow> payment_payload option"

section \<open>The 402 body\<close>

definition make_402_body :: "x402_section \<Rightarrow> string \<Rightarrow> json" where
  "make_402_body cfg resource_url =
     JObj [(''x402Version'', JNum 1),
       (''accepts'', JArr [JObj
          [(''scheme'', JStr ''exact''),
           (''network'', JStr (x402_network cfg)),
           (''maxAmountRequired'', JStr (decimal (unat (x402_price_units cfg)))),
           (''resource'', JStr resource_url),
           (''description'', JStr (''Pinaivu AI inference '' @ [CHR 0xE2, CHR 0x80, CHR 0x94] @
              '' pay per request'')),
           (''mimeType'', JStr ''application/x-ndjson''),
           (''payTo'', JStr (x402_node_evm_address cfg)),
           (''maxTimeoutSeconds'', JNum 300),
           (''asset'', JStr (x402_usdc_address cfg)),
           (''extra'', JObj [])]])]"

section \<open>The header\<close>

definition parse_payment_header ::
  "x402_env \<Rightarrow> string \<Rightarrow> x402_section \<Rightarrow> (string, x402_error) res" where
  "parse_payment_header X header_value cfg =
     (case xe_base64_decode X (trim header_value) of
        None \<Rightarrow> Err BadBase64
      | Some decoded \<Rightarrow>
          (case xe_parse_payload X decoded of
             None \<Rightarrow> Err BadPayload
           | Some payload \<Rightarrow>
               if pp_x402_version payload \<noteq> 1 then Err (BadVersion (pp_x402_version payload))
               else if pp_scheme payload \<noteq> ''exact'' then Err (BadScheme (pp_scheme payload))
               else if pp_network payload \<noteq> x402_network cfg then
                 Err (BadNetwork (pp_network payload) (x402_network cfg))
               else
                 let tx = trim (ppi_transaction (pp_payload payload)) in
                 if tx = [] then Err MissingHash
                 else if \<not> starts_with ''0x'' tx \<or> length tx \<noteq> 66 then Err (BadHash (length tx))
                 else Okay tx))"

section \<open>On-chain verification\<close>

definition transfer_sig :: string where
  "transfer_sig = ''0xddf252ad1be2c89b69c2b068fc378daa952ba7f163c4a11628f55a4df523b3ef''"

text \<open>The last sixteen digits of the data as the amount: \<open>None\<close> when there are fewer, a panic when
  they do not start at a character.\<close>

definition log_amount :: "string \<Rightarrow> u64 option outcome" where
  "log_amount d =
     (let data = trim_start_matches ''0x'' d in
      if length data \<ge> 16 then
        (case last_bytes 16 data of
           Panic \<Rightarrow> Panic
         | Done amount_hex \<Rightarrow>
             Done (Some (case from_str_radix16 64 amount_hex of None \<Rightarrow> 0 | Some n \<Rightarrow> word_of_nat n)))
      else Done None)"

definition log_payer :: "tx_log \<Rightarrow> (string, x402_error) res outcome" where
  "log_payer lg =
     (case last_bytes 40 (to_lowercase (tl_topics lg ! 1)) of
        Panic \<Rightarrow> Panic
      | Done addr \<Rightarrow> Done (Okay (''0x'' @ addr)))"

text \<open>The loop over the logs.\<close>

fun find_transfer :: "x402_section \<Rightarrow> string \<Rightarrow> tx_log list \<Rightarrow> (string, x402_error) res outcome" where
  "find_transfer cfg node_addr [] = Done (Err (NoTransfer node_addr))"
| "find_transfer cfg node_addr (lg # logs) =
     (if length (tl_topics lg) < 3 then find_transfer cfg node_addr logs
      else if to_lowercase (tl_topics lg ! 0) \<noteq> transfer_sig then find_transfer cfg node_addr logs
      else
        (case last_bytes 40 (to_lowercase (tl_topics lg ! 2)) of
           Panic \<Rightarrow> Panic
         | Done addr \<Rightarrow>
             if ''0x'' @ addr \<noteq> node_addr then find_transfer cfg node_addr logs
             else
               (case log_amount (tl_data lg) of
                  Panic \<Rightarrow> Panic
                | Done None \<Rightarrow> log_payer lg
                | Done (Some amount) \<Rightarrow>
                    if amount < x402_price_units cfg
                    then Done (Err (AmountTooSmall amount (x402_price_units cfg)))
                    else log_payer lg)))"

definition receipt_request :: "string \<Rightarrow> json" where
  "receipt_request tx_hash = JObj [(''jsonrpc'', JStr ''2.0''), (''id'', JNum 1),
     (''method'', JStr ''eth_getTransactionReceipt''), (''params'', JArr [JStr tx_hash])]"

definition check_receipt :: "x402_section \<Rightarrow> tx_receipt \<Rightarrow> (string, x402_error) res outcome" where
  "check_receipt cfg receipt =
     (case tr_status receipt of
        None \<Rightarrow> Done (Err NoStatus)
      | Some s \<Rightarrow>
          if s \<noteq> ''0x1'' then Done (Err (TxReverted s))
          else
            let node_addr = to_lowercase (x402_node_evm_address cfg) in
            case tr_to receipt of
              None \<Rightarrow> find_transfer cfg node_addr (tr_logs receipt)
            | Some to \<Rightarrow>
                if to_lowercase to = node_addr then Done (Okay node_addr)
                else find_transfer cfg node_addr (tr_logs receipt))"

definition verify_onchain ::
  "'w x402_http \<Rightarrow> string \<Rightarrow> x402_section \<Rightarrow> 'w \<Rightarrow> (string, x402_error) res outcome \<times> 'w" where
  "verify_onchain post tx_hash cfg w =
     (if x402_rpc_url cfg = [] then (Done (Err NoRpcUrl), w)
      else
        (case post (x402_rpc_url cfg) (receipt_request tx_hash) w of
           (Inl f, w') \<Rightarrow> (Done (Err (X402Http f)), w')
         | (Inr envelope, w') \<Rightarrow>
             (case xv_error envelope of
                Some err \<Rightarrow> (Done (Err (X402Rpc err)), w')
              | None \<Rightarrow>
                  (case xv_result envelope of
                     None \<Rightarrow> (Done (Err TxNotFound), w')
                   | Some receipt \<Rightarrow> (check_receipt cfg receipt, w')))))"

section \<open>The gate\<close>

definition check_payment ::
  "x402_env \<Rightarrow> 'w x402_http \<Rightarrow> headers \<Rightarrow> x402_section \<Rightarrow> 'w \<Rightarrow>
     (string, payment_rejection) res outcome \<times> 'w" where
  "check_payment X post hs cfg w =
     (if \<not> x402_enabled cfg then (Done (Okay []), w)
      else
        (case hs ''x-payment'' of
           None \<Rightarrow> (Done (Err (PaymentRequired (make_402_body cfg ''https://node/v1/infer''))), w)
         | Some val \<Rightarrow>
             (case parse_payment_header X val cfg of
                Inl e \<Rightarrow> (Done (Err (PaymentInvalid e)), w)
              | Inr tx_hash \<Rightarrow>
                  (case verify_onchain post tx_hash cfg w of
                     (Panic, w') \<Rightarrow> (Panic, w')
                   | (Done (Inr payer), w') \<Rightarrow> (Done (Okay payer), w')
                   | (Done (Inl e), w') \<Rightarrow> (Done (Err (PaymentUnverified e tx_hash)), w')))))"

section \<open>Properties\<close>

text \<open>What the gate takes for a payment: a successful transaction that went to the node's address
  itself, whatever it carried, or whose first transfer event to the node states an amount that covers
  the price, or states none. Which contract emitted the event plays no part.\<close>

definition transfer_to_node :: "x402_section \<Rightarrow> tx_log \<Rightarrow> bool" where
  "transfer_to_node cfg lg \<longleftrightarrow>
     length (tl_topics lg) \<ge> 3 \<and> to_lowercase (tl_topics lg ! 0) = transfer_sig \<and>
     (\<exists>addr. last_bytes 40 (to_lowercase (tl_topics lg ! 2)) = Done addr \<and>
        ''0x'' @ addr = to_lowercase (x402_node_evm_address cfg))"

definition amount_accepted :: "x402_section \<Rightarrow> tx_log \<Rightarrow> bool" where
  "amount_accepted cfg lg \<longleftrightarrow>
     (case log_amount (tl_data lg) of Done (Some a) \<Rightarrow> x402_price_units cfg \<le> a | Done None \<Rightarrow> True | Panic \<Rightarrow> False)"

definition sent_to_node :: "x402_section \<Rightarrow> tx_receipt \<Rightarrow> bool" where
  "sent_to_node cfg r \<longleftrightarrow> map_option to_lowercase (tr_to r) = Some (to_lowercase (x402_node_evm_address cfg))"

definition transfer_accepted :: "x402_section \<Rightarrow> tx_log list \<Rightarrow> bool" where
  "transfer_accepted cfg logs \<longleftrightarrow>
     (case find (transfer_to_node cfg) logs of None \<Rightarrow> False | Some lg \<Rightarrow> amount_accepted cfg lg)"

definition receipt_accepted :: "x402_section \<Rightarrow> tx_receipt \<Rightarrow> bool" where
  "receipt_accepted cfg r \<longleftrightarrow> tr_status r = Some ''0x1'' \<and>
     (sent_to_node cfg r \<or> transfer_accepted cfg (tr_logs r))"

lemma find_transfer_first:
  "find_transfer cfg (to_lowercase (x402_node_evm_address cfg)) logs = Done (Inr payer) \<Longrightarrow>
     transfer_accepted cfg logs"
proof (induction logs)
  case (Cons lg logs)
  then show ?case
    by (auto simp: transfer_accepted_def transfer_to_node_def amount_accepted_def not_le not_less
        split: if_splits outcome.splits option.splits)
qed simp

lemma check_receipt_accepted: "check_receipt cfg r = Done (Inr payer) \<Longrightarrow> receipt_accepted cfg r"
  by (auto simp: check_receipt_def receipt_accepted_def sent_to_node_def Let_def
      split: option.splits if_splits dest: find_transfer_first)

text \<open>The price does not touch a transaction sent to the node's address.\<close>

lemma check_receipt_price:
  "sent_to_node cfg r \<Longrightarrow> check_receipt (cfg\<lparr>x402_price_units := price\<rparr>) r = check_receipt cfg r"
  by (auto simp: check_receipt_def sent_to_node_def Let_def split: option.split)

lemma parse_payment_header_price:
  "parse_payment_header X v (cfg\<lparr>x402_price_units := price\<rparr>) = parse_payment_header X v cfg"
proof -
  have net: "x402_network (cfg\<lparr>x402_price_units := price\<rparr>) = x402_network cfg"
    by simp
  show ?thesis
    unfolding parse_payment_header_def net ..
qed

lemma verify_onchain_accepted:
  "verify_onchain post tx cfg w = (Done (Inr payer), w') \<Longrightarrow>
     \<exists>r. post (x402_rpc_url cfg) (receipt_request tx) w = (Inr \<lparr>xv_result = Some r, xv_error = None\<rparr>, w') \<and>
       receipt_accepted cfg r \<and> check_receipt cfg r = Done (Inr payer) \<and> x402_rpc_url cfg \<noteq> []"
  by (auto simp: verify_onchain_def dest: check_receipt_accepted
      split: if_splits prod.splits sum.splits option.splits intro!: x402_envelope.equality)

lemma parse_payment_header_ok:
  "parse_payment_header X v cfg = Inr tx \<Longrightarrow>
     length tx = 66 \<and> starts_with ''0x'' tx \<and>
     (\<exists>b p. xe_base64_decode X (trim v) = Some b \<and> xe_parse_payload X b = Some p \<and>
        pp_x402_version p = 1 \<and> pp_scheme p = ''exact'' \<and> pp_network p = x402_network cfg \<and>
        tx = trim (ppi_transaction (pp_payload p)))"
  by (auto simp: parse_payment_header_def Let_def split: option.splits if_splits)

text \<open>C16: what the gate lets through. When it is enabled and lets a request through, the request
  carried a well-formed payment header for this network, and the chain answered for exactly the
  transaction named there with a successful receipt that either went to the node's address, in
  which case the same request passes at every price, or whose first transfer event to the node
  states at least the price or no amount at all.\<close>

theorem x402_gate_closed:
  assumes "check_payment X post hs cfg w = (Done (Inr payer), w')" "x402_enabled cfg"
  shows "\<exists>v b p tx r. hs ''x-payment'' = Some v \<and> xe_base64_decode X (trim v) = Some b \<and>
      xe_parse_payload X b = Some p \<and> pp_x402_version p = 1 \<and> pp_scheme p = ''exact'' \<and>
      pp_network p = x402_network cfg \<and> tx = trim (ppi_transaction (pp_payload p)) \<and>
      length tx = 66 \<and> starts_with ''0x'' tx \<and>
      post (x402_rpc_url cfg) (receipt_request tx) w = (Inr \<lparr>xv_result = Some r, xv_error = None\<rparr>, w') \<and>
      receipt_accepted cfg r \<and>
      (sent_to_node cfg r \<longrightarrow>
        (\<forall>price. check_payment X post hs (cfg\<lparr>x402_price_units := price\<rparr>) w = (Done (Inr payer), w')))"
proof -
  obtain v where v: "hs ''x-payment'' = Some v"
    using assms by (auto simp: check_payment_def split: option.splits)
  then obtain tx where tx: "parse_payment_header X v cfg = Inr tx"
    and on: "verify_onchain post tx cfg w = (Done (Inr payer), w')"
    using assms by (auto simp: check_payment_def split: sum.splits prod.splits outcome.splits)
  obtain r where r: "post (x402_rpc_url cfg) (receipt_request tx) w = (Inr \<lparr>xv_result = Some r, xv_error = None\<rparr>, w')"
    "receipt_accepted cfg r" "check_receipt cfg r = Done (Inr payer)" "x402_rpc_url cfg \<noteq> []"
    using verify_onchain_accepted [OF on] by blast
  have "check_payment X post hs (cfg\<lparr>x402_price_units := price\<rparr>) w = (Done (Inr payer), w')"
    if "sent_to_node cfg r" for price
    using assms(2) v tx r that
    by (simp add: check_payment_def verify_onchain_def parse_payment_header_price check_receipt_price)
  with parse_payment_header_ok [OF tx] v r(1,2) show ?thesis
    by blast
qed

definition x402_example_config :: x402_section where
  "x402_example_config = x402_section_default\<lparr>x402_enabled := True, x402_rpc_url := ''http://rpc'',
     x402_node_evm_address := ''0xABCDEF0123456789abcdef0123456789abcdef01''\<rparr>"

definition x402_example_tx :: string where
  "x402_example_tx = ''0x1111111111111111111111111111111111111111111111111111111111111111''"

definition x402_example_env :: x402_env where
  "x402_example_env = \<lparr>xe_base64_decode = \<lambda>s. Some [], xe_parse_payload = \<lambda>b.
     Some \<lparr>pp_x402_version = 1, pp_scheme = ''exact'', pp_network = ''arc-testnet'',
       pp_payload = \<lparr>ppi_transaction = x402_example_tx, ppi_signature = []\<rparr>\<rparr>\<rparr>"

text \<open>A chain whose receipt logs a transfer of the given data, from some token, to the node.\<close>

definition x402_example_log :: "string \<Rightarrow> tx_log" where
  "x402_example_log d = \<lparr>tl_topics = [transfer_sig,
       ''0x0000000000000000000000002222222222222222222222222222222222222222'',
       ''0x000000000000000000000000ABCDEF0123456789abcdef0123456789abcdef01''], tl_data = d\<rparr>"

definition x402_example_post :: "string \<Rightarrow> unit x402_http" where
  "x402_example_post d url body w =
     (Inr \<lparr>xv_result = Some \<lparr>tr_status = Some ''0x1'', tr_to = None, tr_logs = [x402_example_log d]\<rparr>,
           xv_error = None\<rparr>, w)"

lemma x402_example_lower:
  "to_lowercase ''0xABCDEF0123456789abcdef0123456789abcdef01'' = ''0xabcdef0123456789abcdef0123456789abcdef01''"
  "to_lowercase transfer_sig = transfer_sig"
  by code_simp+

lemma x402_example_header: "parse_payment_header x402_example_env ''abc'' x402_example_config = Inr x402_example_tx"
proof -
  have "trim x402_example_tx = x402_example_tx" "x402_example_tx \<noteq> []" "starts_with ''0x'' x402_example_tx"
    "length x402_example_tx = 66"
    by code_simp+
  then show ?thesis
    by (simp add: parse_payment_header_def x402_example_env_def x402_example_config_def
        x402_section_default_def Let_def)
qed

lemma x402_example_topics:
  "last_bytes 40 (to_lowercase ''0x000000000000000000000000ABCDEF0123456789abcdef0123456789abcdef01'')
     = Done ''abcdef0123456789abcdef0123456789abcdef01''"
  "last_bytes 40 (to_lowercase ''0x0000000000000000000000002222222222222222222222222222222222222222'')
     = Done ''2222222222222222222222222222222222222222''"
  by code_simp+

text \<open>The price is not enforced on every payment. A transaction sent to the node's address is
  accepted whatever value it carried, and so is a transfer event whose data has fewer than
  sixteen digits, emitted by any contract: in both cases the price plays no part.\<close>

theorem x402_price_not_enforced:
  assumes "x402_enabled cfg" "x402_rpc_url cfg \<noteq> []" "hs ''x-payment'' = Some v"
    and "parse_payment_header X v cfg = Inr tx"
    and "post (x402_rpc_url cfg) (receipt_request tx) w = (Inr \<lparr>xv_result = Some r, xv_error = None\<rparr>, w')"
    and "tr_status r = Some ''0x1''"
    and "sent_to_node cfg r \<or>
      (\<exists>lg payer. tr_to r = None \<and> tr_logs r = [lg] \<and> transfer_to_node cfg lg \<and>
         length (trim_start_matches ''0x'' (tl_data lg)) < 16 \<and> log_payer lg = Done (Inr payer))"
  shows "\<exists>payer. \<forall>price. check_payment X post hs (cfg\<lparr>x402_price_units := price\<rparr>) w = (Done (Inr payer), w')"
proof -
  have "\<exists>payer. \<forall>price. check_receipt (cfg\<lparr>x402_price_units := price\<rparr>) r = Done (Inr payer)"
    using assms(6,7)
    by (auto simp: check_receipt_def Let_def transfer_to_node_def sent_to_node_def log_amount_def)
  then show ?thesis
    using assms(1-5) by (auto simp: check_payment_def verify_onchain_def parse_payment_header_price)
qed

theorem x402_price_not_enforced_witness:
  "\<exists>payer. check_payment x402_example_env (x402_example_post ''0x'') (\<lambda>k. Some ''abc'')
     (x402_example_config\<lparr>x402_price_units := 10 ^ 15\<rparr>) () = (Done (Inr payer), ())"
proof -
  have amount: "log_amount ''0x'' = Done None"
    by code_simp
  have short: "length (trim_start_matches ''0x'' ''0x'') < 16"
    by code_simp
  have "transfer_to_node x402_example_config (x402_example_log ''0x'')"
    by (simp add: transfer_to_node_def x402_example_log_def x402_example_topics x402_example_lower amount
        x402_example_config_def)
  moreover have "log_payer (x402_example_log ''0x'') = Done (Inr ''0x2222222222222222222222222222222222222222'')"
    by (simp add: log_payer_def x402_example_log_def x402_example_topics)
  ultimately have "\<exists>payer. \<forall>price. check_payment x402_example_env (x402_example_post ''0x'') (\<lambda>k. Some ''abc'')
     (x402_example_config\<lparr>x402_price_units := price\<rparr>) () = (Done (Inr payer), ())"
    using short
    by (intro x402_price_not_enforced [where v = "''abc''" and tx = x402_example_tx and
          r = "\<lparr>tr_status = Some ''0x1'', tr_to = None, tr_logs = [x402_example_log ''0x'']\<rparr>"])
      (simp_all add: x402_example_header x402_example_post_def,
        simp_all add: x402_example_config_def x402_example_log_def)
  then show ?thesis
    by blast
qed

theorem x402_gate_closed_witness:
  "receipt_accepted x402_example_config
     \<lparr>tr_status = Some ''0x1'', tr_to = None, tr_logs = [x402_example_log ''0x00000000000f4240'']\<rparr>"
proof -
  have amount: "log_amount ''0x00000000000f4240'' = Done (Some 1000000)"
  proof -
    have d: "trim_start_matches ''0x'' ''0x00000000000f4240'' = ''00000000000f4240''"
      "last_bytes 16 ''00000000000f4240'' = Done ''00000000000f4240''"
      by code_simp+
    then show ?thesis
      by (simp add: log_amount_def Let_def from_str_radix16_def hex_digit_def)
  qed
  have "check_payment x402_example_env (x402_example_post ''0x00000000000f4240'') (\<lambda>k. Some ''abc'')
     x402_example_config () = (Done (Inr ''0x2222222222222222222222222222222222222222''), ())"
    by (simp add: check_payment_def verify_onchain_def x402_example_header x402_example_post_def
        check_receipt_def x402_example_lower x402_example_topics log_payer_def amount Let_def
        x402_example_log_def)
      (simp add: x402_example_config_def x402_section_default_def x402_example_lower)
  from x402_gate_closed [OF this] show ?thesis
    by (auto simp: x402_example_config_def x402_example_post_def)
qed

end
