(* ===== verification/Node_Api.thy ===== *)
theory Node_Api
  imports Node_Receipt Job_Store Context_Store X402 "HOL-Library.Product_Lexorder" "HOL-Library.Multiset"
begin

text \<open>The request handlers of \<^verbatim>\<open>crates/node/src/api/mod.rs\<close> with their errors
  (\<^verbatim>\<open>api/error.rs\<close>) and the journal (\<^verbatim>\<open>journal.rs\<close>). A handler maps the node's state and the
  world behind the payment gate to a response and the new state; the model, the settlement
  adapters, the job store, the peer-to-peer service and all clock readings are arguments. The
  replay set and the conversation store are the in-memory ones. What the handlers count is in \<open>Node_Metrics\<close>.\<close>

section \<open>Responses\<close>

datatype http_body =
    BodyEmpty
  | BodyJson json
  | BodyLines "json list"
  | BodyEvents "json list"
  | BodyText string

record response =
  rsp_status :: nat
  rsp_headers :: "(string \<times> string) list"
  rsp_body :: http_body

definition cors_headers :: "(string \<times> string) list" where
  "cors_headers =
     [(''Access-Control-Allow-Origin'', ''*''),
      (''Access-Control-Allow-Methods'', ''GET, POST, OPTIONS''),
      (''Access-Control-Allow-Headers'', ''Content-Type, Authorization'')]"

definition preflight :: response where
  "preflight = \<lparr>rsp_status = 204, rsp_headers = cors_headers, rsp_body = BodyEmpty\<rparr>"

datatype api_error =
    BadRequest string | Unauthorized | NotFound string | Replayed | Capacity | Upstream string
  | Internal string

definition em_dash :: string where
  "em_dash = [CHR 0xE2, CHR 0x80, CHR 0x94]"

definition api_error_parts :: "api_error \<Rightarrow> nat \<times> string \<times> string" where
  "api_error_parts e =
     (case e of
        BadRequest m \<Rightarrow> (400, ''invalid_request'', m)
      | Unauthorized \<Rightarrow> (401, ''auth_error'', ''Unauthorized '' @ em_dash @ '' valid API key required'')
      | NotFound m \<Rightarrow> (404, ''not_found'', m)
      | Replayed \<Rightarrow> (409, ''conflict'', ''duplicate request_id '' @ em_dash @ '' already processed'')
      | Capacity \<Rightarrow> (503, ''capacity_error'', ''node at capacity '' @ em_dash @ '' retry shortly'')
      | Upstream m \<Rightarrow> (502, ''upstream_error'', m)
      | Internal m \<Rightarrow> (500, ''internal_error'', m))"

definition error_response :: "api_error \<Rightarrow> response" where
  "error_response e =
     (let (status, kind, message) = api_error_parts e;
          hints = (if status = 401 then [(''WWW-Authenticate'', ''Bearer'')]
                   else if status = 503 then [(''Retry-After'', ''5'')] else [])
      in \<lparr>rsp_status = status, rsp_headers = cors_headers @ hints,
          rsp_body = BodyJson (JObj [(''error'', JObj [(''message'', JStr message), (''type'', JStr kind)])])\<rparr>)"

definition rejection_response :: "(x402_error \<Rightarrow> string) \<Rightarrow> payment_rejection \<Rightarrow> response" where
  "rejection_response show_error r =
     \<lparr>rsp_status = 402, rsp_headers = [(''Content-Type'', ''application/json'')],
      rsp_body = BodyJson
        (case r of
           PaymentRequired body \<Rightarrow> body
         | PaymentInvalid e \<Rightarrow>
             JObj [(''error'', JStr ''invalid payment''), (''detail'', JStr (show_error e))]
         | PaymentUnverified e tx \<Rightarrow>
             JObj [(''error'', JStr ''payment not verified''), (''detail'', JStr (show_error e)),
                   (''tx_hash'', JStr tx)])\<rparr>"

definition json_opt :: "string option \<Rightarrow> json" where
  "json_opt v = (case v of None \<Rightarrow> JNull | Some s \<Rightarrow> JStr s)"

definition json_u32 :: "u32 \<Rightarrow> json" where
  "json_u32 n = JNum (int (unat n))"

definition receipt_json :: "receipt_info \<Rightarrow> json" where
  "receipt_json r = JObj
     [(''proof_id'', JStr (ri_proof_id r)), (''settlement_id'', JStr (ri_settlement_id r)),
      (''proof_valid'', JBool (ri_proof_valid r)), (''input_tokens'', json_u32 (ri_input_tokens r)),
      (''output_tokens'', json_u32 (ri_output_tokens r)), (''latency_ms'', json_u32 (ri_latency_ms r)),
      (''node_pubkey'', JStr (ri_node_pubkey r)), (''signature'', JStr (ri_signature r)),
      (''canonical_bytes_hex'', JStr (ri_canonical_bytes_hex r)), (''chain_tx_id'', json_opt (ri_chain_tx_id r))]"

definition chunk_json :: "token_chunk \<Rightarrow> json" where
  "chunk_json c = JObj
     ([(''token'', JStr (tc_token c)), (''is_final'', JBool (tc_is_final c))] @
      (case tc_receipt c of None \<Rightarrow> [] | Some r \<Rightarrow> [(''receipt'', receipt_json r)]))"

definition ndjson_body :: "string list \<Rightarrow> receipt_info option \<Rightarrow> json list" where
  "ndjson_body tokens receipt =
     map (\<lambda>t. chunk_json \<lparr>tc_token = t, tc_is_final = False, tc_receipt = None\<rparr>) tokens @
     [chunk_json \<lparr>tc_token = [], tc_is_final = True, tc_receipt = receipt\<rparr>]"

definition ndjson_response :: "json list \<Rightarrow> response" where
  "ndjson_response body =
     \<lparr>rsp_status = 200, rsp_headers = cors_headers @
        [(''Content-Type'', ''application/x-ndjson''), (''X-Accel-Buffering'', ''no''), (''Cache-Control'', ''no-cache'')],
      rsp_body = BodyLines body\<rparr>"

section \<open>State\<close>

record journal_record =
  jr_request_id :: string
  jr_model :: string
  jr_fallback_from :: "string option"
  jr_input_tokens :: u32
  jr_output_tokens :: u32
  jr_latency_ms :: u64
  jr_ts :: u64

text \<open>What the handlers change: the states behind the settlement adapters and the job store, the
  replay set, the conversations, the free permits of the inference semaphore, the journal, the
  blobs handed to storage, the registered response collectors, and the requests handed to the
  peer-to-peer service for broadcast, each with its answer (an error, or \<open>None\<close>).\<close>

type_synonym network_call = "inference_request \<times> string option"

record ('s, 'j) node_state =
  nst_settle :: 's
  nst_jobs :: 'j
  nst_nonces :: nonce_store
  nst_contexts :: mem_context
  nst_permits :: nat
  nst_journal :: "journal_record list"
  nst_writes :: "json list"
  nst_collectors :: "string set"
  nst_broadcasts :: "network_call list"

text \<open>The services, which handlers only call.\<close>

record ('s, 'j, 'e, 'w) node_env =
  ne_api_key :: string
  ne_x402 :: x402_section
  ne_max_context_tokens :: u32
  ne_job_timeout_ms :: u64
  ne_list_models :: "(string list, 'e) res"
  ne_run :: "'e run_inference"
  ne_settlements :: "'s adapter list"
  ne_job_store :: "('j, 'e) job_store"
  ne_identity :: node_identity
  ne_crypto :: crypto_env
  ne_p2p_broadcast :: "(inference_request \<Rightarrow> string option) option"
  ne_x402_env :: x402_env
  ne_http_post :: "'w x402_http"
  ne_uuid_str :: "uuid \<Rightarrow> string"
  ne_show_error :: "'e \<Rightarrow> string"
  ne_show_x402 :: "x402_error \<Rightarrow> string"
  ne_header_value_ok :: "string \<Rightarrow> bool"
  ne_json_str :: "json \<Rightarrow> string option"
  ne_hex_decode :: "string \<Rightarrow> bytes option"
  ne_base64_decode :: "string \<Rightarrow> bytes option"
  ne_aes_decrypt :: "bytes \<Rightarrow> bytes \<Rightarrow> bytes \<Rightarrow> bytes option"
  ne_from_utf8 :: "bytes \<Rightarrow> string option"

text \<open>What one request meets: fresh ids, the readings of the clocks, and the chunks that arrive for it
  from the network before its deadline.\<close>

record request_inputs =
  in_request_id :: uuid
  in_response_id :: string
  in_nonce_ms :: u64
  in_get_secs :: u64
  in_touch_secs :: u64
  in_job_ms :: u64
  in_latency_ms :: u32
  in_journal_ok :: bool
  in_journal_secs :: u64
  in_turn_secs :: u64
  in_blob_secs :: u64
  in_proof_secs :: u64
  in_p2p_secs :: u64
  in_p2p_chunks :: "p2p_inference_chunk list"

definition replay_window_secs :: u64 where
  "replay_window_secs = 300"

definition journal_append :: "bool \<Rightarrow> journal_record \<Rightarrow> journal_record list \<Rightarrow> journal_record list" where
  "journal_append ok r js = (if ok then js @ [r] else js)"

section \<open>Steps of a handler\<close>

definition check_api_key :: "headers \<Rightarrow> string \<Rightarrow> (unit, api_error) res" where
  "check_api_key hs key =
     (if key = [] then Okay ()
      else
        let provided =
              (case Option.bind (hs ''authorization'') (strip_prefix ''Bearer '') of
                 Some k \<Rightarrow> Some k
               | None \<Rightarrow> hs ''x-api-key'')
        in case provided of
             Some k \<Rightarrow> if k = key then Okay () else Err Unauthorized
           | None \<Rightarrow> Err Unauthorized)"

definition run_and_collect ::
  "'e run_inference \<Rightarrow> string \<Rightarrow> context_window \<Rightarrow> string \<Rightarrow> u32 \<Rightarrow> f32 \<Rightarrow> uuid \<Rightarrow> (string list, 'e) res" where
  "run_and_collect run model_id cw prompt max_tokens temperature rid =
     (case run model_id cw prompt
             \<lparr>ip_max_tokens = max_tokens, ip_temperature = temperature, ip_request_id = rid\<rparr> of
        Inl e \<Rightarrow> Inl e
      | Inr chunks \<Rightarrow>
          Inr (List.map_filter (\<lambda>r. case r of Inl _ \<Rightarrow> None | Inr c \<Rightarrow> Some (sk_token c)) chunks))"

definition fallback_notice :: "string \<Rightarrow> string \<Rightarrow> string" where
  "fallback_notice requested fallback =
     [CHR 0x27] @ requested @ [CHR 0x27] @ '' not available '' @ em_dash @ '' routing to '' @
     [CHR 0x27] @ fallback @ [CHR 0x27]"

definition resolve_model :: "string \<Rightarrow> (string list, 'e) res \<Rightarrow> string \<times> string option" where
  "resolve_model requested models =
     (case models of
        Inl _ \<Rightarrow> (requested, None)
      | Inr available \<Rightarrow>
          if requested \<in> set available then (requested, None)
          else
            (case find (starts_with (split_first CHR '':'' requested)) available of
               Some fallback \<Rightarrow> (fallback, Some (fallback_notice requested fallback))
             | None \<Rightarrow> (requested, None)))"

definition count_input_tokens :: "string \<Rightarrow> u32" where
  "count_input_tokens prompt = max (word_of_nat (split_whitespace_count prompt)) 1"

definition count_output_tokens :: "string list \<Rightarrow> u32" where
  "count_output_tokens tokens = max (word_of_nat (length tokens)) 1"

section \<open>After the model has answered\<close>

text \<open>What both tracked handlers know when the tokens are in: the model named by the client, the one
  used, the prompt, the session, and how to settle.\<close>

record answered =
  an_requested_model :: string
  an_actual_model :: string
  an_fell_back :: bool
  an_prompt :: string
  an_session :: "string option"
  an_tokens :: "string list"
  an_accepted :: "string list option"
  an_settle_model :: string
  an_amount :: u64

definition answered_usage :: "request_inputs \<Rightarrow> answered \<Rightarrow> usage" where
  "answered_usage inp a =
     \<lparr>us_request_id = in_request_id inp, us_model_id = an_settle_model a,
      us_input_tokens = count_input_tokens (an_prompt a),
      us_output_tokens = count_output_tokens (an_tokens a), us_latency_ms = in_latency_ms inp,
      us_amount_nanox = an_amount a, us_prompt = an_prompt a, us_output = join [] (an_tokens a)\<rparr>"

definition answered_metrics :: "request_inputs \<Rightarrow> answered \<Rightarrow> job_metrics" where
  "answered_metrics inp a =
     \<lparr>jm_input_tokens = count_input_tokens (an_prompt a),
      jm_output_tokens = count_output_tokens (an_tokens a), jm_latency_ms = ucast (in_latency_ms inp),
      jm_fallback_from = (if an_fell_back a then Some (an_requested_model a) else None)\<rparr>"

definition output_blob :: "('s, 'j, 'e, 'w) node_env \<Rightarrow> request_inputs \<Rightarrow> answered \<Rightarrow> json" where
  "output_blob N inp a = JObj
     [(''request_id'', JStr (ne_uuid_str N (in_request_id inp))), (''model'', JStr (an_requested_model a)),
      (''prompt_hash'', JStr (hex_encode (ne_crypto N) (sha256 (ne_crypto N) (str_bytes (an_prompt a))))),
      (''output'', JStr (join [] (an_tokens a))), (''timestamp'', json_u64 (in_blob_secs inp))]"

definition settle_node ::
  "('s, 'j, 'e, 'w) node_env \<Rightarrow> request_inputs \<Rightarrow> string list option \<Rightarrow> usage \<Rightarrow> ('s, 'j) node_state \<Rightarrow>
     receipt_info option \<times> ('s, 'j) node_state" where
  "settle_node N inp accepted u st =
     (let (receipt, s) = settle_and_build_receipt (ne_crypto N) (ne_identity N) (ne_settlements N)
            (in_proof_secs inp) accepted u (nst_settle st)
      in (receipt, st\<lparr>nst_settle := s\<rparr>))"

text \<open>Journal, job queue, conversation, storage, settlement, in this order.\<close>

definition finish_inference ::
  "('s, 'j, 'e, 'w) node_env \<Rightarrow> request_inputs \<Rightarrow> answered \<Rightarrow> ('s, 'j) node_state \<Rightarrow>
     receipt_info option \<times> ('s, 'j) node_state" where
  "finish_inference N inp a st =
     (let rid = in_request_id inp;
          m = answered_metrics inp a;
          st1 = st\<lparr>nst_journal := journal_append (in_journal_ok inp)
             \<lparr>jr_request_id = ne_uuid_str N rid, jr_model = an_actual_model a,
              jr_fallback_from = jm_fallback_from m, jr_input_tokens = jm_input_tokens m,
              jr_output_tokens = jm_output_tokens m, jr_latency_ms = jm_latency_ms m,
              jr_ts = in_journal_secs inp\<rparr> (nst_journal st)\<rparr>;
          st2 = st1\<lparr>nst_jobs := snd (js_complete (ne_job_store N) rid m (nst_jobs st1))\<rparr>;
          st3 = (case an_session a of
                   None \<Rightarrow> st2
                 | Some sid \<Rightarrow> st2\<lparr>nst_contexts := mem_append (in_turn_secs inp) sid (an_prompt a)
                     (join [] (an_tokens a)) (nst_contexts st2)\<rparr>);
          st4 = st3\<lparr>nst_writes := nst_writes st3 @ [output_blob N inp a]\<rparr>
      in settle_node N inp (an_accepted a) (answered_usage inp a) st4)"

text \<open>The tracked run under the semaphore: no permit, a failure of the model, or the answer. The permit
  is held until the handler returns.\<close>

datatype 'e tracked = AtCapacity | RunFailed 'e | RunAnswered "string list"

definition run_tracked ::
  "('s, 'j, 'e, 'w) node_env \<Rightarrow> request_inputs \<Rightarrow> string \<Rightarrow> context_window \<Rightarrow> string \<Rightarrow> u32 \<Rightarrow> f32 \<Rightarrow>
     ('s, 'j) node_state \<Rightarrow> 'e tracked \<times> ('s, 'j) node_state" where
  "run_tracked N inp model cw prompt max_tokens temperature st =
     (if nst_permits st = 0 then (AtCapacity, st)
      else
        let rid = in_request_id inp;
            st1 = st\<lparr>nst_permits := nst_permits st - 1\<rparr>;
            st2 = st1\<lparr>nst_jobs := snd (js_push (ne_job_store N)
                    (job_dispatched (in_job_ms inp) rid model None (ne_job_timeout_ms N)) (nst_jobs st1))\<rparr>
        in case run_and_collect (ne_run N) model cw prompt max_tokens temperature rid of
             Inl e \<Rightarrow>
               (RunFailed e, st2\<lparr>nst_jobs := snd (js_mark (ne_job_store N) rid Failed (nst_jobs st2)),
                                 nst_permits := nst_permits st2 + 1\<rparr>)
           | Inr tokens \<Rightarrow> (RunAnswered tokens, st2))"

definition release_permit :: "('s, 'j) node_state \<Rightarrow> ('s, 'j) node_state" where
  "release_permit st = st\<lparr>nst_permits := nst_permits st + 1\<rparr>"

section \<open>POST /v1/infer over the network\<close>

record infer_request =
  irq_model_id :: string
  irq_prompt :: string
  irq_session_id :: "string option"
  irq_max_tokens :: "u32 option"
  irq_temperature :: "f32 option"
  irq_accepted_settlements :: "string list option"
  irq_peer_id :: "string option"

definition default_to :: "'a \<Rightarrow> 'a option \<Rightarrow> 'a" where
  "default_to d v = (case v of None \<Rightarrow> d | Some a \<Rightarrow> a)"

definition p2p_request :: "request_inputs \<Rightarrow> infer_request \<Rightarrow> string \<Rightarrow> inference_request" where
  "p2p_request inp body target =
     \<lparr>ir_request_id = in_request_id inp, ir_session_id = 0, ir_model_preference = irq_model_id body,
      ir_context_blob_id = None, ir_prompt_encrypted = [], ir_prompt_nonce = [],
      ir_max_tokens = default_to 2048 (irq_max_tokens body),
      ir_temperature = default_to (7 / 10) (irq_temperature body), ir_escrow_tx_id = [],
      ir_budget_nanox = - 1, ir_timestamp = in_p2p_secs inp, ir_client_peer_id = ''local'',
      ir_privacy_level = Standard,
      ir_accepted_settlements = default_to [''free''] (irq_accepted_settlements body),
      ir_target_peer_id = Some target, ir_response_topic = Some (in_response_id inp),
      ir_prompt_plain = Some (irq_prompt body)\<rparr>"

text \<open>The receiving loop: an error chunk ends it without a token, a final chunk after its token; so
  does the end of what arrives before the deadline.\<close>

fun p2p_collect :: "p2p_inference_chunk list \<Rightarrow> string list" where
  "p2p_collect [] = []"
| "p2p_collect (c # cs) =
     (case pc_error c of
        Some err \<Rightarrow> []
      | None \<Rightarrow> pc_token c # (if pc_is_final c then [] else p2p_collect cs))"

definition infer_via_p2p ::
  "('s, 'j, 'e, 'w) node_env \<Rightarrow> request_inputs \<Rightarrow> infer_request \<Rightarrow> string \<Rightarrow> ('s, 'j) node_state \<Rightarrow>
     response \<times> ('s, 'j) node_state" where
  "infer_via_p2p N inp body target st =
     (case ne_p2p_broadcast N of
        None \<Rightarrow>
          (\<lparr>rsp_status = 503, rsp_headers = cors_headers, rsp_body = BodyJson
              (JObj [(''error'', JStr ''P2P not available in standalone mode'')])\<rparr>, st)
      | Some broadcast \<Rightarrow>
          let req = p2p_request inp body target;
              st1 = st\<lparr>nst_collectors := insert (in_response_id inp) (nst_collectors st),
                       nst_broadcasts := nst_broadcasts st @ [(req, broadcast req)]\<rparr>
          in case broadcast req of
               Some e \<Rightarrow>
                 (\<lparr>rsp_status = 500, rsp_headers = cors_headers, rsp_body = BodyJson
                     (JObj [(''error'', JStr (''broadcast failed: '' @ e))])\<rparr>, st1)
             | None \<Rightarrow>
                 let tokens = p2p_collect (in_p2p_chunks inp);
                     st2 = st1\<lparr>nst_collectors := nst_collectors st1 - {in_response_id inp}\<rparr>;
                     u = \<lparr>us_request_id = in_request_id inp, us_model_id = irq_model_id body,
                          us_input_tokens = count_input_tokens (irq_prompt body),
                          us_output_tokens = count_output_tokens tokens, us_latency_ms = in_latency_ms inp,
                          us_amount_nanox = ucast (default_to 1000 (irq_max_tokens body)),
                          us_prompt = irq_prompt body, us_output = join [] tokens\<rparr>;
                     (receipt, st3) = settle_node N inp (irq_accepted_settlements body) u st2
                 in (ndjson_response (ndjson_body tokens receipt), st3))"

section \<open>POST /v1/infer\<close>

definition load_context ::
  "request_inputs \<Rightarrow> string option \<Rightarrow> mem_context \<Rightarrow> context_window \<times> mem_context" where
  "load_context inp session c =
     (case session of
        None \<Rightarrow> (context_window_default, c)
      | Some sid \<Rightarrow>
          let (history, c') = mem_get_messages (in_get_secs inp) (in_touch_secs inp) sid c
          in (if history \<noteq> [] then stored_messages_to_context_window history else context_window_default, c'))"

definition fallback_header :: "(string \<Rightarrow> bool) \<Rightarrow> string option \<Rightarrow> (string \<times> string) list" where
  "fallback_header value_ok notice =
     (case notice of None \<Rightarrow> [] | Some n \<Rightarrow> if value_ok n then [(''X-Model-Fallback'', n)] else [])"

definition payment_header :: "('s, 'j, 'e, 'w) node_env \<Rightarrow> string \<Rightarrow> (string \<times> string) list" where
  "payment_header N payer =
     (if payer = [] then []
      else
        (case ne_json_str N (JObj [(''success'', JBool True), (''payer'', JStr payer)]) of
           None \<Rightarrow> []
         | Some v \<Rightarrow> if ne_header_value_ok N v then [(''X-Payment-Response'', v)] else []))"

definition add_headers :: "(string \<times> string) list \<Rightarrow> response \<Rightarrow> response" where
  "add_headers hs r = r\<lparr>rsp_headers := rsp_headers r @ hs\<rparr>"

text \<open>The handler behind the key and the payment, for a request the node serves itself.\<close>

definition infer_local ::
  "('s, 'j, 'e, 'w) node_env \<Rightarrow> request_inputs \<Rightarrow> infer_request \<Rightarrow> string \<Rightarrow> ('s, 'j) node_state \<Rightarrow>
     response \<times> ('s, 'j) node_state" where
  "infer_local N inp body payer st =
     (let (replay, nonces) = nonce_check_and_set (in_nonce_ms inp) (in_request_id inp)
            replay_window_secs (nst_nonces st);
          st1 = st\<lparr>nst_nonces := nonces\<rparr>
      in if replay then (error_response Replayed, st1)
         else
           let (cw0, contexts) = load_context inp (irq_session_id body) (nst_contexts st1);
               st2 = st1\<lparr>nst_contexts := contexts\<rparr>;
               cw = fst (trim_context_window cw0 (ne_max_context_tokens N));
               (actual, notice) = resolve_model (irq_model_id body) (ne_list_models N)
           in case run_tracked N inp actual cw (irq_prompt body) (default_to 2048 (irq_max_tokens body))
                     (default_to (7 / 10) (irq_temperature body)) st2 of
                (AtCapacity, st3) \<Rightarrow> (error_response Capacity, st3)
              | (RunFailed e, st3) \<Rightarrow> (error_response (Upstream (ne_show_error N e)), st3)
              | (RunAnswered tokens, st3) \<Rightarrow>
                  let (receipt, st4) = finish_inference N inp
                        \<lparr>an_requested_model = irq_model_id body, an_actual_model = actual,
                         an_fell_back = (notice \<noteq> None), an_prompt = irq_prompt body,
                         an_session = irq_session_id body, an_tokens = tokens,
                         an_accepted = irq_accepted_settlements body, an_settle_model = actual,
                         an_amount = ucast (default_to 1000 (irq_max_tokens body))\<rparr> st3
                  in (add_headers (fallback_header (ne_header_value_ok N) notice @ payment_header N payer)
                        (ndjson_response (ndjson_body tokens receipt)),
                      release_permit st4))"

definition infer_handler ::
  "('s, 'j, 'e, 'w) node_env \<Rightarrow> request_inputs \<Rightarrow> headers \<Rightarrow> infer_request \<Rightarrow> ('s, 'j) node_state \<times> 'w \<Rightarrow>
     response outcome \<times> (('s, 'j) node_state \<times> 'w)" where
  "infer_handler N inp hs body sw =
     (let (st, w) = sw in
      case check_api_key hs (ne_api_key N) of
        Inl e \<Rightarrow> (Done (error_response e), st, w)
      | Inr _ \<Rightarrow>
          (case check_payment (ne_x402_env N) (ne_http_post N) hs (ne_x402 N) w of
             (Panic, w') \<Rightarrow> (Panic, st, w')
           | (Done (Inl r), w') \<Rightarrow> (Done (rejection_response (ne_show_x402 N) r), st, w')
           | (Done (Inr payer), w') \<Rightarrow>
               (case irq_peer_id body of
                  Some peer \<Rightarrow> (let (r, st') = infer_via_p2p N inp body peer st in (Done r, st', w'))
                | None \<Rightarrow> (let (r, st') = infer_local N inp body payer st in (Done r, st', w')))))"

section \<open>POST /v1/infer_encrypted\<close>

record infer_encrypted_request =
  ieq_model_id :: string
  ieq_client_pubkey_x25519 :: string
  ieq_prompt_encrypted :: string
  ieq_prompt_nonce :: string
  ieq_session_id :: "string option"
  ieq_max_tokens :: "u32 option"
  ieq_temperature :: "f32 option"
  ieq_accepted_settlements :: "string list option"

definition bad_key_response :: "string \<Rightarrow> response" where
  "bad_key_response msg = \<lparr>rsp_status = 400, rsp_headers = cors_headers, rsp_body = BodyText msg\<rparr>"

definition quoted_error :: "string \<Rightarrow> string" where
  "quoted_error m = [CHR ''{'', CHR 0x22] @ ''error'' @ [CHR 0x22, CHR '':'', CHR 0x22] @ m @
     [CHR 0x22, CHR ''}'', newline]"

text \<open>The prompt out of the request, or the response that refuses it.\<close>

definition decrypt_prompt ::
  "('s, 'j, 'e, 'w) node_env \<Rightarrow> infer_encrypted_request \<Rightarrow> (string, response) res" where
  "decrypt_prompt N body =
     (case ne_hex_decode N (ieq_client_pubkey_x25519 body) of
        None \<Rightarrow> Err (bad_key_response (quoted_error ''invalid client_pubkey_x25519''))
      | Some client_pub \<Rightarrow>
          if length client_pub \<noteq> 32 then
            Err (bad_key_response (quoted_error ''client_pubkey_x25519 must be 32 bytes''))
          else
            let shared_secret = ni_diffie_hellman (ne_identity N) client_pub;
                key = derive_aes_key (ne_crypto N) shared_secret
            in case ne_base64_decode N (ieq_prompt_encrypted body) of
                 None \<Rightarrow> Err (error_response (BadRequest ''invalid prompt_encrypted base64''))
               | Some ciphertext \<Rightarrow>
                   (case ne_base64_decode N (ieq_prompt_nonce body) of
                      None \<Rightarrow> Err (error_response (BadRequest ''invalid prompt_nonce base64''))
                    | Some nonce \<Rightarrow>
                        if length nonce \<noteq> 12 then Err (error_response (BadRequest ''nonce must be 12 bytes''))
                        else
                          (case ne_aes_decrypt N key nonce ciphertext of
                             None \<Rightarrow> Err (error_response (BadRequest ''decryption failed''))
                           | Some plaintext \<Rightarrow>
                               (case ne_from_utf8 N plaintext of
                                  None \<Rightarrow> Err (error_response (BadRequest ''decrypted prompt is not valid UTF-8''))
                                | Some prompt \<Rightarrow> Okay prompt))))"

definition infer_encrypted_handler ::
  "('s, 'j, 'e, 'w) node_env \<Rightarrow> request_inputs \<Rightarrow> headers \<Rightarrow> infer_encrypted_request \<Rightarrow>
     ('s, 'j) node_state \<Rightarrow> response \<times> ('s, 'j) node_state" where
  "infer_encrypted_handler N inp hs body st =
     (case check_api_key hs (ne_api_key N) of
        Inl e \<Rightarrow> (error_response e, st)
      | Inr _ \<Rightarrow>
          (case decrypt_prompt N body of
             Inl r \<Rightarrow> (r, st)
           | Inr prompt \<Rightarrow>
               (case run_and_collect (ne_run N) (ieq_model_id body) context_window_default prompt
                       (default_to 2048 (ieq_max_tokens body)) (default_to (7 / 10) (ieq_temperature body))
                       (in_request_id inp) of
                  Inl e \<Rightarrow> (error_response (Upstream (ne_show_error N e)), st)
                | Inr tokens \<Rightarrow>
                    let u = \<lparr>us_request_id = in_request_id inp, us_model_id = ieq_model_id body,
                             us_input_tokens = count_input_tokens prompt,
                             us_output_tokens = count_output_tokens tokens, us_latency_ms = in_latency_ms inp,
                             us_amount_nanox = ucast (default_to 1000 (ieq_max_tokens body)),
                             us_prompt = prompt, us_output = join [] tokens\<rparr>;
                        (receipt, st') = settle_node N inp (ieq_accepted_settlements body) u st
                    in (ndjson_response (ndjson_body tokens receipt), st'))))"

section \<open>POST /v1/chat/completions\<close>

record chat_completion_request =
  ccr_model :: string
  ccr_messages :: "oai_chat_message list"
  ccr_stream :: bool
  ccr_max_tokens :: "u32 option"
  ccr_temperature :: "f32 option"
  ccr_accepted_settlements :: "string list option"
  ccr_session_id :: "string option"

definition chat_id :: "('s, 'j, 'e, 'w) node_env \<Rightarrow> uuid \<Rightarrow> string" where
  "chat_id N rid = ''chatcmpl-'' @ hex_encode (ne_crypto N) (take 8 (be_bytes 16 (unat rid)))"

text \<open>One chunk of the event stream; absent fields of the delta are left out.\<close>

definition chat_chunk ::
  "string \<Rightarrow> u64 \<Rightarrow> string \<Rightarrow> string option \<Rightarrow> string option \<Rightarrow> string option \<Rightarrow> json" where
  "chat_chunk cid created model role content finish = JObj
     [(''id'', JStr cid), (''object'', JStr ''chat.completion.chunk''), (''created'', json_u64 created),
      (''model'', JStr model), (''choices'', JArr [JObj
         [(''index'', JNum 0),
          (''delta'', JObj ((case role of None \<Rightarrow> [] | Some r \<Rightarrow> [(''role'', JStr r)]) @
                            (case content of None \<Rightarrow> [] | Some c \<Rightarrow> [(''content'', JStr c)]))),
          (''finish_reason'', json_opt finish)]])]"

definition chat_stream_response :: "string \<Rightarrow> u64 \<Rightarrow> string \<Rightarrow> string list \<Rightarrow> response" where
  "chat_stream_response cid created model tokens =
     \<lparr>rsp_status = 200, rsp_headers = cors_headers @
        [(''Content-Type'', ''text/event-stream''), (''Cache-Control'', ''no-cache''), (''X-Accel-Buffering'', ''no'')],
      rsp_body = BodyEvents
        ([chat_chunk cid created model (Some ''assistant'') None None] @
         map (\<lambda>t. chat_chunk cid created model None (Some t) None) tokens @
         [chat_chunk cid created model None None (Some ''stop'')])\<rparr>"

definition chat_full_response :: "string \<Rightarrow> u64 \<Rightarrow> string \<Rightarrow> string \<Rightarrow> string list \<Rightarrow> response" where
  "chat_full_response cid created model prompt tokens =
     \<lparr>rsp_status = 200, rsp_headers = cors_headers, rsp_body = BodyJson (JObj
        [(''id'', JStr cid), (''object'', JStr ''chat.completion''), (''created'', json_u64 created),
         (''model'', JStr model), (''choices'', JArr [JObj
            [(''index'', JNum 0),
             (''message'', JObj [(''role'', JStr ''assistant''), (''content'', JStr (join [] tokens))]),
             (''finish_reason'', JStr ''stop'')]]),
         (''usage'', JObj
            [(''prompt_tokens'', json_u32 (count_input_tokens prompt)),
             (''completion_tokens'', json_u32 (count_output_tokens tokens)),
             (''total_tokens'', json_u32 (count_input_tokens prompt + count_output_tokens tokens))])])\<rparr>"

definition chat_completions_handler ::
  "('s, 'j, 'e, 'w) node_env \<Rightarrow> request_inputs \<Rightarrow> headers \<Rightarrow> chat_completion_request \<Rightarrow>
     ('s, 'j) node_state \<Rightarrow> response \<times> ('s, 'j) node_state" where
  "chat_completions_handler N inp hs body st =
     (case check_api_key hs (ne_api_key N) of
        Inl e \<Rightarrow> (error_response e, st)
      | Inr _ \<Rightarrow>
          let (replay, nonces) = nonce_check_and_set (in_nonce_ms inp) (in_request_id inp)
                replay_window_secs (nst_nonces st);
              st1 = st\<lparr>nst_nonces := nonces\<rparr>
          in if replay then (error_response Replayed, st1)
             else
               let (cw0, prompt) = messages_to_context (ccr_messages body);
                   (actual, notice) = resolve_model (ccr_model body) (ne_list_models N);
                   cw = fst (trim_context_window cw0 (ne_max_context_tokens N));
                   max_tok = default_to 2048 (ccr_max_tokens body)
               in case run_tracked N inp actual cw prompt max_tok
                         (default_to (7 / 10) (ccr_temperature body)) st1 of
                    (AtCapacity, st2) \<Rightarrow> (error_response Capacity, st2)
                  | (RunFailed e, st2) \<Rightarrow> (error_response (Upstream (ne_show_error N e)), st2)
                  | (RunAnswered tokens, st2) \<Rightarrow>
                      let (receipt, st3) = finish_inference N inp
                            \<lparr>an_requested_model = ccr_model body, an_actual_model = actual,
                             an_fell_back = (notice \<noteq> None), an_prompt = prompt,
                             an_session = ccr_session_id body, an_tokens = tokens,
                             an_accepted = ccr_accepted_settlements body, an_settle_model = ccr_model body,
                             an_amount = ucast max_tok\<rparr> st2;
                          cid = chat_id N (in_request_id inp)
                      in (if ccr_stream body
                          then chat_stream_response cid (in_blob_secs inp) (ccr_model body) tokens
                          else chat_full_response cid (in_blob_secs inp) (ccr_model body) prompt tokens,
                          release_permit st3))"

section \<open>The marketplace and the read-only handlers\<close>

record marketplace_request =
  mkt_model :: string
  mkt_max_tokens :: "u32 option"
  mkt_accepted_settlements :: "string list option"
  mkt_bid_timeout_ms :: "u64 option"

record bid_response =
  br_node_peer_id :: string
  br_api_url :: "string option"
  br_estimated_latency_ms :: u32
  br_current_load_pct :: u8
  br_model_id :: string
  br_reputation_score :: f64
  br_accepted_settlements :: "settlement_offer list"

definition marketplace_broadcast :: "request_inputs \<Rightarrow> marketplace_request \<Rightarrow> inference_request" where
  "marketplace_broadcast inp body =
     \<lparr>ir_request_id = in_request_id inp, ir_session_id = 0, ir_model_preference = mkt_model body,
      ir_context_blob_id = None, ir_prompt_encrypted = [], ir_prompt_nonce = [],
      ir_max_tokens = default_to 2048 (mkt_max_tokens body), ir_temperature = 7 / 10,
      ir_escrow_tx_id = [], ir_budget_nanox = - 1, ir_timestamp = in_p2p_secs inp,
      ir_client_peer_id = ''http-marketplace-client'', ir_privacy_level = Standard,
      ir_accepted_settlements = default_to [''free''] (mkt_accepted_settlements body),
      ir_target_peer_id = None, ir_response_topic = None, ir_prompt_plain = None\<rparr>"

text \<open>The registry as a map from peer to URL: a later entry of the same peer replaces an earlier one.\<close>

definition api_urls :: "node_capabilities list \<Rightarrow> string \<rightharpoonup> string option" where
  "api_urls caps = fold (\<lambda>c m. m(nc_peer_id c \<mapsto> nc_api_url c)) caps Map.empty"

definition bid_to_response :: "(string \<rightharpoonup> string option) \<Rightarrow> inference_bid \<Rightarrow> bid_response" where
  "bid_to_response urls bid =
     \<lparr>br_node_peer_id = ib_node_peer_id bid,
      br_api_url = (case urls (ib_node_peer_id bid) of None \<Rightarrow> None | Some u \<Rightarrow> u),
      br_estimated_latency_ms = ib_estimated_latency_ms bid,
      br_current_load_pct = ib_current_load_pct bid, br_model_id = ib_model_id bid,
      br_reputation_score = rs_value (ib_reputation bid),
      br_accepted_settlements = map (\<lambda>o'. \<lparr>so_settlement_id = so_settlement_id o',
         so_price_per_1k = so_price_per_1k o', so_token_id = so_token_id o'\<rparr>) (ib_accepted_settlements bid)\<rparr>"

text \<open>Reputation falling, then latency rising; the sort is stable.\<close>

definition bid_rank :: "bid_response \<Rightarrow> rat \<times> nat" where
  "bid_rank b = (- br_reputation_score b, unat (br_estimated_latency_ms b))"

datatype marketplace_reply = NoNetwork response | Ranked "bid_response list"

text \<open>\<open>broadcast\<close> is the network, \<open>bids\<close> what arrives on the collector before the timeout; a failed
  broadcast is only logged, and the collector is removed in any case.\<close>

definition marketplace_request_handler ::
  "(inference_request \<Rightarrow> string option) option \<Rightarrow> node_capabilities list \<Rightarrow> inference_bid list \<Rightarrow>
     request_inputs \<Rightarrow> marketplace_request \<Rightarrow> uuid set \<times> network_call list \<Rightarrow>
     marketplace_reply \<times> (uuid set \<times> network_call list)" where
  "marketplace_request_handler p2p peers bids inp body net =
     (let (collectors, sent) = net in
      case p2p of
        None \<Rightarrow>
          (NoNetwork \<lparr>rsp_status = 503, rsp_headers = cors_headers, rsp_body = BodyJson
             (JObj [(''error'', JStr ''P2P is not available in standalone mode'')])\<rparr>, collectors, sent)
      | Some broadcast \<Rightarrow>
          let c1 = insert (in_request_id inp) collectors;
              req = marketplace_broadcast inp body;
              sent1 = sent @ [(req, broadcast req)];
              c2 = c1 - {in_request_id inp}
          in (Ranked (sort_key bid_rank (map (bid_to_response (api_urls peers)) bids)), c2, sent1))"

definition pubkey_handler :: "('s, 'j, 'e, 'w) node_env \<Rightarrow> bytes \<Rightarrow> response" where
  "pubkey_handler N x25519_pub =
     \<lparr>rsp_status = 200, rsp_headers = cors_headers, rsp_body = BodyJson (JObj
        [(''pubkey'', JStr (public_key_hex (ne_crypto N) (ne_identity N))),
         (''x25519_pubkey'', JStr (hex_encode (ne_crypto N) x25519_pub))])\<rparr>"

definition models_handler :: "('s, 'j, 'e, 'w) node_env \<Rightarrow> u64 \<Rightarrow> response" where
  "models_handler N created =
     (case ne_list_models N of
        Inr names \<Rightarrow>
          \<lparr>rsp_status = 200, rsp_headers = cors_headers, rsp_body = BodyJson (JObj
             [(''object'', JStr ''list''),
              (''data'', JArr (map (\<lambda>i. JObj [(''id'', JStr i), (''object'', JStr ''model''),
                 (''created'', json_u64 created), (''owned_by'', JStr ''deai-node'')]) names))])\<rparr>
      | Inl e \<Rightarrow>
          \<lparr>rsp_status = 500, rsp_headers = cors_headers, rsp_body = BodyJson (JObj
             [(''error'', JObj [(''message'', JStr (ne_show_error N e))])])\<rparr>)"

definition health_handler :: "('s, 'j, 'e, 'w) node_env \<Rightarrow> string \<Rightarrow> string \<Rightarrow> response" where
  "health_handler N version mode =
     \<lparr>rsp_status = 200, rsp_headers = cors_headers, rsp_body = BodyJson (JObj
        [(''status'', JStr ''ok''), (''version'', JStr version), (''mode'', JStr mode),
         (''node_pubkey'', JStr (public_key_hex (ne_crypto N) (ne_identity N))),
         (''settlements'', JArr (map (JStr \<circ> ad_id) (ne_settlements N)))])\<rparr>"

definition ready_handler :: "('s, 'j, 'e, 'w) node_env \<Rightarrow> response" where
  "ready_handler N =
     (case ne_list_models N of
        Inr models \<Rightarrow>
          \<lparr>rsp_status = 200, rsp_headers = cors_headers, rsp_body = BodyJson (JObj
             [(''ready'', JBool True), (''models'', JNum (int (length models)))])\<rparr>
      | Inl e \<Rightarrow>
          \<lparr>rsp_status = 503, rsp_headers = cors_headers, rsp_body = BodyJson (JObj
             [(''ready'', JBool False), (''models'', JNum 0), (''reason'', JStr (ne_show_error N e))])\<rparr>)"

section \<open>Lemmas\<close>

lemma settle_node_frame:
  "settle_node N inp acc u st = (r, st') \<Longrightarrow>
     nst_jobs st' = nst_jobs st \<and> nst_permits st' = nst_permits st \<and> nst_nonces st' = nst_nonces st \<and>
     nst_contexts st' = nst_contexts st \<and> nst_journal st' = nst_journal st \<and>
     nst_writes st' = nst_writes st \<and> nst_collectors st' = nst_collectors st \<and>
     nst_broadcasts st' = nst_broadcasts st"
  by (auto simp: settle_node_def split: prod.splits)

lemma finish_inference_frame:
  "finish_inference N inp a st = (r, st') \<Longrightarrow>
     nst_jobs st' = snd (js_complete (ne_job_store N) (in_request_id inp) (answered_metrics inp a) (nst_jobs st)) \<and>
     nst_permits st' = nst_permits st \<and> nst_nonces st' = nst_nonces st"
  by (auto simp: finish_inference_def Let_def dest!: settle_node_frame split: option.splits)

text \<open>What a tracked run does to the queue and the permits.\<close>

lemma run_tracked_spec:
  assumes "run_tracked N inp model cw p mt t st = (res, st')"
  defines "pushed \<equiv> snd (js_push (ne_job_store N)
      (job_dispatched (in_job_ms inp) (in_request_id inp) model None (ne_job_timeout_ms N)) (nst_jobs st))"
  shows "case res of
      AtCapacity \<Rightarrow> st' = st
    | RunFailed e \<Rightarrow> nst_permits st' = nst_permits st \<and>
        nst_jobs st' = snd (js_mark (ne_job_store N) (in_request_id inp) Failed pushed)
    | RunAnswered tokens \<Rightarrow> Suc (nst_permits st') = nst_permits st \<and> nst_jobs st' = pushed"
  using assms(1)
  by (auto simp: run_tracked_def pushed_def Let_def split: if_splits sum.splits)

text \<open>The common shape of the two tracked handlers: how the response relates to the queue and the
  permits.\<close>

definition job_after :: "job_map \<Rightarrow> uuid \<Rightarrow> nat \<Rightarrow> job_map \<Rightarrow> bool" where
  "job_after m rid status m' \<longleftrightarrow>
     (\<forall>i. i \<noteq> rid \<longrightarrow> m' i = m i) \<and>
     (if status = 200 then \<exists>j. m' rid = Some j \<and> job_status j = Completed
      else if status = 502 then \<exists>j. m' rid = Some j \<and> job_status j = Failed
      else m' = m \<and> (status = 409 \<or> status = 503))"

lemma mem_pushed:
  "(m :: job_map) i = None \<Longrightarrow> snd (mem_push (job_dispatched now i model p t) m) = m(i \<mapsto> job_dispatched now i model p t)"
  by (simp add: mem_push_def job_dispatched_def)

lemma error_status:
  "rsp_status (error_response e) = fst (api_error_parts e)"
  by (simp add: error_response_def Let_def split: prod.split)

lemma ok_status [simp]: "rsp_status (ndjson_response b) = 200" "rsp_status (add_headers hs r) = rsp_status r"
  by (simp_all add: ndjson_response_def add_headers_def)

lemma job_after_completed:
  assumes "m rid = None"
  shows "job_after m rid 200 (snd (mem_complete rid mt (m(rid \<mapsto> j))))"
  by (simp add: job_after_def mem_complete_def finish_job_def)

lemma job_after_failed:
  assumes "m rid = None"
  shows "job_after m rid 502 (snd (mem_mark rid Failed (m(rid \<mapsto> j))))"
  by (simp add: job_after_def mem_mark_def)

text \<open>The course of a request: refused as a replay, or run, with the answer that goes with the outcome.\<close>

lemma infer_local_cases:
  assumes "infer_local N inp body payer st = (r, st')"
  obtains (replayed) nonces where "r = error_response Replayed" "st' = st\<lparr>nst_nonces := nonces\<rparr>"
  | (ran) actual cw res st2 st3 where "nst_jobs st2 = nst_jobs st" "nst_permits st2 = nst_permits st"
    "run_tracked N inp actual cw (irq_prompt body) (default_to 2048 (irq_max_tokens body))
      (default_to (7 / 10) (irq_temperature body)) st2 = (res, st3)"
    "case res of
       AtCapacity \<Rightarrow> r = error_response Capacity \<and> st' = st3
     | RunFailed e \<Rightarrow> r = error_response (Upstream (ne_show_error N e)) \<and> st' = st3
     | RunAnswered tokens \<Rightarrow> \<exists>receipt st4 a. finish_inference N inp a st3 = (receipt, st4) \<and>
         st' = release_permit st4 \<and> rsp_status r = 200"
proof -
  obtain replay nonces where nonce: "nonce_check_and_set (in_nonce_ms inp) (in_request_id inp) replay_window_secs
      (nst_nonces st) = (replay, nonces)"
    by fastforce
  show ?thesis
  proof (cases replay)
    case True
    with assms nonce show ?thesis
      by (intro replayed [of nonces]) (simp_all add: infer_local_def)
  next
    case False
    obtain cw0 contexts where cw: "load_context inp (irq_session_id body) (nst_contexts st) = (cw0, contexts)"
      by fastforce
    obtain actual notice where model: "resolve_model (irq_model_id body) (ne_list_models N) = (actual, notice)"
      by fastforce
    let ?st2 = "st\<lparr>nst_nonces := nonces, nst_contexts := contexts\<rparr>"
    obtain res st3 where run: "run_tracked N inp actual (fst (trim_context_window cw0 (ne_max_context_tokens N)))
        (irq_prompt body) (default_to 2048 (irq_max_tokens body))
        (default_to (7 / 10) (irq_temperature body)) ?st2 = (res, st3)"
      by fastforce
    note body = assms [unfolded infer_local_def Let_def nonce prod.case if_not_P [OF False]]
    have "case res of
         AtCapacity \<Rightarrow> r = error_response Capacity \<and> st' = st3
       | RunFailed e \<Rightarrow> r = error_response (Upstream (ne_show_error N e)) \<and> st' = st3
       | RunAnswered tokens \<Rightarrow> \<exists>receipt st4 a. finish_inference N inp a st3 = (receipt, st4) \<and>
           st' = release_permit st4 \<and> rsp_status r = 200"
    proof (cases res)
      case (RunAnswered tokens)
      with body cw model run obtain receipt st4 a where
        "finish_inference N inp a st3 = (receipt, st4)" "st' = release_permit st4" "rsp_status r = 200"
        by (auto split: prod.splits)
      then show ?thesis
        unfolding RunAnswered by (simp only: tracked.case) blast
    qed (use body cw model run in simp_all)
    from ran [OF _ _ run this] show ?thesis
      by simp
  qed
qed

text \<open>A request the node serves itself, with an id that is not in the queue.\<close>

lemma infer_local_job:
  assumes "infer_local N inp body payer st = (r, st')"
    and "ne_job_store N = mem_job_store order" "nst_jobs st (in_request_id inp) = None"
  shows "job_after (nst_jobs st) (in_request_id inp) (rsp_status r) (nst_jobs st') \<and>
    nst_permits st' = nst_permits st"
proof -
  let ?rid = "in_request_id inp"
  show ?thesis
    using assms(1)
  proof (cases rule: infer_local_cases)
    case (replayed nonces)
    then show ?thesis
      by (simp add: error_status api_error_parts_def job_after_def)
  next
    case (ran actual cw res st2 st3)
    let ?j = "job_dispatched (in_job_ms inp) ?rid actual None (ne_job_timeout_ms N)"
    have "snd (js_push (ne_job_store N) ?j (nst_jobs st2)) = (nst_jobs st)(?rid \<mapsto> ?j)"
      using assms(2,3) ran(1) by (simp add: mem_job_store_def mem_pushed)
    note spec = run_tracked_spec [OF ran(3), unfolded this]
    show ?thesis
    proof (cases res)
      case (RunAnswered tokens)
      then obtain receipt st4 a where "finish_inference N inp a st3 = (receipt, st4)" "st' = release_permit st4" "rsp_status r = 200"
        using ran(4) by auto
      with RunAnswered spec ran(2) show ?thesis
        using job_after_completed [of "nst_jobs st" ?rid "answered_metrics inp a" ?j] assms(2,3)
        by (auto simp: release_permit_def mem_job_store_def dest!: finish_inference_frame)
    qed (use ran spec job_after_failed [of "nst_jobs st" ?rid ?j] assms(2,3) in
        \<open>auto simp: error_status api_error_parts_def job_after_def mem_job_store_def\<close>)
  qed
qed

lemma infer_via_p2p_frame:
  "infer_via_p2p N inp body target st = (r, st') \<Longrightarrow>
     nst_jobs st' = nst_jobs st \<and> nst_permits st' = nst_permits st"
  by (auto simp: infer_via_p2p_def Let_def dest!: settle_node_frame split: option.splits prod.splits)

section \<open>Properties\<close>

text \<open>C21: what \<^verbatim>\<open>/v1/infer\<close> does to the queue in memory. A request without the key or refused by the
  payment gate changes nothing. A request for another peer touches no job: its answer, also a 200,
  leaves the queue as it was. A request the node serves itself, with an id the queue does not hold,
  is accounted for: 200 leaves its job completed, 502 leaves it failed, 409 and 503 leave the queue
  as it was, and no other job changes. In every case the permit taken for a run is given back.\<close>

theorem infer_job_accounted:
  assumes "infer_handler N inp hs body (st, w) = (out, st', w')"
    and "ne_job_store N = mem_job_store order" "nst_jobs st (in_request_id inp) = None"
  shows "nst_permits st' = nst_permits st \<and>
    (if is_ok (check_api_key hs (ne_api_key N)) \<and>
        (\<exists>payer. fst (check_payment (ne_x402_env N) (ne_http_post N) hs (ne_x402 N) w) = Done (Inr payer))
     then (\<exists>r. out = Done r \<and>
       (if irq_peer_id body = None then job_after (nst_jobs st) (in_request_id inp) (rsp_status r) (nst_jobs st')
        else nst_jobs st' = nst_jobs st))
     else st' = st)"
proof (cases "check_api_key hs (ne_api_key N)")
  case (Inl e)
  with assms(1) show ?thesis
    by (auto simp: infer_handler_def is_ok_def)
next
  case (Inr u)
  obtain q w1 where pay: "check_payment (ne_x402_env N) (ne_http_post N) hs (ne_x402 N) w = (q, w1)"
    by fastforce
  show ?thesis
  proof (cases "\<exists>payer. q = Done (Inr payer)")
    case False
    with assms(1) Inr pay show ?thesis
      by (auto simp: infer_handler_def split: outcome.splits sum.splits)
  next
    case True
    then obtain payer where q: "q = Done (Inr payer)"
      by blast
    show ?thesis
    proof (cases "irq_peer_id body")
      case None
      obtain r st1 where run: "infer_local N inp body payer st = (r, st1)"
        by fastforce
      have "out = Done r" "st' = st1"
        using assms(1) Inr pay q None run by (simp_all add: infer_handler_def)
      with infer_local_job [OF run assms(2,3)] Inr pay q None show ?thesis
        by (simp add: is_ok_def)
    next
      case (Some peer)
      obtain r st1 where run: "infer_via_p2p N inp body peer st = (r, st1)"
        by fastforce
      have "out = Done r" "st' = st1"
        using assms(1) Inr pay q Some run by (simp_all add: infer_handler_def)
      with infer_via_p2p_frame [OF run] Inr pay q Some show ?thesis
        by (simp add: is_ok_def)
    qed
  qed
qed

text \<open>A node with one free adapter, a model that answers with one token, and the memory stores.\<close>

definition toy_chunk :: "uuid \<Rightarrow> inference_stream_chunk" where
  "toy_chunk rid = \<lparr>sk_request_id = rid, sk_chunk_index = 0, sk_token = ''hello'', sk_is_final = True,
     sk_tokens_generated = 1, sk_finish_reason = None\<rparr>"

definition toy_node :: "(unit, job_map, unit, unit) node_env" where
  "toy_node = \<lparr>ne_api_key = [], ne_x402 = x402_example_config, ne_max_context_tokens = 8192,
     ne_job_timeout_ms = 1000, ne_list_models = Inr [''llama3.1:8b''],
     ne_run = \<lambda>model cw prompt ps. Inr [Inr (toy_chunk (ip_request_id ps))],
     ne_settlements = [free_adapter], ne_job_store = mem_job_store (\<lambda>m. []),
     ne_identity = toy_identity, ne_crypto = toy_crypto, ne_p2p_broadcast = None,
     ne_x402_env = x402_example_env, ne_http_post = x402_example_post ''0x'',
     ne_uuid_str = \<lambda>i. [], ne_show_error = \<lambda>e. [], ne_show_x402 = \<lambda>e. [],
     ne_header_value_ok = list_all (\<lambda>c. 32 \<le> (of_char c :: nat) \<and> (of_char c :: nat) < 127),
     ne_json_str = \<lambda>j. None, ne_hex_decode = \<lambda>s. Some (replicate 32 0),
     ne_base64_decode = \<lambda>s. Some (replicate 12 65), ne_aes_decrypt = \<lambda>k n c. Some c,
     ne_from_utf8 = \<lambda>b. Some (map (\<lambda>x. char_of (unat x)) b)\<rparr>"

definition toy_inputs :: request_inputs where
  "toy_inputs = \<lparr>in_request_id = 5, in_response_id = [], in_nonce_ms = 100, in_get_secs = 0,
     in_touch_secs = 0, in_job_ms = 100, in_latency_ms = 7, in_journal_ok = True, in_journal_secs = 0,
     in_turn_secs = 0, in_blob_secs = 0, in_proof_secs = 0, in_p2p_secs = 0, in_p2p_chunks = []\<rparr>"

definition toy_state :: "(unit, job_map) node_state" where
  "toy_state = \<lparr>nst_settle = (), nst_jobs = Map.empty, nst_nonces = Map.empty,
     nst_contexts = mem_context_new 100 0, nst_permits = 1, nst_journal = [], nst_writes = [],
     nst_collectors = {}, nst_broadcasts = []\<rparr>"

definition toy_request :: "string \<Rightarrow> infer_request" where
  "toy_request model = \<lparr>irq_model_id = model, irq_prompt = ''hi'', irq_session_id = None,
     irq_max_tokens = None, irq_temperature = None, irq_accepted_settlements = None, irq_peer_id = None\<rparr>"

lemma toy_infer_ok:
  "rsp_status (fst (infer_local (toy_node\<lparr>ne_x402 := c\<rparr>) toy_inputs (toy_request m) payer toy_state)) = 200"
proof -
  have nonce: "nonce_check_and_set 100 5 replay_window_secs Map.empty = (False, [5 \<mapsto> 100 + sat_mul 300 1000])"
    by (simp add: nonce_check_and_set_def replay_window_secs_def map_retain_def Let_def)
  obtain actual notice where m: "resolve_model m (Inr [''llama3.1:8b''] :: (string list, unit) res) = (actual, notice)"
    by fastforce
  show ?thesis
    by (simp add: infer_local_def toy_node_def toy_inputs_def toy_state_def toy_request_def nonce load_context_def
        m run_tracked_def run_and_collect_def Let_def split: prod.split)
qed

theorem infer_job_accounted_witness:
  "\<exists>j. nst_jobs (fst (snd (infer_handler (toy_node\<lparr>ne_x402 := x402_section_default\<rparr>) toy_inputs (\<lambda>k. None)
      (toy_request ''llama3.1:70b'') (toy_state, ())))) 5 = Some j \<and> job_status j = Completed"
proof -
  let ?N = "toy_node\<lparr>ne_x402 := x402_section_default\<rparr>"
  obtain out st' w' where r: "infer_handler ?N toy_inputs (\<lambda>k. None) (toy_request ''llama3.1:70b'') (toy_state, ()) =
      (out, st', w')"
    by (rule prod_cases3)
  have pass: "check_api_key (\<lambda>k. None) (ne_api_key ?N) = Inr ()"
    "check_payment (ne_x402_env ?N) (ne_http_post ?N) (\<lambda>k. None) (ne_x402 ?N) () = (Done (Inr []), ())"
    by (simp_all add: check_api_key_def check_payment_def toy_node_def x402_section_default_def)
  have peer: "irq_peer_id (toy_request ''llama3.1:70b'') = None"
    by (simp add: toy_request_def)
  have out: "out = Done (fst (infer_local ?N toy_inputs (toy_request ''llama3.1:70b'') [] toy_state))"
    using r pass by (simp add: infer_handler_def peer split: prod.splits)
  have "\<exists>r. out = Done r \<and> job_after (nst_jobs toy_state) (in_request_id toy_inputs) (rsp_status r) (nst_jobs st')"
    using infer_job_accounted [OF r, of "\<lambda>m. []"] pass peer
    by (simp add: toy_node_def toy_state_def is_ok_def)
  with out toy_infer_ok [of x402_section_default "''llama3.1:70b''" "[]"] r show ?thesis
    by (auto simp: job_after_def toy_inputs_def)
qed

text \<open>The fallback notice never reaches the client. It contains a dash that is no visible ASCII,
  and header values admit nothing else, so no response to \<^verbatim>\<open>/v1/infer\<close> carries the header, although
  the model used may differ from the one asked for.\<close>

theorem fallback_header_never_sent:
  assumes "\<And>s. ne_header_value_ok N s \<Longrightarrow> \<forall>c\<in>set s. 9 \<le> (of_char c :: nat) \<and> (of_char c :: nat) < 127"
  shows "''X-Model-Fallback'' \<notin> fst ` set (rsp_headers (fst (infer_local N inp body payer st)))"
proof -
  have dash: "CHR 0xE2 \<in> set (fallback_notice a b)" for a b
    by (simp add: fallback_notice_def em_dash_def)
  have none: "fallback_header (ne_header_value_ok N) (snd (resolve_model m ms)) = []"
    for m and ms :: "(string list, 'c) res"
  proof (cases "snd (resolve_model m ms)")
    case (Some n)
    then obtain f where "n = fallback_notice m f"
      by (auto simp: resolve_model_def split: sum.splits option.splits if_splits)
    with dash [of m f] have "\<not> ne_header_value_ok N n"
      using assms [of n] by fastforce
    with Some show ?thesis
      by (simp add: fallback_header_def)
  qed (simp add: fallback_header_def)
  obtain actual notice where m: "resolve_model (irq_model_id body) (ne_list_models N) = (actual, notice)"
    by fastforce
  then have "fallback_header (ne_header_value_ok N) notice = []"
    using none [of "irq_model_id body" "ne_list_models N"] by simp
  with m show ?thesis
    by (auto simp: infer_local_def Let_def add_headers_def ndjson_response_def cors_headers_def
        error_response_def api_error_parts_def payment_header_def
        split: prod.splits tracked.splits option.splits if_splits)
qed

theorem fallback_header_never_sent_witness:
  "''X-Model-Fallback'' \<notin> fst ` set (rsp_headers (fst (infer_local toy_node toy_inputs
     (toy_request ''llama3.1:70b'') [] toy_state))) \<and>
   snd (resolve_model ''llama3.1:70b'' (ne_list_models toy_node)) \<noteq> None"
proof
  show "snd (resolve_model ''llama3.1:70b'' (ne_list_models toy_node)) \<noteq> None"
    by (simp add: resolve_model_def toy_node_def starts_with_def split_first_def)
qed (rule fallback_header_never_sent, auto simp: toy_node_def list_all_iff)

text \<open>C22: the payment gate guards one door only. With the gate enabled and no payment header,
  \<^verbatim>\<open>/v1/infer\<close> answers 402 and changes nothing, while the same node runs the model for any
  request to \<^verbatim>\<open>/v1/infer_encrypted\<close> that decrypts, even with no permit left.\<close>

theorem payment_gate_bypass:
  assumes "x402_enabled (ne_x402 N)" "hs ''x-payment'' = None" "check_api_key hs (ne_api_key N) = Inr ()"
    and "decrypt_prompt N enc = Inr prompt"
    and "run_and_collect (ne_run N) (ieq_model_id enc) context_window_default prompt
      (default_to 2048 (ieq_max_tokens enc)) (default_to (7 / 10) (ieq_temperature enc))
      (in_request_id inp) = Inr tokens"
  shows "(\<exists>r. infer_handler N inp hs body (st, w) = (Done r, st, w) \<and> rsp_status r = 402) \<and>
    rsp_status (fst (infer_encrypted_handler N inp hs enc (st\<lparr>nst_permits := 0\<rparr>))) = 200"
  using assms
  by (auto simp: infer_handler_def check_payment_def rejection_response_def infer_encrypted_handler_def Let_def
      split: prod.split)

theorem payment_gate_bypass_witness:
  "\<exists>enc. rsp_status (fst (infer_encrypted_handler toy_node toy_inputs (\<lambda>k. None) enc
     (toy_state\<lparr>nst_permits := 0\<rparr>))) = 200"
proof -
  let ?enc = "\<lparr>ieq_model_id = ''llama3.1:8b'', ieq_client_pubkey_x25519 = [], ieq_prompt_encrypted = [],
    ieq_prompt_nonce = [], ieq_session_id = None, ieq_max_tokens = None, ieq_temperature = None,
    ieq_accepted_settlements = None\<rparr>"
  have "decrypt_prompt toy_node ?enc = Inr (replicate 12 (char_of (65 :: nat)))"
    by (simp add: decrypt_prompt_def toy_node_def Let_def)
  moreover have "run_and_collect (ne_run toy_node) ''llama3.1:8b'' cw p mt t rid = Inr [''hello'']" for cw p mt t rid
    by (simp add: run_and_collect_def toy_node_def toy_chunk_def List.map_filter_simps)
  ultimately show ?thesis
    using payment_gate_bypass [of toy_node "\<lambda>k. None" ?enc _ toy_inputs "[''hello'']" undefined toy_state "()"]
    by (intro exI [of _ ?enc]) (simp add: toy_node_def x402_example_config_def check_api_key_def)
qed

text \<open>The marketplace asks and ranks honestly. The request goes to the network once. The reply contains exactly the bids that arrived, once
  each, by falling reputation and then rising latency, ties in the order of arrival, each with
  the URL of its node in the registry; and no collector is left behind.\<close>

theorem marketplace_ranked:
  assumes "marketplace_request_handler (Some broadcast) peers bids inp body (cs, sent) = (Ranked result, cs', sent')"
  shows "mset result = image_mset (bid_to_response (api_urls peers)) (mset bids) \<and>
    sorted (map bid_rank result) \<and>
    (\<forall>k. filter (\<lambda>b. bid_rank b = k) result =
       filter (\<lambda>b. bid_rank b = k) (map (bid_to_response (api_urls peers)) bids)) \<and>
    in_request_id inp \<notin> cs' \<and>
    sent' = sent @ [(marketplace_broadcast inp body, broadcast (marketplace_broadcast inp body))]"
  using assms
  by (auto simp: marketplace_request_handler_def Let_def sort_key_stable)

definition toy_bid :: "string \<Rightarrow> f64 \<Rightarrow> inference_bid" where
  "toy_bid peer score = \<lparr>ib_request_id = 5, ib_node_peer_id = peer, ib_estimated_latency_ms = 200,
     ib_current_load_pct = 0, ib_model_id = ''m'', ib_max_context_len = 8192, ib_has_tee = False,
     ib_reputation = reputation_default\<lparr>rs_value := score\<rparr>, ib_accepted_settlements = []\<rparr>"

theorem marketplace_ranked_witness:
  "\<exists>result cs' sent'. marketplace_request_handler (Some (\<lambda>r. None)) [] [toy_bid ''a'' (1 / 4), toy_bid ''b'' (1 / 2)]
     toy_inputs \<lparr>mkt_model = ''m'', mkt_max_tokens = None, mkt_accepted_settlements = None,
       mkt_bid_timeout_ms = None\<rparr> ({}, []) = (Ranked result, cs', sent') \<and>
     sorted (map bid_rank result) \<and> size (mset result) = 2"
proof -
  obtain result cs' sent' where r: "marketplace_request_handler (Some (\<lambda>r. None)) []
      [toy_bid ''a'' (1 / 4), toy_bid ''b'' (1 / 2)] toy_inputs \<lparr>mkt_model = ''m'', mkt_max_tokens = None,
      mkt_accepted_settlements = None, mkt_bid_timeout_ms = None\<rparr> ({}, []) = (Ranked result, cs', sent')"
    by (simp add: marketplace_request_handler_def)
  from marketplace_ranked [OF r] r show ?thesis
    by (intro exI [of _ result] exI [of _ cs'] exI [of _ sent']) simp
qed

end
