(* ===== verification/Solana_Program.thy ===== *)
theory Solana_Program
  imports Prelude
begin

text \<open>The on-chain program of \<^verbatim>\<open>programs/pinaivu/src\<close>: escrow, node registry and scores. An
  instruction either returns the new state or an error, after which the chain keeps the old one.
  The System program and the derivation of addresses are the fields of a parameter record;
  Anchor's account checks are written out where the account structs state them. The program is
  built without overflow checks, so plain additions wrap; a direct change of lamports that
  wraps would break the runtime's balance check and is an error.\<close>

section \<open>Accounts\<close>

type_synonym pubkey = bytes

record program_state =
  ps_admin :: pubkey
  ps_total_nodes_registered :: u64
  ps_total_jobs_completed :: u64
  ps_total_volume_lamports :: u64
  ps_escrow_timeout_secs :: i64
  ps_bump :: u8

datatype escrow_state = Locked | Released | Refunded

record escrow_account =
  ea_client :: pubkey
  ea_node :: pubkey
  ea_amount_lamports :: u64
  ea_request_id :: bytes
  ea_state :: escrow_state
  ea_created_at :: i64
  ea_expires_at :: i64
  ea_proof_hash :: bytes
  ea_bump :: u8

record node_registration =
  nr_authority :: pubkey
  nr_node_pubkey :: bytes
  nr_model_hashes :: "bytes list"
  nr_gpu_vram_mb :: u32
  nr_price_per_1k_lamports :: u64
  nr_registered_at :: i64
  nr_active :: bool
  nr_bump :: u8

record node_score =
  sr_node_pubkey :: bytes
  sr_authority :: pubkey
  sr_merkle_root :: bytes
  sr_merkle_root_label :: bytes
  sr_total_jobs :: u64
  sr_total_tokens_earned :: u64
  sr_total_lamports_earned :: u64
  sr_success_rate_bps :: u16
  sr_avg_latency_ms :: u32
  sr_score :: u64
  sr_last_updated :: i64
  sr_bump :: u8

text \<open>The account sizes, the eight bytes of Anchor's discriminator included.\<close>

definition program_state_len :: nat where
  "program_state_len = 8 + 32 + 8 + 8 + 8 + 8 + 1"

definition escrow_account_len :: nat where
  "escrow_account_len = 8 + 32 + 32 + 8 + 16 + 1 + 8 + 8 + 32 + 1"

definition max_models :: nat where
  "max_models = 8"

definition node_registration_len :: nat where
  "node_registration_len = 8 + 32 + 32 + (4 + max_models * 32) + 4 + 8 + 8 + 1 + 1"

definition node_score_len :: nat where
  "node_score_len = 8 + 32 + 32 + 32 + 32 + 8 + 8 + 8 + 2 + 4 + 8 + 8 + 1"

datatype anchor_error =
    EscrowNotLocked | EscrowExpired | EscrowNotExpired | NotAuthorized | InvalidProofHash | TooManyModels
  | AccountInUse | AccountNotInitialized | SystemFailed | LamportsUnbalanced

datatype chain_event =
    EscrowLocked bytes pubkey pubkey u64 i64
  | EscrowReleased bytes pubkey u64 bytes
  | EscrowRefunded bytes pubkey u64
  | NodeRegistered pubkey bytes u32 u64
  | NodeUpdated bytes u32 u64 bool
  | ScoreInitialized bytes pubkey
  | ProofSubmitted bytes bytes u32 u32 u64 u64 u64
  | MerkleRootAnchored bytes bytes bytes i64

text \<open>The accounts of the program by their seeds, the lamports of every address, and the log.\<close>

record chain_state =
  cs_program :: "program_state option"
  cs_escrows :: "bytes \<rightharpoonup> escrow_account"
  cs_nodes :: "bytes \<rightharpoonup> node_registration"
  cs_scores :: "bytes \<rightharpoonup> node_score"
  cs_lamports :: "pubkey \<Rightarrow> u64"
  cs_events :: "chain_event list"

text \<open>The runtime: a derived address and its bump for a seed, a transfer, and the creation of an account
  of a size with its rent, both signed for by the payer.\<close>

record solana_runtime =
  rt_escrow_address :: "bytes \<Rightarrow> pubkey"
  rt_bump :: "string \<Rightarrow> bytes \<Rightarrow> u8"
  rt_transfer :: "pubkey \<Rightarrow> pubkey \<Rightarrow> u64 \<Rightarrow> (pubkey \<Rightarrow> u64) \<Rightarrow> (pubkey \<Rightarrow> u64) option"
  rt_create :: "string \<Rightarrow> bytes \<Rightarrow> nat \<Rightarrow> pubkey \<Rightarrow> (pubkey \<Rightarrow> u64) \<Rightarrow> (pubkey \<Rightarrow> u64) option"

type_synonym chain_op = "chain_state \<Rightarrow> (chain_state, anchor_error) res"

definition emit :: "chain_event \<Rightarrow> chain_state \<Rightarrow> chain_state" where
  "emit e s = s\<lparr>cs_events := cs_events s @ [e]\<rparr>"

section \<open>Setup\<close>

definition sol_initialize :: "solana_runtime \<Rightarrow> pubkey \<Rightarrow> i64 \<Rightarrow> chain_op" where
  "sol_initialize R admin escrow_timeout_secs s =
     (if cs_program s \<noteq> None then Err AccountInUse
      else
        (case rt_create R ''state'' [] program_state_len admin (cs_lamports s) of
           None \<Rightarrow> Err SystemFailed
         | Some lam \<Rightarrow>
             Okay (s\<lparr>cs_lamports := lam, cs_program := Some
               \<lparr>ps_admin = admin, ps_total_nodes_registered = 0, ps_total_jobs_completed = 0,
                ps_total_volume_lamports = 0, ps_escrow_timeout_secs = escrow_timeout_secs,
                ps_bump = rt_bump R ''state'' []\<rparr>\<rparr>)))"

section \<open>Escrow\<close>

definition lock_escrow ::
  "solana_runtime \<Rightarrow> i64 \<Rightarrow> pubkey \<Rightarrow> pubkey \<Rightarrow> bytes \<Rightarrow> u64 \<Rightarrow> i64 \<Rightarrow> chain_op" where
  "lock_escrow R now client node_wallet request_id amount_lamports timeout_secs s =
     (if cs_escrows s request_id \<noteq> None then Err AccountInUse
      else
        (case rt_create R ''escrow'' request_id escrow_account_len client (cs_lamports s) of
           None \<Rightarrow> Err SystemFailed
         | Some lam1 \<Rightarrow>
             (case cs_program s of
                None \<Rightarrow> Err AccountNotInitialized
              | Some ps \<Rightarrow>
                  let timeout = (if 0 <s timeout_secs then timeout_secs else ps_escrow_timeout_secs ps);
                      escrow = \<lparr>ea_client = client, ea_node = node_wallet,
                        ea_amount_lamports = amount_lamports, ea_request_id = request_id,
                        ea_state = Locked, ea_created_at = now, ea_expires_at = now + timeout,
                        ea_proof_hash = replicate 32 0, ea_bump = rt_bump R ''escrow'' request_id\<rparr>
                  in case rt_transfer R client (rt_escrow_address R request_id) amount_lamports lam1 of
                       None \<Rightarrow> Err SystemFailed
                     | Some lam2 \<Rightarrow>
                         Okay (emit (EscrowLocked request_id client node_wallet amount_lamports (now + timeout))
                           (s\<lparr>cs_lamports := lam2,
                              cs_escrows := (cs_escrows s)(request_id \<mapsto> escrow)\<rparr>)))))"

text \<open>Moving lamports between two accounts the program may write.\<close>

definition move_lamports :: "pubkey \<Rightarrow> pubkey \<Rightarrow> u64 \<Rightarrow> (pubkey \<Rightarrow> u64) \<Rightarrow> (pubkey \<Rightarrow> u64) option" where
  "move_lamports from_addr to_addr amount lam =
     (if amount \<le> lam from_addr then
        let lam1 = lam(from_addr := lam from_addr - amount)
        in if unat (lam1 to_addr) + unat amount < 2 ^ 64
           then Some (lam1(to_addr := lam1 to_addr + amount)) else None
      else None)"

definition release_escrow ::
  "solana_runtime \<Rightarrow> i64 \<Rightarrow> pubkey \<Rightarrow> bytes \<Rightarrow> bytes \<Rightarrow> chain_op" where
  "release_escrow R now node_wallet request_id proof_hash s =
     (case cs_escrows s request_id of
        None \<Rightarrow> Err AccountNotInitialized
      | Some escrow \<Rightarrow>
          if ea_node escrow \<noteq> node_wallet then Err NotAuthorized
          else
            (case cs_program s of
               None \<Rightarrow> Err AccountNotInitialized
             | Some ps \<Rightarrow>
                 if ea_state escrow \<noteq> Locked then Err EscrowNotLocked
                 else if \<not> now \<le>s ea_expires_at escrow then Err EscrowExpired
                 else
                   let amount = ea_amount_lamports escrow in
                   case move_lamports (rt_escrow_address R request_id) node_wallet amount (cs_lamports s) of
                     None \<Rightarrow> Err LamportsUnbalanced
                   | Some lam \<Rightarrow>
                       Okay (emit (EscrowReleased (ea_request_id escrow) node_wallet amount proof_hash)
                         (s\<lparr>cs_lamports := lam,
                            cs_escrows := (cs_escrows s)(request_id \<mapsto>
                              escrow\<lparr>ea_state := Released, ea_proof_hash := proof_hash\<rparr>),
                            cs_program := Some (ps\<lparr>
                              ps_total_jobs_completed := sat_add (ps_total_jobs_completed ps) 1,
                              ps_total_volume_lamports := sat_add (ps_total_volume_lamports ps) amount\<rparr>)\<rparr>))))"

definition refund_escrow :: "solana_runtime \<Rightarrow> i64 \<Rightarrow> pubkey \<Rightarrow> bytes \<Rightarrow> chain_op" where
  "refund_escrow R now client request_id s =
     (case cs_escrows s request_id of
        None \<Rightarrow> Err AccountNotInitialized
      | Some escrow \<Rightarrow>
          if ea_client escrow \<noteq> client then Err NotAuthorized
          else if ea_state escrow \<noteq> Locked then Err EscrowNotLocked
          else if \<not> ea_expires_at escrow <s now then Err EscrowNotExpired
          else
            let amount = ea_amount_lamports escrow in
            case move_lamports (rt_escrow_address R request_id) client amount (cs_lamports s) of
              None \<Rightarrow> Err LamportsUnbalanced
            | Some lam \<Rightarrow>
                Okay (emit (EscrowRefunded (ea_request_id escrow) client amount)
                  (s\<lparr>cs_lamports := lam,
                     cs_escrows := (cs_escrows s)(request_id \<mapsto> escrow\<lparr>ea_state := Refunded\<rparr>)\<rparr>)))"

section \<open>Registry\<close>

definition register_node ::
  "solana_runtime \<Rightarrow> i64 \<Rightarrow> pubkey \<Rightarrow> bytes \<Rightarrow> bytes list \<Rightarrow> u32 \<Rightarrow> u64 \<Rightarrow> chain_op" where
  "register_node R now authority node_pubkey model_hashes gpu_vram_mb price s =
     (if cs_nodes s node_pubkey \<noteq> None then Err AccountInUse
      else
        (case rt_create R ''node'' node_pubkey node_registration_len authority (cs_lamports s) of
           None \<Rightarrow> Err SystemFailed
         | Some lam \<Rightarrow>
             (case cs_program s of
                None \<Rightarrow> Err AccountNotInitialized
              | Some ps \<Rightarrow>
                  if length model_hashes > max_models then Err TooManyModels
                  else
                    Okay (emit (NodeRegistered authority node_pubkey gpu_vram_mb price)
                      (s\<lparr>cs_lamports := lam,
                         cs_nodes := (cs_nodes s)(node_pubkey \<mapsto>
                           \<lparr>nr_authority = authority, nr_node_pubkey = node_pubkey,
                            nr_model_hashes = model_hashes, nr_gpu_vram_mb = gpu_vram_mb,
                            nr_price_per_1k_lamports = price, nr_registered_at = now, nr_active = True,
                            nr_bump = rt_bump R ''node'' node_pubkey\<rparr>),
                         cs_program := Some (ps\<lparr>
                           ps_total_nodes_registered := sat_add (ps_total_nodes_registered ps) 1\<rparr>)\<rparr>)))))"

definition update_node ::
  "pubkey \<Rightarrow> bytes \<Rightarrow> bytes list \<Rightarrow> u32 \<Rightarrow> u64 \<Rightarrow> bool \<Rightarrow> chain_op" where
  "update_node authority node_pubkey model_hashes gpu_vram_mb price active s =
     (case cs_nodes s node_pubkey of
        None \<Rightarrow> Err AccountNotInitialized
      | Some reg \<Rightarrow>
          if nr_authority reg \<noteq> authority then Err NotAuthorized
          else if length model_hashes > max_models then Err TooManyModels
          else
            Okay (emit (NodeUpdated (nr_node_pubkey reg) gpu_vram_mb price active)
              (s\<lparr>cs_nodes := (cs_nodes s)(node_pubkey \<mapsto> reg\<lparr>nr_model_hashes := model_hashes,
                   nr_gpu_vram_mb := gpu_vram_mb, nr_price_per_1k_lamports := price,
                   nr_active := active\<rparr>)\<rparr>)))"

section \<open>Scores\<close>

definition recompute_score :: "node_score \<Rightarrow> node_score" where
  "recompute_score n =
     (let success = sat_mul (ucast (sr_success_rate_bps n)) 400000000 div 10000;
          jobs_capped = min (sr_total_jobs n) 10000;
          jobs = sat_mul jobs_capped 400000000 div 10000;
          latency_capped = min (ucast (sr_avg_latency_ms n)) 5000;
          latency = sat_mul (sat_sub 5000 latency_capped) 200000000 div 5000
      in n\<lparr>sr_score := success + jobs + latency\<rparr>)"

definition initialize_score :: "solana_runtime \<Rightarrow> i64 \<Rightarrow> pubkey \<Rightarrow> bytes \<Rightarrow> chain_op" where
  "initialize_score R now authority node_pubkey s =
     (if cs_scores s node_pubkey \<noteq> None then Err AccountInUse
      else
        (case rt_create R ''score'' node_pubkey node_score_len authority (cs_lamports s) of
           None \<Rightarrow> Err SystemFailed
         | Some lam \<Rightarrow>
             Okay (emit (ScoreInitialized node_pubkey authority)
               (s\<lparr>cs_lamports := lam,
                  cs_scores := (cs_scores s)(node_pubkey \<mapsto>
                    \<lparr>sr_node_pubkey = node_pubkey, sr_authority = authority,
                     sr_merkle_root = replicate 32 0, sr_merkle_root_label = replicate 32 0,
                     sr_total_jobs = 0, sr_total_tokens_earned = 0, sr_total_lamports_earned = 0,
                     sr_success_rate_bps = 10000, sr_avg_latency_ms = 0, sr_score = 0,
                     sr_last_updated = now, sr_bump = rt_bump R ''score'' node_pubkey\<rparr>)\<rparr>))))"

definition ema_latency :: "u32 \<Rightarrow> u32 \<Rightarrow> u32" where
  "ema_latency avg sample = ucast (((ucast avg :: u64) * 9 + ucast sample) div 10)"

definition submit_proof ::
  "i64 \<Rightarrow> pubkey \<Rightarrow> bytes \<Rightarrow> bytes \<Rightarrow> u32 \<Rightarrow> u32 \<Rightarrow> u64 \<Rightarrow> chain_op" where
  "submit_proof now authority node_pubkey proof_hash output_tokens latency_ms lamports_earned s =
     (case cs_scores s node_pubkey of
        None \<Rightarrow> Err AccountNotInitialized
      | Some n \<Rightarrow>
          if sr_authority n \<noteq> authority then Err NotAuthorized
          else if proof_hash = replicate 32 0 then Err InvalidProofHash
          else
            let n1 = n\<lparr>sr_total_jobs := sat_add (sr_total_jobs n) 1,
                  sr_total_tokens_earned := sat_add (sr_total_tokens_earned n) (ucast output_tokens),
                  sr_total_lamports_earned := sat_add (sr_total_lamports_earned n) lamports_earned,
                  sr_avg_latency_ms := ema_latency (sr_avg_latency_ms n) latency_ms\<rparr>;
                n2 = (recompute_score n1)\<lparr>sr_last_updated := now\<rparr>
            in Okay (emit (ProofSubmitted (sr_node_pubkey n2) proof_hash output_tokens latency_ms
                 lamports_earned (sr_score n2) (sr_total_jobs n2))
               (s\<lparr>cs_scores := (cs_scores s)(node_pubkey \<mapsto> n2)\<rparr>)))"

definition anchor_merkle_root :: "i64 \<Rightarrow> pubkey \<Rightarrow> bytes \<Rightarrow> bytes \<Rightarrow> bytes \<Rightarrow> chain_op" where
  "anchor_merkle_root now authority node_pubkey root_hash label s =
     (case cs_scores s node_pubkey of
        None \<Rightarrow> Err AccountNotInitialized
      | Some n \<Rightarrow>
          if sr_authority n \<noteq> authority then Err NotAuthorized
          else
            Okay (emit (MerkleRootAnchored (sr_node_pubkey n) root_hash label now)
              (s\<lparr>cs_scores := (cs_scores s)(node_pubkey \<mapsto> n\<lparr>sr_merkle_root := root_hash,
                   sr_merkle_root_label := label, sr_last_updated := now\<rparr>)\<rparr>)))"

section \<open>Runs\<close>

text \<open>What the model relies on: derived addresses of different escrows differ, a transfer moves exactly
  its amount, and creating an account takes lamports from its payer only.\<close>

definition runtime_lawful :: "solana_runtime \<Rightarrow> bool" where
  "runtime_lawful R \<longleftrightarrow>
     inj (rt_escrow_address R) \<and>
     (\<forall>a b n lam lam'. a \<noteq> b \<longrightarrow> rt_transfer R a b n lam = Some lam' \<longrightarrow>
        lam' = lam(a := lam a - n, b := lam b + n) \<and> n \<le> lam a \<and> unat (lam b) + unat n < 2 ^ 64) \<and>
     (\<forall>k seed len p lam lam' x. x \<noteq> p \<longrightarrow> rt_create R k seed len p lam = Some lam' \<longrightarrow> lam x \<le> lam' x)"

text \<open>A derived address has no key, so it signs nothing.\<close>

definition can_sign :: "solana_runtime \<Rightarrow> pubkey \<Rightarrow> bool" where
  "can_sign R k \<longleftrightarrow> k \<notin> range (rt_escrow_address R)"

text \<open>One instruction of anybody, or anything outside the program: it may do what it likes with
  lamports, except take them from an escrow.\<close>

inductive sol_step :: "solana_runtime \<Rightarrow> chain_state \<Rightarrow> chain_state \<Rightarrow> bool" for R where
  initialize: "can_sign R a \<Longrightarrow> sol_initialize R a t s = Inr s' \<Longrightarrow> sol_step R s s'"
| lock: "can_sign R c \<Longrightarrow> lock_escrow R now c n rid amt t s = Inr s' \<Longrightarrow> sol_step R s s'"
| release: "can_sign R n \<Longrightarrow> release_escrow R now n rid h s = Inr s' \<Longrightarrow> sol_step R s s'"
| refund: "can_sign R c \<Longrightarrow> refund_escrow R now c rid s = Inr s' \<Longrightarrow> sol_step R s s'"
| register: "can_sign R a \<Longrightarrow> register_node R now a k ms g p s = Inr s' \<Longrightarrow> sol_step R s s'"
| update: "can_sign R a \<Longrightarrow> update_node a k ms g p act s = Inr s' \<Longrightarrow> sol_step R s s'"
| init_score: "can_sign R a \<Longrightarrow> initialize_score R now a k s = Inr s' \<Longrightarrow> sol_step R s s'"
| submit: "can_sign R a \<Longrightarrow> submit_proof now a k h o' l e s = Inr s' \<Longrightarrow> sol_step R s s'"
| anchor: "can_sign R a \<Longrightarrow> anchor_merkle_root now a k m l s = Inr s' \<Longrightarrow> sol_step R s s'"
| outside: "(\<And>rid. cs_lamports s (rt_escrow_address R rid) \<le> lam (rt_escrow_address R rid)) \<Longrightarrow>
    sol_step R s (s\<lparr>cs_lamports := lam\<rparr>)"

definition chain_empty :: "(pubkey \<Rightarrow> u64) \<Rightarrow> chain_state" where
  "chain_empty lam = \<lparr>cs_program = None, cs_escrows = Map.empty, cs_nodes = Map.empty,
     cs_scores = Map.empty, cs_lamports = lam, cs_events = []\<rparr>"

definition sol_reachable :: "solana_runtime \<Rightarrow> chain_state \<Rightarrow> bool" where
  "sol_reachable R s \<longleftrightarrow> (\<exists>lam. (sol_step R)\<^sup>*\<^sup>* (chain_empty lam) s)"

lemma sol_reachable_induct [consumes 1, case_names empty step]:
  assumes "sol_reachable R s" "\<And>lam. P (chain_empty lam)" "\<And>s s'. P s \<Longrightarrow> sol_step R s s' \<Longrightarrow> P s'"
  shows "P s"
proof -
  obtain lam where "(sol_step R)\<^sup>*\<^sup>* (chain_empty lam) s"
    using assms(1) by (auto simp: sol_reachable_def)
  then show ?thesis
    by (induction rule: rtranclp_induct) (use assms(2,3) in auto)
qed

section \<open>Effects\<close>

lemma emit_fields [simp]:
  "cs_program (emit e s) = cs_program s" "cs_escrows (emit e s) = cs_escrows s"
  "cs_nodes (emit e s) = cs_nodes s" "cs_scores (emit e s) = cs_scores s"
  "cs_lamports (emit e s) = cs_lamports s"
  by (simp_all add: emit_def)

lemma lawful_transfer:
  "runtime_lawful R \<Longrightarrow> rt_transfer R a b n lam = Some lam' \<Longrightarrow> a \<noteq> b \<Longrightarrow>
     lam' = lam(a := lam a - n, b := lam b + n) \<and> n \<le> lam a \<and> unat (lam b) + unat n < 2 ^ 64"
  unfolding runtime_lawful_def by blast

lemma lawful_create:
  "runtime_lawful R \<Longrightarrow> rt_create R k seed len p lam = Some lam' \<Longrightarrow> x \<noteq> p \<Longrightarrow> lam x \<le> lam' x"
  unfolding runtime_lawful_def by blast

lemma escrow_address_eq: "runtime_lawful R \<Longrightarrow> rt_escrow_address R a = rt_escrow_address R b \<longleftrightarrow> a = b"
  by (auto simp: runtime_lawful_def dest: injD)

lemma can_sign_address: "can_sign R k \<Longrightarrow> rt_escrow_address R rid \<noteq> k"
  by (auto simp: can_sign_def)

lemma create_address:
  "runtime_lawful R \<Longrightarrow> rt_create R k seed len p lam = Some lam' \<Longrightarrow> can_sign R p \<Longrightarrow>
     lam (rt_escrow_address R rid) \<le> lam' (rt_escrow_address R rid)"
  by (simp add: lawful_create can_sign_address)

lemma move_lamports_Some:
  "move_lamports a b n lam = Some lam' \<Longrightarrow> a \<noteq> b \<Longrightarrow>
     n \<le> lam a \<and> lam' = lam(a := lam a - n, b := lam b + n)"
  by (auto simp: move_lamports_def Let_def split: if_splits)

lemma word_le_add: "unat (a :: u64) + unat b < 2 ^ 64 \<Longrightarrow> a \<le> a + b \<and> b \<le> a + b"
  by (simp add: word_le_nat_alt unat_word_ariths)

text \<open>Every escrow that is still locked is covered by the lamports of its address.\<close>

definition escrows_covered :: "solana_runtime \<Rightarrow> chain_state \<Rightarrow> bool" where
  "escrows_covered R s \<longleftrightarrow>
     (\<forall>rid e. cs_escrows s rid = Some e \<longrightarrow> ea_state e = Locked \<longrightarrow>
        ea_amount_lamports e \<le> cs_lamports s (rt_escrow_address R rid))"

lemma escrows_coveredD:
  "escrows_covered R s \<Longrightarrow> cs_escrows s rid = Some e \<Longrightarrow> ea_state e = Locked \<Longrightarrow>
     ea_amount_lamports e \<le> cs_lamports s (rt_escrow_address R rid)"
  by (simp add: escrows_covered_def)

text \<open>Steps that leave the escrows alone and take nothing from their addresses keep it.\<close>

lemma covered_frame:
  assumes "escrows_covered R s" "cs_escrows s' = cs_escrows s"
    and "\<And>rid. cs_lamports s (rt_escrow_address R rid) \<le> cs_lamports s' (rt_escrow_address R rid)"
  shows "escrows_covered R s'"
  using assms by (fastforce simp: escrows_covered_def intro: order_trans)

lemma covered_lock:
  assumes R: "runtime_lawful R" "can_sign R c" and inv: "escrows_covered R s"
    and l: "lock_escrow R now c n rid amt t s = Inr s'"
  shows "escrows_covered R s'"
proof -
  obtain lam1 lam2 ps e where lam1: "rt_create R ''escrow'' rid escrow_account_len c (cs_lamports s) = Some lam1"
    and lam2: "rt_transfer R c (rt_escrow_address R rid) amt lam1 = Some lam2"
    and s': "cs_lamports s' = lam2" "cs_escrows s' = (cs_escrows s)(rid \<mapsto> e)" "ea_amount_lamports e = amt"
    using l by (auto simp: lock_escrow_def Let_def split: if_splits option.splits)
  have t: "lam2 = lam1(c := lam1 c - amt, rt_escrow_address R rid := lam1 (rt_escrow_address R rid) + amt)"
    and o: "unat (lam1 (rt_escrow_address R rid)) + unat amt < 2 ^ 64"
    using lawful_transfer [OF R(1) lam2] can_sign_address [OF R(2), of rid] by auto
  have lam1_le: "cs_lamports s (rt_escrow_address R r) \<le> lam1 (rt_escrow_address R r)" for r
    using create_address [OF R(1) lam1 R(2)] .
  show ?thesis
    unfolding escrows_covered_def
  proof (intro allI impI)
    fix r e'
    assume e': "cs_escrows s' r = Some e'" "ea_state e' = Locked"
    show "ea_amount_lamports e' \<le> cs_lamports s' (rt_escrow_address R r)"
    proof (cases "r = rid")
      case True
      with e' s' t word_le_add [OF o] show ?thesis
        by simp
    next
      case False
      then have "cs_lamports s' (rt_escrow_address R r) = lam1 (rt_escrow_address R r)"
        using s' t can_sign_address [OF R(2), of r] by (simp add: escrow_address_eq [OF R(1)])
      moreover have "ea_amount_lamports e' \<le> cs_lamports s (rt_escrow_address R r)"
        using e' s' False inv by (simp add: escrows_covered_def)
      ultimately show ?thesis
        using lam1_le [of r] by simp
    qed
  qed
qed

text \<open>Paying out a locked escrow that is no longer locked afterwards.\<close>

lemma covered_payout:
  assumes R: "runtime_lawful R" "can_sign R k" and inv: "escrows_covered R s"
    and m: "move_lamports (rt_escrow_address R rid) k amt (cs_lamports s) = Some lam"
    and s': "cs_lamports s' = lam" "cs_escrows s' = (cs_escrows s)(rid \<mapsto> e)" "ea_state e \<noteq> Locked"
  shows "escrows_covered R s'"
proof -
  have "lam = (cs_lamports s)(rt_escrow_address R rid := cs_lamports s (rt_escrow_address R rid) - amt,
      k := cs_lamports s k + amt)"
    using move_lamports_Some [OF m] can_sign_address [OF R(2), of rid] by simp
  then have "lam (rt_escrow_address R r) = cs_lamports s (rt_escrow_address R r)" if "r \<noteq> rid" for r
    using that can_sign_address [OF R(2), of r] by (simp add: escrow_address_eq [OF R(1)])
  with inv s' show ?thesis
    by (simp add: escrows_covered_def)
qed

lemma covered_step:
  assumes "sol_step R s s'" "runtime_lawful R" "escrows_covered R s"
  shows "escrows_covered R s'"
  using assms
proof (cases rule: sol_step.cases)
  case (initialize a t)
  obtain kind seed len lam where lam: "rt_create R kind seed len a (cs_lamports s) = Some lam"
    "cs_lamports s' = lam" "cs_escrows s' = cs_escrows s"
    using initialize(2) unfolding sol_initialize_def by (auto split: if_splits option.splits)
  show ?thesis
    using create_address [OF assms(2) lam(1) initialize(1)] lam(2,3)
    by (intro covered_frame [OF assms(3)]) simp_all
next
  case (lock c now n rid amt t)
  show ?thesis
    by (rule covered_lock [OF assms(2) lock(1) assms(3) lock(2)])
next
  case (release n now rid h)
  obtain e ps lam where "cs_escrows s rid = Some e"
    "move_lamports (rt_escrow_address R rid) n (ea_amount_lamports e) (cs_lamports s) = Some lam"
    "cs_lamports s' = lam"
    "cs_escrows s' = (cs_escrows s)(rid \<mapsto> e\<lparr>ea_state := Released, ea_proof_hash := h\<rparr>)"
    using release(2) by (auto simp: release_escrow_def Let_def split: if_splits option.splits)
  with release(1) assms(2,3) show ?thesis
    by (intro covered_payout [of R n s rid "ea_amount_lamports e" lam s'
          "e\<lparr>ea_state := Released, ea_proof_hash := h\<rparr>"]) simp_all
next
  case (refund c now rid)
  obtain e lam where "cs_escrows s rid = Some e"
    "move_lamports (rt_escrow_address R rid) c (ea_amount_lamports e) (cs_lamports s) = Some lam"
    "cs_lamports s' = lam" "cs_escrows s' = (cs_escrows s)(rid \<mapsto> e\<lparr>ea_state := Refunded\<rparr>)"
    using refund(2) by (auto simp: refund_escrow_def Let_def split: if_splits option.splits)
  with refund(1) assms(2,3) show ?thesis
    by (intro covered_payout [of R c s rid "ea_amount_lamports e" lam s' "e\<lparr>ea_state := Refunded\<rparr>"]) simp_all
next
  case (register a now k ms g p)
  obtain kind seed len lam where lam: "rt_create R kind seed len a (cs_lamports s) = Some lam"
    "cs_lamports s' = lam" "cs_escrows s' = cs_escrows s"
    using register(2) unfolding register_node_def by (auto split: if_splits option.splits)
  show ?thesis
    using create_address [OF assms(2) lam(1) register(1)] lam(2,3)
    by (intro covered_frame [OF assms(3)]) simp_all
next
  case (update a k ms g p act)
  have "cs_lamports s' = cs_lamports s" "cs_escrows s' = cs_escrows s"
    using update(2) by (auto simp: update_node_def split: if_splits option.splits)
  then show ?thesis
    by (intro covered_frame [OF assms(3)]) simp_all
next
  case (init_score a now k)
  obtain kind seed len lam where lam: "rt_create R kind seed len a (cs_lamports s) = Some lam"
    "cs_lamports s' = lam" "cs_escrows s' = cs_escrows s"
    using init_score(2) unfolding initialize_score_def by (auto split: if_splits option.splits)
  show ?thesis
    using create_address [OF assms(2) lam(1) init_score(1)] lam(2,3)
    by (intro covered_frame [OF assms(3)]) simp_all
next
  case (submit a now k h o' l e)
  have "cs_lamports s' = cs_lamports s" "cs_escrows s' = cs_escrows s"
    using submit(2) by (auto simp: submit_proof_def Let_def split: if_splits option.splits)
  then show ?thesis
    by (intro covered_frame [OF assms(3)]) simp_all
next
  case (anchor a now k m l)
  have "cs_lamports s' = cs_lamports s" "cs_escrows s' = cs_escrows s"
    using anchor(2) by (auto simp: anchor_merkle_root_def split: if_splits option.splits)
  then show ?thesis
    by (intro covered_frame [OF assms(3)]) simp_all
next
  case (outside lam)
  then show ?thesis
    by (intro covered_frame [OF assms(3)]) simp_all
qed

text \<open>The program account, once created, stays; and an escrow that exists has it.\<close>

definition program_present :: "chain_state \<Rightarrow> bool" where
  "program_present s \<longleftrightarrow> cs_program s = None \<longrightarrow> cs_escrows s = Map.empty"

lemma present_step: "sol_step R s s' \<Longrightarrow> program_present s \<Longrightarrow> program_present s'"
  by (induction rule: sol_step.induct)
    (auto simp: program_present_def sol_initialize_def lock_escrow_def release_escrow_def refund_escrow_def
      register_node_def update_node_def initialize_score_def submit_proof_def anchor_merkle_root_def Let_def
      split: if_splits option.splits)

lemma reachable_covered:
  assumes "sol_reachable R s" "runtime_lawful R"
  shows "escrows_covered R s \<and> program_present s"
  using assms(1)
proof (induction rule: sol_reachable_induct)
  case (empty lam)
  show ?case
    by (simp add: chain_empty_def escrows_covered_def program_present_def)
next
  case (step s s')
  with assms(2) show ?case
    by (blast intro: covered_step present_step)
qed

section \<open>Finality and scores\<close>

text \<open>What one step can do to an escrow that is settled.\<close>

lemma settled_step:
  "sol_step R s s' \<Longrightarrow> cs_escrows s rid = Some e \<Longrightarrow> ea_state e \<noteq> Locked \<Longrightarrow> cs_escrows s' rid = Some e"
  by (induction rule: sol_step.induct)
    (auto simp: sol_initialize_def lock_escrow_def release_escrow_def refund_escrow_def
      register_node_def update_node_def initialize_score_def submit_proof_def anchor_merkle_root_def Let_def
      split: if_splits option.splits)

definition score_ok :: "node_score \<Rightarrow> bool" where
  "score_ok n \<longleftrightarrow> sr_success_rate_bps n = 10000 \<and> unat (sr_score n) \<le> 10 ^ 9"

lemma unat_add3:
  assumes "unat a + unat b + unat c < 2 ^ 64"
  shows "unat (a + b + c :: u64) = unat a + unat b + unat c"
proof -
  have "unat (a + b) = unat a + unat b"
    using assms by (simp add: unat_word_ariths)
  with assms show ?thesis
    by (simp add: unat_word_ariths)
qed

lemma recompute_score_parts:
  assumes "sr_success_rate_bps n = 10000"
  shows "unat (sr_score (recompute_score n)) =
    400000000 + min (unat (sr_total_jobs n)) 10000 * 40000 + (5000 - min (unat (sr_avg_latency_ms n)) 5000) * 40000"
proof -
  let ?jobs = "sat_mul (min (sr_total_jobs n) 10000) 400000000 div (10000 :: u64)"
  let ?lat = "sat_mul (sat_sub 5000 (min (ucast (sr_avg_latency_ms n)) 5000)) 200000000 div (5000 :: u64)"
  let ?succ = "sat_mul (ucast (sr_success_rate_bps n)) 400000000 div (10000 :: u64)"
  have min_unat: "unat (min a b) = min (unat a) (unat b)" for a b :: u64
    by (simp add: min_def word_le_nat_alt)
  have u: "unat (ucast (sr_avg_latency_ms n) :: u64) = unat (sr_avg_latency_ms n)"
    using unat_lt [of "sr_avg_latency_ms n"] by (simp add: unsigned_ucast_eq take_bit_eq_mod)
  have succ: "unat ?succ = 400000000"
    using assms by (simp add: unat_div unat_sat_mul)
  have "min (unat (sr_total_jobs n)) 10000 * 400000000 \<le> 2 ^ 64 - 1"
    by simp
  then have jobs: "unat ?jobs = min (unat (sr_total_jobs n)) 10000 * 40000"
    by (simp add: unat_div unat_sat_mul min_unat)
  have lat: "unat ?lat = (5000 - min (unat (sr_avg_latency_ms n)) 5000) * 40000"
    by (simp add: unat_div unat_sat_mul unat_sat_sub min_unat u)
  have "unat (?succ + ?jobs + ?lat) = unat ?succ + unat ?jobs + unat ?lat"
  proof (rule unat_add3)
    have "min (unat (sr_total_jobs n)) 10000 \<le> 10000"
      "5000 - min (unat (sr_avg_latency_ms n)) 5000 \<le> 5000"
      by simp_all
    moreover have "(2 :: nat) ^ 64 = 18446744073709551616"
      by simp
    ultimately show "unat ?succ + unat ?jobs + unat ?lat < 2 ^ 64"
      unfolding succ jobs lat by linarith
  qed
  then show ?thesis
    using succ jobs lat by (simp add: recompute_score_def Let_def)
qed

lemma recompute_score_ok: "sr_success_rate_bps n = 10000 \<Longrightarrow> score_ok (recompute_score n)"
proof -
  assume a: "sr_success_rate_bps n = 10000"
  have "min (unat (sr_total_jobs n)) 10000 \<le> 10000" "5000 - min (unat (sr_avg_latency_ms n)) 5000 \<le> 5000"
    by simp_all
  then have "unat (sr_score (recompute_score n)) \<le> 1000000000"
    unfolding recompute_score_parts [OF a] by linarith
  moreover have "sr_success_rate_bps (recompute_score n) = 10000"
    using a by (simp add: recompute_score_def Let_def)
  ultimately show ?thesis
    by (simp add: score_ok_def)
qed

lemma score_ok_update [simp]:
  "score_ok (n\<lparr>sr_last_updated := t\<rparr>) = score_ok n"
  "score_ok (n\<lparr>sr_merkle_root := r\<rparr>) = score_ok n" "score_ok (n\<lparr>sr_merkle_root_label := l\<rparr>) = score_ok n"
  by (simp_all add: score_ok_def)

definition submitted :: "node_score \<Rightarrow> u32 \<Rightarrow> u32 \<Rightarrow> u64 \<Rightarrow> node_score" where
  "submitted n output_tokens latency_ms lamports_earned =
     n\<lparr>sr_total_jobs := sat_add (sr_total_jobs n) 1,
       sr_total_tokens_earned := sat_add (sr_total_tokens_earned n) (ucast output_tokens),
       sr_total_lamports_earned := sat_add (sr_total_lamports_earned n) lamports_earned,
       sr_avg_latency_ms := ema_latency (sr_avg_latency_ms n) latency_ms\<rparr>"

lemma submitted_rate [simp]: "sr_success_rate_bps (submitted n t l e) = sr_success_rate_bps n"
  by (simp add: submitted_def)

lemma submit_proof_scores:
  assumes "submit_proof now a k h tok lat ern s = Inr s'"
  shows "\<exists>n. cs_scores s k = Some n \<and>
    cs_scores s' = (cs_scores s)(k \<mapsto> (recompute_score (submitted n tok lat ern))\<lparr>sr_last_updated := now\<rparr>)"
proof -
  obtain n where n: "cs_scores s k = Some n"
    using assms by (cases "cs_scores s k") (simp_all add: submit_proof_def)
  with assms show ?thesis
    by (simp add: submit_proof_def submitted_def Let_def split: if_splits) (auto simp: emit_def)
qed

lemma scores_upd:
  "m' = m(k \<mapsto> n) \<Longrightarrow> pred_map_ok (\<lambda>_. score_ok) m \<Longrightarrow> score_ok n \<Longrightarrow> pred_map_ok (\<lambda>_. score_ok) m'"
  by (auto simp: pred_map_ok_def)

lemma scores_step:
  "sol_step R s s' \<Longrightarrow> pred_map_ok (\<lambda>_. score_ok) (cs_scores s) \<Longrightarrow> pred_map_ok (\<lambda>_. score_ok) (cs_scores s')"
proof (induction rule: sol_step.induct)
  case (init_score a now k s s')
  obtain n where n: "cs_scores s' = (cs_scores s)(k \<mapsto> n)" "score_ok n"
    using init_score(2) by (auto simp: initialize_score_def score_ok_def split: if_splits option.splits)
  show ?case
    by (rule scores_upd [OF n(1) init_score(3) n(2)])
next
  case (submit a now k h o' l e s s')
  obtain n where n: "cs_scores s k = Some n"
    "cs_scores s' = (cs_scores s)(k \<mapsto> (recompute_score (submitted n o' l e))\<lparr>sr_last_updated := now\<rparr>)"
    using submit_proof_scores [OF submit(2)] by blast
  have "sr_success_rate_bps n = 10000"
    using pred_map_okD [OF submit(3) n(1)] by (simp add: score_ok_def)
  then show ?case
    using scores_upd [OF n(2) submit(3)] by (simp add: recompute_score_ok)
next
  case (anchor a now k m l s s')
  obtain n where n: "cs_scores s k = Some n"
    "cs_scores s' = (cs_scores s)(k \<mapsto> n\<lparr>sr_merkle_root := m, sr_merkle_root_label := l, sr_last_updated := now\<rparr>)"
    using anchor(2) by (auto simp: anchor_merkle_root_def split: if_splits option.splits)
  show ?case
    using scores_upd [OF n(2) anchor(3)] pred_map_okD [OF anchor(3) n(1)] by simp
qed (auto simp: sol_initialize_def lock_escrow_def release_escrow_def refund_escrow_def
      register_node_def update_node_def Let_def split: if_splits option.splits)

lemma int_mod_wrap: "(m :: int) \<le> x \<Longrightarrow> x < 2 * m \<Longrightarrow> x mod m = x - m"
  by (metis add_diff_cancel_left' diff_ge_0_iff_ge diff_less_eq minus_mod_self2 mod_pos_pos_trivial mult_2)

lemma sint_add_wrap:
  assumes "2 ^ 63 \<le> sint a + sint b"
  shows "sint (a + b :: i64) = sint a + sint b - 2 ^ 64"
proof -
  have "sint a < 2 ^ 63" "sint b < 2 ^ 63"
    using sint_lt [of a] sint_lt [of b] by simp_all
  then have "(sint a + sint b + 2 ^ 63) mod 2 ^ 64 = sint a + sint b + 2 ^ 63 - 2 ^ 64"
    using assms by (intro int_mod_wrap) simp_all
  then show ?thesis
    by (simp add: sint_word_ariths signed_take_bit_eq_take_bit_shift take_bit_eq_mod)
qed

section \<open>An example chain\<close>

definition toy_runtime :: solana_runtime where
  "toy_runtime = \<lparr>rt_escrow_address = \<lambda>rid. 1 # rid, rt_bump = \<lambda>k seed. 255,
     rt_transfer = \<lambda>a b n lam. if n \<le> lam a \<and> unat (lam b) + unat n < 2 ^ 64
       then Some (lam(a := lam a - n, b := lam b + n)) else None,
     rt_create = \<lambda>k seed len p lam. Some lam\<rparr>"

lemma toy_runtime_lawful: "runtime_lawful toy_runtime"
  by (auto simp: runtime_lawful_def toy_runtime_def inj_def split: if_splits)

lemma toy_can_sign [simp]: "can_sign toy_runtime (0 # k)"
  by (auto simp: can_sign_def toy_runtime_def)

text \<open>The program is set up, the client \<open>[0]\<close> locks 500 for the node \<open>[0, 1]\<close>, at time 10.\<close>

definition toy_program :: program_state where
  "toy_program = \<lparr>ps_admin = [0, 2], ps_total_nodes_registered = 0, ps_total_jobs_completed = 0,
     ps_total_volume_lamports = 0, ps_escrow_timeout_secs = 300, ps_bump = 255\<rparr>"

definition toy_escrow :: "i64 \<Rightarrow> escrow_account" where
  "toy_escrow t = \<lparr>ea_client = [0], ea_node = [0, 1], ea_amount_lamports = 500, ea_request_id = [7],
     ea_state = Locked, ea_created_at = 10, ea_expires_at = 10 + t, ea_proof_hash = replicate 32 0,
     ea_bump = 255\<rparr>"

definition toy_chain0 :: chain_state where
  "toy_chain0 = (chain_empty (\<lambda>k. 1000))\<lparr>cs_program := Some toy_program\<rparr>"

definition toy_chain :: "i64 \<Rightarrow> chain_state" where
  "toy_chain t = toy_chain0\<lparr>cs_lamports := (\<lambda>k. 1000)([0] := 500, [1, 7] := 1500),
     cs_escrows := [[7] \<mapsto> toy_escrow t], cs_events := [EscrowLocked [7] [0] [0, 1] 500 (10 + t)]\<rparr>"

lemma toy_setup: "sol_initialize toy_runtime [0, 2] 300 (chain_empty (\<lambda>k. 1000)) = Inr toy_chain0"
  by (simp add: sol_initialize_def toy_chain0_def toy_program_def toy_runtime_def chain_empty_def)

lemma toy_locked: "0 <s t \<Longrightarrow> lock_escrow toy_runtime 10 [0] [0, 1] [7] 500 t toy_chain0 = Inr (toy_chain t)"
  by (simp add: lock_escrow_def toy_chain_def toy_chain0_def toy_escrow_def toy_runtime_def chain_empty_def
      emit_def Let_def)

lemma toy_reachable:
  assumes "0 <s t"
  shows "(sol_step toy_runtime)\<^sup>*\<^sup>* toy_chain0 (toy_chain t)" "sol_reachable toy_runtime toy_chain0"
    "sol_reachable toy_runtime (toy_chain t)"
proof -
  have 0: "sol_step toy_runtime (chain_empty (\<lambda>k. 1000)) toy_chain0"
    by (rule sol_step.initialize [OF _ toy_setup]) simp
  have 1: "sol_step toy_runtime toy_chain0 (toy_chain t)"
    by (rule sol_step.lock [OF _ toy_locked [OF assms]]) simp
  show "(sol_step toy_runtime)\<^sup>*\<^sup>* toy_chain0 (toy_chain t)"
    using 1 by blast
  show "sol_reachable toy_runtime toy_chain0" "sol_reachable toy_runtime (toy_chain t)"
    using 0 1 unfolding sol_reachable_def by (meson r_into_rtranclp rtranclp.rtrancl_into_rtrancl)+
qed

lemma release_of_locked:
  assumes "sol_reachable R s" "runtime_lawful R" "cs_escrows s rid = Some e" "ea_state e = Locked"
    and "now \<le>s ea_expires_at e" "can_sign R (ea_node e)"
    and "unat (cs_lamports s (ea_node e)) + unat (ea_amount_lamports e) < 2 ^ 64"
  shows "\<exists>s'. release_escrow R now (ea_node e) rid h s = Inr s' \<and>
    cs_lamports s' (ea_node e) = cs_lamports s (ea_node e) + ea_amount_lamports e \<and>
    cs_lamports s' (rt_escrow_address R rid) =
      cs_lamports s (rt_escrow_address R rid) - ea_amount_lamports e \<and>
    cs_escrows s' rid = Some (e\<lparr>ea_state := Released, ea_proof_hash := h\<rparr>) \<and> cs_scores s' = cs_scores s"
proof -
  have inv: "escrows_covered R s" "program_present s"
    using reachable_covered [OF assms(1,2)] by simp_all
  obtain ps where ps: "cs_program s = Some ps"
    using inv(2) assms(3) by (auto simp: program_present_def)
  have le: "ea_amount_lamports e \<le> cs_lamports s (rt_escrow_address R rid)"
    using escrows_coveredD [OF inv(1) assms(3,4)] .
  have ne: "rt_escrow_address R rid \<noteq> ea_node e"
    using can_sign_address [OF assms(6)] .
  then have "move_lamports (rt_escrow_address R rid) (ea_node e) (ea_amount_lamports e) (cs_lamports s) =
      Some ((cs_lamports s)(rt_escrow_address R rid :=
          cs_lamports s (rt_escrow_address R rid) - ea_amount_lamports e,
        ea_node e := cs_lamports s (ea_node e) + ea_amount_lamports e))"
    using le assms(7) by (simp add: move_lamports_def Let_def)
  then show ?thesis
    using assms(3-5) ps ne by (simp add: release_escrow_def Let_def)
qed

section \<open>Properties\<close>

text \<open>C23: funds in escrow are never stuck. In every reachable state, whatever others do with their own
  lamports, a locked escrow can be released by its node until it expires and refunded to its
  client afterwards, for exactly the amount locked, as long as the receiver's balance can hold
  it.\<close>

theorem escrow_always_settleable:
  assumes "sol_reachable R s" "runtime_lawful R" "cs_escrows s rid = Some e" "ea_state e = Locked"
    and "k = (if now \<le>s ea_expires_at e then ea_node e else ea_client e)" "can_sign R k"
    and "unat (cs_lamports s k) + unat (ea_amount_lamports e) < 2 ^ 64"
  shows "\<exists>s'. (if now \<le>s ea_expires_at e then release_escrow R now k rid h s
      else refund_escrow R now k rid s) = Inr s' \<and>
    cs_lamports s' k = cs_lamports s k + ea_amount_lamports e \<and>
    cs_lamports s' (rt_escrow_address R rid) =
      cs_lamports s (rt_escrow_address R rid) - ea_amount_lamports e"
proof (cases "now \<le>s ea_expires_at e")
  case True
  then show ?thesis
    using release_of_locked [OF assms(1-4) True, of h] assms(5-7) by fastforce
next
  case False
  then have late: "ea_expires_at e <s now"
    by (simp add: signed.not_le)
  have inv: "escrows_covered R s"
    using reachable_covered [OF assms(1,2)] by simp
  have le: "ea_amount_lamports e \<le> cs_lamports s (rt_escrow_address R rid)"
    using escrows_coveredD [OF inv assms(3,4)] .
  have ne: "rt_escrow_address R rid \<noteq> k"
    using can_sign_address [OF assms(6)] .
  then have "move_lamports (rt_escrow_address R rid) k (ea_amount_lamports e) (cs_lamports s) =
      Some ((cs_lamports s)(rt_escrow_address R rid :=
          cs_lamports s (rt_escrow_address R rid) - ea_amount_lamports e,
        k := cs_lamports s k + ea_amount_lamports e))"
    using le assms(7) by (simp add: move_lamports_def Let_def)
  with False late show ?thesis
    using assms(3-5) ne by (simp add: refund_escrow_def Let_def)
qed

theorem escrow_always_settleable_witness:
  "\<exists>s'. release_escrow toy_runtime 20 [0, 1] [7] [9] (toy_chain 100) = Inr s' \<and> cs_lamports s' [0, 1] = 1500"
proof -
  have "sol_reachable toy_runtime (toy_chain 100)"
    by (rule toy_reachable) (simp add: word_sless_alt)
  moreover have "cs_escrows (toy_chain 100) [7] = Some (toy_escrow 100)" "ea_state (toy_escrow 100) = Locked"
    "cs_lamports (toy_chain 100) [0, 1] = 1000" "ea_amount_lamports (toy_escrow 100) = 500"
    by (simp_all add: toy_chain_def toy_escrow_def)
  moreover have now: "20 \<le>s ea_expires_at (toy_escrow 100)"
    by (simp add: toy_escrow_def word_sle_eq)
  moreover have "ea_node (toy_escrow 100) = [0, 1]" "can_sign toy_runtime [0, 1]"
    by (auto simp: toy_escrow_def can_sign_def toy_runtime_def)
  ultimately show ?thesis
    using escrow_always_settleable [OF _ toy_runtime_lawful, of "toy_chain 100" "[7]" "toy_escrow 100"
        "[0, 1]" 20 "[9]"] by auto
qed

text \<open>C24: an escrow is settled once. After a release or a refund its account never changes again,
  whatever instructions follow, and in particular its id cannot be locked a second time.\<close>

theorem escrow_settled_final:
  assumes "(sol_step R)\<^sup>*\<^sup>* s s'" "cs_escrows s rid = Some e" "ea_state e \<noteq> Locked"
  shows "cs_escrows s' rid = Some e \<and>
    release_escrow R now n rid h s' \<noteq> Inr t \<and> refund_escrow R now c rid s' \<noteq> Inr t \<and>
    lock_escrow R now c n rid amt tmo s' \<noteq> Inr t"
proof -
  have "cs_escrows s' rid = Some e"
    using assms by (induction rule: rtranclp_induct) (blast dest: settled_step)+
  then show ?thesis
    using assms(3)
    by (auto simp: release_escrow_def refund_escrow_def lock_escrow_def Let_def split: if_splits option.splits)
qed

theorem escrow_settled_final_witness:
  "\<exists>s. release_escrow toy_runtime 20 [0, 1] [7] [9] (toy_chain 100) = Inr s \<and>
     refund_escrow toy_runtime 200 [0] [7] s \<noteq> Inr toy_chain0"
proof -
  obtain s e where s: "release_escrow toy_runtime 20 [0, 1] [7] [9] (toy_chain 100) = Inr s"
    "cs_escrows s [7] = Some e" "ea_state e \<noteq> Locked"
    by (simp add: release_escrow_def toy_chain_def toy_chain0_def toy_escrow_def toy_runtime_def
        move_lamports_def Let_def)
  have "(sol_step toy_runtime)\<^sup>*\<^sup>* s s"
    by simp
  from escrow_settled_final [OF this s(2,3)] s(1) show ?thesis
    by blast
qed

text \<open>The lifetime of an escrow can wrap around. A client who locks with a timeout that pushes the
  expiry past the largest time gets an escrow that is expired from the start: the node can never
  release it, and the client has the funds back at once.\<close>

theorem escrow_expiry_wraps:
  assumes "lock_escrow R now c n rid amt tmo s = Inr s'" "0 <s now" "0 <s tmo"
    and "2 ^ 63 \<le> sint now + sint tmo" "now \<le>s later"
  shows "release_escrow R later n rid h s' \<noteq> Inr t \<and>
    (runtime_lawful R \<and> can_sign R c \<and> escrows_covered R s \<and>
       unat (cs_lamports s' c) + unat amt < 2 ^ 64 \<longrightarrow> (\<exists>s''. refund_escrow R now c rid s' = Inr s''))"
proof -
  obtain e where e: "cs_escrows s' rid = Some e" "ea_expires_at e = now + tmo" "ea_state e = Locked"
    "ea_client e = c" "ea_amount_lamports e = amt"
    using assms(1,3) by (auto simp: lock_escrow_def Let_def split: if_splits option.splits)
  have bounds: "sint now < 2 ^ 63" "sint tmo < 2 ^ 63"
    using sint_lt [of now] sint_lt [of tmo] by simp_all
  have pos: "0 < sint now" "0 < sint tmo"
    using assms(2,3) by (simp_all add: word_sless_alt)
  have "sint (now + tmo) = sint now + sint tmo - 2 ^ 64"
    using assms(4) by (rule sint_add_wrap)
  then have neg: "ea_expires_at e <s now"
    using e(2) pos bounds by (simp add: word_sless_alt)
  then have "\<not> later \<le>s ea_expires_at e"
    using assms(5) by (meson signed.leD signed.order_trans)
  then have "release_escrow R later n rid h s' \<noteq> Inr t"
    using e(1) by (auto simp: release_escrow_def Let_def split: if_splits option.splits)
  moreover have "\<exists>s''. refund_escrow R now c rid s' = Inr s''"
    if R: "runtime_lawful R" "can_sign R c" "escrows_covered R s" "unat (cs_lamports s' c) + unat amt < 2 ^ 64"
  proof -
    have "amt \<le> cs_lamports s' (rt_escrow_address R rid)"
      using escrows_coveredD [OF covered_lock [OF R(1,2,3) assms(1)] e(1,3)] e(5) by simp
    then have "move_lamports (rt_escrow_address R rid) c amt (cs_lamports s') \<noteq> None"
      using R(4) can_sign_address [OF R(2), of rid] by (simp add: move_lamports_def Let_def)
    then show ?thesis
      using e neg by (auto simp: refund_escrow_def Let_def)
  qed
  ultimately show ?thesis
    by blast
qed

theorem escrow_expiry_wraps_witness:
  "release_escrow toy_runtime 10 [0, 1] [7] [9] (toy_chain (2 ^ 63 - 1)) \<noteq> Inr toy_chain0 \<and>
   (\<exists>s''. refund_escrow toy_runtime 10 [0] [7] (toy_chain (2 ^ 63 - 1)) = Inr s'')"
proof -
  have max: "0 <s (2 ^ 63 - 1 :: i64)" "2 ^ 63 \<le> sint (10 :: i64) + sint (2 ^ 63 - 1 :: i64)"
    by (simp_all add: word_sless_alt)
  have cov: "escrows_covered toy_runtime toy_chain0"
    using reachable_covered [OF toy_reachable(2) [OF max(1)] toy_runtime_lawful] by simp
  have "unat (cs_lamports (toy_chain (2 ^ 63 - 1)) [0]) + unat (500 :: u64) < 2 ^ 64"
    by (simp add: toy_chain_def toy_chain0_def)
  then show ?thesis
    using escrow_expiry_wraps [OF toy_locked [OF max(1)] _ max, where later = 10 and h = "[9]" and t = toy_chain0]
      toy_runtime_lawful cov by (simp add: word_sless_alt)
qed

text \<open>C25: scores stay in range. In every reachable state the success rate is full and the score is at
  most a billion; a submission yields exactly four tenths for success, four tenths by the number
  of jobs up to ten thousand, and two tenths by the latency, with nothing lost to wrap-around.\<close>

theorem node_score_bounds:
  assumes "sol_reachable R s" "cs_scores s k = Some n"
  shows "sr_success_rate_bps n = 10000 \<and> unat (sr_score n) \<le> 10 ^ 9 \<and>
    (submit_proof now a k h tok lat ern s = Inr s' \<longrightarrow>
      (\<exists>n'. cs_scores s' k = Some n' \<and>
         unat (sr_score n') = 400000000 + min (unat (sr_total_jobs n')) 10000 * 40000 +
           (5000 - min (unat (sr_avg_latency_ms n')) 5000) * 40000))"
proof -
  have "pred_map_ok (\<lambda>_. score_ok) (cs_scores s)"
    using assms(1)
  proof (induction rule: sol_reachable_induct)
    case (empty lam)
    show ?case by (simp add: chain_empty_def)
  next
    case (step s s')
    then show ?case by (blast intro: scores_step)
  qed
  from pred_map_okD [OF this assms(2)] have ok: "score_ok n" .
  moreover have "\<exists>n'. cs_scores s' k = Some n' \<and>
      unat (sr_score n') = 400000000 + min (unat (sr_total_jobs n')) 10000 * 40000 +
        (5000 - min (unat (sr_avg_latency_ms n')) 5000) * 40000"
    if "submit_proof now a k h tok lat ern s = Inr s'"
  proof -
    have n1: "cs_scores s' k = Some ((recompute_score (submitted n tok lat ern))\<lparr>sr_last_updated := now\<rparr>)"
      using submit_proof_scores [OF that] assms(2) by auto
    have "sr_success_rate_bps (submitted n tok lat ern) = 10000"
      using ok by (simp add: score_ok_def)
    from recompute_score_parts [OF this] n1 show ?thesis
      by (simp add: recompute_score_def Let_def)
  qed
  moreover have "sr_success_rate_bps n = 10000" "unat (sr_score n) \<le> 10 ^ 9"
    using ok by (simp_all add: score_ok_def)
  ultimately show ?thesis
    by blast
qed

theorem node_score_bounds_witness:
  "\<exists>(s :: chain_state) n. cs_scores s [3] = Some n \<and> unat (sr_score n) \<le> 10 ^ 9 \<and> sr_authority n = [0, 1]"
proof -
  obtain s1 n where s1: "initialize_score toy_runtime 10 [0, 1] [3] toy_chain0 = Inr s1"
    "cs_scores s1 [3] = Some n" "sr_authority n = [0, 1]"
    by (simp add: initialize_score_def toy_chain0_def toy_runtime_def chain_empty_def)
  have "sol_reachable toy_runtime toy_chain0"
    by (rule toy_reachable(2) [of 1]) (simp add: word_sless_alt)
  moreover have "sol_step toy_runtime toy_chain0 s1"
    by (rule sol_step.init_score [OF _ s1(1)]) simp
  ultimately have "sol_reachable toy_runtime s1"
    unfolding sol_reachable_def by (meson rtranclp.rtrancl_into_rtrancl)
  then have "unat (sr_score n) \<le> 10 ^ 9"
    by (rule conjunct1 [OF conjunct2 [OF node_score_bounds [OF _ s1(2)]]])
  then show ?thesis
    using s1(2,3) by (intro exI [of _ s1] exI [of _ n]) simp
qed

end
