(* ===== verification/P2p_Service.thy ===== *)
theory P2p_Service
  imports Node_Config Rust_String
begin

text \<open>The peer-to-peer service of \<^verbatim>\<open>crates/p2p/src\<close>: the topics, the swarm task with its
  local tables, the command handler behind \<^verbatim>\<open>P2PService\<close>, and the dispatch of what arrives.
  libp2p is a record of the calls the code makes over an external world \<open>'w\<close>, \<^verbatim>\<open>serde_json\<close>
  a record of encoders and decoders. A topic hash is a string; events sent to the daemon are
  appended to a list, which its bounded channel keeps in order. Log output is left out.\<close>

section \<open>Topics\<close>

definition topic_node_announce :: string where
  "topic_node_announce = ''node/announce''"

definition topic_node_health :: string where
  "topic_node_health = ''node/health''"

definition topic_reputation :: string where
  "topic_reputation = ''reputation/update''"

definition topic_inference_any :: string where
  "topic_inference_any = ''inference/any''"

definition topic_infer_resp_prefix :: string where
  "topic_infer_resp_prefix = ''infer/resp/''"

definition inference_topic :: "string \<Rightarrow> string" where
  "inference_topic model_id = ''inference/'' @ model_id"

definition infer_response_topic :: "string \<Rightarrow> string" where
  "infer_response_topic response_id = topic_infer_resp_prefix @ response_id"

datatype known_topic =
    NodeAnnounce | NodeHealth | ReputationTopic | InferenceAny
  | InferenceModel string | InferenceResponse string | UnknownTopic string

definition topic_candidates :: "(string \<times> known_topic) list" where
  "topic_candidates =
     [(topic_node_announce, NodeAnnounce), (topic_node_health, NodeHealth),
      (topic_reputation, ReputationTopic), (topic_inference_any, InferenceAny)]"

definition known_topic_from_hash :: "(string \<Rightarrow> string) \<Rightarrow> string \<Rightarrow> known_topic" where
  "known_topic_from_hash topic_hash h =
     (case find (\<lambda>(name, variant). topic_hash name = h) topic_candidates of
        Some (name, variant) \<Rightarrow> variant
      | None \<Rightarrow> UnknownTopic h)"

section \<open>Third-party calls\<close>

datatype publish_error = NoPeersSubscribedToTopic | Duplicate | OtherPublishError string

text \<open>What the node calls of libp2p. Publishing answers with the error, if any; \<open>lp_hasher\<close> is the
  standard library's default hasher fed with a topic and a payload.\<close>

record 'w libp2p =
  lp_topic_hash :: "string \<Rightarrow> string"
  lp_hasher :: "string \<Rightarrow> bytes \<Rightarrow> u64"
  lp_publish :: "string \<Rightarrow> bytes \<Rightarrow> 'w \<Rightarrow> publish_error option \<times> 'w"
  lp_subscribe :: "string \<Rightarrow> 'w \<Rightarrow> string option \<times> 'w"
  lp_unsubscribe :: "string \<Rightarrow> 'w \<Rightarrow> 'w"
  lp_listen :: "u16 \<Rightarrow> 'w \<Rightarrow> string option \<times> 'w"
  lp_parse_addr :: "string \<Rightarrow> string option"
  lp_dial :: "string \<Rightarrow> 'w \<Rightarrow> string option \<times> 'w"
  lp_dial_peer :: "string \<Rightarrow> 'w \<Rightarrow> 'w"
  lp_is_connected :: "string \<Rightarrow> 'w \<Rightarrow> bool"
  lp_add_address :: "string \<Rightarrow> string \<Rightarrow> 'w \<Rightarrow> 'w"
  lp_kad_bootstrap :: "'w \<Rightarrow> 'w"
  lp_local_peer_id :: "'w \<Rightarrow> string"
  lp_connected_peers :: "'w \<Rightarrow> string list"

record p2p_wire =
  wr_chunk :: "p2p_inference_chunk \<Rightarrow> bytes option"
  wr_request :: "inference_request \<Rightarrow> bytes option"
  wr_bid :: "inference_bid \<Rightarrow> bytes option"
  wr_announce :: "node_capabilities \<Rightarrow> u64 \<Rightarrow> bytes option"
  wr_root :: "string \<Rightarrow> bytes option"
  wr_un_chunk :: "bytes \<Rightarrow> p2p_inference_chunk option"
  wr_un_request :: "bytes \<Rightarrow> inference_request option"
  wr_un_bid :: "bytes \<Rightarrow> inference_bid option"
  wr_un_announce :: "bytes \<Rightarrow> (node_capabilities \<times> u64) option"
  wr_un_root :: "bytes \<Rightarrow> string option"
  wr_hex :: "bytes \<Rightarrow> string"
  wr_un_hex :: "string \<Rightarrow> bytes option"

text \<open>The id the configuration gives to a message: the big-endian bytes of the hash of its topic's hash
  and its payload.\<close>

definition message_id :: "'w libp2p \<Rightarrow> string \<Rightarrow> bytes \<Rightarrow> bytes" where
  "message_id L h payload = be_bytes 8 (unat (lp_hasher L h payload))"

section \<open>State of the swarm task\<close>

datatype p2p_event =
    InferenceRequestReceived inference_request
  | BidReceived inference_bid
  | NodeAnnounceReceived node_capabilities
  | PeerConnected string
  | PeerDisconnected string
  | ReputationRootReceived string bytes
  | InferenceChunkReceived string p2p_inference_chunk

datatype swarm_command =
    BroadcastReputationRoot bytes
  | BroadcastInferenceRequest inference_request
  | SubscribeModel string
  | SendBid string inference_bid
  | AnnounceCapabilities node_capabilities
  | DialAddr string
  | LocalPeerId
  | ConnectedPeers
  | SubscribeResponseTopic string
  | UnsubscribeResponseTopic string
  | PublishInferChunk string p2p_inference_chunk

datatype p2p_error =
    SwarmGone
  | EncodeFailed
  | PublishFailed publish_error
  | ModelTopicPublish publish_error
  | SubscribeFailed string
  | DialFailed string

datatype command_reply =
    Replied "(unit, p2p_error) res" | RepliedPeer string | RepliedPeers "string list" | RepliedUnit | NoReply

record 'w swarm =
  sw_model_topics :: "string \<rightharpoonup> string"
  sw_response_topics :: "string \<rightharpoonup> string"
  sw_announce_seq :: u64
  sw_delayed_announce :: "u64 option"
  sw_connected_peer_count :: u64
  sw_events :: "p2p_event list"
  sw_net :: 'w

definition send_event :: "p2p_event \<Rightarrow> 'w swarm \<Rightarrow> 'w swarm" where
  "send_event e s = s\<lparr>sw_events := sw_events s @ [e]\<rparr>"

definition publish_json :: "'w libp2p \<Rightarrow> string \<Rightarrow> bytes option \<Rightarrow> 'w swarm \<Rightarrow> (unit, p2p_error) res \<times> 'w swarm" where
  "publish_json L topic payload s =
     (case payload of
        None \<Rightarrow> (Err EncodeFailed, s)
      | Some p \<Rightarrow>
          (case lp_publish L topic p (sw_net s) of
             (None, w) \<Rightarrow> (Okay (), s\<lparr>sw_net := w\<rparr>)
           | (Some e, w) \<Rightarrow> (Err (PublishFailed e), s\<lparr>sw_net := w\<rparr>)))"

text \<open>\<^verbatim>\<open>publish_announce\<close> raises the sequence number it is given and ignores how publishing ends.\<close>

definition publish_announce ::
  "'w libp2p \<Rightarrow> p2p_wire \<Rightarrow> node_capabilities \<Rightarrow> u64 \<Rightarrow> 'w swarm \<Rightarrow> u64 \<times> 'w swarm" where
  "publish_announce L W caps seq s =
     (let seq' = seq + 1
      in (seq', snd (publish_json L topic_node_announce (wr_announce W caps seq') s)))"

definition announce_own ::
  "'w libp2p \<Rightarrow> p2p_wire \<Rightarrow> node_capabilities \<Rightarrow> 'w swarm \<Rightarrow> 'w swarm" where
  "announce_own L W own_caps s =
     (let (seq, s') = publish_announce L W own_caps (sw_announce_seq s) s in s'\<lparr>sw_announce_seq := seq\<rparr>)"

section \<open>Commands\<close>

text \<open>A publication on the topic of the model may fail for want of subscribers or as a duplicate; the
  one for any model may not.\<close>

definition broadcast_request ::
  "'w libp2p \<Rightarrow> p2p_wire \<Rightarrow> inference_request \<Rightarrow> 'w swarm \<Rightarrow> (unit, p2p_error) res \<times> 'w swarm" where
  "broadcast_request L W req s =
     (case wr_request W req of
        None \<Rightarrow> (Err EncodeFailed, s)
      | Some payload \<Rightarrow>
          (case lp_publish L (inference_topic (ir_model_preference req)) payload (sw_net s) of
             (Some (OtherPublishError e), w) \<Rightarrow> (Err (ModelTopicPublish (OtherPublishError e)), s\<lparr>sw_net := w\<rparr>)
           | (r, w) \<Rightarrow> publish_json L topic_inference_any (Some payload) (s\<lparr>sw_net := w\<rparr>)))"

definition subscribe_model_cmd ::
  "'w libp2p \<Rightarrow> string \<Rightarrow> 'w swarm \<Rightarrow> (unit, p2p_error) res \<times> 'w swarm" where
  "subscribe_model_cmd L model_id s =
     (let topic = inference_topic model_id in
      case lp_subscribe L topic (sw_net s) of
        (Some e, w) \<Rightarrow> (Err (SubscribeFailed e), s\<lparr>sw_net := w\<rparr>)
      | (None, w) \<Rightarrow>
          (Okay (), s\<lparr>sw_net := w,
             sw_model_topics := (sw_model_topics s)(lp_topic_hash L topic \<mapsto> model_id)\<rparr>))"

text \<open>A command to announce starts from half of the largest number, each time.\<close>

definition one_shot_seq :: u64 where
  "one_shot_seq = (- 1) div 2"

fun handle_command ::
  "'w libp2p \<Rightarrow> p2p_wire \<Rightarrow> swarm_command \<Rightarrow> 'w swarm \<Rightarrow> command_reply \<times> 'w swarm" where
  "handle_command L W (BroadcastReputationRoot root_hash) s =
     (let (r, s') = publish_json L topic_reputation (wr_root W (wr_hex W root_hash)) s in (Replied r, s'))"
| "handle_command L W (BroadcastInferenceRequest req) s =
     (let (r, s') = broadcast_request L W req s in (Replied r, s'))"
| "handle_command L W (SubscribeModel model_id) s =
     (let (r, s') = subscribe_model_cmd L model_id s in (Replied r, s'))"
| "handle_command L W (SendBid peer_id bid) s =
     (let (r, s') = publish_json L topic_inference_any (wr_bid W bid) s in (Replied r, s'))"
| "handle_command L W (AnnounceCapabilities caps) s =
     (Replied (Okay ()), snd (publish_announce L W caps one_shot_seq s))"
| "handle_command L W (DialAddr addr) s =
     (case lp_dial L addr (sw_net s) of
        (None, w) \<Rightarrow> (Replied (Okay ()), s\<lparr>sw_net := w\<rparr>)
      | (Some e, w) \<Rightarrow> (Replied (Err (DialFailed e)), s\<lparr>sw_net := w\<rparr>))"
| "handle_command L W LocalPeerId s = (RepliedPeer (lp_local_peer_id L (sw_net s)), s)"
| "handle_command L W ConnectedPeers s = (RepliedPeers (lp_connected_peers L (sw_net s)), s)"
| "handle_command L W (SubscribeResponseTopic response_id) s =
     (let topic = infer_response_topic response_id
      in (RepliedUnit, s\<lparr>sw_net := snd (lp_subscribe L topic (sw_net s)),
            sw_response_topics := (sw_response_topics s)(lp_topic_hash L topic \<mapsto> response_id)\<rparr>))"
| "handle_command L W (UnsubscribeResponseTopic response_id) s =
     (let topic = infer_response_topic response_id
      in (NoReply, s\<lparr>sw_net := lp_unsubscribe L topic (sw_net s),
            sw_response_topics := map_remove (lp_topic_hash L topic) (sw_response_topics s)\<rparr>))"
| "handle_command L W (PublishInferChunk response_id chunk) s =
     (let (r, s') = publish_json L topic_inference_any (wr_chunk W chunk) s in (Replied r, s'))"

section \<open>The service handle\<close>

text \<open>A call of \<^verbatim>\<open>P2PService\<close> sends a command and waits for its reply; \<open>None\<close> is a swarm task that
  has ended.\<close>

type_synonym 'w service = "'w swarm option"

definition call_result ::
  "'w libp2p \<Rightarrow> p2p_wire \<Rightarrow> swarm_command \<Rightarrow> 'w service \<Rightarrow> (unit, p2p_error) res \<times> 'w service" where
  "call_result L W cmd svc =
     (case svc of
        None \<Rightarrow> (Err SwarmGone, None)
      | Some s \<Rightarrow>
          (case handle_command L W cmd s of
             (Replied r, s') \<Rightarrow> (r, Some s')
           | (_, s') \<Rightarrow> (Okay (), Some s')))"

definition publish_reputation_root ::
  "'w libp2p \<Rightarrow> p2p_wire \<Rightarrow> bytes \<Rightarrow> 'w service \<Rightarrow> (unit, p2p_error) res \<times> 'w service" where
  "publish_reputation_root L W root_hash = call_result L W (BroadcastReputationRoot root_hash)"

definition broadcast_inference_request ::
  "'w libp2p \<Rightarrow> p2p_wire \<Rightarrow> inference_request \<Rightarrow> 'w service \<Rightarrow> (unit, p2p_error) res \<times> 'w service" where
  "broadcast_inference_request L W req = call_result L W (BroadcastInferenceRequest req)"

definition subscribe_model ::
  "'w libp2p \<Rightarrow> p2p_wire \<Rightarrow> string \<Rightarrow> 'w service \<Rightarrow> (unit, p2p_error) res \<times> 'w service" where
  "subscribe_model L W model_id = call_result L W (SubscribeModel model_id)"

definition send_bid ::
  "'w libp2p \<Rightarrow> p2p_wire \<Rightarrow> string \<Rightarrow> inference_bid \<Rightarrow> 'w service \<Rightarrow> (unit, p2p_error) res \<times> 'w service" where
  "send_bid L W peer_id bid = call_result L W (SendBid peer_id bid)"

definition announce_capabilities ::
  "'w libp2p \<Rightarrow> p2p_wire \<Rightarrow> node_capabilities \<Rightarrow> 'w service \<Rightarrow> (unit, p2p_error) res \<times> 'w service" where
  "announce_capabilities L W caps = call_result L W (AnnounceCapabilities caps)"

definition p2p_dial ::
  "'w libp2p \<Rightarrow> p2p_wire \<Rightarrow> string \<Rightarrow> 'w service \<Rightarrow> (unit, p2p_error) res \<times> 'w service" where
  "p2p_dial L W addr = call_result L W (DialAddr addr)"

definition local_peer_id :: "'w libp2p \<Rightarrow> p2p_wire \<Rightarrow> 'w service \<Rightarrow> (string, p2p_error) res \<times> 'w service" where
  "local_peer_id L W svc =
     (case svc of
        None \<Rightarrow> (Err SwarmGone, None)
      | Some s \<Rightarrow>
          (case handle_command L W LocalPeerId s of
             (RepliedPeer p, s') \<Rightarrow> (Okay p, Some s')
           | (_, s') \<Rightarrow> (Err SwarmGone, Some s')))"

definition connected_peers ::
  "'w libp2p \<Rightarrow> p2p_wire \<Rightarrow> 'w service \<Rightarrow> (string list, p2p_error) res \<times> 'w service" where
  "connected_peers L W svc =
     (case svc of
        None \<Rightarrow> (Err SwarmGone, None)
      | Some s \<Rightarrow>
          (case handle_command L W ConnectedPeers s of
             (RepliedPeers ps, s') \<Rightarrow> (Okay ps, Some s')
           | (_, s') \<Rightarrow> (Err SwarmGone, Some s')))"

definition subscribe_response_topic ::
  "'w libp2p \<Rightarrow> p2p_wire \<Rightarrow> string \<Rightarrow> 'w service \<Rightarrow> (unit, p2p_error) res \<times> 'w service" where
  "subscribe_response_topic L W response_id = call_result L W (SubscribeResponseTopic response_id)"

definition unsubscribe_response_topic ::
  "'w libp2p \<Rightarrow> p2p_wire \<Rightarrow> string \<Rightarrow> 'w service \<Rightarrow> 'w service" where
  "unsubscribe_response_topic L W response_id svc =
     snd (call_result L W (UnsubscribeResponseTopic response_id) svc)"

definition publish_infer_chunk ::
  "'w libp2p \<Rightarrow> p2p_wire \<Rightarrow> string \<Rightarrow> p2p_inference_chunk \<Rightarrow> 'w service \<Rightarrow>
     (unit, p2p_error) res \<times> 'w service" where
  "publish_infer_chunk L W response_id chunk = call_result L W (PublishInferChunk response_id chunk)"

section \<open>Arrivals\<close>

record gossip_message =
  gm_topic :: string
  gm_data :: bytes
  gm_source :: "string option"

datatype swarm_event =
    NewListenAddr string
  | ConnectionEstablished string u64
  | ConnectionClosed string
  | GossipMessage gossip_message
  | GossipSubscribed string string
  | GossipUnsubscribed string string
  | GossipNotSupported string
  | MdnsDiscovered "(string \<times> string) list"
  | MdnsExpired "(string \<times> string) list"
  | IdentifyReceived string
  | Pinged string
  | OutgoingConnectionError "string option"
  | OtherSwarmEvent

text \<open>A root is hex of exactly 32 bytes.\<close>

definition decode_root :: "p2p_wire \<Rightarrow> bytes \<Rightarrow> bytes option" where
  "decode_root W payload =
     (case Option.bind (wr_un_root W payload) (wr_un_hex W) of
        None \<Rightarrow> None
      | Some b \<Rightarrow> if length b = 32 then Some b else None)"

definition decode_inference :: "p2p_wire \<Rightarrow> bytes \<Rightarrow> p2p_event option" where
  "decode_inference W payload =
     (case wr_un_chunk W payload of
        Some chunk \<Rightarrow> Some (InferenceChunkReceived (pc_response_id chunk) chunk)
      | None \<Rightarrow>
          (case wr_un_request W payload of
             Some req \<Rightarrow> Some (InferenceRequestReceived req)
           | None \<Rightarrow> map_option BidReceived (wr_un_bid W payload)))"

definition dispatch_gossipsub_message ::
  "'w libp2p \<Rightarrow> p2p_wire \<Rightarrow> gossip_message \<Rightarrow> (string \<rightharpoonup> string) \<Rightarrow> p2p_event list" where
  "dispatch_gossipsub_message L W msg response_topics =
     (case response_topics (gm_topic msg) of
        Some response_id \<Rightarrow>
          (case wr_un_chunk W (gm_data msg) of
             Some chunk \<Rightarrow> [InferenceChunkReceived response_id chunk]
           | None \<Rightarrow> [])
      | None \<Rightarrow>
          (case known_topic_from_hash (lp_topic_hash L) (gm_topic msg) of
             InferenceAny \<Rightarrow> (case decode_inference W (gm_data msg) of Some e \<Rightarrow> [e] | None \<Rightarrow> [])
           | InferenceModel m \<Rightarrow> (case decode_inference W (gm_data msg) of Some e \<Rightarrow> [e] | None \<Rightarrow> [])
           | NodeAnnounce \<Rightarrow>
               (case wr_un_announce W (gm_data msg) of
                  Some (caps, seq) \<Rightarrow> [NodeAnnounceReceived caps]
                | None \<Rightarrow> [])
           | ReputationTopic \<Rightarrow>
               (case decode_root W (gm_data msg) of
                  Some root_hash \<Rightarrow>
                    [ReputationRootReceived (case gm_source msg of Some p \<Rightarrow> p | None \<Rightarrow> ''unknown'') root_hash]
                | None \<Rightarrow> [])
           | NodeHealth \<Rightarrow> []
           | InferenceResponse r \<Rightarrow> []
           | UnknownTopic h \<Rightarrow> []))"

fun dial_all :: "'w libp2p \<Rightarrow> string list \<Rightarrow> 'w swarm \<Rightarrow> 'w swarm" where
  "dial_all L [] s = s"
| "dial_all L (addr # addrs) s =
     (case lp_parse_addr L addr of
        None \<Rightarrow> dial_all L addrs s
      | Some a \<Rightarrow> dial_all L addrs (s\<lparr>sw_net := snd (lp_dial L a (sw_net s))\<rparr>))"

definition redial_bootstrap_nodes :: "'w libp2p \<Rightarrow> node_config \<Rightarrow> 'w swarm \<Rightarrow> 'w swarm" where
  "redial_bootstrap_nodes L cfg = dial_all L (net_bootstrap_nodes (cfg_network cfg))"

fun mdns_dial :: "'w libp2p \<Rightarrow> (string \<times> string) list \<Rightarrow> 'w \<Rightarrow> 'w" where
  "mdns_dial L [] w = w"
| "mdns_dial L ((peer_id, addr) # peers) w =
     (let w1 = lp_add_address L peer_id addr w;
          w2 = (if lp_is_connected L peer_id w1 then w1 else lp_dial_peer L peer_id w1)
      in mdns_dial L peers w2)"

definition kad_bootstrap :: "'w libp2p \<Rightarrow> 'w swarm \<Rightarrow> 'w swarm" where
  "kad_bootstrap L s = s\<lparr>sw_net := lp_kad_bootstrap L (sw_net s)\<rparr>"

fun handle_swarm_event ::
  "'w libp2p \<Rightarrow> p2p_wire \<Rightarrow> node_capabilities \<Rightarrow> swarm_event \<Rightarrow> 'w swarm \<Rightarrow> 'w swarm" where
  "handle_swarm_event L W own_caps (ConnectionEstablished peer_id now) s =
     (let was_isolated = (sw_connected_peer_count s = 0);
          s1 = send_event (PeerConnected peer_id)
                 (s\<lparr>sw_connected_peer_count := sw_connected_peer_count s + 1\<rparr>);
          s2 = (if was_isolated then announce_own L W own_caps (kad_bootstrap L s1) else s1)
      in s2\<lparr>sw_delayed_announce := Some (now + 1000)\<rparr>)"
| "handle_swarm_event L W own_caps (ConnectionClosed peer_id) s =
     send_event (PeerDisconnected peer_id)
       (s\<lparr>sw_connected_peer_count := sat_sub (sw_connected_peer_count s) 1\<rparr>)"
| "handle_swarm_event L W own_caps (GossipMessage msg) s =
     s\<lparr>sw_events := sw_events s @ dispatch_gossipsub_message L W msg (sw_response_topics s)\<rparr>"
| "handle_swarm_event L W own_caps (GossipSubscribed peer_id topic) s =
     (if topic = lp_topic_hash L topic_node_announce then announce_own L W own_caps s else s)"
| "handle_swarm_event L W own_caps (MdnsDiscovered peers) s = s\<lparr>sw_net := mdns_dial L peers (sw_net s)\<rparr>"
| "handle_swarm_event L W own_caps e s = s"

section \<open>The swarm task\<close>

text \<open>What the task waits for. The delayed announcement fires only while one is set; when the swarm or
  all handles are gone the loop ends.\<close>

datatype swarm_input =
    AnnounceTick | HeartbeatTick | DelayElapsed | Swarm swarm_event | Command swarm_command
  | SwarmClosed | HandlesDropped

definition swarm_select ::
  "'w libp2p \<Rightarrow> p2p_wire \<Rightarrow> node_config \<Rightarrow> node_capabilities \<Rightarrow> swarm_input \<Rightarrow> 'w swarm \<Rightarrow>
     (command_reply \<times> 'w swarm) option" where
  "swarm_select L W cfg own_caps i s =
     (case i of
        AnnounceTick \<Rightarrow> Some (NoReply, announce_own L W own_caps s)
      | HeartbeatTick \<Rightarrow>
          Some (NoReply, kad_bootstrap L (redial_bootstrap_nodes L cfg (announce_own L W own_caps s)))
      | DelayElapsed \<Rightarrow>
          if sw_delayed_announce s = None then Some (NoReply, s)
          else Some (NoReply, announce_own L W own_caps (s\<lparr>sw_delayed_announce := None\<rparr>))
      | Swarm e \<Rightarrow> Some (NoReply, handle_swarm_event L W own_caps e s)
      | Command cmd \<Rightarrow> Some (handle_command L W cmd s)
      | SwarmClosed \<Rightarrow> None
      | HandlesDropped \<Rightarrow> None)"

fun swarm_loop ::
  "'w libp2p \<Rightarrow> p2p_wire \<Rightarrow> node_config \<Rightarrow> node_capabilities \<Rightarrow> swarm_input list \<Rightarrow> 'w swarm \<Rightarrow>
     command_reply list \<times> 'w swarm" where
  "swarm_loop L W cfg own_caps [] s = ([], s)"
| "swarm_loop L W cfg own_caps (i # is) s =
     (case swarm_select L W cfg own_caps i s of
        None \<Rightarrow> ([], s)
      | Some (r, s') \<Rightarrow> (let (rs, s'') = swarm_loop L W cfg own_caps is s' in (r # rs, s'')))"

definition swarm_start :: "'w \<Rightarrow> 'w swarm" where
  "swarm_start w = \<lparr>sw_model_topics = Map.empty, sw_response_topics = Map.empty, sw_announce_seq = 0,
     sw_delayed_announce = None, sw_connected_peer_count = 0, sw_events = [], sw_net = w\<rparr>"

text \<open>The task gives up when it cannot listen.\<close>

definition swarm_task ::
  "'w libp2p \<Rightarrow> p2p_wire \<Rightarrow> node_config \<Rightarrow> node_capabilities \<Rightarrow> swarm_input list \<Rightarrow> 'w \<Rightarrow>
     command_reply list \<times> 'w swarm" where
  "swarm_task L W cfg own_caps is w =
     (case lp_listen L (net_listen_port (cfg_network cfg)) w of
        (Some e, w1) \<Rightarrow> ([], swarm_start w1)
      | (None, w1) \<Rightarrow>
          swarm_loop L W cfg own_caps is
            (dial_all L (net_bootstrap_nodes (cfg_network cfg)) (swarm_start w1)))"

section \<open>What the model relies on\<close>

text \<open>gossipsub, within the lifetime of its duplicate cache: \<open>seen\<close> is the ids in the cache, \<open>sent\<close> what
  has been published, by topic hash. Publishing an id in the cache is refused as a duplicate, one
  that is not never is; only a successful publication enters the cache and the network.\<close>

definition net_quiet ::
  "('w \<Rightarrow> bytes set) \<Rightarrow> ('w \<Rightarrow> (string \<times> bytes) list) \<Rightarrow> 'w \<Rightarrow> 'w \<Rightarrow> bool" where
  "net_quiet seen sent w w' \<longleftrightarrow> seen w' = seen w \<and> sent w' = sent w"

definition gossip_lawful ::
  "'w libp2p \<Rightarrow> ('w \<Rightarrow> bytes set) \<Rightarrow> ('w \<Rightarrow> (string \<times> bytes) list) \<Rightarrow> bool" where
  "gossip_lawful L seen sent \<longleftrightarrow>
     (\<forall>t d w r w'. lp_publish L t d w = (r, w') \<longrightarrow>
        (r = Some Duplicate \<longleftrightarrow> message_id L (lp_topic_hash L t) d \<in> seen w) \<and>
        (if r = None then seen w' = insert (message_id L (lp_topic_hash L t) d) (seen w) \<and>
           sent w' = sent w @ [(lp_topic_hash L t, d)]
         else net_quiet seen sent w w')) \<and>
     (\<forall>t w. net_quiet seen sent w (snd (lp_subscribe L t w))) \<and>
     (\<forall>t w. net_quiet seen sent w (lp_unsubscribe L t w)) \<and>
     (\<forall>a w. net_quiet seen sent w (snd (lp_dial L a w))) \<and>
     (\<forall>p w. net_quiet seen sent w (lp_dial_peer L p w)) \<and>
     (\<forall>p a w. net_quiet seen sent w (lp_add_address L p a w)) \<and>
     (\<forall>w. net_quiet seen sent w (lp_kad_bootstrap L w))"

text \<open>The mesh takes every message that is not a duplicate.\<close>

definition mesh_up :: "'w libp2p \<Rightarrow> ('w \<Rightarrow> bytes set) \<Rightarrow> bool" where
  "mesh_up L seen \<longleftrightarrow>
     (\<forall>t d w. message_id L (lp_topic_hash L t) d \<notin> seen w \<longrightarrow> fst (lp_publish L t d w) = None)"

text \<open>Decoding inverts encoding, and no kind of message decodes as one of another kind: the required
  fields of \<^verbatim>\<open>P2PInferenceChunk\<close>, \<^verbatim>\<open>InferenceRequest\<close> and \<^verbatim>\<open>InferenceBid\<close> differ.\<close>

definition wire_lawful :: "p2p_wire \<Rightarrow> bool" where
  "wire_lawful W \<longleftrightarrow>
     (\<forall>c d. wr_chunk W c = Some d \<longrightarrow> wr_un_chunk W d = Some c) \<and>
     (\<forall>r d. wr_request W r = Some d \<longrightarrow> wr_un_chunk W d = None \<and> wr_un_request W d = Some r) \<and>
     (\<forall>b d. wr_bid W b = Some d \<longrightarrow>
        wr_un_chunk W d = None \<and> wr_un_request W d = None \<and> wr_un_bid W d = Some b)"

section \<open>Lemmas\<close>

named_theorems topic_defs \<open>the names of the topics\<close>

lemmas topic_names [topic_defs] = topic_node_announce_def topic_node_health_def topic_reputation_def
  topic_inference_any_def topic_infer_resp_prefix_def inference_topic_def infer_response_topic_def

lemma response_topic_inj [simp]: "infer_response_topic r = infer_response_topic q \<longleftrightarrow> r = q"
  by (simp add: topic_defs)

lemma net_quiet_refl [simp]: "net_quiet seen sent w w"
  by (simp add: net_quiet_def)

lemma message_id_eq [simp]:
  "message_id L h d = message_id L k e \<longleftrightarrow> lp_hasher L h d = lp_hasher L k e"
proof -
  have "unat (lp_hasher L t p) < 256 ^ 8" for t p
    using unat_lt [of "lp_hasher L t p"] by simp
  then show ?thesis
    using be_bytes_inj [of 8 "unat (lp_hasher L h d)" "unat (lp_hasher L k e)"]
    by (auto simp: message_id_def word_unat_eq_iff)
qed

lemma known_topic_simps:
  assumes "inj h"
  shows "known_topic_from_hash h (h topic_inference_any) = InferenceAny"
    and "known_topic_from_hash h (h topic_node_announce) = NodeAnnounce"
    and "known_topic_from_hash h (h topic_reputation) = ReputationTopic"
    and "known_topic_from_hash h (h (infer_response_topic r)) = UnknownTopic (h (infer_response_topic r))"
    and "m \<noteq> ''any'' \<Longrightarrow>
      known_topic_from_hash h (h (inference_topic m)) = UnknownTopic (h (inference_topic m))"
  using assms by (simp_all add: known_topic_from_hash_def topic_candidates_def inj_eq topic_defs)

lemma publish_json_response_topics [simp]:
  "sw_response_topics (snd (publish_json L t p s)) = sw_response_topics s"
  by (auto simp: publish_json_def split: option.splits prod.splits)

lemma announce_own_response_topics [simp]:
  "sw_response_topics (announce_own L W caps s) = sw_response_topics s"
  by (simp add: announce_own_def publish_announce_def Let_def)

lemma dial_all_response_topics [simp]: "sw_response_topics (dial_all L as s) = sw_response_topics s"
  by (induction L as s rule: dial_all.induct) (simp_all split: option.splits)

lemma kad_bootstrap_response_topics [simp]: "sw_response_topics (kad_bootstrap L s) = sw_response_topics s"
  by (simp add: kad_bootstrap_def)

lemma swarm_event_response_topics [simp]:
  "sw_response_topics (handle_swarm_event L W caps e s) = sw_response_topics s"
  by (cases e) (simp_all add: Let_def send_event_def)

lemma broadcast_request_response_topics [simp]:
  "sw_response_topics (snd (broadcast_request L W req s)) = sw_response_topics s"
  by (auto simp: broadcast_request_def split: option.splits prod.splits publish_error.splits)

lemma subscribe_model_response_topics [simp]:
  "sw_response_topics (snd (subscribe_model_cmd L m s)) = sw_response_topics s"
  by (auto simp: subscribe_model_cmd_def Let_def split: option.splits prod.splits)

text \<open>What a command does to the table of response topics.\<close>

fun response_table :: "(string \<Rightarrow> string) \<Rightarrow> swarm_input \<Rightarrow> (string \<rightharpoonup> string) \<Rightarrow> (string \<rightharpoonup> string)" where
  "response_table h (Command (SubscribeResponseTopic r)) m = m(h (infer_response_topic r) \<mapsto> r)"
| "response_table h (Command (UnsubscribeResponseTopic r)) m = map_remove (h (infer_response_topic r)) m"
| "response_table h i m = m"

lemma handle_command_response_topics:
  "sw_response_topics (snd (handle_command L W cmd s)) =
     response_table (lp_topic_hash L) (Command cmd) (sw_response_topics s)"
  by (cases cmd) (simp_all add: Let_def publish_announce_def split_beta split: option.splits prod.splits)

lemma swarm_select_response_topics:
  assumes "swarm_select L W cfg caps i s = Some (r, s')"
  shows "sw_response_topics s' = response_table (lp_topic_hash L) i (sw_response_topics s)"
proof (cases i)
  case (Command cmd)
  then have "s' = snd (handle_command L W cmd s)"
    using assms by (auto simp: swarm_select_def)
  then show ?thesis
    using handle_command_response_topics [of L W cmd s] Command by simp
qed (use assms in \<open>auto simp: swarm_select_def redial_bootstrap_nodes_def split: if_splits\<close>)

lemma swarm_loop_response_topics:
  "swarm_loop L W cfg caps is s = (rs, s') \<Longrightarrow>
     sw_response_topics s' =
       fold (response_table (lp_topic_hash L)) (take (length rs) is) (sw_response_topics s)"
proof (induction "is" arbitrary: s rs)
  case (Cons i "is")
  show ?case
  proof (cases "swarm_select L W cfg caps i s")
    case (Some p)
    obtain r s1 where p: "p = (r, s1)"
      by (cases p)
    obtain rs1 s2 where l: "swarm_loop L W cfg caps is s1 = (rs1, s2)"
      by (cases "swarm_loop L W cfg caps is s1")
    then show ?thesis
      using Cons Some p swarm_select_response_topics [of L W cfg caps i s r s1] by auto
  qed (use Cons in auto)
qed simp

text \<open>Whether a response is awaited, from the commands alone.\<close>

fun wants_response :: "string \<Rightarrow> swarm_input \<Rightarrow> bool \<Rightarrow> bool" where
  "wants_response r (Command (SubscribeResponseTopic q)) b = (if q = r then True else b)"
| "wants_response r (Command (UnsubscribeResponseTopic q)) b = (if q = r then False else b)"
| "wants_response r i b = b"

definition table_of :: "(string \<Rightarrow> string) \<Rightarrow> (string \<Rightarrow> bool) \<Rightarrow> (string \<rightharpoonup> string) \<Rightarrow> bool" where
  "table_of h wants m \<longleftrightarrow>
     (\<forall>r. m (h (infer_response_topic r)) = (if wants r then Some r else None))"

lemma response_table_wants:
  assumes "inj h" "table_of h wants m"
  shows "table_of h (\<lambda>r. wants_response r i (wants r)) (response_table h i m)"
proof (cases i)
  case (Command cmd)
  then show ?thesis
    using assms by (cases cmd) (auto simp: table_of_def inj_eq)
qed (use assms in auto)

lemma response_tables_want:
  assumes "inj h" "table_of h wants m"
  shows "table_of h (\<lambda>r. fold (wants_response r) is (wants r)) (fold (response_table h) is m)"
  using assms(2)
proof (induction "is" arbitrary: wants m)
  case (Cons i "is")
  from Cons.IH [OF response_table_wants [OF assms(1) Cons.prems, of i]] show ?case
    by simp
qed simp

lemma swarm_task_wants:
  assumes "inj (lp_topic_hash L)" "swarm_task L W cfg caps is w = (rs, s)"
  shows "table_of (lp_topic_hash L) (\<lambda>r. fold (wants_response r) (take (length rs) is) False)
    (sw_response_topics s)"
proof -
  have start: "table_of (lp_topic_hash L) (\<lambda>r. False) Map.empty"
    by (simp add: table_of_def)
  obtain e w1 where l: "lp_listen L (net_listen_port (cfg_network cfg)) w = (e, w1)"
    by (cases "lp_listen L (net_listen_port (cfg_network cfg)) w")
  show ?thesis
  proof (cases e)
    case None
    then have "sw_response_topics s =
        fold (response_table (lp_topic_hash L)) (take (length rs) is) Map.empty"
      using assms(2) l swarm_loop_response_topics [of L W cfg caps "is" _ rs s]
      by (simp add: swarm_task_def swarm_start_def)
    then show ?thesis
      using response_tables_want [OF assms(1) start] by simp
  next
    case (Some x)
    then show ?thesis
      using assms(2) l start by (auto simp: swarm_task_def swarm_start_def)
  qed
qed

section \<open>An example network\<close>

text \<open>A mesh that takes everything once: the world is the list of what was published. Topics hash to
  themselves.\<close>

definition toy_hash :: "string \<Rightarrow> bytes \<Rightarrow> u64" where
  "toy_hash t d = word_of_nat (of_be_bytes (str_bytes t @ d))"

definition toy_seen :: "(string \<times> bytes) list \<Rightarrow> bytes set" where
  "toy_seen w = (\<lambda>(t, d). be_bytes 8 (unat (toy_hash t d))) ` set w"

definition toy_libp2p :: "(string \<times> bytes) list libp2p" where
  "toy_libp2p = \<lparr>lp_topic_hash = id, lp_hasher = toy_hash,
     lp_publish = (\<lambda>t d w. if be_bytes 8 (unat (toy_hash t d)) \<in> toy_seen w then (Some Duplicate, w)
       else (None, w @ [(t, d)])),
     lp_subscribe = (\<lambda>t w. (None, w)), lp_unsubscribe = (\<lambda>t w. w), lp_listen = (\<lambda>p w. (None, w)),
     lp_parse_addr = Some, lp_dial = (\<lambda>a w. (None, w)), lp_dial_peer = (\<lambda>p w. w),
     lp_is_connected = (\<lambda>p w. True), lp_add_address = (\<lambda>p a w. w), lp_kad_bootstrap = (\<lambda>w. w),
     lp_local_peer_id = (\<lambda>w. ''me''), lp_connected_peers = (\<lambda>w. [])\<rparr>"

lemma toy_gossip_lawful: "gossip_lawful toy_libp2p toy_seen (\<lambda>w. w)" "mesh_up toy_libp2p toy_seen"
  by (auto simp: gossip_lawful_def mesh_up_def toy_libp2p_def message_id_def net_quiet_def toy_seen_def
      split: if_splits)

text \<open>A wire format for the chunks of one response, one request, and announcements.\<close>

definition toy_net_chunk :: "string \<Rightarrow> bool \<Rightarrow> p2p_inference_chunk" where
  "toy_net_chunk tok final = \<lparr>pc_request_id = 5, pc_response_id = ''r'', pc_token = tok, pc_is_final = final,
     pc_error = None\<rparr>"

definition toy_p2p_request :: inference_request where
  "toy_p2p_request = \<lparr>ir_request_id = 5, ir_session_id = 0, ir_model_preference = ''m'',
     ir_context_blob_id = None, ir_prompt_encrypted = [], ir_prompt_nonce = [], ir_max_tokens = 16,
     ir_temperature = 0, ir_escrow_tx_id = [], ir_budget_nanox = 0, ir_timestamp = 0,
     ir_client_peer_id = ''c'', ir_privacy_level = Standard, ir_accepted_settlements = [],
     ir_target_peer_id = Some ''me'', ir_response_topic = Some ''r'', ir_prompt_plain = Some ''hi''\<rparr>"

fun toy_un_chunk :: "bytes \<Rightarrow> p2p_inference_chunk option" where
  "toy_un_chunk (k # f # t) = (if k = 1 then Some (toy_net_chunk (map (\<lambda>b. char_of (unat b)) t) (f = 1)) else None)"
| "toy_un_chunk d = None"

definition toy_wire :: p2p_wire where
  "toy_wire = \<lparr>wr_chunk = (\<lambda>c. if c = toy_net_chunk (pc_token c) (pc_is_final c)
       then Some (1 # (if pc_is_final c then 1 else 0) # str_bytes (pc_token c)) else None),
     wr_request = (\<lambda>r. if r = toy_p2p_request then Some [2] else None), wr_bid = (\<lambda>b. None),
     wr_announce = (\<lambda>c n. Some (3 # be_bytes 8 (unat n))), wr_root = (\<lambda>h. None),
     wr_un_chunk = toy_un_chunk,
     wr_un_request = (\<lambda>d. if d = [2] then Some toy_p2p_request else None), wr_un_bid = (\<lambda>d. None),
     wr_un_announce = (\<lambda>d. None), wr_un_root = (\<lambda>d. None), wr_hex = (\<lambda>b. []), wr_un_hex = (\<lambda>h. None)\<rparr>"

lemma str_bytes_inverse [simp]: "map (\<lambda>b. char_of (unat b)) (str_bytes t) = t"
  by (induction t) (simp_all add: str_bytes_def unat_of_nat)

definition toy_caps :: node_capabilities where
  "toy_caps = \<lparr>nc_peer_id = ''me'', nc_models = [''m''], nc_gpu_vram_mb = 0, nc_gpu_type = Cpu, nc_region = None,
     nc_tee_enabled = False, nc_reputation = reputation_default, nc_accepted_settlements = [],
     nc_api_url = None\<rparr>"

lemma toy_wire_lawful: "wire_lawful toy_wire"
  by (auto simp: wire_lawful_def toy_wire_def split: if_splits)

lemma toy_network [simp]:
  "lp_topic_hash toy_libp2p = id" "lp_hasher toy_libp2p = toy_hash" "toy_seen [] = {}"
  "sw_net (swarm_start w) = w"
  by (simp_all add: toy_libp2p_def toy_seen_def swarm_start_def)

lemma toy_topics: "inj (lp_topic_hash toy_libp2p)"
  by simp

section \<open>Properties\<close>

text \<open>Chunks of a response reach exactly the callers that wait for them. After any run of the swarm
  task, a message on the topic of a response is handed on if the last command about that response
  subscribed to it, and is dropped otherwise.\<close>

theorem response_topics_exact:
  assumes "inj (lp_topic_hash L)" "swarm_task L W cfg caps is w = (rs, s)"
    and "gm_topic msg = lp_topic_hash L (infer_response_topic r)"
  shows "dispatch_gossipsub_message L W msg (sw_response_topics s) =
    (if fold (wants_response r) (take (length rs) is) False
     then (case wr_un_chunk W (gm_data msg) of Some c \<Rightarrow> [InferenceChunkReceived r c] | None \<Rightarrow> [])
     else [])"
proof -
  have "sw_response_topics s (gm_topic msg) =
      (if fold (wants_response r) (take (length rs) is) False then Some r else None)"
    using swarm_task_wants [OF assms(1,2)] assms(1,3) by (simp add: table_of_def)
  then show ?thesis
    using known_topic_simps(4) [OF assms(1), of r] assms(3)
    by (simp add: dispatch_gossipsub_message_def split: option.splits)
qed

theorem response_topics_exact_witness:
  "dispatch_gossipsub_message toy_libp2p toy_wire
     \<lparr>gm_topic = ''infer/resp/r'', gm_data = 1 # 0 # str_bytes ''h'', gm_source = None\<rparr>
     (sw_response_topics (snd (swarm_task toy_libp2p toy_wire node_config_default toy_caps
        [Command (SubscribeResponseTopic ''r''), Command (UnsubscribeResponseTopic ''q'')] []))) =
   [InferenceChunkReceived ''r'' (toy_net_chunk ''h'' False)]"
proof -
  let ?is = "[Command (SubscribeResponseTopic ''r''), Command (UnsubscribeResponseTopic ''q'')]"
  let ?t = "swarm_task toy_libp2p toy_wire node_config_default toy_caps ?is []"
  have "length (fst ?t) = 2"
    by (simp add: swarm_task_def toy_libp2p_def swarm_select_def Let_def)
  moreover have "''infer/resp/r'' = lp_topic_hash toy_libp2p (infer_response_topic ''r'')"
    by (simp add: toy_libp2p_def topic_defs)
  moreover have "toy_un_chunk (1 # 0 # str_bytes ''h'') = Some (toy_net_chunk ''h'' False)"
    by (simp add: toy_net_chunk_def)
  ultimately show ?thesis
    using response_topics_exact [OF toy_topics, of toy_wire node_config_default toy_caps ?is "[]" "fst ?t" "snd ?t"
        "\<lparr>gm_topic = ''infer/resp/r'', gm_data = 1 # 0 # str_bytes ''h'', gm_source = None\<rparr>" "''r''"]
    by (simp add: toy_wire_def)
qed

text \<open>A broadcast request is heard once. It is published for its model and for any model, and a
  node that waits for no response under these names hears exactly one request; the caller is told
  so unless the model is called \<open>any\<close>, when the second publication is a duplicate of the first and
  the call fails although the request went out.\<close>

theorem broadcast_heard_once:
  assumes "m = ir_model_preference req"
    and "inj (lp_topic_hash L)" "wire_lawful W" "gossip_lawful L seen sent" "mesh_up L seen"
    and "wr_request W req = Some d" "broadcast_request L W req s = (r, s')"
    and "message_id L (lp_topic_hash L (inference_topic m)) d \<notin> seen (sw_net s)"
    and "m \<noteq> ''any'' \<Longrightarrow> message_id L (lp_topic_hash L topic_inference_any) d \<notin>
      insert (message_id L (lp_topic_hash L (inference_topic m)) d) (seen (sw_net s))"
    and "rt (lp_topic_hash L (inference_topic m)) = None" "rt (lp_topic_hash L topic_inference_any) = None"
  shows "(r = Okay () \<longleftrightarrow> m \<noteq> ''any'') \<and>
    (\<exists>ms. sent (sw_net s') = sent (sw_net s) @ ms \<and>
      concat (map (\<lambda>(t, p). dispatch_gossipsub_message L W \<lparr>gm_topic = t, gm_data = p, gm_source = src\<rparr> rt) ms) =
        [InferenceRequestReceived req])"
proof -
  have dec: "decode_inference W d = Some (InferenceRequestReceived req)"
    using assms(3,6) by (simp add: wire_lawful_def decode_inference_def)
  obtain w1 where p1: "lp_publish L (inference_topic m) d (sw_net s) = (None, w1)"
    using assms(5,8) by (metis mesh_up_def prod.collapse)
  then have q1: "seen w1 = insert (message_id L (lp_topic_hash L (inference_topic m)) d) (seen (sw_net s))"
      "sent w1 = sent (sw_net s) @ [(lp_topic_hash L (inference_topic m), d)]"
    using assms(4) unfolding gossip_lawful_def by (metis (mono_tags, lifting))+
  obtain r2 w2 where p2: "lp_publish L topic_inference_any d w1 = (r2, w2)"
    by (cases "lp_publish L topic_inference_any d w1")
  have law: "(r2 = Some Duplicate \<longleftrightarrow> message_id L (lp_topic_hash L topic_inference_any) d \<in> seen w1)"
      "if r2 = None then sent w2 = sent w1 @ [(lp_topic_hash L topic_inference_any, d)]
       else net_quiet seen sent w1 w2"
    using assms(4) p2 unfolding gossip_lawful_def by (metis (mono_tags, lifting))+
  have out: "r = (case r2 of None \<Rightarrow> Okay () | Some e \<Rightarrow> Err (PublishFailed e))" "sw_net s' = w2"
    using assms(1,6,7) p1 p2
    by (auto simp: broadcast_request_def publish_json_def split: option.splits)
  show ?thesis
  proof (cases "m = ''any''")
    case True
    then have same: "inference_topic m = topic_inference_any"
      by (simp add: topic_defs)
    then have "r2 = Some Duplicate"
      using law(1) q1 by simp
    then show ?thesis
      using True law(2) q1 out same dec assms(11) known_topic_simps(1) [OF assms(2)]
      by (auto simp: net_quiet_def dispatch_gossipsub_message_def)
  next
    case False
    then have "r2 = None"
      using assms(5,9) p2 q1 unfolding mesh_up_def by (metis fst_conv)
    then show ?thesis
      using False law(2) q1 out dec assms(10,11) known_topic_simps(1) [OF assms(2)]
        known_topic_simps(5) [OF assms(2) False]
      by (auto simp: dispatch_gossipsub_message_def)
  qed
qed

lemma toy_net_request_ids:
  "message_id toy_libp2p ''inference/m'' [2] \<noteq> message_id toy_libp2p ''inference/any'' [2]"
  by (simp add: toy_hash_def str_bytes_def of_be_bytes_Cons)

theorem broadcast_heard_once_witness:
  "fst (broadcast_request toy_libp2p toy_wire toy_p2p_request (swarm_start [])) = Okay ()"
proof -
  obtain r s' where b: "broadcast_request toy_libp2p toy_wire toy_p2p_request (swarm_start []) = (r, s')"
    by (cases "broadcast_request toy_libp2p toy_wire toy_p2p_request (swarm_start [])")
  have req: "wr_request toy_wire toy_p2p_request = Some [2]"
    by (simp add: toy_wire_def)
  have m: "''m'' = ir_model_preference toy_p2p_request"
    by (simp add: toy_p2p_request_def)
  have "r = Okay () \<longleftrightarrow> ''m'' \<noteq> ''any''"
    by (rule conjunct1 [OF broadcast_heard_once [OF m toy_topics toy_wire_lawful toy_gossip_lawful req b,
            of Map.empty]])
      (use toy_net_request_ids in \<open>simp_all add: topic_defs\<close>)
  with b show ?thesis
    by simp
qed

section \<open>Announcements\<close>

text \<open>Ids never leave the cache during a run.\<close>

lemma gossip_lawful_quiet:
  assumes "gossip_lawful L seen sent"
  shows "net_quiet seen sent w (snd (lp_subscribe L t w))" "net_quiet seen sent w (lp_unsubscribe L t w)"
    "net_quiet seen sent w (snd (lp_dial L a w))" "net_quiet seen sent w (lp_dial_peer L p w)"
    "net_quiet seen sent w (lp_add_address L p a w)" "net_quiet seen sent w (lp_kad_bootstrap L w)"
  using assms by (simp_all add: gossip_lawful_def)

lemma gossip_lawful_publish:
  assumes "gossip_lawful L seen sent" "lp_publish L t d w = (r, w')"
  shows "r = Some Duplicate \<longleftrightarrow> message_id L (lp_topic_hash L t) d \<in> seen w"
    and "r = None \<Longrightarrow> seen w' = insert (message_id L (lp_topic_hash L t) d) (seen w) \<and>
      sent w' = sent w @ [(lp_topic_hash L t, d)]"
    and "r \<noteq> None \<Longrightarrow> net_quiet seen sent w w'"
    and "seen w \<subseteq> seen w'"
  using assms unfolding gossip_lawful_def net_quiet_def by (metis (mono_tags, lifting) subset_insertI subset_refl)+

lemma publish_json_seen:
  assumes "gossip_lawful L seen sent"
  shows "seen (sw_net s) \<subseteq> seen (sw_net (snd (publish_json L t p s)))"
  using gossip_lawful_publish(4) [OF assms] by (auto simp: publish_json_def split: option.splits prod.splits)

lemma announce_own_seen:
  assumes "gossip_lawful L seen sent"
  shows "seen (sw_net s) \<subseteq> seen (sw_net (announce_own L W caps s))"
  using publish_json_seen [OF assms] by (simp add: announce_own_def publish_announce_def Let_def)

lemma dial_all_quiet:
  assumes "gossip_lawful L seen sent"
  shows "net_quiet seen sent (sw_net s) (sw_net (dial_all L as s))"
  using gossip_lawful_quiet(3) [OF assms]
  by (induction L as s rule: dial_all.induct) (auto simp: net_quiet_def split: option.splits)

lemma mdns_dial_quiet:
  assumes "gossip_lawful L seen sent"
  shows "net_quiet seen sent w (mdns_dial L ps w)"
  using gossip_lawful_quiet(4,5) [OF assms]
  by (induction L ps w rule: mdns_dial.induct) (auto simp: net_quiet_def Let_def)

lemma kad_bootstrap_quiet:
  assumes "gossip_lawful L seen sent"
  shows "net_quiet seen sent (sw_net s) (sw_net (kad_bootstrap L s))"
  using gossip_lawful_quiet(6) [OF assms] by (simp add: kad_bootstrap_def)

lemma swarm_event_seen:
  assumes "gossip_lawful L seen sent"
  shows "seen (sw_net s) \<subseteq> seen (sw_net (handle_swarm_event L W caps e s))"
proof (cases e)
  case (ConnectionEstablished p t)
  define s1 where "s1 = send_event (PeerConnected p) (s\<lparr>sw_connected_peer_count := sw_connected_peer_count s + 1\<rparr>)"
  have "sw_net s1 = sw_net s"
    by (simp add: s1_def send_event_def)
  moreover have "seen (sw_net (kad_bootstrap L s1)) = seen (sw_net s1)"
    using kad_bootstrap_quiet [OF assms] by (simp add: net_quiet_def)
  moreover have "seen (sw_net (kad_bootstrap L s1)) \<subseteq> seen (sw_net (announce_own L W caps (kad_bootstrap L s1)))"
    by (rule announce_own_seen [OF assms])
  ultimately show ?thesis
    using ConnectionEstablished by (simp add: Let_def flip: s1_def)
next
  case (GossipSubscribed p t)
  then show ?thesis
    using announce_own_seen [OF assms, of s W caps] by simp
next
  case (MdnsDiscovered ps)
  then show ?thesis
    using mdns_dial_quiet [OF assms, of "sw_net s" ps] by (simp add: net_quiet_def)
qed (simp_all add: send_event_def)

lemma broadcast_request_seen:
  assumes "gossip_lawful L seen sent"
  shows "seen (sw_net s) \<subseteq> seen (sw_net (snd (broadcast_request L W req s)))"
proof (cases "wr_request W req")
  case (Some d)
  obtain r w where p: "lp_publish L (inference_topic (ir_model_preference req)) d (sw_net s) = (r, w)"
    by (cases "lp_publish L (inference_topic (ir_model_preference req)) d (sw_net s)")
  have 1: "seen (sw_net s) \<subseteq> seen w"
    by (rule gossip_lawful_publish(4) [OF assms p])
  have 2: "seen w \<subseteq> seen (sw_net (snd (publish_json L topic_inference_any (Some d) (s\<lparr>sw_net := w\<rparr>))))"
    using publish_json_seen [OF assms, of "s\<lparr>sw_net := w\<rparr>"] by simp
  show ?thesis
    using subset_trans [OF 1 2] 1 Some p
    by (simp add: broadcast_request_def split: option.splits publish_error.splits)
qed (simp add: broadcast_request_def)

lemma handle_command_seen:
  assumes "gossip_lawful L seen sent"
  shows "seen (sw_net s) \<subseteq> seen (sw_net (snd (handle_command L W cmd s)))"
proof (cases cmd)
  case (SubscribeModel m)
  then show ?thesis
    using gossip_lawful_quiet(1) [OF assms, of "sw_net s" "inference_topic m"]
    by (auto simp: subscribe_model_cmd_def net_quiet_def Let_def split: option.splits prod.splits)
next
  case (DialAddr a)
  then show ?thesis
    using gossip_lawful_quiet(3) [OF assms, of "sw_net s" a]
    by (auto simp: net_quiet_def split: option.splits prod.splits)
qed (use broadcast_request_seen [OF assms] publish_json_seen [OF assms] gossip_lawful_quiet(1,2) [OF assms] in
  \<open>simp_all add: split_beta publish_announce_def net_quiet_def Let_def\<close>)

lemma swarm_loop_seen:
  assumes "gossip_lawful L seen sent" "swarm_loop L W cfg caps is s = (rs, s')"
  shows "seen (sw_net s) \<subseteq> seen (sw_net s')"
  using assms(2)
proof (induction "is" arbitrary: s rs)
  case (Cons i "is")
  have step: "seen (sw_net s) \<subseteq> seen (sw_net s1)" if "swarm_select L W cfg caps i s = Some (r, s1)" for r s1
  proof (cases i)
    case AnnounceTick
    then show ?thesis
      using that announce_own_seen [OF assms(1), of s W caps] by (simp add: swarm_select_def)
  next
    case HeartbeatTick
    define s2 where "s2 = announce_own L W caps s"
    have "seen (sw_net s) \<subseteq> seen (sw_net s2)"
      unfolding s2_def by (rule announce_own_seen [OF assms(1)])
    then show ?thesis
      using HeartbeatTick that kad_bootstrap_quiet [OF assms(1), of "redial_bootstrap_nodes L cfg s2"]
        dial_all_quiet [OF assms(1), of s2 "net_bootstrap_nodes (cfg_network cfg)"]
      by (auto simp: swarm_select_def redial_bootstrap_nodes_def net_quiet_def s2_def)
  next
    case DelayElapsed
    then show ?thesis
      using that announce_own_seen [OF assms(1), of "s\<lparr>sw_delayed_announce := None\<rparr>" W caps]
      by (auto simp: swarm_select_def split: if_splits)
  next
    case (Swarm e)
    then show ?thesis
      using that swarm_event_seen [OF assms(1), of s W caps e] by (simp add: swarm_select_def)
  next
    case (Command cmd)
    then show ?thesis
      using that handle_command_seen [OF assms(1), of s W cmd] by (simp add: swarm_select_def)
  qed (use that in \<open>simp_all add: swarm_select_def\<close>)
  show ?case
    using Cons step by (auto split: option.splits prod.splits)
qed simp

text \<open>An announcement by command goes out once. It always carries the same sequence number, so once
  it has been published, the same capabilities announced again are a duplicate: the caller is told
  that all is well and nothing is sent, whatever the task did in between.\<close>

theorem repeat_announcement_silent:
  assumes "gossip_lawful L seen sent" "handle_command L W (AnnounceCapabilities caps) s = (r, s1)"
    and "sent (sw_net s1) \<noteq> sent (sw_net s)" "swarm_loop L W cfg own is s1 = (rs, s2)"
    and "handle_command L W (AnnounceCapabilities caps) s2 = (r', s3)"
  shows "r' = Replied (Okay ()) \<and> sent (sw_net s3) = sent (sw_net s2)"
proof -
  let ?p = "wr_announce W caps (one_shot_seq + 1)"
  have s1: "s1 = snd (publish_json L topic_node_announce ?p s)"
    and s3: "s3 = snd (publish_json L topic_node_announce ?p s2)" "r' = Replied (Okay ())"
    using assms(2,5) by (auto simp: publish_announce_def Let_def)
  obtain d where d: "?p = Some d"
    using s1 assms(3) by (cases ?p) (auto simp: publish_json_def)
  obtain e w where p: "lp_publish L topic_node_announce d (sw_net s) = (e, w)"
    by (cases "lp_publish L topic_node_announce d (sw_net s)")
  have w: "sw_net s1 = w"
    using s1 d p by (simp add: publish_json_def split: option.splits)
  then have "e = None"
    using gossip_lawful_publish(3) [OF assms(1) p] assms(3) by (cases e) (auto simp: net_quiet_def)
  then have "message_id L (lp_topic_hash L topic_node_announce) d \<in> seen (sw_net s1)"
    using gossip_lawful_publish(2) [OF assms(1) p] w by simp
  then have dup: "message_id L (lp_topic_hash L topic_node_announce) d \<in> seen (sw_net s2)"
    using swarm_loop_seen [OF assms(1,4)] by blast
  obtain e2 w2 where p2: "lp_publish L topic_node_announce d (sw_net s2) = (e2, w2)"
    by (cases "lp_publish L topic_node_announce d (sw_net s2)")
  then have "net_quiet seen sent (sw_net s2) w2" "sw_net s3 = w2"
    using gossip_lawful_publish(1,3) [OF assms(1) p2] dup s3 d
    by (auto simp: publish_json_def split: option.splits)
  with s3 show ?thesis
    by (simp add: net_quiet_def)
qed

theorem repeat_announcement_silent_witness:
  "\<exists>s1 s2 s3 :: (string \<times> bytes) list swarm.
     handle_command toy_libp2p toy_wire (AnnounceCapabilities toy_caps) (swarm_start []) = (Replied (Okay ()), s1) \<and>
     swarm_loop toy_libp2p toy_wire node_config_default toy_caps [AnnounceTick] s1 = ([NoReply], s2) \<and>
     handle_command toy_libp2p toy_wire (AnnounceCapabilities toy_caps) s2 = (Replied (Okay ()), s3) \<and>
     sw_net s1 \<noteq> [] \<and> sw_net s3 = sw_net s2"
proof -
  obtain s1 where s1: "handle_command toy_libp2p toy_wire (AnnounceCapabilities toy_caps) (swarm_start []) =
      (Replied (Okay ()), s1)"
    by simp
  have ne: "sw_net s1 \<noteq> []"
    using s1 by (auto simp: publish_announce_def publish_json_def toy_wire_def toy_libp2p_def toy_seen_def
        swarm_start_def Let_def)
  obtain s2 where s2: "swarm_loop toy_libp2p toy_wire node_config_default toy_caps [AnnounceTick] s1 = ([NoReply], s2)"
    by (simp add: swarm_select_def)
  obtain s3 where s3: "handle_command toy_libp2p toy_wire (AnnounceCapabilities toy_caps) s2 = (Replied (Okay ()), s3)"
    by simp
  have "sw_net s3 = sw_net s2"
    using repeat_announcement_silent [OF toy_gossip_lawful(1) s1 _ s2 s3] ne by simp
  with s1 s2 s3 ne show ?thesis
    by (intro exI [of _ s1] exI [of _ s2] exI [of _ s3]) simp
qed

end
