(* ===== verification/Daemon.thy ===== *)
theory Daemon
  imports P2p_Service Bidding Node_Api Payment_Channel
begin

text \<open>The daemon of \<^verbatim>\<open>crates/node/src/daemon.rs\<close>: the event loop that connects the network to
  the collectors of the HTTP handlers, the execution of a request another node sent, the bid flow,
  and the choice of the services from the configuration. A spawned task is an entry of a list; the
  functions it runs are defined here too.\<close>

section \<open>The event loop\<close>

text \<open>A bounded channel: \<^verbatim>\<open>try_send\<close> drops what does not fit.\<close>

record 'a channel =
  ch_items :: "'a list"
  ch_capacity :: nat

definition bounded_channel :: "nat \<Rightarrow> 'a channel" where
  "bounded_channel n = \<lparr>ch_items = [], ch_capacity = n\<rparr>"

definition chan_try_send :: "'a \<Rightarrow> 'a channel \<Rightarrow> 'a channel" where
  "chan_try_send a c = (if length (ch_items c) < ch_capacity c then c\<lparr>ch_items := ch_items c @ [a]\<rparr> else c)"

definition forward :: "'k \<Rightarrow> 'a \<Rightarrow> ('k \<rightharpoonup> 'a channel) \<Rightarrow> ('k \<rightharpoonup> 'a channel)" where
  "forward k a m = (case m k of None \<Rightarrow> m | Some c \<Rightarrow> m(k \<mapsto> chan_try_send a c))"

datatype daemon_task = ExecuteP2p inference_request | EvaluateBid inference_request

record daemon_state =
  dm_bid_collectors :: "uuid \<rightharpoonup> inference_bid channel"
  dm_response_collectors :: "string \<rightharpoonup> p2p_inference_chunk channel"
  dm_peers :: peer_store
  dm_tasks :: "daemon_task list"

text \<open>\<open>own\<close> is the node's peer id, empty if the swarm task does not answer; \<open>now\<close> the clock.\<close>

fun event_step :: "string \<Rightarrow> u64 \<Rightarrow> p2p_event \<Rightarrow> daemon_state \<Rightarrow> daemon_state" where
  "event_step own now (InferenceRequestReceived req) d =
     (case ir_target_peer_id req of
        Some target \<Rightarrow> if target = own then d\<lparr>dm_tasks := dm_tasks d @ [ExecuteP2p req]\<rparr> else d
      | None \<Rightarrow> d\<lparr>dm_tasks := dm_tasks d @ [EvaluateBid req]\<rparr>)"
| "event_step own now (BidReceived bid) d =
     d\<lparr>dm_bid_collectors := forward (ib_request_id bid) bid (dm_bid_collectors d)\<rparr>"
| "event_step own now (NodeAnnounceReceived caps) d = d\<lparr>dm_peers := peer_upsert now caps (dm_peers d)\<rparr>"
| "event_step own now (PeerConnected p) d = d"
| "event_step own now (PeerDisconnected p) d = d"
| "event_step own now (ReputationRootReceived from_peer root_hash) d = d"
| "event_step own now (InferenceChunkReceived response_id chunk) d =
     d\<lparr>dm_response_collectors := forward response_id chunk (dm_response_collectors d)\<rparr>"

definition event_loop :: "string \<Rightarrow> (u64 \<times> p2p_event) list \<Rightarrow> daemon_state \<Rightarrow> daemon_state" where
  "event_loop own = fold (\<lambda>(now, e). event_step own now e)"

section \<open>Running a request of another node\<close>

definition p2p_chunk :: "inference_request \<Rightarrow> string \<Rightarrow> inference_stream_chunk \<Rightarrow> p2p_inference_chunk" where
  "p2p_chunk req topic c =
     \<lparr>pc_request_id = ir_request_id req, pc_response_id = topic, pc_token = sk_token c,
      pc_is_final = sk_is_final c, pc_error = None\<rparr>"

definition error_chunk :: "inference_request \<Rightarrow> string \<Rightarrow> string \<Rightarrow> p2p_inference_chunk" where
  "error_chunk req topic err =
     \<lparr>pc_request_id = ir_request_id req, pc_response_id = topic, pc_token = [],
      pc_is_final = True, pc_error = Some err\<rparr>"

text \<open>A chunk that cannot be published is logged and skipped.\<close>

fun publish_stream ::
  "'w libp2p \<Rightarrow> p2p_wire \<Rightarrow> ('e \<Rightarrow> string) \<Rightarrow> inference_request \<Rightarrow> string \<Rightarrow>
     (inference_stream_chunk, 'e) res list \<Rightarrow> 'w service \<Rightarrow> 'w service" where
  "publish_stream L W show_error req topic [] svc = svc"
| "publish_stream L W show_error req topic (Inr c # rest) svc =
     (let svc' = snd (publish_infer_chunk L W topic (p2p_chunk req topic c) svc)
      in if sk_is_final c then svc' else publish_stream L W show_error req topic rest svc')"
| "publish_stream L W show_error req topic (Inl e # rest) svc =
     snd (publish_infer_chunk L W topic (error_chunk req topic (show_error e)) svc)"

definition p2p_context :: "string \<Rightarrow> context_window" where
  "p2p_context prompt = context_window_default\<lparr>cw_recent_messages :=
     [\<lparr>msg_role = User, msg_content = prompt, msg_timestamp = 0, msg_node_id = None, msg_token_count = 0\<rparr>]\<rparr>"

definition p2p_run :: "'e run_inference \<Rightarrow> inference_request \<Rightarrow> ((inference_stream_chunk, 'e) res list, 'e) res" where
  "p2p_run run req =
     (let prompt = (case ir_prompt_plain req of None \<Rightarrow> [] | Some p \<Rightarrow> p)
      in run (ir_model_preference req) (p2p_context prompt) prompt
           \<lparr>ip_max_tokens = ir_max_tokens req, ip_temperature = ir_temperature req,
            ip_request_id = ir_request_id req\<rparr>)"

definition execute_p2p_inference ::
  "'w libp2p \<Rightarrow> p2p_wire \<Rightarrow> ('e \<Rightarrow> string) \<Rightarrow> 'e run_inference \<Rightarrow> inference_request \<Rightarrow> 'w service \<Rightarrow> 'w service" where
  "execute_p2p_inference L W show_error run req svc =
     (case ir_response_topic req of
        None \<Rightarrow> svc
      | Some topic \<Rightarrow>
          (case p2p_run run req of
             Inl e \<Rightarrow> snd (publish_infer_chunk L W topic (error_chunk req topic (show_error e)) svc)
           | Inr stream \<Rightarrow> publish_stream L W show_error req topic stream svc))"

section \<open>Bidding on a request\<close>

text \<open>The counters of the scheduler are read once for the decision and once for the bid.\<close>

definition handle_inference_request ::
  "'w libp2p \<Rightarrow> p2p_wire \<Rightarrow> node_config \<Rightarrow> (string list, 'e) res \<Rightarrow> u64 \<times> u64 \<Rightarrow> u64 \<times> u64 \<Rightarrow> instant \<Rightarrow>
     inference_request \<Rightarrow> 'w service \<times> instant list \<Rightarrow> ('w service \<times> instant list) outcome" where
  "handle_inference_request L W cfg models decide build now req sw =
     (let (svc, wins) = sw in
      case local_peer_id L W svc of
        (Inl e, svc1) \<Rightarrow> Done (svc1, wins)
      | (Inr peer_id, svc1) \<Rightarrow>
          (case should_bid cfg models (fst decide) (snd decide) now req wins of
             (False, wins1) \<Rightarrow> Done (svc1, wins1)
           | (True, wins1) \<Rightarrow>
               (case build_bid cfg (fst build) (snd build) req peer_id of
                  Panic \<Rightarrow> Panic
                | Done bid \<Rightarrow> Done (snd (send_bid L W peer_id bid svc1), wins1))))"

section \<open>What the client receives\<close>

text \<open>A list without its repetitions, the first occurrences kept, and a stream up to its first final
  chunk.\<close>

fun fresh_only :: "('a \<Rightarrow> bool) \<Rightarrow> 'a list \<Rightarrow> 'a list" where
  "fresh_only known [] = []"
| "fresh_only known (x # xs) =
     (if known x then fresh_only known xs else x # fresh_only (\<lambda>y. known y \<or> y = x) xs)"

abbreviation keep_first :: "'a list \<Rightarrow> 'a list" where
  "keep_first \<equiv> fresh_only (\<lambda>x. False)"

fun until_final :: "inference_stream_chunk list \<Rightarrow> inference_stream_chunk list" where
  "until_final [] = []"
| "until_final (c # cs) = (if sk_is_final c then [c] else c # until_final cs)"

lemma fresh_only_set: "set (fresh_only known xs) = {x \<in> set xs. \<not> known x}"
  by (induction xs arbitrary: known) auto

lemma fresh_only_distinct: "distinct xs \<Longrightarrow> \<forall>x\<in>set xs. \<not> known x \<Longrightarrow> fresh_only known xs = xs"
proof (induction xs arbitrary: known)
  case (Cons x xs)
  then have "fresh_only (\<lambda>y. known y \<or> y = x) xs = xs"
    by (intro Cons.IH) auto
  with Cons.prems show ?case
    by simp
qed simp

lemma length_fresh_only: "length (fresh_only known xs) \<le> length xs"
  by (induction xs arbitrary: known) (simp_all add: le_SucI)

lemma length_until_final: "length (until_final cs) \<le> length cs"
  by (induction cs) simp_all

lemma set_until_final: "set (until_final cs) \<subseteq> set cs"
  by (induction cs) auto

text \<open>The receiving loop reads a list whose only final chunk is the last to its end.\<close>

lemma p2p_collect_fresh:
  "p2p_collect (fresh_only known (map (p2p_chunk req r) (until_final cs))) =
     map pc_token (fresh_only known (map (p2p_chunk req r) (until_final cs)))"
  by (induction cs arbitrary: known) (simp_all add: p2p_chunk_def)

text \<open>Publishing the chunks of a stream: what is not in the cache is sent, once.\<close>

lemma publish_chunk:
  assumes "gossip_lawful L seen sent" "mesh_up L seen" "wr_chunk W c = Some d"
    and "publish_infer_chunk L W topic c (Some s) = (r, svc)"
  shows "\<exists>s'. svc = Some s' \<and>
    (if message_id L (lp_topic_hash L topic_inference_any) d \<in> seen (sw_net s)
     then seen (sw_net s') = seen (sw_net s) \<and> sent (sw_net s') = sent (sw_net s)
     else seen (sw_net s') = insert (message_id L (lp_topic_hash L topic_inference_any) d) (seen (sw_net s)) \<and>
       sent (sw_net s') = sent (sw_net s) @ [(lp_topic_hash L topic_inference_any, d)])"
proof -
  obtain e w where p: "lp_publish L topic_inference_any d (sw_net s) = (e, w)"
    by (cases "lp_publish L topic_inference_any d (sw_net s)")
  have svc: "svc = Some (s\<lparr>sw_net := w\<rparr>)"
    using assms(3,4) p
    by (auto simp: publish_infer_chunk_def call_result_def publish_json_def split: option.splits)
  show ?thesis
  proof (cases "message_id L (lp_topic_hash L topic_inference_any) d \<in> seen (sw_net s)")
    case True
    then have "net_quiet seen sent (sw_net s) w"
      using gossip_lawful_publish(1,3) [OF assms(1) p] by simp
    with True svc show ?thesis
      by (simp add: net_quiet_def)
  next
    case False
    then have "e = None"
      using assms(2) p unfolding mesh_up_def by (metis fst_conv)
    with False svc show ?thesis
      using gossip_lawful_publish(2) [OF assms(1) p] by simp
  qed
qed

lemma publish_stream_sent:
  assumes "gossip_lawful L seen sent" "mesh_up L seen"
    and "\<And>c. c \<in> set cs \<Longrightarrow> wr_chunk W (p2p_chunk req topic c) = Some (enc (p2p_chunk req topic c))"
    and "\<And>c. c \<in> set cs \<Longrightarrow>
      message_id L (lp_topic_hash L topic_inference_any) (enc (p2p_chunk req topic c)) \<in> seen (sw_net s) \<longleftrightarrow>
        known (p2p_chunk req topic c)"
    and "inj_on (\<lambda>c. message_id L (lp_topic_hash L topic_inference_any) (enc c)) (p2p_chunk req topic ` set cs)"
  shows "\<exists>s'. publish_stream L W show_error req topic (map Inr cs) (Some s) = Some s' \<and>
    sent (sw_net s') = sent (sw_net s) @ map (\<lambda>c. (lp_topic_hash L topic_inference_any, enc c))
      (fresh_only known (map (p2p_chunk req topic) (until_final cs)))"
  using assms(3-5)
proof (induction cs arbitrary: s known)
  case (Cons c cs)
  let ?c = "p2p_chunk req topic c"
  let ?id = "\<lambda>c. message_id L (lp_topic_hash L topic_inference_any) (enc c)"
  obtain r svc where p: "publish_infer_chunk L W topic ?c (Some s) = (r, svc)"
    by (cases "publish_infer_chunk L W topic ?c (Some s)")
  have enc: "wr_chunk W ?c = Some (enc ?c)" and kn: "?id ?c \<in> seen (sw_net s) \<longleftrightarrow> known ?c"
    using Cons.prems(1,2) by simp_all
  obtain s1 where s1: "svc = Some s1"
    and eff: "if known ?c then seen (sw_net s1) = seen (sw_net s) \<and> sent (sw_net s1) = sent (sw_net s)
       else seen (sw_net s1) = insert (?id ?c) (seen (sw_net s)) \<and>
         sent (sw_net s1) = sent (sw_net s) @ [(lp_topic_hash L topic_inference_any, enc ?c)]"
    using publish_chunk [OF assms(1,2) enc p] kn by auto
  define known1 where "known1 = (if known ?c then known else (\<lambda>y. known y \<or> y = ?c))"
  have k1: "?id (p2p_chunk req topic c') \<in> seen (sw_net s1) \<longleftrightarrow> known1 (p2p_chunk req topic c')"
    if "c' \<in> set cs" for c'
  proof -
    have "?id (p2p_chunk req topic c') = ?id ?c \<longleftrightarrow> p2p_chunk req topic c' = ?c"
      using inj_on_eq_iff [OF Cons.prems(3), of "p2p_chunk req topic c'" ?c] that by simp
    moreover have "?id (p2p_chunk req topic c') \<in> seen (sw_net s) \<longleftrightarrow> known (p2p_chunk req topic c')"
      using Cons.prems(2) [of c'] that by simp
    ultimately show ?thesis
      using eff by (cases "known ?c") (simp_all only: known1_def if_True if_False simp_thms insert_iff, blast)
  qed
  have "inj_on ?id (p2p_chunk req topic ` set cs)"
    using Cons.prems(3) by (rule inj_on_subset) auto
  from Cons.IH [OF Cons.prems(1) k1 this]
  obtain s2 where s2: "publish_stream L W show_error req topic (map Inr cs) (Some s1) = Some s2"
    "sent (sw_net s2) = sent (sw_net s1) @ map (\<lambda>c. (lp_topic_hash L topic_inference_any, enc c))
      (fresh_only known1 (map (p2p_chunk req topic) (until_final cs)))"
    by auto
  show ?case
  proof (cases "sk_is_final c")
    case True
    then show ?thesis
      using p s1 eff by (cases "known ?c") simp_all
  next
    case False
    then show ?thesis
      using p s1 s2 eff by (cases "known ?c") (simp_all add: known1_def)
  qed
qed simp

text \<open>The daemon of the client works off the messages that arrive.\<close>

definition arrive ::
  "'w libp2p \<Rightarrow> p2p_wire \<Rightarrow> (string \<rightharpoonup> string) \<Rightarrow> string \<Rightarrow> u64 \<Rightarrow> (string \<times> bytes) list \<Rightarrow>
     daemon_state \<Rightarrow> daemon_state" where
  "arrive L W rt own now ms =
     event_loop own (map (Pair now) (concat (map (\<lambda>(t, p).
       dispatch_gossipsub_message L W \<lparr>gm_topic = t, gm_data = p, gm_source = None\<rparr> rt) ms)))"

lemma arrive_chunks:
  assumes "inj (lp_topic_hash L)" "wire_lawful W" "rt (lp_topic_hash L topic_inference_any) = None"
    and "\<forall>c\<in>set cs. wr_chunk W c = Some (enc c) \<and> pc_response_id c = r"
    and "dm_response_collectors d r = Some ch" "length (ch_items ch) + length cs \<le> ch_capacity ch"
  shows "dm_response_collectors
      (arrive L W rt own now (map (\<lambda>c. (lp_topic_hash L topic_inference_any, enc c)) cs) d) r =
    Some (ch\<lparr>ch_items := ch_items ch @ cs\<rparr>)"
  using assms(4-6)
proof (induction cs arbitrary: d ch)
  case (Cons c cs)
  have "wr_un_chunk W (enc c) = Some c" "pc_response_id c = r"
    using assms(2) Cons.prems(1) by (auto simp: wire_lawful_def)
  then have ev: "dispatch_gossipsub_message L W
      \<lparr>gm_topic = lp_topic_hash L topic_inference_any, gm_data = enc c, gm_source = None\<rparr> rt =
      [InferenceChunkReceived r c]"
    using assms(3) known_topic_simps(1) [OF assms(1)]
    by (simp add: dispatch_gossipsub_message_def decode_inference_def)
  define d1 where "d1 = event_step own now (InferenceChunkReceived r c) d"
  have "dm_response_collectors d1 r = Some (ch\<lparr>ch_items := ch_items ch @ [c]\<rparr>)"
    using Cons.prems(2,3) by (simp add: d1_def forward_def chan_try_send_def)
  from Cons.IH [OF _ this] show ?case
    using ev Cons.prems by (simp add: arrive_def event_loop_def d1_def)
qed (simp add: arrive_def event_loop_def)

section \<open>Properties\<close>

text \<open>C26: an answer over the network loses its repeated tokens. The worker publishes each chunk of the
  stream under an id computed from topic and payload, so a chunk equal to an earlier one is refused
  as a duplicate; the client that waits for this response collects the tokens of the model up to
  the first final chunk with every repetition left out.\<close>

theorem p2p_tokens_without_repeats:
  assumes "gossip_lawful L seen sent" "mesh_up L seen" "wire_lawful W" "inj (lp_topic_hash L)"
    and "ir_response_topic req = Some r" "p2p_run run req = Inr (map Inr cs)"
    and "\<And>c. c \<in> set cs \<Longrightarrow> wr_chunk W (p2p_chunk req r c) = Some (enc (p2p_chunk req r c))"
    and "inj_on (\<lambda>c. message_id L (lp_topic_hash L topic_inference_any) (enc c)) (p2p_chunk req r ` set cs)"
    and "\<And>c. c \<in> set cs \<Longrightarrow>
      message_id L (lp_topic_hash L topic_inference_any) (enc (p2p_chunk req r c)) \<notin> seen (sw_net s)"
    and "rt (lp_topic_hash L topic_inference_any) = None"
    and "dm_response_collectors d r = Some (bounded_channel n)" "length cs \<le> n"
  shows "\<exists>s' ms ch. execute_p2p_inference L W show_error run req (Some s) = Some s' \<and>
    sent (sw_net s') = sent (sw_net s) @ ms \<and>
    dm_response_collectors (arrive L W rt own now ms d) r = Some ch \<and>
    p2p_collect (ch_items ch) = map pc_token (keep_first (map (p2p_chunk req r) (until_final cs)))"
proof -
  let ?cs = "keep_first (map (p2p_chunk req r) (until_final cs))"
  obtain s' where s': "publish_stream L W show_error req r (map Inr cs) (Some s) = Some s'"
    "sent (sw_net s') = sent (sw_net s) @ map (\<lambda>c. (lp_topic_hash L topic_inference_any, enc c)) ?cs"
    using publish_stream_sent [OF assms(1,2,7) _ assms(8), where known = "\<lambda>c. False" and s = s] assms(9) by auto
  have "set ?cs \<subseteq> p2p_chunk req r ` set cs"
    using set_until_final [of cs] by (auto simp: fresh_only_set)
  then have "\<forall>c\<in>set ?cs. wr_chunk W c = Some (enc c) \<and> pc_response_id c = r"
    using assms(7) by (fastforce simp: p2p_chunk_def)
  moreover have "length ?cs \<le> n"
    using length_fresh_only [of "\<lambda>c. False" "map (p2p_chunk req r) (until_final cs)"] length_until_final [of cs]
      assms(12) by simp
  ultimately have "dm_response_collectors
      (arrive L W rt own now (map (\<lambda>c. (lp_topic_hash L topic_inference_any, enc c)) ?cs) d) r =
      Some ((bounded_channel n)\<lparr>ch_items := ch_items (bounded_channel n) @ ?cs\<rparr>)"
    by (intro arrive_chunks [where rt = rt, OF assms(4,3,10)] assms(11)) (simp_all add: bounded_channel_def)
  moreover have "execute_p2p_inference L W show_error run req (Some s) = Some s'"
    using s'(1) assms(5,6) by (simp add: execute_p2p_inference_def)
  ultimately show ?thesis
    using s'(2) p2p_collect_fresh [of "\<lambda>c. False" req r cs] by (auto simp: bounded_channel_def)
qed

text \<open>A model that says \<open>a\<close>, \<open>b\<close>, \<open>a\<close> and ends.\<close>

definition toy_tokens :: "inference_stream_chunk list" where
  "toy_tokens = map (\<lambda>(t, final). \<lparr>sk_request_id = 5, sk_chunk_index = 0, sk_token = t, sk_is_final = final,
     sk_tokens_generated = 0, sk_finish_reason = None\<rparr>) [(''a'', False), (''b'', False), (''a'', False), ([], True)]"

definition toy_daemon :: daemon_state where
  "toy_daemon = \<lparr>dm_bid_collectors = Map.empty, dm_response_collectors = [''r'' \<mapsto> bounded_channel 256],
     dm_peers = peer_with_default_ttl, dm_tasks = []\<rparr>"

definition toy_enc :: "p2p_inference_chunk \<Rightarrow> bytes" where
  "toy_enc c = 1 # (if pc_is_final c then 1 else 0) # str_bytes (pc_token c)"

lemma toy_chunks: "p2p_chunk toy_p2p_request ''r'' ` set toy_tokens =
    {toy_net_chunk ''a'' False, toy_net_chunk ''b'' False, toy_net_chunk [] True}"
  by (auto simp: toy_tokens_def p2p_chunk_def toy_net_chunk_def toy_p2p_request_def)

lemma toy_enc_inj:
  "inj_on (\<lambda>c. message_id toy_libp2p (lp_topic_hash toy_libp2p topic_inference_any) (toy_enc c))
    (p2p_chunk toy_p2p_request ''r'' ` set toy_tokens)"
  unfolding toy_chunks
  by (simp add: inj_on_def toy_enc_def toy_net_chunk_def toy_hash_def topic_defs str_bytes_def of_be_bytes_Cons)

theorem p2p_tokens_without_repeats_witness:
  "\<exists>s' ch. execute_p2p_inference toy_libp2p toy_wire (\<lambda>e. e) (\<lambda>m cw p ps. Inr (map Inr toy_tokens))
      toy_p2p_request (Some (swarm_start [])) = Some s' \<and>
    dm_response_collectors (arrive toy_libp2p toy_wire Map.empty ''c'' 0 (sw_net s') toy_daemon) ''r'' = Some ch \<and>
    p2p_collect (ch_items ch) = [''a'', ''b'', []]"
proof -
  have run: "p2p_run (\<lambda>m cw p ps. Inr (map Inr toy_tokens)) toy_p2p_request = Inr (map Inr toy_tokens)"
    by (simp add: p2p_run_def Let_def)
  have enc: "wr_chunk toy_wire (p2p_chunk toy_p2p_request ''r'' c) = Some (toy_enc (p2p_chunk toy_p2p_request ''r'' c))"
    for c
    by (simp add: toy_wire_def p2p_chunk_def toy_net_chunk_def toy_enc_def toy_p2p_request_def)
  have kf: "map pc_token (keep_first (map (p2p_chunk toy_p2p_request ''r'') (until_final toy_tokens))) = [''a'', ''b'', []]"
    by (simp add: toy_tokens_def p2p_chunk_def)
  show ?thesis
    using p2p_tokens_without_repeats [OF toy_gossip_lawful toy_wire_lawful toy_topics _ run enc toy_enc_inj,
        of "swarm_start []" "Map.empty" toy_daemon 256 "\<lambda>e. e" "''c''" 0] kf
    by (auto simp: toy_daemon_def toy_p2p_request_def toy_tokens_def)
qed

end
