(* ===== verification/Arc_Gateway.thy ===== *)
theory Arc_Gateway
  imports Settlement_Adapter
begin

text \<open>The Circle nanopayment adapter of \<^verbatim>\<open>crates/settlement/src/arc_gateway.rs\<close>. The HTTP client
  is a parameter: a POST with the key of the operator answers with nothing, a failure status, or a
  success whose body may not parse; \<open>gw_rpc\<close> posts without a key and answers with the JSON value of
  the reply, if any.\<close>

record arc_gateway_config =
  ag_circle_api_key :: string
  ag_usdc_address :: string
  ag_node_address :: string
  ag_price_per_1k :: u64
  ag_rpc_url :: string

section \<open>Replies\<close>

record circle_payment =
  cp_id :: string

record circle_payment_data =
  cd_payment :: "circle_payment option"

record circle_api_response =
  cr_data :: "circle_payment_data option"

datatype circle_reply = Unreachable | BadStatus nat string | Unparsable | Parsed circle_api_response

record 'w gateway_http =
  gw_post :: "string \<Rightarrow> string \<Rightarrow> json \<Rightarrow> 'w \<Rightarrow> circle_reply \<times> 'w"
  gw_rpc :: "string \<Rightarrow> json \<Rightarrow> 'w \<Rightarrow> json option option \<times> 'w"
  gw_uuid_str :: "uuid \<Rightarrow> string"

section \<open>Payments\<close>

definition api_base :: string where
  "api_base = ''https://api.circle.com/v1/w3s''"

definition bearer :: "arc_gateway_config \<Rightarrow> string" where
  "bearer cfg = ''Bearer '' @ ag_circle_api_key cfg"

definition payment_body :: "'w gateway_http \<Rightarrow> arc_gateway_config \<Rightarrow> uuid \<Rightarrow> string \<Rightarrow> json" where
  "payment_body H cfg request_id amount_usdc =
     JObj [(''amount'', JObj [(''amount'', JStr amount_usdc), (''currency'', JStr ''USD'')]),
           (''destinationAddress'', JStr (ag_node_address cfg)),
           (''networkId'', JStr ''arc-testnet''),
           (''idempotencyKey'', JStr (gw_uuid_str H request_id))]"

definition create_payment ::
  "'w gateway_http \<Rightarrow> arc_gateway_config \<Rightarrow> uuid \<Rightarrow> string \<Rightarrow> 'w \<Rightarrow> string option \<times> 'w" where
  "create_payment H cfg request_id amount_usdc w =
     (case gw_post H (api_base @ ''/payments'') (bearer cfg) (payment_body H cfg request_id amount_usdc) w of
        (Parsed env, w') \<Rightarrow>
          (Some (case Option.bind (cr_data env) cd_payment of
                   Some p \<Rightarrow> cp_id p
                 | None \<Rightarrow> ''arc-gw-'' @ gw_uuid_str H request_id), w')
      | (_, w') \<Rightarrow> (None, w'))"

text \<open>\<^verbatim>\<open>{:06}\<close>.\<close>

definition pad6 :: "nat \<Rightarrow> string" where
  "pad6 n = (let d = decimal n in replicate (6 - length d) (CHR ''0'') @ d)"

text \<open>The second argument, the amount, is not used.\<close>

definition nanox_to_usdc_str :: "u64 \<Rightarrow> u64 \<Rightarrow> string" where
  "nanox_to_usdc_str price_per_1k amount_nanox =
     (let micro_usdc = max price_per_1k 1;
          whole = micro_usdc div 1000000;
          frac = micro_usdc mod 1000000
      in decimal (unat whole) @ ''.'' @ pad6 (unat frac))"

section \<open>The adapter\<close>

definition arc_capabilities :: settlement_capabilities where
  "arc_capabilities = \<lparr>cap_has_escrow = True, cap_has_token = True, cap_is_trustless = False,
     cap_finality_seconds = 1, cap_min_payment_nanox = 1, cap_accepted_tokens = [''usdc'']\<rparr>"

definition arc_lock_funds ::
  "'w gateway_http \<Rightarrow> arc_gateway_config \<Rightarrow> escrow_params \<Rightarrow> ('w, escrow_handle) settle" where
  "arc_lock_funds H cfg params w =
     (let usdc_str = nanox_to_usdc_str (ag_price_per_1k cfg) (ep_amount_nanox params);
          (created, w') = create_payment H cfg (ep_request_id params) usdc_str w;
          payment_id = (case created of Some i \<Rightarrow> i | None \<Rightarrow> [])
      in (Inr \<lparr>eh_settlement_id = ''arc-gateway'', eh_request_id = ep_request_id params,
               eh_amount_nanox = ep_amount_nanox params,
               eh_chain_tx_id = (if payment_id = [] then None else Some payment_id),
               eh_payload = JObj [(''payment_id'', JStr payment_id)]\<rparr>, w'))"

definition arc_release_funds ::
  "crypto_env \<Rightarrow> 'w gateway_http \<Rightarrow> arc_gateway_config \<Rightarrow> escrow_handle \<Rightarrow> proof_of_inference \<Rightarrow> ('w, unit) settle" where
  "arc_release_funds C H cfg h p w =
     (let payment_id = (case Option.bind (json_get ''payment_id'' (eh_payload h)) as_str of
                          Some i \<Rightarrow> i | None \<Rightarrow> [])
      in if payment_id = [] then (Inr (), w)
         else (Inr (), snd (gw_post H (api_base @ ''/payments/'' @ payment_id @ ''/confirm'') (bearer cfg)
                 (JObj [(''proofHash'', JStr (hex_encode C (poi_id C p)))]) w)))"

definition arc_get_balance ::
  "'w gateway_http \<Rightarrow> arc_gateway_config \<Rightarrow> string \<Rightarrow> ('w, nanox) settle" where
  "arc_get_balance H cfg address w =
     (case gw_rpc H (ag_rpc_url cfg)
             (rpc_body ''eth_getBalance'' (JArr [JStr address, JStr ''latest''])) w of
        (Some (Some val), w') \<Rightarrow>
          (case Option.bind (json_get ''result'' val) as_str of
             None \<Rightarrow> (Inr (- 1), w')
           | Some hex_str \<Rightarrow>
               (case from_str_radix16 64 (case strip_prefix ''0x'' hex_str of Some t \<Rightarrow> t | None \<Rightarrow> hex_str) of
                  None \<Rightarrow> (Inr (- 1), w')
                | Some n \<Rightarrow> (Inr (word_of_nat n), w')))
      | (_, w') \<Rightarrow> (Inr (- 1), w'))"

definition arc_anchor_hash :: "bytes \<Rightarrow> string \<Rightarrow> ('w, string option) settle" where
  "arc_anchor_hash hash label w = (Inr None, w)"

definition arc_adapter :: "crypto_env \<Rightarrow> 'w gateway_http \<Rightarrow> arc_gateway_config \<Rightarrow> 'w adapter" where
  "arc_adapter C H cfg = \<lparr>ad_id = ''arc-gateway'', ad_capabilities = arc_capabilities,
     ad_lock = arc_lock_funds H cfg, ad_release = arc_release_funds C H cfg,
     ad_refund = default_refund, ad_balance = arc_get_balance H cfg, ad_anchor = arc_anchor_hash\<rparr>"

interpretation arc: settlement_adapter "arc_adapter C H cfg" "\<lambda>w. ()"
  for C H cfg
  by unfold_locales (auto simp: arc_adapter_def arc_lock_funds_def Let_def split: prod.splits)

section \<open>The amount\<close>

lemma pad6: "n < 10 ^ 6 \<Longrightarrow> length (pad6 n) = 6 \<and> digits_value (pad6 n) = n"
  using length_decimal [of n 6] by (simp add: pad6_def digits_value_zeros Let_def)

section \<open>Properties\<close>

text \<open>The amount asked of Circle is exact and fixed. It is the price of a thousand tokens in
  millionths, at least one, written with six decimals; the amount of the job plays no part.\<close>

theorem arc_amount_exact:
  "\<exists>whole frac. nanox_to_usdc_str price amount = whole @ ''.'' @ frac \<and> length frac = 6 \<and>
    digits_value whole * 10 ^ 6 + digits_value frac = max (unat price) 1 \<and>
    (\<forall>amount'. nanox_to_usdc_str price amount' = nanox_to_usdc_str price amount)"
proof -
  let ?m = "max price 1"
  have m: "unat ?m = max (unat price) 1"
    by (simp add: max_def word_le_nat_alt)
  have parts: "unat (?m div 1000000) = unat ?m div 10 ^ 6" "unat (?m mod 1000000) = unat ?m mod 10 ^ 6"
    by (simp_all add: unat_div unat_mod)
  have frac: "length (pad6 (unat ?m mod 10 ^ 6)) = 6"
      "digits_value (pad6 (unat ?m mod 10 ^ 6)) = unat ?m mod 10 ^ 6"
    using pad6 [of "unat ?m mod 10 ^ 6"] by simp_all
  have "digits_value (decimal (unat ?m div 10 ^ 6)) * 10 ^ 6 + digits_value (pad6 (unat ?m mod 10 ^ 6)) =
      max (unat price) 1"
    unfolding frac(2) digits_value_decimal m [symmetric] by (rule div_mult_mod_eq)
  moreover have "nanox_to_usdc_str price a = decimal (unat ?m div 10 ^ 6) @ ''.'' @ pad6 (unat ?m mod 10 ^ 6)"
    for a
    by (simp only: nanox_to_usdc_str_def Let_def parts)
  ultimately show ?thesis
    by (intro exI [of _ "decimal (unat ?m div 10 ^ 6)"] exI [of _ "pad6 (unat ?m mod 10 ^ 6)"])
      (use frac(1) in \<open>simp only: simp_thms\<close>)
qed

text \<open>An unreachable gateway settles all the same. When the payment cannot be created the lock
  succeeds for the full amount without a transaction, and the release after it succeeds without
  calling anybody, although the adapter advertises an escrow.\<close>

theorem arc_gateway_serves_unpaid:
  assumes "create_payment H cfg (ep_request_id p)
      (nanox_to_usdc_str (ag_price_per_1k cfg) (ep_amount_nanox p)) w = (None, w1)"
  shows "\<exists>h. ad_lock (arc_adapter C H cfg) p w = (Inr h, w1) \<and> eh_amount_nanox h = ep_amount_nanox p \<and>
    eh_chain_tx_id h = None \<and> ad_release (arc_adapter C H cfg) h prf w2 = (Inr (), w2) \<and>
    cap_has_escrow (ad_capabilities (arc_adapter C H cfg))"
  using assms by (simp add: arc_adapter_def arc_lock_funds_def arc_release_funds_def arc_capabilities_def)

theorem arc_gateway_serves_unpaid_witness:
  "\<forall>C. \<exists>h. ad_lock (arc_adapter C \<lparr>gw_post = (\<lambda>u b j w. (Unreachable, w)), gw_rpc = (\<lambda>u j w. (None, w)),
       gw_uuid_str = (\<lambda>i. ''id'')\<rparr> \<lparr>ag_circle_api_key = ''k'', ag_usdc_address = [], ag_node_address = [],
       ag_price_per_1k = 1, ag_rpc_url = ''u''\<rparr>)
     \<lparr>ep_request_id = 1, ep_amount_nanox = 5, ep_client_address = ''c'', ep_node_address = ''n'',
      ep_token_id = ''usdc''\<rparr> () = (Inr h, ()) \<and> eh_amount_nanox h = 5 \<and> eh_chain_tx_id h = None"
proof
  fix C
  let ?H = "\<lparr>gw_post = (\<lambda>u b j w. (Unreachable, w)), gw_rpc = (\<lambda>u j w. (None, w)),
       gw_uuid_str = (\<lambda>i. ''id'')\<rparr> :: unit gateway_http"
  let ?cfg = "\<lparr>ag_circle_api_key = ''k'', ag_usdc_address = [], ag_node_address = [],
       ag_price_per_1k = 1, ag_rpc_url = ''u''\<rparr>"
  let ?p = "\<lparr>ep_request_id = 1, ep_amount_nanox = 5, ep_client_address = ''c'', ep_node_address = ''n'',
      ep_token_id = ''usdc''\<rparr>"
  have "create_payment ?H ?cfg (ep_request_id ?p)
      (nanox_to_usdc_str (ag_price_per_1k ?cfg) (ep_amount_nanox ?p)) () = (None, ())"
    by (simp add: create_payment_def)
  from arc_gateway_serves_unpaid [OF this, of C] obtain h where
    "ad_lock (arc_adapter C ?H ?cfg) ?p () = (Inr h, ())" "eh_amount_nanox h = ep_amount_nanox ?p"
    "eh_chain_tx_id h = None"
    by blast
  then show "\<exists>h. ad_lock (arc_adapter C ?H ?cfg) ?p () = (Inr h, ()) \<and> eh_amount_nanox h = 5 \<and> eh_chain_tx_id h = None"
    by (intro exI [of _ h]) simp
qed

end
