(* ===== verification/Solana_Wire.thy ===== *)
theory Solana_Wire
  imports Rust_String "HOL-Library.Product_Lexorder" "HOL-Library.Monad_Syntax"
begin

text \<open>The wire format of \<^verbatim>\<open>crates/settlement/src/solana.rs\<close>: derived addresses, compact lengths, the
  transaction builder and the instruction data, and a reference decoder of messages written from
  the format's rules. SHA-256, the curve test, base58, base64, hex and Ed25519 are the fields of a
  parameter record; \<open>so_public\<close> and \<open>so_sign\<close> take the seed of a key.\<close>

record solana_crypto =
  so_sha256 :: "bytes \<Rightarrow> bytes"
  so_on_curve :: "bytes \<Rightarrow> bool"
  so_b58_decode :: "string \<Rightarrow> bytes option"
  so_b58_encode :: "bytes \<Rightarrow> string"
  so_hex_decode :: "string \<Rightarrow> bytes option"
  so_hex_encode :: "bytes \<Rightarrow> string"
  so_base64 :: "bytes \<Rightarrow> string"
  so_public :: "bytes \<Rightarrow> bytes"
  so_sign :: "bytes \<Rightarrow> bytes \<Rightarrow> bytes"

section \<open>Derived addresses\<close>

definition seed_state :: bytes where
  "seed_state = str_bytes ''state''"

definition seed_escrow :: bytes where
  "seed_escrow = str_bytes ''escrow''"

definition seed_score :: bytes where
  "seed_score = str_bytes ''score''"

definition system_program :: bytes where
  "system_program = replicate 32 0"

definition pda_hash :: "solana_crypto \<Rightarrow> bytes list \<Rightarrow> bytes \<Rightarrow> u8 \<Rightarrow> bytes" where
  "pda_hash Y seeds program_id nonce =
     so_sha256 Y (concat seeds @ [nonce] @ program_id @ str_bytes ''ProgramDerivedAddress'')"

text \<open>The loop over the nonces below a bound, downwards.\<close>

fun pda_loop :: "solana_crypto \<Rightarrow> bytes list \<Rightarrow> bytes \<Rightarrow> nat \<Rightarrow> (bytes \<times> u8) outcome" where
  "pda_loop Y seeds program_id 0 = Panic"
| "pda_loop Y seeds program_id (Suc n) =
     (let nonce = word_of_nat n;
          hash = pda_hash Y seeds program_id nonce
      in if \<not> so_on_curve Y hash then Done (hash, nonce) else pda_loop Y seeds program_id n)"

definition find_pda :: "solana_crypto \<Rightarrow> bytes list \<Rightarrow> bytes \<Rightarrow> (bytes \<times> u8) outcome" where
  "find_pda Y seeds program_id = pda_loop Y seeds program_id 256"

section \<open>Compact lengths\<close>

definition compact_u16 :: "nat \<Rightarrow> bytes" where
  "compact_u16 k =
     (let n = word_of_nat k :: u16 in
      if n < 0x80 then [ucast n]
      else if n < 0x4000 then [ucast ((n AND 0x7F) OR 0x80), ucast (drop_bit 7 n)]
      else [ucast ((n AND 0x7F) OR 0x80), ucast ((drop_bit 7 n AND 0x7F) OR 0x80), ucast (drop_bit 14 n)])"

section \<open>Transactions\<close>

record ix_account =
  ia_pubkey :: bytes
  ia_writable :: bool
  ia_signer :: bool

record sol_ix =
  sx_program_id :: bytes
  sx_accounts :: "ix_account list"
  sx_data :: bytes

text \<open>An entry of the account table: the key, whether it is writable, whether it signs.\<close>

type_synonym account_meta = "bytes \<times> bool \<times> bool"

fun ensure_account :: "account_meta list \<Rightarrow> bytes \<Rightarrow> bool \<Rightarrow> bool \<Rightarrow> account_meta list" where
  "ensure_account [] pk w s = [(pk, w, s)]"
| "ensure_account ((k, ew, es) # m) pk w s =
     (if k = pk then (k, ew \<or> w, es \<or> s) # m else (k, ew, es) # ensure_account m pk w s)"

definition collect_accounts :: "bytes \<Rightarrow> sol_ix list \<Rightarrow> account_meta list" where
  "collect_accounts payer instructions =
     foldl (\<lambda>m ix. foldl (\<lambda>m acc. ensure_account m (ia_pubkey acc) (ia_writable acc) (ia_signer acc))
              (ensure_account m (sx_program_id ix) False False) (sx_accounts ix))
       (ensure_account [] payer True True) instructions"

definition meta_key :: "account_meta \<Rightarrow> u8 \<times> u8" where
  "meta_key a = (case a of (_, w, s) \<Rightarrow> (of_bool (\<not> s), of_bool (\<not> w)))"

definition account_table :: "bytes \<Rightarrow> sol_ix list \<Rightarrow> account_meta list" where
  "account_table payer instructions = sort_key meta_key (collect_accounts payer instructions)"

definition message_header :: "account_meta list \<Rightarrow> bytes" where
  "message_header m =
     [word_of_nat (length (filter (\<lambda>(_, w, s). s) m)),
      word_of_nat (length (filter (\<lambda>(_, w, s). s \<and> \<not> w) m)),
      word_of_nat (length (filter (\<lambda>(_, w, s). \<not> s \<and> \<not> w) m))]"

fun position :: "bytes \<Rightarrow> account_meta list \<Rightarrow> nat option" where
  "position pk [] = None"
| "position pk (a # m) = (if fst a = pk then Some 0 else map_option Suc (position pk m))"

definition idx_of :: "account_meta list \<Rightarrow> bytes \<Rightarrow> u8 outcome" where
  "idx_of m pk = (case position pk m of None \<Rightarrow> Panic | Some i \<Rightarrow> Done (word_of_nat i))"

fun map_outcome :: "('a \<Rightarrow> 'b outcome) \<Rightarrow> 'a list \<Rightarrow> 'b list outcome" where
  "map_outcome f [] = Done []"
| "map_outcome f (x # xs) =
     (case f x of
        Panic \<Rightarrow> Panic
      | Done y \<Rightarrow> (case map_outcome f xs of Panic \<Rightarrow> Panic | Done ys \<Rightarrow> Done (y # ys)))"

definition encode_ix :: "account_meta list \<Rightarrow> sol_ix \<Rightarrow> bytes outcome" where
  "encode_ix m ix =
     (case idx_of m (sx_program_id ix) of
        Panic \<Rightarrow> Panic
      | Done p \<Rightarrow>
          (case map_outcome (\<lambda>acc. idx_of m (ia_pubkey acc)) (sx_accounts ix) of
             Panic \<Rightarrow> Panic
           | Done is \<Rightarrow>
               Done ([p] @ compact_u16 (length (sx_accounts ix)) @ is @
                 compact_u16 (length (sx_data ix)) @ sx_data ix)))"

definition encode_message :: "account_meta list \<Rightarrow> sol_ix list \<Rightarrow> bytes \<Rightarrow> bytes outcome" where
  "encode_message m instructions recent_blockhash =
     (case map_outcome (encode_ix m) instructions of
        Panic \<Rightarrow> Panic
      | Done encoded \<Rightarrow>
          Done (message_header m @ compact_u16 (length m) @ concat (map fst m) @ recent_blockhash @
            compact_u16 (length instructions) @ concat encoded))"

definition build_transaction ::
  "solana_crypto \<Rightarrow> sol_ix list \<Rightarrow> bytes \<Rightarrow> bytes \<Rightarrow> bytes \<Rightarrow> bytes outcome" where
  "build_transaction Y instructions payer seed recent_blockhash =
     (case encode_message (account_table payer instructions) instructions recent_blockhash of
        Panic \<Rightarrow> Panic
      | Done msg \<Rightarrow> Done (compact_u16 1 @ so_sign Y seed msg @ msg))"

section \<open>Instruction data\<close>

definition disc :: "solana_crypto \<Rightarrow> string \<Rightarrow> bytes" where
  "disc Y name = take 8 (so_sha256 Y (str_bytes (''global:'' @ name)))"

definition encode_lock_escrow :: "solana_crypto \<Rightarrow> bytes \<Rightarrow> u64 \<Rightarrow> i64 \<Rightarrow> bytes" where
  "encode_lock_escrow Y request_id amount timeout =
     disc Y ''lock_escrow'' @ request_id @ le_bytes 8 (unat amount) @ le_bytes 8 (unat timeout)"

definition encode_release_escrow :: "solana_crypto \<Rightarrow> bytes \<Rightarrow> bytes" where
  "encode_release_escrow Y proof_hash = disc Y ''release_escrow'' @ proof_hash"

definition encode_refund_escrow :: "solana_crypto \<Rightarrow> bytes" where
  "encode_refund_escrow Y = disc Y ''refund_escrow''"

definition encode_submit_proof :: "solana_crypto \<Rightarrow> bytes \<Rightarrow> u32 \<Rightarrow> u32 \<Rightarrow> u64 \<Rightarrow> bytes" where
  "encode_submit_proof Y proof_hash output_tokens latency_ms lamports =
     disc Y ''submit_proof'' @ proof_hash @ le_bytes 4 (unat output_tokens) @
     le_bytes 4 (unat latency_ms) @ le_bytes 8 (unat lamports)"

definition encode_anchor_merkle_root :: "solana_crypto \<Rightarrow> bytes \<Rightarrow> bytes \<Rightarrow> bytes" where
  "encode_anchor_merkle_root Y root_hash label = disc Y ''anchor_merkle_root'' @ root_hash @ label"

section \<open>Derived addresses: facts\<close>

lemma pda_loop_Done:
  "pda_loop Y seeds pid n = Done (h, b) \<Longrightarrow>
     \<exists>k<n. b = word_of_nat k \<and> h = pda_hash Y seeds pid b \<and> \<not> so_on_curve Y h \<and>
       (\<forall>j. k < j \<longrightarrow> j < n \<longrightarrow> so_on_curve Y (pda_hash Y seeds pid (word_of_nat j)))"
proof (induction n)
  case (Suc n)
  show ?case
  proof (cases "so_on_curve Y (pda_hash Y seeds pid (word_of_nat n))")
    case True
    then have "pda_loop Y seeds pid n = Done (h, b)"
      using Suc.prems by (simp add: Let_def)
    then obtain k where k: "k < n" "b = word_of_nat k" "h = pda_hash Y seeds pid b" "\<not> so_on_curve Y h"
      "\<forall>j. k < j \<longrightarrow> j < n \<longrightarrow> so_on_curve Y (pda_hash Y seeds pid (word_of_nat j))"
      using Suc.IH by blast
    with True show ?thesis
      by (metis less_SucI less_antisym)
  next
    case False
    then show ?thesis
      using Suc.prems by (intro exI [of _ n]) (auto simp: Let_def)
  qed
qed simp

lemma pda_loop_Panic:
  "pda_loop Y seeds pid n = Panic \<longleftrightarrow>
     (\<forall>j<n. so_on_curve Y (pda_hash Y seeds pid (word_of_nat j)))"
  by (induction n) (auto simp: Let_def less_Suc_eq)


section \<open>Compact lengths: facts\<close>

text \<open>The reader of the format: seven bits a byte, low ones first, at most three bytes.\<close>

fun read_compact :: "bytes \<Rightarrow> (nat \<times> bytes) option" where
  "read_compact [] = None"
| "read_compact (b # bs) =
     (if b < 0x80 then Some (unat b, bs)
      else case bs of
        [] \<Rightarrow> None
      | c # cs \<Rightarrow>
          if c < 0x80 then Some (unat b - 128 + 128 * unat c, cs)
          else case cs of
            [] \<Rightarrow> None
          | d # ds \<Rightarrow> if d < 4 then Some (unat b - 128 + 128 * (unat c - 128) + 16384 * unat d, ds) else None)"

lemma unat_low_bits: "unat ((n AND 0x7F :: u16) OR 0x80) = unat n mod 128 + 128"
proof -
  have "(n AND mask 7) OR 2 ^ 7 = (n AND mask 7) + (2 ^ 7 :: u16)"
    by (rule disjunctive_add [symmetric]) (simp only: bit_and_iff bit_mask_iff bit_exp_iff, auto)
  then have "(n AND 0x7F) OR 0x80 = (n AND 0x7F) + (0x80 :: u16)"
    by (simp add: mask_numeral)
  moreover have "n AND 0x7F = take_bit 7 n"
    by (simp add: take_bit_eq_mask mask_numeral)
  moreover have "unat (take_bit 7 n) = unat n mod 128"
    by (subst unsigned_take_bit_eq) (simp add: take_bit_eq_mod)
  ultimately show ?thesis
    by (simp add: unat_word_ariths)
qed

lemma unat_ucast_u8: "unat (n :: u16) < 256 \<Longrightarrow> unat (ucast n :: u8) = unat n"
  by (simp add: unsigned_ucast_eq take_bit_nat_eq_self)

lemma unat_low_byte: "unat (ucast ((n AND 0x7F :: u16) OR 0x80) :: u8) = unat n mod 128 + 128"
proof -
  have "unat n mod 128 < 128"
    by simp
  then show ?thesis
    using unat_ucast_u8 [of "(n AND 0x7F) OR 0x80"] by (simp add: unat_low_bits)
qed

lemma unat_drop_u16: "unat (drop_bit k (n :: u16)) = unat n div 2 ^ k"
  by (subst unat_drop_bit_eq) (simp add: drop_bit_eq_div)

lemma read_compact1: "unat b < 128 \<Longrightarrow> read_compact (b # rest) = Some (unat b, rest)"
  by (simp add: word_less_nat_alt)

lemma read_compact2:
  "128 \<le> unat b \<Longrightarrow> unat c < 128 \<Longrightarrow> read_compact (b # c # rest) = Some (unat b - 128 + 128 * unat c, rest)"
  by (simp add: word_less_nat_alt)

lemma read_compact3:
  "128 \<le> unat b \<Longrightarrow> 128 \<le> unat c \<Longrightarrow> unat d < 4 \<Longrightarrow>
     read_compact (b # c # d # rest) = Some (unat b - 128 + 128 * (unat c - 128) + 16384 * unat d, rest)"
  by (simp add: word_less_nat_alt)

declare read_compact.simps [simp del]

lemma split_7_bits: "x mod 128 + 128 * (x div 128 mod 128) + 16384 * (x div 16384) = (x :: nat)"
proof -
  define y where "y = x div 128"
  have "x mod 128 + 128 * y = x" "y mod 128 + 128 * (y div 128) = y"
    by (simp_all add: y_def)
  moreover have "x div 16384 = y div 128"
    by (simp add: y_def div_mult2_eq [symmetric])
  ultimately show ?thesis
    unfolding y_def [symmetric] by linarith
qed

lemma read_compact_u16:
  assumes "k < 2 ^ 16"
  shows "read_compact (compact_u16 k @ rest) = Some (k, rest)"
proof -
  define n where "n = (word_of_nat k :: u16)"
  have n: "unat n = k"
    using assms by (simp add: n_def unat_of_nat)
  consider "k < 128" | "128 \<le> k" "k < 16384" | "16384 \<le> k"
    by linarith
  then show ?thesis
  proof cases
    case 1
    then have "compact_u16 k = [ucast n]" "unat (ucast n :: u8) = k"
      using n by (simp_all add: compact_u16_def n_def [symmetric] unat_ucast_u8 word_less_nat_alt)
    with 1 show ?thesis
      by (simp add: read_compact1)
  next
    case 2
    then have "compact_u16 k = [ucast ((n AND 0x7F) OR 0x80), ucast (drop_bit 7 n)]"
      using n by (simp add: compact_u16_def n_def [symmetric] word_less_nat_alt)
    moreover have "k div 128 < 128"
      using 2 by (simp add: less_mult_imp_div_less)
    moreover from this have "unat (ucast (drop_bit 7 n) :: u8) = k div 128"
      using n by (simp add: unat_ucast_u8 unat_drop_u16)
    ultimately show ?thesis
      using n by (simp add: read_compact2 unat_low_byte)
  next
    case 3
    then have "compact_u16 k =
        [ucast ((n AND 0x7F) OR 0x80), ucast ((drop_bit 7 n AND 0x7F) OR 0x80), ucast (drop_bit 14 n)]"
      using n by (simp add: compact_u16_def n_def [symmetric] word_less_nat_alt)
    moreover have "k div 16384 < 4"
      using assms by (simp add: less_mult_imp_div_less)
    moreover from this have "unat (ucast (drop_bit 14 n) :: u8) = k div 16384"
      using n by (simp add: unat_ucast_u8 unat_drop_u16)
    moreover have "unat (ucast ((drop_bit 7 n AND 0x7F) OR 0x80) :: u8) = k div 128 mod 128 + 128"
      using n by (simp add: unat_low_byte unat_drop_u16)
    ultimately show ?thesis
      using n by (simp add: read_compact3 unat_low_byte split_7_bits)
  qed
qed

section \<open>The account table\<close>

type_synonym requests = "account_meta list"

definition ix_requests :: "sol_ix \<Rightarrow> requests" where
  "ix_requests ix = (sx_program_id ix, False, False) #
     map (\<lambda>a. (ia_pubkey a, ia_writable a, ia_signer a)) (sx_accounts ix)"

definition all_requests :: "bytes \<Rightarrow> sol_ix list \<Rightarrow> requests" where
  "all_requests payer ixs = (payer, True, True) # concat (map ix_requests ixs)"

abbreviation ensure_all :: "account_meta list \<Rightarrow> requests \<Rightarrow> account_meta list" where
  "ensure_all \<equiv> foldl (\<lambda>m (k, w, s). ensure_account m k w s)"

lemma ensure_all_ix:
  "foldl (\<lambda>m acc. ensure_account m (ia_pubkey acc) (ia_writable acc) (ia_signer acc)) m accs =
   ensure_all m (map (\<lambda>a. (ia_pubkey a, ia_writable a, ia_signer a)) accs)"
  by (induction accs arbitrary: m) auto

lemma collect_requests: "collect_accounts payer ixs = ensure_all [] (all_requests payer ixs)"
proof -
  have "foldl (\<lambda>m ix. foldl (\<lambda>m acc. ensure_account m (ia_pubkey acc) (ia_writable acc) (ia_signer acc))
          (ensure_account m (sx_program_id ix) False False) (sx_accounts ix)) m ixs =
      ensure_all m (concat (map ix_requests ixs))" for m
    by (induction ixs arbitrary: m) (auto simp: ensure_all_ix ix_requests_def)
  then show ?thesis
    by (simp add: collect_accounts_def all_requests_def)
qed

text \<open>The keys in order of first appearance, each once, with the union of the privileges asked for.\<close>

lemma ensure_account_keys:
  "map fst (ensure_account m pk w s) = map fst m @ (if pk \<in> fst ` set m then [] else [pk])"
  by (induction m pk w s rule: ensure_account.induct) auto

lemma map_of_ensure_account:
  "map_of (ensure_account m pk w s) k =
     (if k = pk then Some (case map_of m pk of None \<Rightarrow> (w, s) | Some (ew, es) \<Rightarrow> (ew \<or> w, es \<or> s))
      else map_of m k)"
  by (induction m pk w s rule: ensure_account.induct) auto

lemma distinct_ensure_all: "distinct (map fst m) \<Longrightarrow> distinct (map fst (ensure_all m rs))"
  by (induction rs arbitrary: m) (auto simp: ensure_account_keys)

definition asked :: "requests \<Rightarrow> bytes \<Rightarrow> bool \<times> bool" where
  "asked rs k = (\<exists>(k', w, s) \<in> set rs. k' = k \<and> w, \<exists>(k', w, s) \<in> set rs. k' = k \<and> s)"

lemma asked_Cons:
  "asked ((k', w, s) # rs) k =
     (if k' = k then (w \<or> fst (asked rs k), s \<or> snd (asked rs k)) else asked rs k)"
  by (auto simp: asked_def)

lemma map_of_ensure_all:
  "map_of (ensure_all m rs) k =
     (case map_of m k of
        None \<Rightarrow> if k \<in> fst ` set rs then Some (asked rs k) else None
      | Some (w, s) \<Rightarrow> Some (w \<or> fst (asked rs k), s \<or> snd (asked rs k)))"
proof (induction rs arbitrary: m)
  case Nil
  then show ?case
    by (auto simp: asked_def split: option.split)
next
  case (Cons r rs)
  obtain k' w s where r: "r = (k', w, s)"
    by (cases r)
  show ?case
    by (auto simp: r Cons map_of_ensure_account asked_Cons split: option.splits)
qed

lemma collect_table:
  "map_of (collect_accounts payer ixs) k =
     (if k \<in> fst ` set (all_requests payer ixs) then Some (asked (all_requests payer ixs) k) else None)"
  by (simp add: collect_requests map_of_ensure_all)

lemma set_account_table [simp]: "set (account_table payer ixs) = set (collect_accounts payer ixs)"
  and length_account_table [simp]: "length (account_table payer ixs) = length (collect_accounts payer ixs)"
  by (simp_all add: account_table_def)

lemma distinct_account_table: "distinct (map fst (account_table payer ixs))"
proof -
  have "distinct (map fst (collect_accounts payer ixs))"
    by (simp add: collect_requests distinct_ensure_all)
  then show ?thesis
    by (simp add: account_table_def distinct_map)
qed

lemma account_table_lookup:
  assumes "i < length (account_table payer ixs)"
  shows "account_table payer ixs ! i = (fst (account_table payer ixs ! i),
    asked (all_requests payer ixs) (fst (account_table payer ixs ! i)))"
proof -
  let ?a = "account_table payer ixs ! i"
  have "?a \<in> set (collect_accounts payer ixs)"
    using assms nth_mem set_account_table by blast
  moreover have "distinct (map fst (collect_accounts payer ixs))"
    by (simp add: collect_requests distinct_ensure_all)
  ultimately have "map_of (collect_accounts payer ixs) (fst ?a) = Some (snd ?a)"
    by (simp add: map_of_eq_Some_iff)
  then show ?thesis
    by (simp add: collect_table split: if_splits)
qed

lemma account_table_keys: "fst ` set (account_table payer ixs) = fst ` set (all_requests payer ixs)"
proof -
  have "k \<in> fst ` set (collect_accounts payer ixs) \<longleftrightarrow> k \<in> fst ` set (all_requests payer ixs)" for k
    using collect_table [of payer ixs k] map_of_eq_None_iff [of "collect_accounts payer ixs" k]
    by (auto split: if_splits)
  then show ?thesis
    by auto
qed

text \<open>The order of the table: signers first, among them and after them the writable ones first, and the
  payer at the head.\<close>

lemma sorted_prefix:
  "sorted_wrt (\<lambda>x y. P y \<longrightarrow> P x) xs \<Longrightarrow> i < length xs \<Longrightarrow> P (xs ! i) \<longleftrightarrow> i < length (filter P xs)"
proof (induction xs arbitrary: i)
  case (Cons x xs)
  show ?case
  proof (cases "P x")
    case True
    then show ?thesis
      using Cons by (cases i) auto
  next
    case False
    then have "\<forall>y\<in>set xs. \<not> P y"
      using Cons.prems(1) by auto
    with False show ?thesis
      using Cons.prems(2) by (auto simp: nth_Cons' filter_False)
  qed
qed simp

lemma meta_key_le:
  "meta_key (k, w, s) \<le> meta_key (k', w', s') \<longleftrightarrow> (s' \<longrightarrow> s) \<and> (s = s' \<longrightarrow> w' \<longrightarrow> w)"
  by (auto simp: meta_key_def less_eq_prod_def)

lemma table_sorted: "sorted_wrt (\<lambda>a b. meta_key a \<le> meta_key b) (account_table payer ixs)"
  using sorted_sort_key [of meta_key "collect_accounts payer ixs"]
  by (simp add: account_table_def sorted_map)

lemma table_prefix:
  assumes "i < length (account_table payer ixs)" "\<And>a b. meta_key a \<le> meta_key b \<Longrightarrow> P b \<Longrightarrow> P a"
  shows "P (account_table payer ixs ! i) \<longleftrightarrow> i < length (filter P (account_table payer ixs))"
  by (rule sorted_prefix [OF sorted_wrt_mono_rel [OF _ table_sorted] assms(1)]) (use assms(2) in blast)

lemma table_signer:
  "i < length (account_table payer ixs) \<Longrightarrow> snd (snd (account_table payer ixs ! i)) \<longleftrightarrow>
     i < length (filter (\<lambda>(_, w, s). s) (account_table payer ixs))"
  unfolding split_beta by (rule table_prefix) (auto simp: meta_key_le)

lemma table_signer_writable:
  "i < length (account_table payer ixs) \<Longrightarrow>
     (case account_table payer ixs ! i of (_, w, s) \<Rightarrow> s \<and> w) \<longleftrightarrow>
     i < length (filter (\<lambda>(_, w, s). s \<and> w) (account_table payer ixs))"
  by (rule table_prefix) (auto simp: meta_key_le split: prod.splits)

lemma table_signer_or_writable:
  "i < length (account_table payer ixs) \<Longrightarrow>
     (case account_table payer ixs ! i of (_, w, s) \<Rightarrow> s \<or> w) \<longleftrightarrow>
     i < length (filter (\<lambda>(_, w, s). s \<or> w) (account_table payer ixs))"
  by (rule table_prefix) (auto simp: meta_key_le split: prod.splits)

lemma length_filter_split:
  "length (filter (\<lambda>(_, w, s). s \<and> w) m) =
     length (filter (\<lambda>(_, w, s). s) m) - length (filter (\<lambda>(_, w, s). s \<and> \<not> w) m)"
  "length (filter (\<lambda>(_, w, s). s \<or> w) m) = length m - length (filter (\<lambda>(_, w, s). \<not> s \<and> \<not> w) m)"
proof (induction m)
  case (Cons a m)
  have "length (filter (\<lambda>(_, w, s). s \<and> \<not> w) m) \<le> length (filter (\<lambda>(_, w, s). s) m)"
    by (induction m) auto
  moreover have "length (filter (\<lambda>(_, w, s). \<not> s \<and> \<not> w) m) \<le> length m"
    by (rule length_filter_le)
  moreover note Cons
  ultimately show "length (filter (\<lambda>(_, w, s). s \<and> w) (a # m)) =
      length (filter (\<lambda>(_, w, s). s) (a # m)) - length (filter (\<lambda>(_, w, s). s \<and> \<not> w) (a # m))"
    and "length (filter (\<lambda>(_, w, s). s \<or> w) (a # m)) =
      length (a # m) - length (filter (\<lambda>(_, w, s). \<not> s \<and> \<not> w) (a # m))"
    by (auto simp: Suc_diff_le split: prod.splits)
qed simp_all

lemma ensure_all_head:
  "\<exists>m'. ensure_all ((k, True, True) # m) rs = (k, True, True) # m'"
  by (induction rs arbitrary: m) auto

lemma account_table_head: "\<exists>m. account_table payer ixs = (payer, True, True) # m"
proof -
  obtain m where m: "collect_accounts payer ixs = (payer, True, True) # m"
    using ensure_all_head [of payer "[]"] by (auto simp: collect_requests all_requests_def)
  have "meta_key (payer, True, True) \<le> meta_key a" for a
    by (cases a) (simp add: meta_key_le)
  then have "insort_key meta_key (payer, True, True) l = (payer, True, True) # l" for l
    by (cases l) auto
  then show ?thesis
    by (simp add: account_table_def m)
qed

section \<open>A reference decoder\<close>

text \<open>Written from the rules of the format: the header says how many keys of the table sign and how many of
  the signing and of the other keys may only be read.\<close>

definition read_bytes :: "nat \<Rightarrow> bytes \<Rightarrow> (bytes \<times> bytes) option" where
  "read_bytes n bs = (if n \<le> length bs then Some (take n bs, drop n bs) else None)"

fun read_many :: "(bytes \<Rightarrow> ('a \<times> bytes) option) \<Rightarrow> nat \<Rightarrow> bytes \<Rightarrow> ('a list \<times> bytes) option" where
  "read_many rd 0 bs = Some ([], bs)"
| "read_many rd (Suc n) bs = do { (x, bs1) \<leftarrow> rd bs; (xs, bs2) \<leftarrow> read_many rd n bs1; Some (x # xs, bs2) }"

definition read_ix :: "bytes \<Rightarrow> ((u8 \<times> bytes \<times> bytes) \<times> bytes) option" where
  "read_ix bs = do {
     (p, bs1) \<leftarrow> read_bytes 1 bs;
     (n, bs2) \<leftarrow> read_compact bs1;
     (is, bs3) \<leftarrow> read_bytes n bs2;
     (k, bs4) \<leftarrow> read_compact bs3;
     (d, bs5) \<leftarrow> read_bytes k bs4;
     Some ((hd p, is, d), bs5) }"

record raw_message =
  rm_header :: bytes
  rm_keys :: "bytes list"
  rm_blockhash :: bytes
  rm_ixs :: "(u8 \<times> bytes \<times> bytes) list"

definition read_message :: "bytes \<Rightarrow> raw_message option" where
  "read_message bs = do {
     (h, bs1) \<leftarrow> read_bytes 3 bs;
     (n, bs2) \<leftarrow> read_compact bs1;
     (keys, bs3) \<leftarrow> read_many (read_bytes 32) n bs2;
     (bh, bs4) \<leftarrow> read_bytes 32 bs3;
     (k, bs5) \<leftarrow> read_compact bs4;
     (ixs, bs6) \<leftarrow> read_many read_ix k bs5;
     (if bs6 = [] then Some \<lparr>rm_header = h, rm_keys = keys, rm_blockhash = bh, rm_ixs = ixs\<rparr> else None) }"

definition key_account :: "bytes \<Rightarrow> bytes list \<Rightarrow> u8 \<Rightarrow> ix_account option" where
  "key_account h keys i =
     (let n = length keys; j = unat i; sigs = unat (h ! 0); ro_sigs = unat (h ! 1); ro = unat (h ! 2)
      in if j < n then Some
           \<lparr>ia_pubkey = keys ! j, ia_writable = (if j < sigs then j < sigs - ro_sigs else j < n - ro),
            ia_signer = (j < sigs)\<rparr>
         else None)"

definition resolve_ix :: "raw_message \<Rightarrow> u8 \<times> bytes \<times> bytes \<Rightarrow> sol_ix option" where
  "resolve_ix m = (\<lambda>(p, is, d). do {
     prog \<leftarrow> key_account (rm_header m) (rm_keys m) p;
     accs \<leftarrow> those (map (key_account (rm_header m) (rm_keys m)) is);
     Some \<lparr>sx_program_id = ia_pubkey prog, sx_accounts = accs, sx_data = d\<rparr> })"

record decoded_transaction =
  dt_signers :: "bytes list"
  dt_blockhash :: bytes
  dt_ixs :: "sol_ix list"

text \<open>A transaction is accepted when it carries one valid signature of each signing key, in order.\<close>

definition decode_transaction :: "(bytes \<Rightarrow> bytes \<Rightarrow> bytes \<Rightarrow> bool) \<Rightarrow> bytes \<Rightarrow> decoded_transaction option" where
  "decode_transaction verify tx = do {
     (k, bs1) \<leftarrow> read_compact tx;
     (sigs, msg) \<leftarrow> read_many (read_bytes 64) k bs1;
     m \<leftarrow> read_message msg;
     let signers = take (unat (rm_header m ! 0)) (rm_keys m);
     (if list_all2 (\<lambda>pk sig. verify pk msg sig) signers sigs then do {
        ixs \<leftarrow> those (map (resolve_ix m) (rm_ixs m));
        Some \<lparr>dt_signers = signers, dt_blockhash = rm_blockhash m, dt_ixs = ixs\<rparr> }
      else None) }"

text \<open>What an instruction becomes on the way: each account gets the privileges anybody in the transaction
  asked for.\<close>

definition grant :: "requests \<Rightarrow> sol_ix \<Rightarrow> sol_ix" where
  "grant rs ix = ix\<lparr>sx_accounts := map (\<lambda>a. a\<lparr>ia_writable := fst (asked rs (ia_pubkey a)),
     ia_signer := snd (asked rs (ia_pubkey a))\<rparr>) (sx_accounts ix)\<rparr>"

definition wire_ok :: "bytes \<Rightarrow> sol_ix list \<Rightarrow> bytes \<Rightarrow> bool" where
  "wire_ok payer ixs blockhash \<longleftrightarrow>
     length blockhash = 32 \<and> (\<forall>(k, r) \<in> set (all_requests payer ixs). length k = 32) \<and>
     length (collect_accounts payer ixs) < 256 \<and> length ixs < 2 ^ 16 \<and>
     (\<forall>ix \<in> set ixs. length (sx_accounts ix) < 2 ^ 16 \<and> length (sx_data ix) < 2 ^ 16)"

lemma read_bytes_append [simp]: "length xs = n \<Longrightarrow> read_bytes n (xs @ ys) = Some (xs, ys)"
  by (simp add: read_bytes_def)

lemma read_many_append:
  assumes "\<And>x rest. x \<in> set xs \<Longrightarrow> rd (enc x @ rest) = Some (dec x, rest)"
  shows "read_many rd (length xs) (concat (map enc xs) @ rest) = Some (map dec xs, rest)"
  using assms by (induction xs) simp_all

lemma position_Some:
  "pk \<in> fst ` set m \<Longrightarrow> \<exists>i<length m. position pk m = Some i \<and> fst (m ! i) = pk"
proof (induction m)
  case (Cons a m)
  then show ?case
    by (cases "fst a = pk") force+
qed simp

lemma map_outcome_Done:
  "(\<And>x. x \<in> set xs \<Longrightarrow> f x = Done (g x)) \<Longrightarrow> map_outcome f xs = Done (map g xs)"
  by (induction xs) simp_all

lemma those_map_Some: "(\<And>x. x \<in> set xs \<Longrightarrow> f x = Some (g x)) \<Longrightarrow> those (map f xs) = Some (map g xs)"
  by (induction xs) simp_all

section \<open>Encoding and decoding\<close>

definition table_index :: "account_meta list \<Rightarrow> bytes \<Rightarrow> u8" where
  "table_index m k = (case position k m of None \<Rightarrow> 0 | Some i \<Rightarrow> word_of_nat i)"

definition ix_bytes :: "account_meta list \<Rightarrow> sol_ix \<Rightarrow> bytes" where
  "ix_bytes m ix = table_index m (sx_program_id ix) #
     compact_u16 (length (sx_accounts ix)) @ map (\<lambda>a. table_index m (ia_pubkey a)) (sx_accounts ix) @
     compact_u16 (length (sx_data ix)) @ sx_data ix"

lemma idx_of_table:
  "k \<in> fst ` set (all_requests payer ixs) \<Longrightarrow>
     idx_of (account_table payer ixs) k = Done (table_index (account_table payer ixs) k)"
  using position_Some [of k "account_table payer ixs"]
  by (auto simp: idx_of_def table_index_def account_table_keys simp del: set_account_table)

lemma key_account_table:
  assumes "k \<in> fst ` set (all_requests payer ixs)" "length (collect_accounts payer ixs) < 256"
  shows "key_account (message_header (account_table payer ixs)) (map fst (account_table payer ixs))
      (table_index (account_table payer ixs) k) =
    Some \<lparr>ia_pubkey = k, ia_writable = fst (asked (all_requests payer ixs) k),
      ia_signer = snd (asked (all_requests payer ixs) k)\<rparr>"
proof -
  let ?T = "account_table payer ixs" and ?r = "asked (all_requests payer ixs) k"
  obtain i where i: "i < length ?T" "position k ?T = Some i" "fst (?T ! i) = k"
    using position_Some [of k ?T] assms(1) by (auto simp: account_table_keys simp del: set_account_table)
  have T: "?T ! i = (k, ?r)"
    using account_table_lookup [OF i(1)] i(3) by simp
  have small: "unat (word_of_nat (length (filter P ?T)) :: u8) = length (filter P ?T)" for P
    using length_filter_le [of P ?T] assms(2) by (simp add: unat_of_nat)
  have j: "unat (table_index ?T k) = i"
    using i assms(2) by (simp add: table_index_def unat_of_nat)
  have s: "snd ?r \<longleftrightarrow> i < length (filter (\<lambda>(_, w, s). s) ?T)"
    using table_signer [OF i(1)] T by simp
  have sw: "snd ?r \<and> fst ?r \<longleftrightarrow>
      i < length (filter (\<lambda>(_, w, s). s) ?T) - length (filter (\<lambda>(_, w, s). s \<and> \<not> w) ?T)"
    using table_signer_writable [OF i(1)] T by (simp add: length_filter_split split_beta)
  have w: "snd ?r \<or> fst ?r \<longleftrightarrow> i < length ?T - length (filter (\<lambda>(_, w, s). \<not> s \<and> \<not> w) ?T)"
    using table_signer_or_writable [OF i(1)] T by (simp add: length_filter_split split_beta)
  have h: "unat (message_header ?T ! 0) = length (filter (\<lambda>(_, w, s). s) ?T)"
    "unat (message_header ?T ! 1) = length (filter (\<lambda>(_, w, s). s \<and> \<not> w) ?T)"
    "unat (message_header ?T ! 2) = length (filter (\<lambda>(_, w, s). \<not> s \<and> \<not> w) ?T)"
    by (simp_all add: message_header_def small numeral_eq_Suc)
  have flags: "fst ?r = (if i < length (filter (\<lambda>(_, w, s). s) ?T)
      then i < length (filter (\<lambda>(_, w, s). s) ?T) - length (filter (\<lambda>(_, w, s). s \<and> \<not> w) ?T)
      else i < length ?T - length (filter (\<lambda>(_, w, s). \<not> s \<and> \<not> w) ?T))"
    using s sw w by argo
  have key: "map fst ?T ! i = k" "i < length (map fst ?T)"
    using i by simp_all
  show ?thesis
    unfolding key_account_def Let_def j h flags s [symmetric] using key by (simp add: s flags)
qed

lemma encode_ix_table:
  assumes "ix \<in> set ixs"
  shows "encode_ix (account_table payer ixs) ix = Done (ix_bytes (account_table payer ixs) ix)"
proof -
  have k: "sx_program_id ix \<in> fst ` set (all_requests payer ixs)"
    "\<And>a. a \<in> set (sx_accounts ix) \<Longrightarrow> ia_pubkey a \<in> fst ` set (all_requests payer ixs)"
    using assms by (force simp: all_requests_def ix_requests_def image_iff)+
  have "map_outcome (\<lambda>acc. idx_of (account_table payer ixs) (ia_pubkey acc)) (sx_accounts ix) =
      Done (map (\<lambda>a. table_index (account_table payer ixs) (ia_pubkey a)) (sx_accounts ix))"
    by (rule map_outcome_Done) (rule idx_of_table [OF k(2)])
  then show ?thesis
    by (simp add: encode_ix_def idx_of_table [OF k(1)] ix_bytes_def)
qed

lemma encode_message_table:
  "encode_message (account_table payer ixs) ixs bh =
     Done (message_header (account_table payer ixs) @ compact_u16 (length (account_table payer ixs)) @
       concat (map fst (account_table payer ixs)) @ bh @ compact_u16 (length ixs) @
       concat (map (ix_bytes (account_table payer ixs)) ixs))"
proof -
  have "map_outcome (encode_ix (account_table payer ixs)) ixs = Done (map (ix_bytes (account_table payer ixs)) ixs)"
    by (rule map_outcome_Done) (rule encode_ix_table)
  then show ?thesis
    by (simp add: encode_message_def)
qed

lemma read_ix_bytes:
  assumes "length (sx_accounts ix) < 2 ^ 16" "length (sx_data ix) < 2 ^ 16"
  shows "read_ix (ix_bytes m ix @ rest) =
    Some ((table_index m (sx_program_id ix), map (\<lambda>a. table_index m (ia_pubkey a)) (sx_accounts ix), sx_data ix), rest)"
proof -
  have "read_bytes 1 (x # xs) = Some ([x], xs)" for x xs
    by (simp add: read_bytes_def)
  then show ?thesis
    using assms by (simp add: read_ix_def ix_bytes_def read_compact_u16)
qed

lemma read_message_table:
  assumes "wire_ok payer ixs bh" "encode_message (account_table payer ixs) ixs bh = Done msg"
  shows "read_message msg = Some \<lparr>rm_header = message_header (account_table payer ixs),
    rm_keys = map fst (account_table payer ixs), rm_blockhash = bh,
    rm_ixs = map (\<lambda>ix. (table_index (account_table payer ixs) (sx_program_id ix),
      map (\<lambda>a. table_index (account_table payer ixs) (ia_pubkey a)) (sx_accounts ix), sx_data ix)) ixs\<rparr>"
proof -
  let ?T = "account_table payer ixs"
  have msg: "msg = message_header ?T @ compact_u16 (length ?T) @ concat (map fst ?T) @ bh @
      compact_u16 (length ixs) @ concat (map (ix_bytes ?T) ixs)"
    using assms(2) by (simp add: encode_message_table)
  have keys: "length k = 32" if "k \<in> set (map fst ?T)" for k
    using that assms(1) account_table_keys [of payer ixs] by (force simp: wire_ok_def simp del: set_account_table)
  have "read_many (read_bytes 32) (length (map fst ?T)) (concat (map (\<lambda>k. k) (map fst ?T)) @ rest) =
      Some (map (\<lambda>k. k) (map fst ?T), rest)" for rest
    by (rule read_many_append) (use keys in simp)
  moreover have "read_many read_ix (length ixs) (concat (map (ix_bytes ?T) ixs) @ []) =
      Some (map (\<lambda>ix. (table_index ?T (sx_program_id ix),
        map (\<lambda>a. table_index ?T (ia_pubkey a)) (sx_accounts ix), sx_data ix)) ixs, [])"
    by (rule read_many_append) (use assms(1) read_ix_bytes in \<open>simp add: wire_ok_def\<close>)
  moreover have "length (message_header ?T) = 3"
    by (simp add: message_header_def)
  ultimately show ?thesis
    using assms(1) unfolding msg by (simp add: read_message_def wire_ok_def read_compact_u16)
qed

lemma resolve_ix_table:
  assumes "wire_ok payer ixs bh" "ix \<in> set ixs" "rm_header m = message_header (account_table payer ixs)"
    "rm_keys m = map fst (account_table payer ixs)"
  shows "resolve_ix m (table_index (account_table payer ixs) (sx_program_id ix),
      map (\<lambda>a. table_index (account_table payer ixs) (ia_pubkey a)) (sx_accounts ix), sx_data ix) =
    Some (grant (all_requests payer ixs) ix)"
proof -
  have k: "sx_program_id ix \<in> fst ` set (all_requests payer ixs)"
    "\<And>a. a \<in> set (sx_accounts ix) \<Longrightarrow> ia_pubkey a \<in> fst ` set (all_requests payer ixs)"
    using assms(2) by (force simp: all_requests_def ix_requests_def image_iff)+
  have small: "length (collect_accounts payer ixs) < 256"
    using assms(1) by (simp add: wire_ok_def)
  have "those (map (\<lambda>a. key_account (rm_header m) (rm_keys m) (table_index (account_table payer ixs) (ia_pubkey a)))
      (sx_accounts ix)) = Some (map (\<lambda>a. a\<lparr>ia_writable := fst (asked (all_requests payer ixs) (ia_pubkey a)),
        ia_signer := snd (asked (all_requests payer ixs) (ia_pubkey a))\<rparr>) (sx_accounts ix))"
    by (rule those_map_Some) (simp add: assms(3,4) key_account_table [OF k(2) small])
  then show ?thesis
    by (simp add: resolve_ix_def grant_def comp_def assms(3,4) key_account_table [OF k(1) small]
        map_map [unfolded comp_def] del: map_map)
qed

text \<open>The signing keys are the payer alone when no instruction asks for another signature.\<close>

lemma table_signers:
  assumes "\<forall>ix\<in>set ixs. \<forall>a\<in>set (sx_accounts ix). ia_signer a \<longrightarrow> ia_pubkey a = payer"
  shows "filter (\<lambda>(_, w, s). s) (account_table payer ixs) = [(payer, True, True)]"
proof -
  obtain m where m: "account_table payer ixs = (payer, True, True) # m"
    using account_table_head by blast
  have "\<not> s" if "(k, w, s) \<in> set m" for k w s
  proof
    assume s
    have "(k, w, s) \<in> set (account_table payer ixs)"
      using that by (subst m) simp
    then obtain i where "i < length (account_table payer ixs)" "account_table payer ixs ! i = (k, w, s)"
      unfolding in_set_conv_nth by blast
    then have "asked (all_requests payer ixs) k = (w, s)"
      using account_table_lookup [of i payer ixs] by simp
    with \<open>s\<close> have "snd (asked (all_requests payer ixs) k)"
      by simp
    then have "k = payer"
      using assms unfolding asked_def all_requests_def ix_requests_def by fastforce
    moreover have "payer \<notin> fst ` set m"
      using distinct_account_table [of payer ixs] m by simp
    ultimately show False
      using that by (metis fst_conv imageI)
  qed
  then show ?thesis
    by (auto simp: m filter_empty_conv)
qed

lemma transaction_decoded:
  assumes "wire_ok payer ixs bh"
    and "\<forall>ix\<in>set ixs. \<forall>a\<in>set (sx_accounts ix). ia_signer a \<longrightarrow> ia_pubkey a = payer"
    and "\<forall>msg. length (so_sign Y seed msg) = 64 \<and> verify payer msg (so_sign Y seed msg)"
  shows "\<exists>tx. build_transaction Y ixs payer seed bh = Done tx \<and>
    decode_transaction verify tx = Some \<lparr>dt_signers = [payer], dt_blockhash = bh,
      dt_ixs = map (grant (all_requests payer ixs)) ixs\<rparr>"
proof -
  let ?T = "account_table payer ixs"
  obtain msg where msg: "encode_message ?T ixs bh = Done msg"
    by (simp add: encode_message_table)
  let ?tx = "compact_u16 1 @ so_sign Y seed msg @ msg"
  have sig: "read_many (read_bytes 64) 1 (so_sign Y seed msg @ msg) = Some ([so_sign Y seed msg], msg)"
    using assms(3) by simp
  obtain m where m: "?T = (payer, True, True) # m"
    using account_table_head by blast
  have signers: "take (unat (message_header ?T ! 0)) (map fst ?T) = [payer]"
    using m table_signers [OF assms(2)] by (simp add: message_header_def)
  have ixs: "those (map (resolve_ix \<lparr>rm_header = message_header ?T, rm_keys = map fst ?T, rm_blockhash = bh,
      rm_ixs = map (\<lambda>ix. (table_index ?T (sx_program_id ix),
        map (\<lambda>a. table_index ?T (ia_pubkey a)) (sx_accounts ix), sx_data ix)) ixs\<rparr>)
      (map (\<lambda>ix. (table_index ?T (sx_program_id ix),
        map (\<lambda>a. table_index ?T (ia_pubkey a)) (sx_accounts ix), sx_data ix)) ixs)) =
      Some (map (grant (all_requests payer ixs)) ixs)"
    unfolding map_map comp_def by (rule those_map_Some) (rule resolve_ix_table [OF assms(1)], simp_all)
  have "decode_transaction verify ?tx = Some \<lparr>dt_signers = [payer], dt_blockhash = bh,
      dt_ixs = map (grant (all_requests payer ixs)) ixs\<rparr>"
    using assms(3) sig signers ixs by (simp add: decode_transaction_def read_compact_u16
        read_message_table [OF assms(1) msg] Let_def del: map_map)
  then show ?thesis
    by (simp add: build_transaction_def msg)
qed

lemma length_ensure_account: "length (ensure_account m pk w s) \<le> Suc (length m)"
  by (induction m pk w s rule: ensure_account.induct) auto

lemma length_ensure_all: "length (ensure_all m rs) \<le> length m + length rs"
proof (induction rs arbitrary: m)
  case (Cons r rs)
  obtain k w s where r: "r = (k, w, s)"
    by (cases r)
  show ?case
    using Cons [of "ensure_account m k w s"] length_ensure_account [of m k w s] by (simp add: r)
qed simp

lemma length_collect_le: "length (collect_accounts payer ixs) \<le> length (all_requests payer ixs)"
  using length_ensure_all [of "[]" "all_requests payer ixs"] by (simp add: collect_requests)

lemma wire_ok_small:
  assumes "length bh = 32" "\<forall>(k, r) \<in> set (all_requests payer ixs). length k = 32"
    and "length (all_requests payer ixs) < 256" "length ixs < 2 ^ 16"
    and "\<forall>ix \<in> set ixs. length (sx_accounts ix) < 2 ^ 16 \<and> length (sx_data ix) < 2 ^ 16"
  shows "wire_ok payer ixs bh"
  using assms length_collect_le [of payer ixs] by (simp add: wire_ok_def)

section \<open>Properties\<close>

text \<open>C28: a transaction says what the instructions say. Decoded by the rules of the format, it carries one
  signature, the payer's, and the instructions with their programs, data and accounts in order. An account
  signs exactly when it is the payer, and may be written exactly when it is the payer or some
  instruction asked to write it.\<close>

theorem solana_transaction_roundtrip:
  assumes "wire_ok payer ixs bh"
    and "\<forall>ix\<in>set ixs. \<forall>a\<in>set (sx_accounts ix). ia_signer a \<longrightarrow> ia_pubkey a = payer"
    and "\<forall>msg. length (so_sign Y seed msg) = 64 \<and> verify payer msg (so_sign Y seed msg)"
  shows "\<exists>tx ixs'. build_transaction Y ixs payer seed bh = Done tx \<and>
    decode_transaction verify tx = Some \<lparr>dt_signers = [payer], dt_blockhash = bh, dt_ixs = ixs'\<rparr> \<and>
    map sx_program_id ixs' = map sx_program_id ixs \<and> map sx_data ixs' = map sx_data ixs \<and>
    map (\<lambda>ix. map ia_pubkey (sx_accounts ix)) ixs' = map (\<lambda>ix. map ia_pubkey (sx_accounts ix)) ixs \<and>
    (\<forall>ix\<in>set ixs'. \<forall>a\<in>set (sx_accounts ix). (ia_signer a \<longleftrightarrow> ia_pubkey a = payer) \<and>
      (ia_writable a \<longleftrightarrow> ia_pubkey a = payer \<or>
        (\<exists>ix'\<in>set ixs. \<exists>b\<in>set (sx_accounts ix'). ia_pubkey b = ia_pubkey a \<and> ia_writable b)))"
proof -
  let ?rs = "all_requests payer ixs"
  obtain tx where tx: "build_transaction Y ixs payer seed bh = Done tx"
    "decode_transaction verify tx = Some \<lparr>dt_signers = [payer], dt_blockhash = bh, dt_ixs = map (grant ?rs) ixs\<rparr>"
    using transaction_decoded [OF assms(1,2), where verify = verify, OF assms(3)] by blast
  have signs: "snd (asked ?rs k) \<longleftrightarrow> k = payer" for k
    using assms(2) by (auto simp: asked_def all_requests_def ix_requests_def)
  have writes: "fst (asked ?rs k) \<longleftrightarrow> k = payer \<or>
      (\<exists>ix'\<in>set ixs. \<exists>b\<in>set (sx_accounts ix'). ia_pubkey b = k \<and> ia_writable b)" for k
    by (auto simp: asked_def all_requests_def ix_requests_def)
  show ?thesis
    by (rule exI [of _ tx], rule exI [of _ "map (grant ?rs) ixs"])
      (auto simp: tx grant_def comp_def signs writes)
qed

section \<open>An example\<close>

text \<open>Identity encodings and a hash that keeps the part of its input that matters.\<close>

definition toy_digest :: "bytes \<Rightarrow> bytes" where
  "toy_digest b = (if length b = 76 then take 16 (drop 6 b) @ replicate 16 0 else take 32 (drop 5 b @ replicate 32 0))"

definition toy_solana :: solana_crypto where
  "toy_solana = \<lparr>so_sha256 = toy_digest, so_on_curve = (\<lambda>b. False), so_b58_decode = (\<lambda>s. Some (str_bytes s)),
     so_b58_encode = map (\<lambda>b. char_of (unat b)), so_hex_decode = (\<lambda>s. Some (replicate 32 1)),
     so_hex_encode = (\<lambda>b. []), so_base64 = (\<lambda>b. []), so_public = (\<lambda>b. replicate 32 5),
     so_sign = (\<lambda>sk m. replicate 64 0)\<rparr>"

lemma length_str_bytes [simp]: "length (str_bytes s) = length s"
  by (simp add: str_bytes_def)

theorem solana_transaction_roundtrip_witness:
  "\<exists>tx ixs'. build_transaction toy_solana
       [\<lparr>sx_program_id = replicate 32 9,
         sx_accounts = [\<lparr>ia_pubkey = replicate 32 7, ia_writable = True, ia_signer = False\<rparr>,
                        \<lparr>ia_pubkey = replicate 32 5, ia_writable = False, ia_signer = True\<rparr>], sx_data = [1, 2]\<rparr>]
       (replicate 32 5) [1] (replicate 32 3) = Done tx \<and>
     decode_transaction (\<lambda>k m s. True) tx =
       Some \<lparr>dt_signers = [replicate 32 5], dt_blockhash = replicate 32 3, dt_ixs = ixs'\<rparr> \<and>
     map sx_data ixs' = [[1, 2]]"
proof -
  let ?ixs = "[\<lparr>sx_program_id = replicate 32 9,
         sx_accounts = [\<lparr>ia_pubkey = replicate 32 7, ia_writable = True, ia_signer = False\<rparr>,
                        \<lparr>ia_pubkey = replicate 32 5, ia_writable = False, ia_signer = True\<rparr>], sx_data = [1, 2]\<rparr>]
      :: sol_ix list"
  have "wire_ok (replicate 32 5) ?ixs (replicate 32 3)"
    by (rule wire_ok_small) (simp_all add: all_requests_def ix_requests_def)
  moreover have "\<forall>ix\<in>set ?ixs. \<forall>a\<in>set (sx_accounts ix). ia_signer a \<longrightarrow> ia_pubkey a = replicate 32 5"
    by simp
  moreover have "\<forall>msg. length (so_sign toy_solana [1] msg) = 64 \<and> True"
    by (simp add: toy_solana_def)
  ultimately show ?thesis
    using solana_transaction_roundtrip [of "replicate 32 5" ?ixs "replicate 32 3" toy_solana "[1]" "\<lambda>k m s. True"]
    by auto
qed

text \<open>C36: Deriving a program address ends within the 256 bumps. It returns exactly the candidate with the
  greatest bump among those off the curve, and panics only when all 256 candidates are on it.\<close>

theorem find_pda_greatest_bump:
  "find_pda Y seeds pid = Done (h, b) \<longleftrightarrow>
     h = pda_hash Y seeds pid b \<and> \<not> so_on_curve Y h \<and>
     list_all (\<lambda>c. so_on_curve Y (pda_hash Y seeds pid (word_of_nat c))) [Suc (unat b)..<256]"
  (is "?l \<longleftrightarrow> ?r")
proof
  assume ?l
  then obtain k where k: "k < 256" "b = word_of_nat k" "h = pda_hash Y seeds pid b" "\<not> so_on_curve Y h"
    "\<forall>j. k < j \<longrightarrow> j < 256 \<longrightarrow> so_on_curve Y (pda_hash Y seeds pid (word_of_nat j))"
    using pda_loop_Done unfolding find_pda_def by blast
  then have "unat b = k"
    by (simp add: unat_of_nat)
  with k show ?r
    by (auto simp: list_all_iff)
next
  assume r: ?r
  have b: "unat b < 256" and wb: "word_of_nat (unat b) = b"
    using unsigned_less [of b] by simp_all
  have "find_pda Y seeds pid \<noteq> Panic"
    using r b unfolding find_pda_def pda_loop_Panic by (metis wb)
  then obtain h' b' where d: "find_pda Y seeds pid = Done (h', b')"
    by (cases "find_pda Y seeds pid") auto
  then obtain k where k: "k < 256" "b' = word_of_nat k" "h' = pda_hash Y seeds pid b'" "\<not> so_on_curve Y h'"
    "\<forall>j. k < j \<longrightarrow> j < 256 \<longrightarrow> so_on_curve Y (pda_hash Y seeds pid (word_of_nat j))"
    using pda_loop_Done unfolding find_pda_def by blast
  have all: "so_on_curve Y (pda_hash Y seeds pid (word_of_nat j))" if "unat b < j" "j < 256" for j
    using r that by (auto simp: list_all_iff)
  have "k = unat b"
  proof (cases k "unat b" rule: linorder_cases)
    case less
    then show ?thesis
      using k(5) b r by (metis wb)
  next
    case greater
    then show ?thesis
      using all [of k] k(1-4) by simp
  qed simp
  then show ?l
    using d k r by simp
qed

end
