(* ===== verification/Solana_Settlement.thy ===== *)
theory Solana_Settlement
  imports Solana_Wire Settlement_Adapter Solana_Program Node_Receipt
begin

text \<open>The Solana adapter of \<^verbatim>\<open>crates/settlement/src/solana.rs\<close>: configuration, JSON-RPC, instruction
  builders and the \<^verbatim>\<open>SettlementAdapter\<close> implementation; then what its transactions do when the
  on-chain program executes them.\<close>

record solana_config =
  sl_rpc_url :: string
  sl_program_id_str :: string
  sl_keypair_hex :: "string option"
  sl_node_p2p_pubkey_hex :: "string option"
  sl_price_per_1k :: nanox

record solana_settlement =
  sv_config :: solana_config
  sv_program_id :: bytes
  sv_state_pda :: bytes

section \<open>Keys and addresses\<close>

definition decode_pubkey :: "solana_crypto \<Rightarrow> string \<Rightarrow> (bytes, net_error) res" where
  "decode_pubkey Y s =
     (case so_b58_decode Y s of
        None \<Rightarrow> Err (BadBase58 s)
      | Some bs \<Rightarrow> if length bs = 32 then Okay bs else Err WrongLength)"

definition encode_pubkey :: "solana_crypto \<Rightarrow> bytes \<Rightarrow> string" where
  "encode_pubkey Y bs = so_b58_encode Y bs"

definition lift_res :: "('a, net_error) res \<Rightarrow> ('w, 'a) net" where
  "lift_res r = (case r of Inl e \<Rightarrow> fail e | Inr a \<Rightarrow> ret a)"

lemma lift_res_Inr [net_simps]: "lift_res r w = (Inr a, w') \<longleftrightarrow> r = Inr a \<and> w = w'"
  by (auto simp: lift_res_def ret_def fail_def split: sum.split)

definition solana_new :: "solana_crypto \<Rightarrow> solana_config \<Rightarrow> (solana_settlement, net_error) res" where
  "solana_new Y cfg =
     (case decode_pubkey Y (sl_program_id_str cfg) of
        Inl e \<Rightarrow> Err (Ctx ''invalid program_id'' e)
      | Inr program_id \<Rightarrow>
          (case find_pda Y [seed_state] program_id of
             Panic \<Rightarrow> Err Panicked
           | Done (state_pda, _) \<Rightarrow>
               Okay \<lparr>sv_config = cfg, sv_program_id = program_id, sv_state_pda = state_pda\<rparr>))"

text \<open>The seed is the slice of the first 32 bytes, which panics on a shorter key.\<close>

definition solana_signing_key :: "solana_crypto \<Rightarrow> solana_settlement \<Rightarrow> ('w, bytes) net" where
  "solana_signing_key Y sv =
     andThen (lift_opt NoSigner (sl_keypair_hex (sv_config sv))) (\<lambda>hex_str.
     andThen (lift_opt BadHex (so_hex_decode Y hex_str)) (\<lambda>bs.
     if length bs < 32 then fail Panicked else ret (take 32 bs)))"

definition signer_pubkey :: "solana_crypto \<Rightarrow> solana_settlement \<Rightarrow> ('w, bytes) net" where
  "signer_pubkey Y sv = andThen (solana_signing_key Y sv) (\<lambda>sk. ret (so_public Y sk))"

definition node_p2p_pubkey :: "solana_crypto \<Rightarrow> solana_settlement \<Rightarrow> ('w, bytes) net" where
  "node_p2p_pubkey Y sv =
     andThen (lift_opt NoSigner (sl_node_p2p_pubkey_hex (sv_config sv))) (\<lambda>hex_str.
     andThen (lift_opt BadHex (so_hex_decode Y hex_str)) (\<lambda>bs.
     if length bs = 32 then ret bs else fail WrongLength))"

definition escrow_pda :: "solana_crypto \<Rightarrow> solana_settlement \<Rightarrow> bytes \<Rightarrow> ('w, bytes) net" where
  "escrow_pda Y sv request_id =
     andThen (lift_outcome (find_pda Y [seed_escrow, request_id] (sv_program_id sv))) (\<lambda>(a, _). ret a)"

definition score_pda :: "solana_crypto \<Rightarrow> solana_settlement \<Rightarrow> bytes \<Rightarrow> ('w, bytes) net" where
  "score_pda Y sv node_pubkey =
     andThen (lift_outcome (find_pda Y [seed_score, node_pubkey] (sv_program_id sv))) (\<lambda>(a, _). ret a)"

section \<open>JSON-RPC\<close>

definition solana_rpc :: "'w http \<Rightarrow> solana_settlement \<Rightarrow> string \<Rightarrow> json \<Rightarrow> ('w, json) net" where
  "solana_rpc post sv meth params = json_rpc post (sl_rpc_url (sv_config sv)) meth params"

definition latest_blockhash :: "solana_crypto \<Rightarrow> 'w http \<Rightarrow> solana_settlement \<Rightarrow> ('w, bytes) net" where
  "latest_blockhash Y post sv =
     andThen (solana_rpc post sv ''getLatestBlockhash''
        (JArr [JObj [(''commitment'', JStr ''confirmed'')]])) (\<lambda>result.
     andThen (lift_opt (MissingField ''blockhash'')
        (Option.bind (Option.bind (json_get ''value'' result) (json_get ''blockhash'')) as_str)) (\<lambda>hash_str.
     with_ctx ''could not decode blockhash'' (lift_res (decode_pubkey Y hash_str))))"

definition send_params :: "solana_crypto \<Rightarrow> bytes \<Rightarrow> json" where
  "send_params Y tx = JArr [JStr (so_base64 Y tx),
     JObj [(''encoding'', JStr ''base64''), (''preflightCommitment'', JStr ''confirmed'')]]"

definition solana_send ::
  "solana_crypto \<Rightarrow> 'w http \<Rightarrow> solana_settlement \<Rightarrow> sol_ix list \<Rightarrow> ('w, string) net" where
  "solana_send Y post sv instructions =
     andThen (solana_signing_key Y sv) (\<lambda>sk.
     let payer = so_public Y sk in
     andThen (latest_blockhash Y post sv) (\<lambda>bhash.
     andThen (lift_outcome (build_transaction Y instructions payer sk bhash)) (\<lambda>tx.
     andThen (solana_rpc post sv ''sendTransaction'' (send_params Y tx)) (\<lambda>result.
     lift_opt (NotAString ''sendTransaction'') (as_str result)))))"

section \<open>Instructions\<close>

definition ix_lock_escrow ::
  "solana_crypto \<Rightarrow> solana_settlement \<Rightarrow> bytes \<Rightarrow> bytes \<Rightarrow> bytes \<Rightarrow> bytes \<Rightarrow> u64 \<Rightarrow> i64 \<Rightarrow> sol_ix" where
  "ix_lock_escrow Y sv escrow client node_wallet request_id amount timeout =
     \<lparr>sx_program_id = sv_program_id sv,
      sx_accounts =
        [\<lparr>ia_pubkey = escrow, ia_writable = True, ia_signer = False\<rparr>,
         \<lparr>ia_pubkey = sv_state_pda sv, ia_writable = True, ia_signer = False\<rparr>,
         \<lparr>ia_pubkey = client, ia_writable = True, ia_signer = True\<rparr>,
         \<lparr>ia_pubkey = node_wallet, ia_writable = False, ia_signer = False\<rparr>,
         \<lparr>ia_pubkey = system_program, ia_writable = False, ia_signer = False\<rparr>],
      sx_data = encode_lock_escrow Y request_id amount timeout\<rparr>"

definition ix_release_escrow :: "solana_crypto \<Rightarrow> solana_settlement \<Rightarrow> bytes \<Rightarrow> bytes \<Rightarrow> bytes \<Rightarrow> sol_ix" where
  "ix_release_escrow Y sv escrow node_wallet proof_hash =
     \<lparr>sx_program_id = sv_program_id sv,
      sx_accounts =
        [\<lparr>ia_pubkey = escrow, ia_writable = True, ia_signer = False\<rparr>,
         \<lparr>ia_pubkey = sv_state_pda sv, ia_writable = True, ia_signer = False\<rparr>,
         \<lparr>ia_pubkey = node_wallet, ia_writable = True, ia_signer = True\<rparr>],
      sx_data = encode_release_escrow Y proof_hash\<rparr>"

definition ix_refund_escrow :: "solana_crypto \<Rightarrow> solana_settlement \<Rightarrow> bytes \<Rightarrow> bytes \<Rightarrow> sol_ix" where
  "ix_refund_escrow Y sv escrow client =
     \<lparr>sx_program_id = sv_program_id sv,
      sx_accounts =
        [\<lparr>ia_pubkey = escrow, ia_writable = True, ia_signer = False\<rparr>,
         \<lparr>ia_pubkey = client, ia_writable = True, ia_signer = True\<rparr>],
      sx_data = encode_refund_escrow Y\<rparr>"

definition ix_submit_proof ::
  "solana_crypto \<Rightarrow> solana_settlement \<Rightarrow> bytes \<Rightarrow> bytes \<Rightarrow> bytes \<Rightarrow> u32 \<Rightarrow> u32 \<Rightarrow> u64 \<Rightarrow> sol_ix" where
  "ix_submit_proof Y sv score authority proof_hash output_tokens latency_ms lamports =
     \<lparr>sx_program_id = sv_program_id sv,
      sx_accounts =
        [\<lparr>ia_pubkey = score, ia_writable = True, ia_signer = False\<rparr>,
         \<lparr>ia_pubkey = authority, ia_writable = False, ia_signer = True\<rparr>],
      sx_data = encode_submit_proof Y proof_hash output_tokens latency_ms lamports\<rparr>"

definition ix_anchor_merkle_root ::
  "solana_crypto \<Rightarrow> solana_settlement \<Rightarrow> bytes \<Rightarrow> bytes \<Rightarrow> bytes \<Rightarrow> bytes \<Rightarrow> sol_ix" where
  "ix_anchor_merkle_root Y sv score authority root_hash label =
     \<lparr>sx_program_id = sv_program_id sv,
      sx_accounts =
        [\<lparr>ia_pubkey = score, ia_writable = True, ia_signer = False\<rparr>,
         \<lparr>ia_pubkey = authority, ia_writable = False, ia_signer = True\<rparr>],
      sx_data = encode_anchor_merkle_root Y root_hash label\<rparr>"

section \<open>The adapter\<close>

definition solana_capabilities :: settlement_capabilities where
  "solana_capabilities = \<lparr>cap_has_escrow = True, cap_has_token = False, cap_is_trustless = True,
     cap_finality_seconds = 1, cap_min_payment_nanox = 1000, cap_accepted_tokens = [''sol'', ''native'']\<rparr>"

definition uuid_bytes :: "uuid \<Rightarrow> bytes" where
  "uuid_bytes i = be_bytes 16 (unat i)"

definition solana_lock_funds ::
  "solana_crypto \<Rightarrow> 'w http \<Rightarrow> solana_settlement \<Rightarrow> escrow_params \<Rightarrow> ('w, escrow_handle) net" where
  "solana_lock_funds Y post sv params =
     andThen (signer_pubkey Y sv) (\<lambda>client.
     let request_id = uuid_bytes (ep_request_id params) in
     andThen (with_ctx ''invalid node_address'' (lift_res (decode_pubkey Y (ep_node_address params)))) (\<lambda>node_wallet.
     andThen (escrow_pda Y sv request_id) (\<lambda>escrow.
     andThen (with_ctx ''lock_escrow failed'' (solana_send Y post sv
        [ix_lock_escrow Y sv escrow client node_wallet request_id (ep_amount_nanox params) 0])) (\<lambda>sig.
     ret \<lparr>eh_settlement_id = ''solana'', eh_request_id = ep_request_id params,
          eh_amount_nanox = ep_amount_nanox params, eh_chain_tx_id = Some sig,
          eh_payload = JObj [(''escrow_pda'', JStr (encode_pubkey Y escrow)),
                             (''request_id_bytes'', JStr (so_hex_encode Y request_id))]\<rparr>))))"

definition handle_escrow_pda :: "solana_crypto \<Rightarrow> escrow_handle \<Rightarrow> ('w, bytes) net" where
  "handle_escrow_pda Y h =
     andThen (lift_opt (MissingField ''escrow_pda'')
       (Option.bind (json_get ''escrow_pda'' (eh_payload h)) as_str)) (\<lambda>s. lift_res (decode_pubkey Y s))"

definition solana_release_funds ::
  "crypto_env \<Rightarrow> solana_crypto \<Rightarrow> 'w http \<Rightarrow> solana_settlement \<Rightarrow> escrow_handle \<Rightarrow> proof_of_inference \<Rightarrow>
     ('w, unit) net" where
  "solana_release_funds C Y post sv h p =
     andThen (signer_pubkey Y sv) (\<lambda>node_wallet.
     let proof_hash = poi_id C p in
     andThen (handle_escrow_pda Y h) (\<lambda>escrow.
     andThen (score_pda Y sv (poi_node_pubkey p)) (\<lambda>score.
     andThen (with_ctx ''release+proof failed'' (solana_send Y post sv
        [ix_release_escrow Y sv escrow node_wallet proof_hash,
         ix_submit_proof Y sv score node_wallet proof_hash (poi_output_tokens p) (poi_latency_ms p)
           (eh_amount_nanox h)])) (\<lambda>sig. ret ()))))"

definition solana_refund_funds ::
  "solana_crypto \<Rightarrow> 'w http \<Rightarrow> solana_settlement \<Rightarrow> escrow_handle \<Rightarrow> ('w, unit) net" where
  "solana_refund_funds Y post sv h =
     andThen (signer_pubkey Y sv) (\<lambda>client.
     andThen (handle_escrow_pda Y h) (\<lambda>escrow.
     andThen (with_ctx ''refund_escrow failed''
        (solana_send Y post sv [ix_refund_escrow Y sv escrow client])) (\<lambda>sig. ret ())))"

definition solana_get_balance :: "'w http \<Rightarrow> solana_settlement \<Rightarrow> string \<Rightarrow> ('w, nanox) net" where
  "solana_get_balance post sv address =
     andThen (solana_rpc post sv ''getBalance''
        (JArr [JStr address, JObj [(''commitment'', JStr ''confirmed'')]])) (\<lambda>result.
     lift_opt (BadReply ''getBalance'') (Option.bind (json_get ''value'' result) as_u64))"

definition label_bytes :: "string \<Rightarrow> bytes" where
  "label_bytes label =
     (let raw = take 32 (str_bytes label) in raw @ replicate (32 - length raw) 0)"

definition solana_anchor_hash ::
  "solana_crypto \<Rightarrow> 'w http \<Rightarrow> solana_settlement \<Rightarrow> bytes \<Rightarrow> string \<Rightarrow> ('w, string option) net" where
  "solana_anchor_hash Y post sv hash label =
     andThen (signer_pubkey Y sv) (\<lambda>authority.
     andThen (node_p2p_pubkey Y sv) (\<lambda>node_p2p_key.
     andThen (score_pda Y sv node_p2p_key) (\<lambda>score.
     andThen (with_ctx ''anchor_merkle_root failed'' (solana_send Y post sv
        [ix_anchor_merkle_root Y sv score authority hash (label_bytes label)])) (\<lambda>sig. ret (Some sig)))))"

definition solana_adapter ::
  "crypto_env \<Rightarrow> solana_crypto \<Rightarrow> 'w http \<Rightarrow> solana_settlement \<Rightarrow> 'w adapter" where
  "solana_adapter C Y post sv = \<lparr>ad_id = ''solana'', ad_capabilities = solana_capabilities,
     ad_lock = (\<lambda>p. in_settle (solana_lock_funds Y post sv p)),
     ad_release = (\<lambda>h p. in_settle (solana_release_funds C Y post sv h p)),
     ad_refund = (\<lambda>h. in_settle (solana_refund_funds Y post sv h)),
     ad_balance = (\<lambda>a. in_settle (solana_get_balance post sv a)),
     ad_anchor = (\<lambda>h l. in_settle (solana_anchor_hash Y post sv h l))\<rparr>"

interpretation solana: settlement_adapter "solana_adapter C Y post sv" "\<lambda>w. ()"
  for C Y post sv
  by unfold_locales (auto simp: solana_adapter_def solana_lock_funds_def Let_def net_simps)

section \<open>Execution on the chain\<close>

text \<open>What the program does with the instructions of a transaction: the first eight bytes of the data select
  the handler, the rest are its arguments, and the accounts come in the order of the handler's
  account struct. \<open>V\<close> tells the address of the program's state and what the accounts at derived
  addresses say about their seeds.\<close>

record account_view =
  av_state :: bytes
  av_escrow :: "bytes \<rightharpoonup> bytes"
  av_score :: "bytes \<rightharpoonup> bytes"

definition res_option :: "('a, 'e) res \<Rightarrow> 'a option" where
  "res_option r = (case r of Inl e \<Rightarrow> None | Inr a \<Rightarrow> Some a)"

definition le_word :: "bytes \<Rightarrow> 'a::len word" where
  "le_word bs = word_of_nat (of_le_bytes bs)"

definition run_lock ::
  "solana_runtime \<Rightarrow> account_view \<Rightarrow> i64 \<Rightarrow> ix_account list \<Rightarrow> bytes \<Rightarrow> chain_state \<Rightarrow> chain_state option" where
  "run_lock R V now accs args s =
     (case accs of
        [escrow, state, client, node_wallet, sys] \<Rightarrow>
          if length args = 32 \<and> ia_writable escrow \<and> ia_writable state \<and> ia_writable client \<and>
             ia_signer client \<and> ia_pubkey escrow = rt_escrow_address R (take 16 args) \<and>
             ia_pubkey state = av_state V \<and> ia_pubkey sys = system_program
          then res_option (lock_escrow R now (ia_pubkey client) (ia_pubkey node_wallet) (take 16 args)
                 (le_word (take 8 (drop 16 args))) (le_word (drop 24 args)) s)
          else None
      | _ \<Rightarrow> None)"

definition run_release ::
  "solana_runtime \<Rightarrow> account_view \<Rightarrow> i64 \<Rightarrow> ix_account list \<Rightarrow> bytes \<Rightarrow> chain_state \<Rightarrow> chain_state option" where
  "run_release R V now accs args s =
     (case accs of
        [escrow, state, node_wallet] \<Rightarrow>
          if length args = 32 \<and> ia_writable escrow \<and> ia_writable state \<and> ia_writable node_wallet \<and>
             ia_signer node_wallet \<and> ia_pubkey state = av_state V
          then (case av_escrow V (ia_pubkey escrow) of
                  None \<Rightarrow> None
                | Some rid \<Rightarrow> res_option (release_escrow R now (ia_pubkey node_wallet) rid args s))
          else None
      | _ \<Rightarrow> None)"

definition run_refund ::
  "solana_runtime \<Rightarrow> account_view \<Rightarrow> i64 \<Rightarrow> ix_account list \<Rightarrow> bytes \<Rightarrow> chain_state \<Rightarrow> chain_state option" where
  "run_refund R V now accs args s =
     (case accs of
        [escrow, client] \<Rightarrow>
          if args = [] \<and> ia_writable escrow \<and> ia_writable client \<and> ia_signer client
          then (case av_escrow V (ia_pubkey escrow) of
                  None \<Rightarrow> None
                | Some rid \<Rightarrow> res_option (refund_escrow R now (ia_pubkey client) rid s))
          else None
      | _ \<Rightarrow> None)"

definition run_submit ::
  "account_view \<Rightarrow> i64 \<Rightarrow> ix_account list \<Rightarrow> bytes \<Rightarrow> chain_state \<Rightarrow> chain_state option" where
  "run_submit V now accs args s =
     (case accs of
        [score, authority] \<Rightarrow>
          if length args = 48 \<and> ia_writable score \<and> ia_signer authority
          then (case av_score V (ia_pubkey score) of
                  None \<Rightarrow> None
                | Some k \<Rightarrow> res_option (submit_proof now (ia_pubkey authority) k (take 32 args)
                    (le_word (take 4 (drop 32 args))) (le_word (take 4 (drop 36 args)))
                    (le_word (drop 40 args)) s))
          else None
      | _ \<Rightarrow> None)"

definition run_anchor ::
  "account_view \<Rightarrow> i64 \<Rightarrow> ix_account list \<Rightarrow> bytes \<Rightarrow> chain_state \<Rightarrow> chain_state option" where
  "run_anchor V now accs args s =
     (case accs of
        [score, authority] \<Rightarrow>
          if length args = 64 \<and> ia_writable score \<and> ia_signer authority
          then (case av_score V (ia_pubkey score) of
                  None \<Rightarrow> None
                | Some k \<Rightarrow> res_option (anchor_merkle_root now (ia_pubkey authority) k (take 32 args) (drop 32 args) s))
          else None
      | _ \<Rightarrow> None)"

definition run_ix ::
  "solana_crypto \<Rightarrow> solana_runtime \<Rightarrow> account_view \<Rightarrow> bytes \<Rightarrow> i64 \<Rightarrow> sol_ix \<Rightarrow> chain_state \<Rightarrow> chain_state option" where
  "run_ix Y R V program_id now ix s =
     (let d = take 8 (sx_data ix); args = drop 8 (sx_data ix); accs = sx_accounts ix in
      if sx_program_id ix \<noteq> program_id then None
      else if d = disc Y ''lock_escrow'' then run_lock R V now accs args s
      else if d = disc Y ''release_escrow'' then run_release R V now accs args s
      else if d = disc Y ''refund_escrow'' then run_refund R V now accs args s
      else if d = disc Y ''submit_proof'' then run_submit V now accs args s
      else if d = disc Y ''anchor_merkle_root'' then run_anchor V now accs args s
      else None)"

text \<open>A transaction is all or nothing.\<close>

fun run_ixs ::
  "solana_crypto \<Rightarrow> solana_runtime \<Rightarrow> account_view \<Rightarrow> bytes \<Rightarrow> i64 \<Rightarrow> sol_ix list \<Rightarrow> chain_state \<Rightarrow> chain_state option" where
  "run_ixs Y R V program_id now [] s = Some s"
| "run_ixs Y R V program_id now (ix # ixs) s =
     Option.bind (run_ix Y R V program_id now ix s) (run_ixs Y R V program_id now ixs)"

definition run_transaction ::
  "solana_crypto \<Rightarrow> (bytes \<Rightarrow> bytes \<Rightarrow> bytes \<Rightarrow> bool) \<Rightarrow> solana_runtime \<Rightarrow> account_view \<Rightarrow> bytes \<Rightarrow> i64 \<Rightarrow>
     bytes \<Rightarrow> chain_state \<Rightarrow> chain_state option" where
  "run_transaction Y verify R V program_id now tx s =
     Option.bind (decode_transaction verify tx) (\<lambda>t. run_ixs Y R V program_id now (dt_ixs t) s)"

text \<open>What the libraries promise: hashes and keys of 32 bytes, signatures of 64 that verify, base58 that
  reads back, and different discriminators for the handlers the adapter calls.\<close>

definition solana_lawful :: "solana_crypto \<Rightarrow> (bytes \<Rightarrow> bytes \<Rightarrow> bytes \<Rightarrow> bool) \<Rightarrow> bool" where
  "solana_lawful Y verify \<longleftrightarrow>
     (\<forall>b. length (so_sha256 Y b) = 32) \<and> (\<forall>b. length (so_public Y b) = 32) \<and>
     (\<forall>sk msg. length (so_sign Y sk msg) = 64 \<and> verify (so_public Y sk) msg (so_sign Y sk msg)) \<and>
     (\<forall>b. so_b58_decode Y (so_b58_encode Y b) = Some b) \<and>
     distinct (map (disc Y) [''lock_escrow'', ''release_escrow'', ''refund_escrow'', ''submit_proof'', ''anchor_merkle_root''])"

text \<open>The chain derives the same addresses as the adapter, for its escrows and for the score of a node.\<close>

definition chain_matches :: "solana_crypto \<Rightarrow> solana_settlement \<Rightarrow> solana_runtime \<Rightarrow> account_view \<Rightarrow> bool" where
  "chain_matches Y sv R V \<longleftrightarrow>
     length (sv_program_id sv) = 32 \<and> length (sv_state_pda sv) = 32 \<and> av_state V = sv_state_pda sv \<and>
     (\<forall>rid. length rid = 16 \<longrightarrow> (\<exists>b. find_pda Y [seed_escrow, rid] (sv_program_id sv) = Done (rt_escrow_address R rid, b)) \<and>
        av_escrow V (rt_escrow_address R rid) = Some rid)"

definition score_matches :: "solana_crypto \<Rightarrow> solana_settlement \<Rightarrow> account_view \<Rightarrow> bytes \<Rightarrow> bool" where
  "score_matches Y sv V k \<longleftrightarrow>
     (\<forall>a b. find_pda Y [seed_score, k] (sv_program_id sv) = Done (a, b) \<longrightarrow> av_score V a = Some k)"

lemma le_word_le_bytes:
  assumes "(256 :: nat) ^ n = 2 ^ LENGTH('a)"
  shows "le_word (le_bytes n (unat (x :: 'a::len word))) = x"
proof -
  have "unat x < 256 ^ n"
    unfolding assms by (rule unat_lt)
  then show ?thesis
    by (simp add: le_word_def of_le_bytes_le_bytes)
qed

lemma length_pda: "solana_lawful Y verify \<Longrightarrow> find_pda Y seeds pid = Done (a, b) \<Longrightarrow> length a = 32"
  by (auto simp: find_pda_def pda_hash_def solana_lawful_def dest: pda_loop_Done)

lemma length_disc: "solana_lawful Y verify \<Longrightarrow> length (disc Y name) = 8"
  by (simp add: solana_lawful_def disc_def)

lemma disc_eq [simp]:
  assumes "solana_lawful Y verify"
  shows "disc Y ''lock_escrow'' \<noteq> disc Y ''release_escrow''" "disc Y ''lock_escrow'' \<noteq> disc Y ''refund_escrow''"
    "disc Y ''lock_escrow'' \<noteq> disc Y ''submit_proof''" "disc Y ''lock_escrow'' \<noteq> disc Y ''anchor_merkle_root''"
    "disc Y ''release_escrow'' \<noteq> disc Y ''refund_escrow''" "disc Y ''release_escrow'' \<noteq> disc Y ''submit_proof''"
    "disc Y ''release_escrow'' \<noteq> disc Y ''anchor_merkle_root''" "disc Y ''refund_escrow'' \<noteq> disc Y ''submit_proof''"
    "disc Y ''refund_escrow'' \<noteq> disc Y ''anchor_merkle_root''" "disc Y ''submit_proof'' \<noteq> disc Y ''anchor_merkle_root''"
  using assms by (auto simp: solana_lawful_def)

text \<open>A transaction that was accepted by the RPC server.\<close>

definition posted :: "solana_crypto \<Rightarrow> 'w http \<Rightarrow> solana_settlement \<Rightarrow> bytes \<Rightarrow> string \<Rightarrow> 'w \<Rightarrow> bool" where
  "posted Y post sv tx sig w' \<longleftrightarrow>
     (\<exists>w1. solana_rpc post sv ''sendTransaction'' (send_params Y tx) w1 = (Inr (JStr sig), w'))"

lemma if_fail_Inr [net_simps]:
  "(if c then fail e else m) w = (Inr a, w') \<longleftrightarrow> \<not> c \<and> m w = (Inr a, w')"
  by (simp add: fail_def)

lemma solana_signing_key_Inr [net_simps]:
  "solana_signing_key Y sv w = (Inr sk, w') \<longleftrightarrow> w = w' \<and>
     (\<exists>h b. sl_keypair_hex (sv_config sv) = Some h \<and> so_hex_decode Y h = Some b \<and> 32 \<le> length b \<and> sk = take 32 b)"
  by (auto simp: solana_signing_key_def net_simps not_less)

lemma signer_pubkey_Inr [net_simps]:
  "signer_pubkey Y sv w = (Inr k, w') \<longleftrightarrow> (\<exists>sk. solana_signing_key Y sv w = (Inr sk, w') \<and> k = so_public Y sk)"
  by (auto simp: signer_pubkey_def andThen_Inr ret_Inr)

lemma decode_pubkey_Inr: "decode_pubkey Y s = Inr b \<longleftrightarrow> so_b58_decode Y s = Some b \<and> length b = 32"
  by (auto simp: decode_pubkey_def split: option.splits)

lemma solana_send_posted:
  assumes "solana_send Y post sv ixs w = (Inr sig, w')"
  obtains sk bh tx where "solana_signing_key Y sv w = (Inr sk, w)" "length bh = 32"
    "build_transaction Y ixs (so_public Y sk) sk bh = Done tx" "posted Y post sv tx sig w'"
proof -
  obtain sk bh w1 tx r where "solana_signing_key Y sv w = (Inr sk, w)" "latest_blockhash Y post sv w = (Inr bh, w1)"
    "build_transaction Y ixs (so_public Y sk) sk bh = Done tx"
    "solana_rpc post sv ''sendTransaction'' (send_params Y tx) w1 = (Inr r, w')" "as_str r = Some sig"
    using assms by (auto simp: solana_send_def Let_def net_simps)
  moreover from this(2) have "length bh = 32"
    by (auto simp: latest_blockhash_def net_simps decode_pubkey_Inr)
  ultimately show thesis
    using that by (auto simp: as_str_Some posted_def)
qed

lemma bind_run_nil [simp]: "Option.bind m (run_ixs Y R V pid now []) = m"
  by (cases m) simp_all

text \<open>What is posted is what runs.\<close>

lemma send_executes:
  assumes "solana_lawful Y verify" "solana_send Y post sv ixs w = (Inr sig, w')"
    and "solana_signing_key Y sv w = (Inr sk, w)"
    and "\<forall>ix\<in>set ixs. \<forall>a\<in>set (sx_accounts ix). ia_signer a \<longrightarrow> ia_pubkey a = so_public Y sk"
    and "\<And>bh. length bh = 32 \<Longrightarrow> wire_ok (so_public Y sk) ixs bh"
  shows "\<exists>tx. posted Y post sv tx sig w' \<and> (\<forall>R V pid now s. run_transaction Y verify R V pid now tx s =
    run_ixs Y R V pid now (map (grant (all_requests (so_public Y sk) ixs)) ixs) s)"
proof -
  let ?rs = "all_requests (so_public Y sk) ixs"
  obtain sk' bh tx where send: "solana_signing_key Y sv w = (Inr sk', w)" "length bh = 32"
    "build_transaction Y ixs (so_public Y sk') sk' bh = Done tx" "posted Y post sv tx sig w'"
    using solana_send_posted [OF assms(2)] by blast
  have sk: "sk' = sk"
    using send(1) assms(3) by simp
  have sign: "\<forall>msg. length (so_sign Y sk msg) = 64 \<and> verify (so_public Y sk) msg (so_sign Y sk msg)"
    using assms(1) unfolding solana_lawful_def by blast
  obtain tx' where "build_transaction Y ixs (so_public Y sk) sk bh = Done tx'"
    "decode_transaction verify tx' = Some \<lparr>dt_signers = [so_public Y sk], dt_blockhash = bh,
      dt_ixs = map (grant (all_requests (so_public Y sk) ixs)) ixs\<rparr>"
    using transaction_decoded [OF assms(5) [OF send(2)] assms(4), where verify = verify, OF sign] by blast
  with send(3) sk have "decode_transaction verify tx = Some \<lparr>dt_signers = [so_public Y sk], dt_blockhash = bh,
      dt_ixs = map (grant ?rs) ixs\<rparr>"
    by simp
  then have "run_transaction Y verify R V pid now tx s = run_ixs Y R V pid now (map (grant ?rs) ixs) s" for R V pid now s
    by (simp add: run_transaction_def)
  with send(4) show ?thesis
    by blast
qed

lemmas ix_defs = ix_lock_escrow_def ix_release_escrow_def ix_refund_escrow_def ix_submit_proof_def
  ix_anchor_merkle_root_def

lemmas wire_defs = wire_ok_def all_requests_def ix_requests_def ix_defs encode_lock_escrow_def
  encode_release_escrow_def encode_refund_escrow_def encode_submit_proof_def encode_anchor_merkle_root_def

lemma run_lock_granted:
  assumes "solana_lawful Y verify" "chain_matches Y sv R V" "length rid = 16"
    and "fst (asked rs (rt_escrow_address R rid))" "fst (asked rs (sv_state_pda sv))"
    and "fst (asked rs client)" "snd (asked rs client)"
  shows "run_ix Y R V (sv_program_id sv) now
      (grant rs (ix_lock_escrow Y sv (rt_escrow_address R rid) client node rid amount timeout)) s =
    res_option (lock_escrow R now client node rid amount timeout s)"
  using assms length_disc [OF assms(1)] by (simp add: run_ix_def run_lock_def grant_def ix_lock_escrow_def
      encode_lock_escrow_def chain_matches_def le_word_le_bytes Let_def)

lemma run_release_granted:
  assumes "solana_lawful Y verify" "chain_matches Y sv R V" "length rid = 16" "length ph = 32"
    and "fst (asked rs (rt_escrow_address R rid))" "fst (asked rs (sv_state_pda sv))"
    and "fst (asked rs node)" "snd (asked rs node)"
  shows "run_ix Y R V (sv_program_id sv) now
      (grant rs (ix_release_escrow Y sv (rt_escrow_address R rid) node ph)) s =
    res_option (release_escrow R now node rid ph s)"
  using assms length_disc [OF assms(1)] disc_eq [OF assms(1)] disc_eq [OF assms(1), symmetric]
  by (simp add: run_ix_def run_release_def grant_def ix_release_escrow_def
      encode_release_escrow_def chain_matches_def Let_def)

lemma run_refund_granted:
  assumes "solana_lawful Y verify" "chain_matches Y sv R V" "length rid = 16"
    and "fst (asked rs (rt_escrow_address R rid))" "fst (asked rs client)" "snd (asked rs client)"
  shows "run_ix Y R V (sv_program_id sv) now
      (grant rs (ix_refund_escrow Y sv (rt_escrow_address R rid) client)) s =
    res_option (refund_escrow R now client rid s)"
  using assms length_disc [OF assms(1)] disc_eq [OF assms(1)] disc_eq [OF assms(1), symmetric]
  by (simp add: run_ix_def run_refund_def grant_def ix_refund_escrow_def
      encode_refund_escrow_def chain_matches_def Let_def)

lemma run_submit_granted:
  assumes "solana_lawful Y verify" "av_score V score = Some k" "length ph = 32"
    and "fst (asked rs score)" "snd (asked rs authority)"
  shows "run_ix Y R V (sv_program_id sv) now
      (grant rs (ix_submit_proof Y sv score authority ph toks lat amount)) s =
    res_option (submit_proof now authority k ph toks lat amount s)"
  using assms length_disc [OF assms(1)] disc_eq [OF assms(1)] disc_eq [OF assms(1), symmetric]
  by (simp add: run_ix_def run_submit_def grant_def ix_submit_proof_def
      encode_submit_proof_def le_word_le_bytes Let_def)

lemma run_anchor_granted:
  assumes "solana_lawful Y verify" "av_score V score = Some k" "length r = 32" "length l = 32"
    and "fst (asked rs score)" "snd (asked rs authority)"
  shows "run_ix Y R V (sv_program_id sv) now (grant rs (ix_anchor_merkle_root Y sv score authority r l)) s =
    res_option (anchor_merkle_root now authority k r l s)"
  using assms length_disc [OF assms(1)] disc_eq [OF assms(1)] disc_eq [OF assms(1), symmetric]
  by (simp add: run_ix_def run_anchor_def grant_def ix_anchor_merkle_root_def
      encode_anchor_merkle_root_def Let_def)

section \<open>The calls of the adapter\<close>

lemma chain_escrow:
  assumes "solana_lawful Y verify" "chain_matches Y sv R V" "length rid = 16"
  shows "\<exists>b. find_pda Y [seed_escrow, rid] (sv_program_id sv) = Done (rt_escrow_address R rid, b)"
    and "av_escrow V (rt_escrow_address R rid) = Some rid" and "length (rt_escrow_address R rid) = 32"
proof -
  show pda: "\<exists>b. find_pda Y [seed_escrow, rid] (sv_program_id sv) = Done (rt_escrow_address R rid, b)"
    and "av_escrow V (rt_escrow_address R rid) = Some rid"
    using assms(2,3) by (auto simp: chain_matches_def)
  show "length (rt_escrow_address R rid) = 32"
    using pda length_pda [OF assms(1)] by blast
qed

lemma lawful_lengths:
  assumes "solana_lawful Y verify" "chain_matches Y sv R V"
  shows "length (so_public Y sk) = 32" "length (sv_program_id sv) = 32" "length (sv_state_pda sv) = 32"
    "length system_program = 32" "length (disc Y name) = 8"
proof -
  show "length (so_public Y sk) = 32"
    using assms(1) unfolding solana_lawful_def by blast
  show "length (sv_program_id sv) = 32" "length (sv_state_pda sv) = 32"
    using assms(2) unfolding chain_matches_def by blast+
  show "length system_program = 32"
    by (simp add: system_program_def)
  show "length (disc Y name) = 8"
    by (rule length_disc [OF assms(1)])
qed

lemma length_uuid_bytes [simp]: "length (uuid_bytes i) = 16"
  by (simp add: uuid_bytes_def)

lemma lock_executes:
  assumes "solana_lawful Y verify" "chain_matches Y sv R V"
    and "solana_lock_funds Y post sv params w = (Inr h, w')"
  obtains sk node tx sig where "solana_signing_key Y sv w = (Inr sk, w)"
    "so_b58_decode Y (ep_node_address params) = Some node" "posted Y post sv tx sig w'"
    "\<And>now s. run_transaction Y verify R V (sv_program_id sv) now tx s =
      res_option (lock_escrow R now (so_public Y sk) node (uuid_bytes (ep_request_id params)) (ep_amount_nanox params) 0 s)"
    "eh_amount_nanox h = ep_amount_nanox params" "eh_chain_tx_id h = Some sig"
    "json_get ''escrow_pda'' (eh_payload h) =
      Some (JStr (encode_pubkey Y (rt_escrow_address R (uuid_bytes (ep_request_id params)))))"
proof -
  let ?rid = "uuid_bytes (ep_request_id params)"
  let ?e = "rt_escrow_address R ?rid"
  obtain b where pda: "find_pda Y [seed_escrow, ?rid] (sv_program_id sv) = Done (?e, b)"
    using chain_escrow(1) [OF assms(1,2)] by fastforce
  obtain sk v node sig where sk': "solana_signing_key Y sv w = (Inr sk, v)"
    and node: "so_b58_decode Y (ep_node_address params) = Some node" "length node = 32"
    and send': "solana_send Y post sv [ix_lock_escrow Y sv ?e (so_public Y sk) node ?rid (ep_amount_nanox params) 0] v = (Inr sig, w')"
    and h: "h = \<lparr>eh_settlement_id = ''solana'', eh_request_id = ep_request_id params,
          eh_amount_nanox = ep_amount_nanox params, eh_chain_tx_id = Some sig,
          eh_payload = JObj [(''escrow_pda'', JStr (encode_pubkey Y ?e)),
                             (''request_id_bytes'', JStr (so_hex_encode Y ?rid))]\<rparr>"
    using assms(3) pda by (auto simp: solana_lock_funds_def escrow_pda_def Let_def decode_pubkey_Inr
        andThen_Inr ret_Inr signer_pubkey_Inr lift_res_Inr with_ctx_Inr lift_outcome_Inr)
  have "v = w"
    using sk' by (simp add: solana_signing_key_Inr)
  note sk = sk' [unfolded this] and send = send' [unfolded this]
  let ?ixs = "[ix_lock_escrow Y sv ?e (so_public Y sk) node ?rid (ep_amount_nanox params) 0]"
  let ?rs = "all_requests (so_public Y sk) ?ixs"
  note len = lawful_lengths [OF assms(1,2)] chain_escrow(3) [OF assms(1,2) length_uuid_bytes] node(2)
  have "wire_ok (so_public Y sk) ?ixs bh" if "length bh = 32" for bh
    by (rule wire_ok_small) (use that len in \<open>simp_all add: wire_defs\<close>)
  then obtain tx where tx: "posted Y post sv tx sig w'"
    "\<forall>R V pid now s. run_transaction Y verify R V pid now tx s = run_ixs Y R V pid now (map (grant ?rs) ?ixs) s"
    using send_executes [OF assms(1) send sk] by (auto simp: ix_lock_escrow_def)
  have asked: "fst (asked ?rs ?e)" "fst (asked ?rs (sv_state_pda sv))" "fst (asked ?rs (so_public Y sk))"
    "snd (asked ?rs (so_public Y sk))"
    by (auto simp: asked_def all_requests_def ix_requests_def ix_lock_escrow_def)
  have "run_transaction Y verify R V (sv_program_id sv) now tx s =
      res_option (lock_escrow R now (so_public Y sk) node ?rid (ep_amount_nanox params) 0 s)" for now s
    using run_lock_granted [OF assms(1,2) length_uuid_bytes asked] tx(2) by simp
  then show thesis
    using that [OF sk node(1) tx(1)] h by simp
qed

lemma handle_escrow_pda_encoded:
  assumes "solana_lawful Y verify" "chain_matches Y sv R V" "length rid = 16"
    and "json_get ''escrow_pda'' (eh_payload h) = Some (JStr (encode_pubkey Y (rt_escrow_address R rid)))"
  shows "handle_escrow_pda Y h w = (Inr e, w') \<longleftrightarrow> e = rt_escrow_address R rid \<and> w' = w"
proof -
  have "so_b58_decode Y (so_b58_encode Y (rt_escrow_address R rid)) = Some (rt_escrow_address R rid)"
    using assms(1) unfolding solana_lawful_def by blast
  then show ?thesis
    using chain_escrow(3) [OF assms(1-3)] assms(4)
    by (auto simp: handle_escrow_pda_def net_simps decode_pubkey_Inr encode_pubkey_def)
qed

lemma release_executes:
  assumes "solana_lawful Y verify" "chain_matches Y sv R V" "length rid = 16" "\<forall>b. length (sha256 C b) = 32"
    and "json_get ''escrow_pda'' (eh_payload h) = Some (JStr (encode_pubkey Y (rt_escrow_address R rid)))"
    and "solana_release_funds C Y post sv h p w = (Inr (), w')" "score_matches Y sv V (poi_node_pubkey p)"
  obtains sk tx sig where "solana_signing_key Y sv w = (Inr sk, w)" "posted Y post sv tx sig w'"
    "\<And>now s. run_transaction Y verify R V (sv_program_id sv) now tx s =
      Option.bind (res_option (release_escrow R now (so_public Y sk) rid (poi_id C p) s))
        (\<lambda>s1. res_option (submit_proof now (so_public Y sk) (poi_node_pubkey p) (poi_id C p)
          (poi_output_tokens p) (poi_latency_ms p) (eh_amount_nanox h) s1))"
proof -
  let ?e = "rt_escrow_address R rid"
  obtain sk v score b sig where sk': "solana_signing_key Y sv w = (Inr sk, v)"
    and score: "find_pda Y [seed_score, poi_node_pubkey p] (sv_program_id sv) = Done (score, b)"
    and send': "solana_send Y post sv [ix_release_escrow Y sv ?e (so_public Y sk) (poi_id C p),
      ix_submit_proof Y sv score (so_public Y sk) (poi_id C p) (poi_output_tokens p) (poi_latency_ms p)
        (eh_amount_nanox h)] v = (Inr sig, w')"
    using assms(6) by (auto simp: solana_release_funds_def score_pda_def Let_def andThen_Inr ret_Inr
        signer_pubkey_Inr with_ctx_Inr lift_outcome_Inr handle_escrow_pda_encoded [OF assms(1-3,5)])
  have "v = w"
    using sk' by (simp add: solana_signing_key_Inr)
  note sk = sk' [unfolded this] and send = send' [unfolded this]
  let ?rel = "ix_release_escrow Y sv ?e (so_public Y sk) (poi_id C p)"
  let ?sub = "ix_submit_proof Y sv score (so_public Y sk) (poi_id C p) (poi_output_tokens p) (poi_latency_ms p)
        (eh_amount_nanox h)"
  let ?rs = "all_requests (so_public Y sk) [?rel, ?sub]"
  note len = lawful_lengths [OF assms(1,2)] chain_escrow(3) [OF assms(1-3)] length_pda [OF assms(1) score]
  have ph: "length (poi_id C p) = 32"
    using assms(4) by (simp add: poi_id_def)
  have "wire_ok (so_public Y sk) [?rel, ?sub] bh" if "length bh = 32" for bh
    by (rule wire_ok_small) (use that len ph in \<open>simp_all add: wire_defs\<close>)
  then obtain tx where tx: "posted Y post sv tx sig w'"
    "\<forall>R V pid now s. run_transaction Y verify R V pid now tx s =
      run_ixs Y R V pid now (map (grant ?rs) [?rel, ?sub]) s"
    using send_executes [OF assms(1) send sk] by (auto simp: ix_release_escrow_def ix_submit_proof_def)
  have asked: "fst (asked ?rs ?e)" "fst (asked ?rs (sv_state_pda sv))" "fst (asked ?rs (so_public Y sk))"
    "snd (asked ?rs (so_public Y sk))" "fst (asked ?rs score)"
    by (auto simp: asked_def all_requests_def ix_requests_def ix_release_escrow_def ix_submit_proof_def)
  have k: "av_score V score = Some (poi_node_pubkey p)"
    using assms(7) score unfolding score_matches_def by blast
  have "run_ixs Y R V (sv_program_id sv) now [grant ?rs ?rel, grant ?rs ?sub] s =
      Option.bind (res_option (release_escrow R now (so_public Y sk) rid (poi_id C p) s))
        (\<lambda>s1. res_option (submit_proof now (so_public Y sk) (poi_node_pubkey p) (poi_id C p)
          (poi_output_tokens p) (poi_latency_ms p) (eh_amount_nanox h) s1))" for now s
    using run_release_granted [OF assms(1-3) ph asked(1-4)] run_submit_granted [OF assms(1) k ph asked(5,4)]
    by (cases "release_escrow R now (so_public Y sk) rid (poi_id C p) s")
      (simp_all add: res_option_def del: run_ixs.simps(1))
  then show thesis
    using that [OF sk tx(1)] tx(2) by simp
qed

lemma refund_executes:
  assumes "solana_lawful Y verify" "chain_matches Y sv R V" "length rid = 16"
    and "json_get ''escrow_pda'' (eh_payload h) = Some (JStr (encode_pubkey Y (rt_escrow_address R rid)))"
    and "solana_refund_funds Y post sv h w = (Inr (), w')"
  obtains sk tx sig where "solana_signing_key Y sv w = (Inr sk, w)" "posted Y post sv tx sig w'"
    "\<And>now s. run_transaction Y verify R V (sv_program_id sv) now tx s =
      res_option (refund_escrow R now (so_public Y sk) rid s)"
proof -
  let ?e = "rt_escrow_address R rid"
  obtain sk v sig where sk': "solana_signing_key Y sv w = (Inr sk, v)"
    and send': "solana_send Y post sv [ix_refund_escrow Y sv ?e (so_public Y sk)] v = (Inr sig, w')"
    using assms(5) by (auto simp: solana_refund_funds_def andThen_Inr ret_Inr
        signer_pubkey_Inr with_ctx_Inr handle_escrow_pda_encoded [OF assms(1-4)])
  have "v = w"
    using sk' by (simp add: solana_signing_key_Inr)
  note sk = sk' [unfolded this] and send = send' [unfolded this]
  let ?ix = "ix_refund_escrow Y sv ?e (so_public Y sk)"
  let ?rs = "all_requests (so_public Y sk) [?ix]"
  note len = lawful_lengths [OF assms(1,2)] chain_escrow(3) [OF assms(1-3)]
  have "wire_ok (so_public Y sk) [?ix] bh" if "length bh = 32" for bh
    by (rule wire_ok_small) (use that len in \<open>simp_all add: wire_defs\<close>)
  then obtain tx where tx: "posted Y post sv tx sig w'"
    "\<forall>R V pid now s. run_transaction Y verify R V pid now tx s = run_ixs Y R V pid now (map (grant ?rs) [?ix]) s"
    using send_executes [OF assms(1) send sk] by (auto simp: ix_refund_escrow_def)
  have asked: "fst (asked ?rs ?e)" "fst (asked ?rs (so_public Y sk))" "snd (asked ?rs (so_public Y sk))"
    by (auto simp: asked_def all_requests_def ix_requests_def ix_refund_escrow_def)
  show thesis
    using that [OF sk tx(1)] run_refund_granted [OF assms(1-3) asked] tx(2) by simp
qed

lemma length_label_bytes [simp]: "length (label_bytes label) = 32"
  by (simp add: label_bytes_def Let_def min_def)

lemma anchor_executes:
  assumes "solana_lawful Y verify" "chain_matches Y sv R V" "length hash = 32"
    and "solana_anchor_hash Y post sv hash label w = (Inr r, w')"
    and "node_p2p_pubkey Y sv w = (Inr k, w)" "score_matches Y sv V k"
  obtains sk tx sig where "solana_signing_key Y sv w = (Inr sk, w)" "posted Y post sv tx sig w'" "r = Some sig"
    "\<And>now s. run_transaction Y verify R V (sv_program_id sv) now tx s =
      res_option (anchor_merkle_root now (so_public Y sk) k hash (label_bytes label) s)"
proof -
  obtain sk v score b sig where sk': "solana_signing_key Y sv w = (Inr sk, v)"
    and k': "\<exists>v1. node_p2p_pubkey Y sv v = (Inr k, v1) \<and>
      solana_send Y post sv [ix_anchor_merkle_root Y sv score (so_public Y sk) hash (label_bytes label)] v1 = (Inr sig, w')"
    and score: "find_pda Y [seed_score, k] (sv_program_id sv) = Done (score, b)" and r: "r = Some sig"
    using assms(4,5) by (auto simp: solana_anchor_hash_def score_pda_def andThen_Inr ret_Inr
        signer_pubkey_Inr with_ctx_Inr lift_outcome_Inr solana_signing_key_Inr)
  have "v = w"
    using sk' by (simp add: solana_signing_key_Inr)
  note sk = sk' [unfolded this]
  have send: "solana_send Y post sv [ix_anchor_merkle_root Y sv score (so_public Y sk) hash (label_bytes label)] w = (Inr sig, w')"
    using k' assms(5) \<open>v = w\<close> by auto
  let ?ix = "ix_anchor_merkle_root Y sv score (so_public Y sk) hash (label_bytes label)"
  let ?rs = "all_requests (so_public Y sk) [?ix]"
  note len = lawful_lengths [OF assms(1,2)] length_pda [OF assms(1) score] length_label_bytes assms(3)
  have "wire_ok (so_public Y sk) [?ix] bh" if "length bh = 32" for bh
    by (rule wire_ok_small) (use that len in \<open>simp_all add: wire_defs\<close>)
  then obtain tx where tx: "posted Y post sv tx sig w'"
    "\<forall>R V pid now s. run_transaction Y verify R V pid now tx s = run_ixs Y R V pid now (map (grant ?rs) [?ix]) s"
    using send_executes [OF assms(1) send sk] by (auto simp: ix_anchor_merkle_root_def)
  have asked: "fst (asked ?rs score)" "snd (asked ?rs (so_public Y sk))"
    by (auto simp: asked_def all_requests_def ix_requests_def ix_anchor_merkle_root_def)
  have "av_score V score = Some k"
    using assms(6) score unfolding score_matches_def by blast
  from that [OF sk tx(1) r] run_anchor_granted [OF assms(1) this assms(3) length_label_bytes asked] tx(2)
  show thesis
    by simp
qed

section \<open>Properties\<close>

text \<open>C29: the calls of the adapter do on the chain what they say. For a handle that \<open>lock_funds\<close> returned, the
  transactions the calls post, once the program executes them, lock, release (together with
  the submission of the proof, or not at all) and refund the escrow of that request, for its
  amount, with the node's own key as the client who locks, the node who is paid and the client who
  is refunded; and anchoring a root writes that root, and the first 32 bytes of the label padded
  with zeros, to the score account of the configured node key.\<close>

theorem solana_calls_execute:
  assumes "solana_lawful Y verify" "chain_matches Y sv R V" "\<forall>b. length (sha256 C b) = 32"
    and "solana_lock_funds Y post sv params w = (Inr h, w')"
  shows "\<exists>sk node. solana_signing_key Y sv w = (Inr sk, w) \<and>
    so_b58_decode Y (ep_node_address params) = Some node \<and>
    (\<exists>tx sig. posted Y post sv tx sig w' \<and> eh_chain_tx_id h = Some sig \<and>
      (\<forall>now s. run_transaction Y verify R V (sv_program_id sv) now tx s =
        res_option (lock_escrow R now (so_public Y sk) node (uuid_bytes (ep_request_id params)) (ep_amount_nanox params) 0 s))) \<and>
    (\<forall>p v v'. score_matches Y sv V (poi_node_pubkey p) \<longrightarrow> solana_release_funds C Y post sv h p v = (Inr (), v') \<longrightarrow>
      (\<exists>tx sig. posted Y post sv tx sig v' \<and> (\<forall>now s. run_transaction Y verify R V (sv_program_id sv) now tx s =
        Option.bind (res_option (release_escrow R now (so_public Y sk) (uuid_bytes (ep_request_id params)) (poi_id C p) s))
          (\<lambda>s1. res_option (submit_proof now (so_public Y sk) (poi_node_pubkey p) (poi_id C p)
            (poi_output_tokens p) (poi_latency_ms p) (ep_amount_nanox params) s1))))) \<and>
    (\<forall>v v'. solana_refund_funds Y post sv h v = (Inr (), v') \<longrightarrow>
      (\<exists>tx sig. posted Y post sv tx sig v' \<and> (\<forall>now s. run_transaction Y verify R V (sv_program_id sv) now tx s =
        res_option (refund_escrow R now (so_public Y sk) (uuid_bytes (ep_request_id params)) s)))) \<and>
    (\<forall>root_hash label k r v v'. length root_hash = 32 \<longrightarrow> node_p2p_pubkey Y sv v = (Inr k, v) \<longrightarrow>
      score_matches Y sv V k \<longrightarrow> solana_anchor_hash Y post sv root_hash label v = (Inr r, v') \<longrightarrow>
      (\<exists>tx sig. posted Y post sv tx sig v' \<and> r = Some sig \<and>
        (\<forall>now s. run_transaction Y verify R V (sv_program_id sv) now tx s =
          res_option (anchor_merkle_root now (so_public Y sk) k root_hash
            (take 32 (str_bytes label) @ replicate (32 - length label) 0) s))))"
proof -
  obtain sk node tx sig where lock: "solana_signing_key Y sv w = (Inr sk, w)"
    "so_b58_decode Y (ep_node_address params) = Some node" "posted Y post sv tx sig w'"
    "\<And>now s. run_transaction Y verify R V (sv_program_id sv) now tx s =
      res_option (lock_escrow R now (so_public Y sk) node (uuid_bytes (ep_request_id params)) (ep_amount_nanox params) 0 s)"
    and h: "eh_amount_nanox h = ep_amount_nanox params" "eh_chain_tx_id h = Some sig"
    "json_get ''escrow_pda'' (eh_payload h) =
      Some (JStr (encode_pubkey Y (rt_escrow_address R (uuid_bytes (ep_request_id params)))))"
    by (rule lock_executes [OF assms(1,2,4)]) blast
  have key: "sk' = sk" if "solana_signing_key Y sv v = (Inr sk', v)" for sk' v
    using that lock(1) by (auto simp: solana_signing_key_Inr)
  show ?thesis
  proof (rule exI [of _ sk], rule exI [of _ node], intro conjI allI impI)
    fix p v v'
    assume known: "score_matches Y sv V (poi_node_pubkey p)"
      and rel: "solana_release_funds C Y post sv h p v = (Inr (), v')"
    show "\<exists>tx sig. posted Y post sv tx sig v' \<and> (\<forall>now s. run_transaction Y verify R V (sv_program_id sv) now tx s =
        Option.bind (res_option (release_escrow R now (so_public Y sk) (uuid_bytes (ep_request_id params)) (poi_id C p) s))
          (\<lambda>s1. res_option (submit_proof now (so_public Y sk) (poi_node_pubkey p) (poi_id C p)
            (poi_output_tokens p) (poi_latency_ms p) (ep_amount_nanox params) s1)))"
      by (rule release_executes [OF assms(1,2) length_uuid_bytes assms(3) h(3) rel known]) (use key h(1) in metis)
  next
    fix v v'
    assume ref: "solana_refund_funds Y post sv h v = (Inr (), v')"
    show "\<exists>tx sig. posted Y post sv tx sig v' \<and> (\<forall>now s. run_transaction Y verify R V (sv_program_id sv) now tx s =
        res_option (refund_escrow R now (so_public Y sk) (uuid_bytes (ep_request_id params)) s))"
      by (rule refund_executes [OF assms(1,2) length_uuid_bytes h(3) ref]) (use key in metis)
  next
    fix root_hash label k r v v'
    assume len: "length root_hash = 32" and node: "node_p2p_pubkey Y sv v = (Inr k, v)" "score_matches Y sv V k"
      and anchor: "solana_anchor_hash Y post sv root_hash label v = (Inr r, v')"
    have label: "label_bytes label = take 32 (str_bytes label) @ replicate (32 - length label) 0"
      by (simp add: label_bytes_def Let_def min_def str_bytes_def)
    show "\<exists>tx sig. posted Y post sv tx sig v' \<and> r = Some sig \<and>
        (\<forall>now s. run_transaction Y verify R V (sv_program_id sv) now tx s =
          res_option (anchor_merkle_root now (so_public Y sk) k root_hash
            (take 32 (str_bytes label) @ replicate (32 - length label) 0) s))"
      by (rule anchor_executes [OF assms(1,2) len anchor node]) (use key label in metis)
  qed (use lock h in blast)+
qed

text \<open>C30: when a release pays. The payment and the proof are one transaction, and the adapter never
  creates a score account. For an escrow on the chain, the posted transaction goes through exactly
  when the escrow is locked and not expired, its node is the wallet of the adapter, the receipt's key
  has a score account under the authority of that wallet, and the hash of the receipt is not zero.
  Then the node gets exactly the escrowed amount, the escrow is released with the hash, and the job
  is counted; in every other case nothing happens, the payment included. (That the payee's balance
  does not overflow, and that the wallet is no escrow account, is assumed.)\<close>

theorem solana_release_pays:
  assumes "solana_lawful Y verify" "chain_matches Y sv R V" "\<forall>b. length (sha256 C b) = 32"
    and "score_matches Y sv V (poi_node_pubkey p)"
    and "solana_lock_funds Y post sv params w = (Inr h, w')" "solana_release_funds C Y post sv h p v = (Inr (), v')"
    and "sol_reachable R s" "runtime_lawful R" "solana_signing_key Y sv w = (Inr sk, w)"
    and "cs_escrows s (uuid_bytes (ep_request_id params)) = Some e" "can_sign R (so_public Y sk)"
    and "unat (cs_lamports s (so_public Y sk)) + unat (ea_amount_lamports e) < 2 ^ 64"
  shows "\<exists>tx sig. posted Y post sv tx sig v' \<and>
    (if ea_state e = Locked \<and> now \<le>s ea_expires_at e \<and> ea_node e = so_public Y sk \<and>
        (\<exists>n. cs_scores s (poi_node_pubkey p) = Some n \<and> sr_authority n = so_public Y sk) \<and>
        poi_id C p \<noteq> replicate 32 0
     then (\<exists>s' n n'. run_transaction Y verify R V (sv_program_id sv) now tx s = Some s' \<and>
        cs_lamports s' (so_public Y sk) = cs_lamports s (so_public Y sk) + ea_amount_lamports e \<and>
        cs_escrows s' (uuid_bytes (ep_request_id params)) =
          Some (e\<lparr>ea_state := Released, ea_proof_hash := poi_id C p\<rparr>) \<and>
        cs_scores s (poi_node_pubkey p) = Some n \<and> cs_scores s' (poi_node_pubkey p) = Some n' \<and>
        sr_total_jobs n' = sat_add (sr_total_jobs n) 1)
     else run_transaction Y verify R V (sv_program_id sv) now tx s = None)"
proof -
  let ?rid = "uuid_bytes (ep_request_id params)" and ?me = "so_public Y sk"
  have h: "json_get ''escrow_pda'' (eh_payload h) = Some (JStr (encode_pubkey Y (rt_escrow_address R ?rid)))"
    by (rule lock_executes [OF assms(1,2,5)]) blast
  have key: "sk' = sk" if "solana_signing_key Y sv v = (Inr sk', v)" for sk'
    using that assms(9) by (auto simp: solana_signing_key_Inr)
  obtain tx sig where tx: "posted Y post sv tx sig v'" and run: "run_transaction Y verify R V (sv_program_id sv) now tx s =
      Option.bind (res_option (release_escrow R now ?me ?rid (poi_id C p) s))
        (\<lambda>s1. res_option (submit_proof now ?me (poi_node_pubkey p) (poi_id C p)
          (poi_output_tokens p) (poi_latency_ms p) (eh_amount_nanox h) s1))"
    by (rule release_executes [OF assms(1,2) length_uuid_bytes assms(3) h assms(6,4)]) (use key in metis)
  let ?payable = "ea_state e = Locked \<and> now \<le>s ea_expires_at e \<and> ea_node e = ?me"
  let ?counted = "(\<exists>n. cs_scores s (poi_node_pubkey p) = Some n \<and> sr_authority n = ?me) \<and> poi_id C p \<noteq> replicate 32 0"
  show ?thesis
  proof (cases ?payable)
    case False
    then have "res_option (release_escrow R now ?me ?rid (poi_id C p) s) = None"
      using assms(10) by (auto simp: release_escrow_def res_option_def split: option.split)
    with run False tx show ?thesis
      by (intro exI [of _ tx] exI [of _ sig]) auto
  next
    case True
    obtain s1 where rel: "release_escrow R now ?me ?rid (poi_id C p) s = Inr s1"
      "cs_lamports s1 ?me = cs_lamports s ?me + ea_amount_lamports e"
      "cs_escrows s1 ?rid = Some (e\<lparr>ea_state := Released, ea_proof_hash := poi_id C p\<rparr>)" "cs_scores s1 = cs_scores s"
      using release_of_locked [OF assms(7,8,10), of now "poi_id C p"] assms(11,12) True by auto
    have run1: "run_transaction Y verify R V (sv_program_id sv) now tx s =
        res_option (submit_proof now ?me (poi_node_pubkey p) (poi_id C p) (poi_output_tokens p) (poi_latency_ms p)
          (eh_amount_nanox h) s1)"
      using run rel(1) by (simp add: res_option_def)
    show ?thesis
    proof (cases ?counted)
      case True
      then obtain n where n: "cs_scores s (poi_node_pubkey p) = Some n" "sr_authority n = ?me"
          "poi_id C p \<noteq> replicate 32 0"
        by blast
      then have "\<exists>s' n'. run_transaction Y verify R V (sv_program_id sv) now tx s = Some s' \<and>
          cs_lamports s' ?me = cs_lamports s ?me + ea_amount_lamports e \<and>
          cs_escrows s' ?rid = Some (e\<lparr>ea_state := Released, ea_proof_hash := poi_id C p\<rparr>) \<and>
          cs_scores s' (poi_node_pubkey p) = Some n' \<and> sr_total_jobs n' = sat_add (sr_total_jobs n) 1"
        using rel by (simp add: run1 submit_proof_def res_option_def Let_def recompute_score_def)
      with n \<open>?payable\<close> tx show ?thesis
        by (intro exI [of _ tx] exI [of _ sig]) auto
    next
      case False
      then have "run_transaction Y verify R V (sv_program_id sv) now tx s = None"
        using rel(4) by (auto simp: run1 submit_proof_def res_option_def split: option.split)
      with False tx show ?thesis
        by (intro exI [of _ tx] exI [of _ sig]) auto
    qed
  qed
qed

lemma signer_pubkey_pure: "\<exists>r. signer_pubkey Y sv w = (r, w)"
proof (cases "sl_keypair_hex (sv_config sv)")
  case None
  then show ?thesis
    by (simp add: signer_pubkey_def solana_signing_key_def andThen_def lift_opt_def fail_def)
next
  case (Some h)
  then show ?thesis
    by (cases "so_hex_decode Y h")
      (simp_all add: signer_pubkey_def solana_signing_key_def andThen_def lift_opt_def fail_def ret_def)
qed

text \<open>Base58 writes at most three characters for two bytes.\<close>

definition b58_short :: "solana_crypto \<Rightarrow> bool" where
  "b58_short Y \<longleftrightarrow> (\<forall>s b. so_b58_decode Y s = Some b \<longrightarrow> 2 * length s \<le> 3 * length b + 2)"

text \<open>The node cannot settle on Solana. Its own settlement of an inference names it by the hex form of
  its 32-byte identity key, which is no Solana address: whenever the Solana adapter is selected, no
  request leaves the node, nothing is locked and there is no receipt, although the inference has
  been served.\<close>

theorem solana_never_settles:
  assumes "b58_short Y" "\<forall>b. length (hex_encode E b) = 2 * length b" "length (ni_public_key_bytes I) = 32"
    and "select_adapter settlements (wanted_or_default wanted) = Some (solana_adapter C Y post sv)"
  shows "settle_and_build_receipt E I settlements now wanted u w = (None, w)"
proof -
  have len: "length (public_key_hex E I) = 64"
    using assms(2,3) by (simp add: public_key_hex_def)
  have "\<not> (so_b58_decode Y (public_key_hex E I) = Some b \<and> length b = 32)" for b
    using assms(1) len unfolding b58_short_def by fastforce
  then obtain e where "decode_pubkey Y (public_key_hex E I) = Inl e"
    by (cases "decode_pubkey Y (public_key_hex E I)") (auto simp: decode_pubkey_Inr)
  then have bad: "with_ctx c (lift_res (decode_pubkey Y (public_key_hex E I))) w = (Inl (Ctx c e), w)" for c
    by (simp add: with_ctx_def lift_res_def fail_def)
  obtain r where "signer_pubkey Y sv w = (r, w)"
    using signer_pubkey_pure [of Y sv w] by (elim exE)
  then obtain e' where "solana_lock_funds Y post sv (settle_params E I u) w = (Inl e', w)"
    by (cases r) (auto simp: solana_lock_funds_def settle_params_def andThen_def bad Let_def)
  then show ?thesis
    using assms(4) by (simp add: settle_and_build_receipt_def solana_adapter_def in_settle_def)
qed

section \<open>An example\<close>

text \<open>The example's codecs, and a server that always answers.\<close>

definition toy_sv :: solana_settlement where
  "toy_sv = \<lparr>sv_config = \<lparr>sl_rpc_url = [], sl_program_id_str = [], sl_keypair_hex = Some [],
       sl_node_p2p_pubkey_hex = None, sl_price_per_1k = 0\<rparr>,
     sv_program_id = replicate 32 9, sv_state_pda = replicate 32 8\<rparr>"

definition toy_addresses :: solana_runtime where
  "toy_addresses = \<lparr>rt_escrow_address = (\<lambda>rid. if length rid = 16 then rid @ replicate 16 0 else replicate 33 0 @ rid),
     rt_bump = (\<lambda>k seed. 255),
     rt_transfer = (\<lambda>a b n lam. if a \<noteq> b \<and> n \<le> lam a \<and> unat (lam b) + unat n < 2 ^ 64
       then Some (lam(a := lam a - n, b := lam b + n)) else None),
     rt_create = (\<lambda>k seed len p lam. Some lam)\<rparr>"

definition toy_view :: account_view where
  "toy_view = \<lparr>av_state = replicate 32 8, av_escrow = (\<lambda>a. Some (take 16 a)), av_score = (\<lambda>a. Some a)\<rparr>"

definition toy_post :: "unit http" where
  "toy_post url body w = (Inr \<lparr>rpc_result = Some (
     if json_get ''method'' body = Some (JStr ''sendTransaction'') then JStr ''sig''
     else JObj [(''value'', JObj [(''blockhash'', JStr (replicate 32 CHR ''h''))])]), rpc_error = None\<rparr>, w)"

definition toy_params :: escrow_params where
  "toy_params = \<lparr>ep_request_id = 7, ep_amount_nanox = 500, ep_client_address = [],
     ep_node_address = replicate 32 (char_of (5 :: nat)), ep_token_id = ''native''\<rparr>"

lemma toy_b58: "str_bytes (map (\<lambda>b. char_of (unat b)) b) = b"
proof -
  have "unat a mod 256 = unat a" for a :: u8
    using unat_lt [of a] by simp
  then show ?thesis
    by (induction b) (simp_all add: str_bytes_def)
qed

lemma toy_lawful: "solana_lawful toy_solana (\<lambda>k m s. True)"
proof -
  have "length (so_sha256 toy_solana b) = 32" "length (so_public toy_solana b) = 32"
    "length (so_sign toy_solana b m) = 64" "so_b58_decode toy_solana (so_b58_encode toy_solana b) = Some b" for b m
    by (simp_all add: toy_solana_def toy_digest_def min_def toy_b58)
  moreover have "distinct (map (disc toy_solana) [''lock_escrow'', ''release_escrow'', ''refund_escrow'',
      ''submit_proof'', ''anchor_merkle_root''])"
    by code_simp
  ultimately show ?thesis
    unfolding solana_lawful_def by blast
qed

lemma toy_pda: "find_pda toy_solana seeds pid = Done (toy_digest (concat seeds @ [255] @ pid @ str_bytes ''ProgramDerivedAddress''), 255)"
proof -
  have "pda_loop toy_solana seeds pid (Suc 255) = Done (pda_hash toy_solana seeds pid 255, 255)"
    unfolding pda_loop.simps by (simp add: toy_solana_def)
  moreover have "Suc 255 = 256"
    by simp
  ultimately have "find_pda toy_solana seeds pid = Done (pda_hash toy_solana seeds pid 255, 255)"
    unfolding find_pda_def by metis
  then show ?thesis
    by (simp add: pda_hash_def toy_solana_def)
qed

lemma toy_matches: "chain_matches toy_solana toy_sv toy_addresses toy_view"
  by (simp add: chain_matches_def toy_pda toy_digest_def toy_addresses_def toy_view_def toy_sv_def seed_escrow_def)

lemma toy_score: "length k = 32 \<Longrightarrow> score_matches toy_solana toy_sv toy_view k"
  by (simp add: score_matches_def toy_pda toy_digest_def toy_view_def toy_sv_def seed_score_def)

definition toy_env :: crypto_env where
  "toy_env = \<lparr>json_signable = (\<lambda>s. []), sha256 = (\<lambda>b. replicate 32 1), vk_from_bytes_ok = (\<lambda>b. True),
     ed25519_verify = (\<lambda>k m s. True), hex_encode = (\<lambda>b. replicate (2 * length b) (CHR ''a''))\<rparr>"

definition toy_me :: bytes where
  "toy_me = replicate 32 5"

lemma build_transaction_total: "\<exists>tx. build_transaction Y ixs payer seed bh = Done tx"
  by (simp add: build_transaction_def encode_message_table)

lemma toy_signer [simp]: "solana_signing_key toy_solana toy_sv w = (Inr (replicate 32 1), w)"
  "so_public toy_solana k = toy_me" "signer_pubkey toy_solana toy_sv w = (Inr toy_me, w)"
proof -
  show key: "solana_signing_key toy_solana toy_sv w = (Inr (replicate 32 1), w)" for w :: 'x
    by (simp add: solana_signing_key_def toy_solana_def toy_sv_def andThen_def lift_opt_def ret_def)
  show pub: "so_public toy_solana k = toy_me" for k
    by (simp add: toy_solana_def toy_me_def)
  show "signer_pubkey toy_solana toy_sv w = (Inr toy_me, w)"
    by (simp add: signer_pubkey_def andThen_def ret_def key pub)
qed

lemma toy_send: "solana_send toy_solana toy_post toy_sv ixs () = (Inr ''sig'', ())"
proof -
  have bh: "latest_blockhash toy_solana toy_post toy_sv () = (Inr (str_bytes (replicate 32 CHR ''h'')), ())"
    by (simp add: latest_blockhash_def solana_rpc_def json_rpc_def toy_post_def rpc_body_def andThen_def ret_def
        lift_opt_def with_ctx_def lift_res_def decode_pubkey_def toy_solana_def)
  obtain tx where "build_transaction toy_solana ixs toy_me (replicate 32 1) (str_bytes (replicate 32 CHR ''h'')) = Done tx"
    using build_transaction_total by blast
  then show ?thesis
    by (simp add: solana_send_def andThen_def bh lift_outcome_def ret_def solana_rpc_def json_rpc_def
        toy_post_def rpc_body_def lift_opt_def)
qed

lemma toy_address: "length rid = 16 \<Longrightarrow> rt_escrow_address toy_addresses rid = rid @ replicate 16 0"
  by (simp add: toy_addresses_def)

lemma toy_escrow_pda: "length rid = 16 \<Longrightarrow> escrow_pda toy_solana toy_sv rid w = (Inr (rid @ replicate 16 0), w)"
  by (simp add: escrow_pda_def toy_pda toy_digest_def toy_sv_def seed_escrow_def andThen_def lift_outcome_def ret_def)

lemma toy_lock:
  "\<exists>h. solana_lock_funds toy_solana toy_post toy_sv toy_params () = (Inr h, ()) \<and>
     eh_payload h = JObj [(''escrow_pda'', JStr (encode_pubkey toy_solana (uuid_bytes 7 @ replicate 16 0))),
                          (''request_id_bytes'', JStr [])]"
proof -
  have "lift_res (decode_pubkey toy_solana (ep_node_address toy_params)) () = (Inr toy_me, ())"
    by (simp add: decode_pubkey_def toy_solana_def toy_params_def lift_res_def ret_def str_bytes_def toy_me_def)
  then show ?thesis
    by (simp add: solana_lock_funds_def andThen_def with_ctx_def toy_escrow_pda toy_send ret_def Let_def
        toy_params_def)
      (simp add: toy_solana_def)
qed

theorem solana_calls_execute_witness:
  "\<exists>h tx. solana_lock_funds toy_solana toy_post toy_sv toy_params () = (Inr h, ()) \<and>
     posted toy_solana toy_post toy_sv tx ''sig'' () \<and>
     (\<forall>now s. run_transaction toy_solana (\<lambda>k m s. True) toy_addresses toy_view (replicate 32 9) now tx s =
       res_option (lock_escrow toy_addresses now toy_me toy_me (uuid_bytes 7) 500 0 s))"
proof -
  obtain h where h: "solana_lock_funds toy_solana toy_post toy_sv toy_params () = (Inr h, ())"
    using toy_lock by blast
  have "\<forall>b. length (sha256 toy_env b) = 32"
    by (simp add: toy_env_def)
  from solana_calls_execute [OF toy_lawful toy_matches this h]
  obtain sk node tx sig where "so_b58_decode toy_solana (ep_node_address toy_params) = Some node"
    "posted toy_solana toy_post toy_sv tx sig ()" and run: "\<forall>now s. run_transaction toy_solana (\<lambda>k m s. True)
        toy_addresses toy_view (sv_program_id toy_sv) now tx s =
      res_option (lock_escrow toy_addresses now (so_public toy_solana sk) node
        (uuid_bytes (ep_request_id toy_params)) (ep_amount_nanox toy_params) 0 s)"
    by (elim exE conjE) (rule that)
  moreover from this(2) have "sig = ''sig''"
    by (simp add: posted_def solana_rpc_def json_rpc_def toy_post_def rpc_body_def andThen_def ret_def)
  moreover from calculation(1) have "node = toy_me"
    by (simp add: toy_solana_def toy_params_def str_bytes_def toy_me_def)
  ultimately show ?thesis
    using h by (intro exI [of _ h] exI [of _ tx]) (simp add: toy_sv_def toy_params_def)
qed

theorem solana_never_settles_witness:
  "settle_and_build_receipt toy_env \<lparr>ni_public_key_bytes = replicate 32 1, ni_sign = (\<lambda>m. []), ni_diffie_hellman = (\<lambda>k. [])\<rparr>
     [solana_adapter toy_env toy_solana toy_post toy_sv] 0 (Some [''solana''])
     \<lparr>us_request_id = 7, us_model_id = [], us_input_tokens = 1, us_output_tokens = 2, us_latency_ms = 3,
      us_amount_nanox = 4, us_prompt = [], us_output = []\<rparr> () = (None, ())"
proof (rule solana_never_settles)
  show "b58_short toy_solana"
    by (simp add: b58_short_def toy_solana_def)
qed (simp_all add: toy_env_def select_adapter_def wanted_or_default_def solana_adapter_def)

text \<open>A chain on which the program has been set up, the escrow of the example has been locked and the score
  of an all-zero node key has been created, all by one wallet.\<close>

lemma toy_node_can_sign: "can_sign toy_addresses toy_me"
proof -
  have "toy_me \<noteq> rt_escrow_address toy_addresses rid" for rid
  proof
    assume a: "toy_me = rt_escrow_address toy_addresses rid"
    show False
    proof (cases "length rid = 16")
      case True
      then have "toy_me ! 31 = (rid @ replicate 16 0) ! 31"
        using a by (simp add: toy_address)
      with True show False
        by (simp add: nth_append toy_me_def)
    next
      case False
      then have "length toy_me = length (replicate 33 (0 :: u8) @ rid)"
        using a by (simp add: toy_addresses_def)
      then show False
        by (simp add: toy_me_def)
    qed
  qed
  then show ?thesis
    by (auto simp: can_sign_def)
qed

lemma toy_runtime_ops [simp]:
  "rt_create toy_addresses k seed len p lam = Some lam" "rt_bump toy_addresses k seed = 255"
  "rt_transfer toy_addresses a b n lam = (if a \<noteq> b \<and> n \<le> lam a \<and> unat (lam b) + unat n < 2 ^ 64
     then Some (lam(a := lam a - n, b := lam b + n)) else None)"
  by (simp_all add: toy_addresses_def)

lemma toy_addresses_lawful: "runtime_lawful toy_addresses"
proof -
  have len: "length (rt_escrow_address toy_addresses a) = (if length a = 16 then 32 else 33 + length a)" for a
    by (simp add: toy_addresses_def)
  have "inj (rt_escrow_address toy_addresses)"
  proof (rule injI)
    fix a b
    assume eq: "rt_escrow_address toy_addresses a = rt_escrow_address toy_addresses b"
    then have "(if length a = 16 then 32 else 33 + length a) = (if length b = 16 then 32 else 33 + length b)"
      using len by metis
    then have "length a = length b"
      by (simp split: if_splits)
    with eq show "a = b"
      by (simp add: toy_addresses_def split: if_splits)
  qed
  then show ?thesis
    by (auto simp: runtime_lawful_def split: if_splits)
qed

lemma toy_chain_ready:
  obtains s :: chain_state and e n where "sol_reachable toy_addresses s"
    "cs_escrows s (uuid_bytes 7) = Some e" "ea_state e = Locked" "ea_node e = toy_me" "ea_amount_lamports e = 500"
    "10 \<le>s ea_expires_at e" "cs_lamports s toy_me = 500"
    "cs_scores s (replicate 32 0) = Some n" "sr_authority n = toy_me"
proof -
  let ?s0 = "chain_empty (\<lambda>k. 1000)"
  obtain s1 where s1: "sol_initialize toy_addresses toy_me 60 ?s0 = Inr s1"
    "cs_program s1 \<noteq> None" "\<forall>ps. cs_program s1 = Some ps \<longrightarrow> ps_escrow_timeout_secs ps = 60"
    "cs_escrows s1 = Map.empty" "cs_scores s1 = Map.empty" "cs_lamports s1 = (\<lambda>k. 1000)"
    by (simp add: sol_initialize_def chain_empty_def)
  have ne: "toy_me \<noteq> rt_escrow_address toy_addresses (uuid_bytes 7)"
    using toy_node_can_sign by (auto simp: can_sign_def)
  obtain ps where ps: "cs_program s1 = Some ps" "ps_escrow_timeout_secs ps = 60"
    using s1(2,3) by blast
  obtain s2 e where s2: "lock_escrow toy_addresses 0 toy_me toy_me (uuid_bytes 7) 500 0 s1 = Inr s2"
    "cs_escrows s2 (uuid_bytes 7) = Some e" "ea_state e = Locked" "ea_node e = toy_me" "ea_amount_lamports e = 500"
    "ea_expires_at e = 60" "cs_lamports s2 toy_me = 500" "cs_scores s2 = Map.empty"
    using ps s1(4-6) ne by (simp add: lock_escrow_def Let_def)
  obtain s3 n where s3: "initialize_score toy_addresses 0 toy_me (replicate 32 0) s2 = Inr s3"
    "cs_scores s3 (replicate 32 0) = Some n" "sr_authority n = toy_me" "cs_escrows s3 = cs_escrows s2"
    "cs_lamports s3 = cs_lamports s2"
    using s2(8) by (simp add: initialize_score_def)
  have "(sol_step toy_addresses)\<^sup>*\<^sup>* ?s0 s3"
    by (rule rtranclp.rtrancl_into_rtrancl [OF rtranclp.rtrancl_into_rtrancl [OF converse_rtranclp_into_rtranclp]])
      (rule sol_step.initialize [OF toy_node_can_sign s1(1)] rtranclp.rtrancl_refl sol_step.lock [OF toy_node_can_sign s2(1)]
        sol_step.init_score [OF toy_node_can_sign s3(1)])+
  then have "sol_reachable toy_addresses s3"
    by (auto simp: sol_reachable_def)
  then show thesis
    by (rule that [where e = e and n = n]) (use s2 s3 in \<open>simp_all add: word_sle_eq\<close>)
qed

theorem solana_release_pays_witness:
  "\<exists>(s :: chain_state) s' tx. cs_lamports s toy_me = 500 \<and> posted toy_solana toy_post toy_sv tx ''sig'' () \<and>
    run_transaction toy_solana (\<lambda>k m s. True) toy_addresses toy_view (replicate 32 9) 10 tx s = Some s' \<and>
    cs_lamports s' toy_me = 1000"
proof -
  obtain h where h: "solana_lock_funds toy_solana toy_post toy_sv toy_params () = (Inr h, ())"
    "eh_payload h = JObj [(''escrow_pda'', JStr (encode_pubkey toy_solana (uuid_bytes 7 @ replicate 16 0))),
                          (''request_id_bytes'', JStr [])]"
    using toy_lock by blast
  let ?p = "poi_unsigned 7 0 [] [] [] 1 2 3 500 0 [] [] [] None"
  have pda: "handle_escrow_pda toy_solana h () = (Inr (uuid_bytes 7 @ replicate 16 0), ())"
    using handle_escrow_pda_encoded [OF toy_lawful toy_matches length_uuid_bytes, of h 7 "()"] h(2)
    by (simp add: toy_address)
  have rel: "solana_release_funds toy_env toy_solana toy_post toy_sv h ?p () = (Inr (), ())"
    by (simp add: solana_release_funds_def andThen_def pda score_pda_def toy_pda lift_outcome_def ret_def
        with_ctx_def toy_send Let_def)
  have C: "\<forall>b. length (sha256 toy_env b) = 32" "poi_id toy_env ?p \<noteq> replicate 32 0"
    "poi_node_pubkey ?p = replicate 32 0"
    by (simp_all add: toy_env_def poi_id_def poi_unsigned_def)
  have score: "score_matches toy_solana toy_sv toy_view (poi_node_pubkey ?p)"
    using C(3) by (simp add: toy_score)
  obtain s :: chain_state and e n where s: "sol_reachable toy_addresses s"
    "cs_escrows s (uuid_bytes 7) = Some e" "ea_state e = Locked" "ea_node e = toy_me" "ea_amount_lamports e = 500"
    "10 \<le>s ea_expires_at e" "cs_lamports s toy_me = 500"
    "cs_scores s (replicate 32 0) = Some n" "sr_authority n = toy_me"
    by (rule toy_chain_ready)
  have i: "ep_request_id toy_params = 7" "sv_program_id toy_sv = replicate 32 9"
    by (simp_all add: toy_params_def toy_sv_def)
  have room: "unat (500 :: u64) + unat (500 :: u64) < 2 ^ 64"
    by simp
  note pays = solana_release_pays [OF toy_lawful toy_matches C(1) score h(1) rel s(1) toy_addresses_lawful toy_signer(1),
      unfolded i(1) toy_signer(2) C(3), OF s(2) toy_node_can_sign, unfolded s(5,7), OF room]
  have cond: "ea_state e = Locked \<and> 10 \<le>s ea_expires_at e \<and> ea_node e = toy_me \<and>
      (\<exists>n. cs_scores s (replicate 32 0) = Some n \<and> sr_authority n = toy_me) \<and> poi_id toy_env ?p \<noteq> replicate 32 0"
    using s(3,4,6,8,9) C(2) by blast
  obtain tx sig s' where tx: "posted toy_solana toy_post toy_sv tx sig ()"
    and s': "run_transaction toy_solana (\<lambda>k m s. True) toy_addresses toy_view (replicate 32 9) 10 tx s = Some s'"
    "cs_lamports s' toy_me = 500 + 500"
    using pays [of 10, unfolded if_P [OF cond] i(2)] by (elim exE conjE) (rule that)
  have "sig = ''sig''"
    using tx by (simp add: posted_def solana_rpc_def json_rpc_def toy_post_def rpc_body_def andThen_def ret_def)
  with tx s' s(7) show ?thesis
    by (intro exI [of _ s] exI [of _ s'] exI [of _ tx]) simp
qed

end
