(* ===== verification/Sui_Settlement.thy ===== *)
theory Sui_Settlement
  imports Settlement_Adapter
begin

text \<open>The Sui adapter of \<^verbatim>\<open>crates/settlement/src/sui.rs\<close>. The server builds the transactions, the adapter
  signs and submits them. SHA-256, Ed25519, hex, base64 and the text of a UUID are parameters, and so
  is \<^verbatim>\<open>serde_json::from_value\<close> for each reply the code reads.\<close>

record sui_config =
  su_rpc_url :: string
  su_package_id :: string
  su_treasury_address :: string
  su_price_per_1k :: nanox
  su_token_id :: string
  su_signer_seed :: "bytes option"

record sui_coin =
  sk_coin_object_id :: string
  sk_balance :: string

record sui_env =
  sn_sha256 :: "bytes \<Rightarrow> bytes"
  sn_public :: "bytes \<Rightarrow> bytes"
  sn_sign :: "bytes \<Rightarrow> bytes \<Rightarrow> bytes"
  sn_hex :: "bytes \<Rightarrow> string"
  sn_b64_encode :: "bytes \<Rightarrow> string"
  sn_b64_decode :: "string \<Rightarrow> bytes option"
  sn_uuid_str :: "uuid \<Rightarrow> string"
  sn_total_balance :: "json \<Rightarrow> string option"
  sn_coin_page :: "json \<Rightarrow> sui_coin list option"
  sn_tx_bytes :: "json \<Rightarrow> string option"
  sn_digest :: "json \<Rightarrow> string option"

section \<open>Addresses and signatures\<close>

definition sui_address_from_pubkey :: "sui_env \<Rightarrow> bytes \<Rightarrow> string" where
  "sui_address_from_pubkey N pk = ''0x'' @ sn_hex N (take 32 (sn_sha256 N ([0] @ pk)))"

definition sign_sui_tx :: "sui_env \<Rightarrow> bytes \<Rightarrow> bytes \<Rightarrow> string" where
  "sign_sui_tx N tx_bytes seed =
     (let intent_msg = [0, 0, 0] @ tx_bytes;
          sig = sn_sign N seed intent_msg
      in sn_b64_encode N ([0] @ sig @ sn_public N seed))"

definition to_hex_arg :: "sui_env \<Rightarrow> bytes \<Rightarrow> json" where
  "to_hex_arg N bs = JStr (''0x'' @ sn_hex N bs)"

section \<open>JSON-RPC\<close>

definition sui_rpc :: "'w http \<Rightarrow> sui_config \<Rightarrow> string \<Rightarrow> json \<Rightarrow> ('w, json) net" where
  "sui_rpc post cfg meth params = json_rpc post (su_rpc_url cfg) meth params"

definition fetch_sui_balance :: "sui_env \<Rightarrow> 'w http \<Rightarrow> sui_config \<Rightarrow> string \<Rightarrow> ('w, u64) net" where
  "fetch_sui_balance N post cfg address =
     andThen (sui_rpc post cfg ''suix_getBalance'' (JArr [JStr address, JStr ''0x2::sui::SUI''])) (\<lambda>result.
     andThen (lift_opt (BadReply ''balance'') (sn_total_balance N result)) (\<lambda>bal.
     lift_opt (BadReply ''balance is not a valid u64'') (parse_u64 bal)))"

text \<open>The balance of a coin, 0 when it does not parse.\<close>

definition coin_balance :: "sui_coin \<Rightarrow> u64" where
  "coin_balance c = (case parse_u64 (sk_balance c) of None \<Rightarrow> 0 | Some n \<Rightarrow> n)"

definition pick_gas_coin :: "sui_env \<Rightarrow> 'w http \<Rightarrow> sui_config \<Rightarrow> string \<Rightarrow> u64 \<Rightarrow> ('w, string) net" where
  "pick_gas_coin N post cfg address min_mist =
     andThen (sui_rpc post cfg ''suix_getCoins'' (JArr [JStr address, JStr ''0x2::sui::SUI'', JNull, JNum 20])) (\<lambda>result.
     andThen (lift_opt (BadReply ''coin page'') (sn_coin_page N result)) (\<lambda>coins.
     lift_opt NoCoin (map_option sk_coin_object_id (find (\<lambda>c. min_mist \<le> coin_balance c) coins))))"

definition sui_signer :: "sui_env \<Rightarrow> sui_config \<Rightarrow> ('w, bytes \<times> string) net" where
  "sui_signer N cfg =
     andThen (lift_opt NoSigner (su_signer_seed cfg)) (\<lambda>seed.
     ret (seed, sui_address_from_pubkey N (sn_public N seed)))"

text \<open>The parameters of the two calls of a submission.\<close>

definition move_call_params ::
  "sui_config \<Rightarrow> string \<Rightarrow> string \<Rightarrow> string \<Rightarrow> json list \<Rightarrow> json list \<Rightarrow> string \<Rightarrow> u64 \<Rightarrow> json" where
  "move_call_params cfg signer_addr module_name function_name type_args args gas_coin gas_budget =
     JArr [JStr signer_addr, JStr (su_package_id cfg), JStr module_name, JStr function_name,
           JArr type_args, JArr args, JStr gas_coin, JStr (decimal (unat gas_budget)),
           JStr ''WaitForLocalExecution'']"

definition execute_params :: "string \<Rightarrow> string \<Rightarrow> json" where
  "execute_params tx_bytes sui_sig =
     JArr [JStr tx_bytes, JArr [JStr sui_sig],
           JObj [(''showEffects'', JBool True), (''showObjectChanges'', JBool True)],
           JStr ''WaitForLocalExecution'']"

definition submit_move_call ::
  "sui_env \<Rightarrow> 'w http \<Rightarrow> sui_config \<Rightarrow> string \<Rightarrow> string \<Rightarrow> json list \<Rightarrow> json list \<Rightarrow> u64 \<Rightarrow> ('w, string) net" where
  "submit_move_call N post cfg module_name function_name type_args args gas_budget =
     andThen (sui_signer N cfg) (\<lambda>(seed, signer_addr).
     andThen (with_ctx ''picking gas coin'' (pick_gas_coin N post cfg signer_addr gas_budget)) (\<lambda>gas_coin.
     andThen (with_ctx ''building tx'' (sui_rpc post cfg ''unsafe_moveCall''
        (move_call_params cfg signer_addr module_name function_name type_args args gas_coin gas_budget))) (\<lambda>build_result.
     andThen (lift_opt (BadReply ''unsafe_moveCall'') (sn_tx_bytes N build_result)) (\<lambda>tx_info.
     andThen (lift_opt (BadReply ''base64'') (sn_b64_decode N tx_info)) (\<lambda>tx_bytes.
     let sui_sig = sign_sui_tx N tx_bytes seed in
     andThen (with_ctx ''executing tx'' (sui_rpc post cfg ''sui_executeTransactionBlock''
        (execute_params tx_info sui_sig))) (\<lambda>exec_result.
     lift_opt (BadReply ''ExecuteResult'') (sn_digest N exec_result)))))))"

section \<open>Escrow calls\<close>

definition sui_lock_on_chain ::
  "sui_env \<Rightarrow> 'w http \<Rightarrow> sui_config \<Rightarrow> string \<Rightarrow> u64 \<Rightarrow> string \<Rightarrow> ('w, string) net" where
  "sui_lock_on_chain N post cfg request_id amount_mist node_address =
     andThen (sui_signer N cfg) (\<lambda>(_, signer_addr).
     andThen (with_ctx ''insufficient SUI for lock_escrow'' (pick_gas_coin N post cfg signer_addr amount_mist)) (\<lambda>payment_coin.
     submit_move_call N post cfg ''escrow'' ''lock_escrow'' []
       [to_hex_arg N (str_bytes request_id), JStr node_address, JStr (su_treasury_address cfg), JStr payment_coin]
       25000000))"

definition sui_release_on_chain ::
  "sui_env \<Rightarrow> 'w http \<Rightarrow> sui_config \<Rightarrow> string \<Rightarrow> bytes \<Rightarrow> ('w, unit) net" where
  "sui_release_on_chain N post cfg escrow_object_id proof_hash =
     andThen (submit_move_call N post cfg ''escrow'' ''release_escrow'' []
       [JStr escrow_object_id, to_hex_arg N proof_hash, JStr (su_treasury_address cfg)] 10000000) (\<lambda>digest. ret ())"

definition sui_refund_on_chain :: "sui_env \<Rightarrow> 'w http \<Rightarrow> sui_config \<Rightarrow> string \<Rightarrow> ('w, unit) net" where
  "sui_refund_on_chain N post cfg escrow_object_id =
     andThen (submit_move_call N post cfg ''escrow'' ''refund_escrow'' []
       [JStr escrow_object_id, JStr (su_treasury_address cfg)] 10000000) (\<lambda>digest. ret ())"

section \<open>The adapter\<close>

definition sui_capabilities :: settlement_capabilities where
  "sui_capabilities = \<lparr>cap_has_escrow = True, cap_has_token = True, cap_is_trustless = True,
     cap_finality_seconds = 3, cap_min_payment_nanox = 1000,
     cap_accepted_tokens = [''native'', ''0x2::sui::SUI'']\<rparr>"

definition sui_lock_funds ::
  "sui_env \<Rightarrow> 'w http \<Rightarrow> sui_config \<Rightarrow> escrow_params \<Rightarrow> ('w, escrow_handle) net" where
  "sui_lock_funds N post cfg params =
     andThen (with_ctx ''lock_escrow failed'' (sui_lock_on_chain N post cfg (sn_uuid_str N (ep_request_id params))
        (ep_amount_nanox params) (ep_node_address params))) (\<lambda>escrow_id.
     ret \<lparr>eh_settlement_id = ''sui'', eh_request_id = ep_request_id params,
          eh_amount_nanox = ep_amount_nanox params, eh_chain_tx_id = Some escrow_id,
          eh_payload = JObj [(''escrow_object_id'', JStr escrow_id)]\<rparr>)"

definition sui_handle_escrow :: "escrow_handle \<Rightarrow> ('w, string) net" where
  "sui_handle_escrow h =
     lift_opt (MissingField ''escrow_object_id'') (Option.bind (json_get ''escrow_object_id'' (eh_payload h)) as_str)"

definition sui_release_funds ::
  "crypto_env \<Rightarrow> sui_env \<Rightarrow> 'w http \<Rightarrow> sui_config \<Rightarrow> escrow_handle \<Rightarrow> proof_of_inference \<Rightarrow> ('w, unit) net" where
  "sui_release_funds C N post cfg h p =
     andThen (sui_handle_escrow h) (\<lambda>escrow_id.
     with_ctx ''release_escrow failed'' (sui_release_on_chain N post cfg escrow_id (poi_id C p)))"

definition sui_refund_funds :: "sui_env \<Rightarrow> 'w http \<Rightarrow> sui_config \<Rightarrow> escrow_handle \<Rightarrow> ('w, unit) net" where
  "sui_refund_funds N post cfg h =
     andThen (sui_handle_escrow h) (\<lambda>escrow_id.
     with_ctx ''refund_escrow failed'' (sui_refund_on_chain N post cfg escrow_id))"

definition sui_anchor_hash ::
  "sui_env \<Rightarrow> 'w http \<Rightarrow> sui_config \<Rightarrow> bytes \<Rightarrow> string \<Rightarrow> ('w, string option) net" where
  "sui_anchor_hash N post cfg hash label =
     andThen (with_ctx ''anchor_root failed'' (submit_move_call N post cfg ''reputation'' ''anchor_root'' []
       [to_hex_arg N hash, to_hex_arg N (str_bytes label), JStr (su_treasury_address cfg)] 5000000)) (\<lambda>digest.
     ret (Some digest))"

definition sui_adapter :: "crypto_env \<Rightarrow> sui_env \<Rightarrow> 'w http \<Rightarrow> sui_config \<Rightarrow> 'w adapter" where
  "sui_adapter C N post cfg = \<lparr>ad_id = ''sui'', ad_capabilities = sui_capabilities,
     ad_lock = (\<lambda>p. in_settle (sui_lock_funds N post cfg p)),
     ad_release = (\<lambda>h p. in_settle (sui_release_funds C N post cfg h p)),
     ad_refund = (\<lambda>h. in_settle (sui_refund_funds N post cfg h)),
     ad_balance = (\<lambda>a. in_settle (fetch_sui_balance N post cfg a)),
     ad_anchor = (\<lambda>h l. in_settle (sui_anchor_hash N post cfg h l))\<rparr>"

interpretation sui: settlement_adapter "sui_adapter C N post cfg" "\<lambda>w. ()"
  for C N post cfg
  by unfold_locales (auto simp: sui_adapter_def sui_lock_funds_def net_simps)

section \<open>Properties\<close>

text \<open>The keys and the requests of a successful submission.\<close>

lemma sui_signer_Inr [net_simps]:
  "sui_signer N cfg w = (Inr r, w') \<longleftrightarrow> w = w' \<and>
     (\<exists>seed. su_signer_seed cfg = Some seed \<and> r = (seed, sui_address_from_pubkey N (sn_public N seed)))"
  by (auto simp: sui_signer_def net_simps)

lemma submit_posts:
  assumes "submit_move_call N post cfg md f ta args budget w = (Inr digest, w')"
  obtains seed gas v v1 r tx txb v2 r2 where "su_signer_seed cfg = Some seed"
    "pick_gas_coin N post cfg (sui_address_from_pubkey N (sn_public N seed)) budget w = (Inr gas, v)"
    "sui_rpc post cfg ''unsafe_moveCall''
      (move_call_params cfg (sui_address_from_pubkey N (sn_public N seed)) md f ta args gas budget) v = (Inr r, v1)"
    "sn_tx_bytes N r = Some tx" "sn_b64_decode N tx = Some txb"
    "sui_rpc post cfg ''sui_executeTransactionBlock'' (execute_params tx (sign_sui_tx N txb seed)) v1 = (Inr r2, w')"
    "sn_digest N r2 = Some digest"
  using assms by (auto simp: submit_move_call_def Let_def net_simps)

definition coin_params :: "string \<Rightarrow> json" where
  "coin_params address = JArr [JStr address, JStr ''0x2::sui::SUI'', JNull, JNum 20]"

lemma pick_gas_coin_fixed:
  assumes "\<And>v. \<exists>r. sui_rpc post cfg ''suix_getCoins'' (coin_params address) v = (Inr r, v) \<and> sn_coin_page N r = Some coins"
    and "pick_gas_coin N post cfg address m w = (Inr i, w')"
  shows "w' = w \<and> (\<exists>c. find (\<lambda>c. m \<le> coin_balance c) coins = Some c \<and> i = sk_coin_object_id c)"
  using assms(1) [of w] assms(2) by (auto simp: pick_gas_coin_def coin_params_def net_simps)

text \<open>A lock hands over a whole coin. The call that locks an escrow names the request, the node, the
  treasury and the first listed coin that covers the amount, and the amount is not among its
  arguments; the coin that pays for the transaction is chosen from the same list, so one coin is both
  the deposit and the gas whenever the first one covers both.\<close>

theorem sui_lock_whole_coin:
  assumes "su_signer_seed cfg = Some seed"
    and "\<forall>v. \<exists>r. sui_rpc post cfg ''suix_getCoins''
        (coin_params (sui_address_from_pubkey N (sn_public N seed))) v = (Inr r, v) \<and> sn_coin_page N r = Some coins"
    and "sui_lock_funds N post cfg params w = (Inr h, w')"
  shows "\<exists>deposit gas r v.
    find (\<lambda>c. ep_amount_nanox params \<le> coin_balance c) coins = Some deposit \<and>
    find (\<lambda>c. 25000000 \<le> coin_balance c) coins = Some gas \<and>
    sui_rpc post cfg ''unsafe_moveCall'' (move_call_params cfg (sui_address_from_pubkey N (sn_public N seed))
      ''escrow'' ''lock_escrow'' []
      [to_hex_arg N (str_bytes (sn_uuid_str N (ep_request_id params))), JStr (ep_node_address params),
       JStr (su_treasury_address cfg), JStr (sk_coin_object_id deposit)]
      (sk_coin_object_id gas) 25000000) w = (Inr r, v) \<and>
    (ep_amount_nanox params \<le> coin_balance (hd coins) \<longrightarrow> 25000000 \<le> coin_balance (hd coins) \<longrightarrow>
      deposit = hd coins \<and> gas = hd coins)"
proof -
  let ?a = "sui_address_from_pubkey N (sn_public N seed)"
  let ?args = "\<lambda>i. [to_hex_arg N (str_bytes (sn_uuid_str N (ep_request_id params))), JStr (ep_node_address params),
       JStr (su_treasury_address cfg), JStr i]"
  obtain i v digest where i: "pick_gas_coin N post cfg ?a (ep_amount_nanox params) w = (Inr i, v)"
    "submit_move_call N post cfg ''escrow'' ''lock_escrow'' [] (?args i) 25000000 v = (Inr digest, w')"
    using assms(1,3) by (auto simp: sui_lock_funds_def sui_lock_on_chain_def net_simps)
  obtain deposit where d: "v = w" "find (\<lambda>c. ep_amount_nanox params \<le> coin_balance c) coins = Some deposit"
    "i = sk_coin_object_id deposit"
    using pick_gas_coin_fixed [OF spec [OF assms(2)] i(1)] by blast
  obtain g v1 v2 r where g: "pick_gas_coin N post cfg ?a 25000000 v = (Inr g, v1)"
    "sui_rpc post cfg ''unsafe_moveCall'' (move_call_params cfg ?a ''escrow'' ''lock_escrow'' [] (?args i) g 25000000) v1 = (Inr r, v2)"
    by (rule submit_posts [OF i(2)]) (use assms(1) in auto)
  obtain gas where gas: "v1 = v" "find (\<lambda>c. 25000000 \<le> coin_balance c) coins = Some gas" "g = sk_coin_object_id gas"
    using pick_gas_coin_fixed [OF spec [OF assms(2)] g(1)] by blast
  have "deposit = hd coins \<and> gas = hd coins" if "ep_amount_nanox params \<le> coin_balance (hd coins)"
    "25000000 \<le> coin_balance (hd coins)"
    using that d(2) gas(2) by (cases coins) auto
  with d gas g(2) show ?thesis
    by (intro exI [of _ deposit] exI [of _ gas] exI [of _ r] exI [of _ v2]) simp
qed

text \<open>Without a signer only the balance works. Locking, releasing, refunding and also anchoring fail
  before any request is sent, while the balance of an address is answered as with a signer.\<close>

theorem sui_without_signer:
  assumes "su_signer_seed cfg = None"
  shows "(\<exists>e. sui_lock_funds N post cfg params w = (Inl e, w)) \<and>
    (\<exists>e. sui_release_funds C N post cfg h p w = (Inl e, w)) \<and>
    (\<exists>e. sui_refund_funds N post cfg h w = (Inl e, w)) \<and>
    (\<exists>e. sui_anchor_hash N post cfg hash label w = (Inl e, w)) \<and>
    fetch_sui_balance N post cfg address w = fetch_sui_balance N post (cfg\<lparr>su_signer_seed := Some seed\<rparr>) address w"
proof -
  have submit: "submit_move_call N post cfg md f ta args budget w = (Inl NoSigner, w)" for md f ta args budget and w :: 'a
    using assms by (simp add: submit_move_call_def sui_signer_def andThen_def lift_opt_def fail_def)
  have "\<exists>e. sui_lock_funds N post cfg params w = (Inl e, w)"
    using assms by (simp add: sui_lock_funds_def sui_lock_on_chain_def sui_signer_def andThen_def lift_opt_def
        fail_def with_ctx_def)
  moreover have "\<exists>e. sui_release_funds C N post cfg h p w = (Inl e, w)"
    by (simp add: sui_release_funds_def sui_release_on_chain_def sui_handle_escrow_def andThen_def lift_opt_def
        fail_def ret_def with_ctx_def submit split: option.split)
  moreover have "\<exists>e. sui_refund_funds N post cfg h w = (Inl e, w)"
    by (simp add: sui_refund_funds_def sui_refund_on_chain_def sui_handle_escrow_def andThen_def lift_opt_def
        fail_def ret_def with_ctx_def submit split: option.split)
  moreover have "\<exists>e. sui_anchor_hash N post cfg hash label w = (Inl e, w)"
    by (simp add: sui_anchor_hash_def andThen_def with_ctx_def submit)
  moreover have "fetch_sui_balance N post cfg address w =
      fetch_sui_balance N post (cfg\<lparr>su_signer_seed := Some seed\<rparr>) address w"
    by (simp add: fetch_sui_balance_def sui_rpc_def)
  ultimately show ?thesis
    by blast
qed

section \<open>An example\<close>

definition toy_sui_env :: sui_env where
  "toy_sui_env = \<lparr>sn_sha256 = (\<lambda>b. replicate 32 1), sn_public = (\<lambda>b. []), sn_sign = (\<lambda>k m. []),
     sn_hex = (\<lambda>b. []), sn_b64_encode = (\<lambda>b. []), sn_b64_decode = (\<lambda>s. Some []), sn_uuid_str = (\<lambda>i. []),
     sn_total_balance = as_str, sn_coin_page = (\<lambda>v. Some [\<lparr>sk_coin_object_id = ''c'', sk_balance = ''90000000''\<rparr>]),
     sn_tx_bytes = as_str, sn_digest = as_str\<rparr>"

definition toy_sui_config :: sui_config where
  "toy_sui_config = \<lparr>su_rpc_url = [], su_package_id = [], su_treasury_address = [], su_price_per_1k = 10,
     su_token_id = [], su_signer_seed = Some []\<rparr>"

definition toy_sui_params :: escrow_params where
  "toy_sui_params = \<lparr>ep_request_id = 7, ep_amount_nanox = 500, ep_client_address = [], ep_node_address = ''n'',
     ep_token_id = []\<rparr>"

definition toy_sui_post :: "unit http" where
  "toy_sui_post url body w = (Inr \<lparr>rpc_result = Some (JStr ''x''), rpc_error = None\<rparr>, w)"

lemma toy_sui_rpc: "sui_rpc toy_sui_post toy_sui_config m p () = (Inr (JStr ''x''), ())"
  by (simp add: sui_rpc_def json_rpc_def toy_sui_post_def andThen_def ret_def)

lemma toy_coin: "coin_balance \<lparr>sk_coin_object_id = ''c'', sk_balance = ''90000000''\<rparr> = 90000000"
  by (simp add: coin_balance_def parse_u64_def digits_value_def)

theorem sui_lock_whole_coin_witness:
  "\<exists>h r v. sui_lock_funds toy_sui_env toy_sui_post toy_sui_config toy_sui_params () = (Inr h, ()) \<and>
    sui_rpc toy_sui_post toy_sui_config ''unsafe_moveCall'' (move_call_params toy_sui_config ''0x'' ''escrow'' ''lock_escrow'' []
      [JStr ''0x'', JStr ''n'', JStr [], JStr ''c''] ''c'' 25000000) () = (Inr r, v)"
proof -
  let ?c = "\<lparr>sk_coin_object_id = ''c'', sk_balance = ''90000000''\<rparr>"
  have page: "\<forall>v. \<exists>r. sui_rpc toy_sui_post toy_sui_config ''suix_getCoins''
      (coin_params (sui_address_from_pubkey toy_sui_env (sn_public toy_sui_env []))) v = (Inr r, v) \<and>
      sn_coin_page toy_sui_env r = Some [?c]"
    by (simp add: toy_sui_rpc toy_sui_env_def)
  have seed: "su_signer_seed toy_sui_config = Some []"
    by (simp add: toy_sui_config_def)
  have env: "sn_tx_bytes toy_sui_env = as_str" "sn_b64_decode toy_sui_env s = Some []" "sn_digest toy_sui_env = as_str" for s
    by (simp_all add: toy_sui_env_def)
  have pick: "pick_gas_coin toy_sui_env toy_sui_post toy_sui_config a m () = (Inr ''c'', ())" if "m \<le> 90000000" for a m
    using that by (simp add: pick_gas_coin_def toy_sui_rpc andThen_def lift_opt_def ret_def toy_sui_env_def toy_coin)
  have "submit_move_call toy_sui_env toy_sui_post toy_sui_config md f ta args 25000000 () = (Inr ''x'', ())" for md f ta args
    by (simp add: submit_move_call_def sui_signer_def seed andThen_def lift_opt_def ret_def with_ctx_def pick toy_sui_rpc
        Let_def env)
  then obtain h where h: "sui_lock_funds toy_sui_env toy_sui_post toy_sui_config toy_sui_params () = (Inr h, ())"
    by (simp add: sui_lock_funds_def sui_lock_on_chain_def sui_signer_def seed andThen_def lift_opt_def ret_def
        with_ctx_def pick toy_sui_params_def)
  from sui_lock_whole_coin [OF seed page h]
  show ?thesis
    using h by (auto simp: toy_coin toy_sui_params_def toy_sui_env_def sui_address_from_pubkey_def to_hex_arg_def
        toy_sui_config_def split: if_splits)
qed

theorem sui_without_signer_witness:
  "\<exists>e. sui_anchor_hash toy_sui_env toy_sui_post (toy_sui_config\<lparr>su_signer_seed := None\<rparr>) [] [] () = (Inl e, ())"
  using sui_without_signer [of "toy_sui_config\<lparr>su_signer_seed := None\<rparr>" toy_sui_env toy_sui_post] by simp

end
