(* ===== verification/Node_Assembly.thy ===== *)
theory Node_Assembly
  imports Bidding Arc_Gateway Payment_Channel Solana_Settlement Sui_Settlement
begin

text \<open>The assembly of the services from the configuration, \<^verbatim>\<open>DeAIDaemon::from_config\<close> in
  \<^verbatim>\<open>crates/node/src/daemon.rs\<close>: which adapter each configured settlement becomes, which backend
  each store gets with and without the optional features, and the capabilities the node
  advertises. A service is represented by the choice of its implementation and its settings.\<close>

section \<open>Paths\<close>

text \<open>\<open>home\<close> is \<^verbatim>\<open>HOME\<close> or else \<^verbatim>\<open>USERPROFILE\<close>. Joining paths leaves an absolute second path alone.\<close>

definition path_push :: "string \<Rightarrow> string \<Rightarrow> string" where
  "path_push dir p =
     (if starts_with ''/'' p then p
      else if dir = [] \<or> last dir = CHR ''/'' then dir @ p
      else dir @ ''/'' @ p)"

definition expand_tilde :: "string option \<Rightarrow> string \<Rightarrow> string" where
  "expand_tilde home path =
     (case strip_prefix ''~/'' path of
        None \<Rightarrow> path
      | Some stripped \<Rightarrow> (case home of None \<Rightarrow> path | Some h \<Rightarrow> path_push h stripped))"

section \<open>Settlement adapters\<close>

datatype built_adapter =
    BuiltFree
  | BuiltReceipt
  | BuiltArcGateway arc_gateway_config
  | BuiltChannel "channel_chain_config option"
  | BuiltSui sui_config
  | BuiltEvm evm_config
  | BuiltSolana solana_config

text \<open>The id each adapter answers to.\<close>

fun built_id :: "built_adapter \<Rightarrow> string" where
  "built_id BuiltFree = ''free''"
| "built_id BuiltReceipt = ''receipt''"
| "built_id (BuiltArcGateway c) = ''arc-gateway''"
| "built_id (BuiltChannel c) = ''channel''"
| "built_id (BuiltSui c) = ''sui''"
| "built_id (BuiltEvm c) = ec_id c"
| "built_id (BuiltSolana c) = ''solana''"

text \<open>What the build and the libraries contribute: hex and keys, the decimal parser, and whether the
  binary has the Solana feature and its client accepts a configuration.\<close>

record build_env =
  be_evm :: evm_env
  be_parse_u64 :: "string \<Rightarrow> u64 option"
  be_solana :: bool
  be_solana_ok :: "solana_config \<Rightarrow> bool"

definition seed_of_hex :: "build_env \<Rightarrow> string \<Rightarrow> bytes option" where
  "seed_of_hex B hex_str =
     (case evm_hex_decode (be_evm B) hex_str of
        None \<Rightarrow> None
      | Some b \<Rightarrow> if length b = 32 then Some b else None)"

definition token_or_native :: "settlement_adapter_config \<Rightarrow> string" where
  "token_or_native a = (if sac_token_id a = [] then ''native'' else sac_token_id a)"

definition or_empty :: "string option \<Rightarrow> string" where
  "or_empty v = (case v of None \<Rightarrow> [] | Some s \<Rightarrow> s)"

definition arc_config :: "build_env \<Rightarrow> settlement_adapter_config \<Rightarrow> arc_gateway_config" where
  "arc_config B a =
     (let node_address =
            (case Option.bind (sac_signer_key_hex a) (seed_of_hex B) of
               None \<Rightarrow> []
             | Some seed \<Rightarrow>
                 (case eth_address (be_evm B) seed of Inl e \<Rightarrow> [] | Inr (raw, addr_str) \<Rightarrow> addr_str))
      in \<lparr>ag_circle_api_key = or_empty (sac_circle_api_key a),
          ag_usdc_address = or_empty (sac_contract_address a), ag_node_address = node_address,
          ag_price_per_1k = sac_price_per_1k a,
          ag_rpc_url = (case sac_rpc_url a of None \<Rightarrow> ''https://rpc.testnet.arc.network'' | Some u \<Rightarrow> u)\<rparr>)"

definition channel_config :: "build_env \<Rightarrow> settlement_adapter_config \<Rightarrow> channel_chain_config option" where
  "channel_config B a =
     (case (sac_rpc_url a, sac_contract_address a, Option.bind (sac_signer_key_hex a) (seed_of_hex B)) of
        (Some rpc_url, Some contract, Some seed) \<Rightarrow>
          Some \<lparr>cc_rpc_url = rpc_url, cc_contract_address = contract,
                cc_chain_id = (case sac_chain_id a of None \<Rightarrow> 1 | Some i \<Rightarrow> i), cc_signer_seed = seed\<rparr>
      | _ \<Rightarrow> None)"

definition sui_config_of :: "build_env \<Rightarrow> settlement_adapter_config \<Rightarrow> sui_config option" where
  "sui_config_of B a =
     (case (sac_rpc_url a, sac_package_id a, sac_contract_address a) of
        (Some rpc_url, Some package_id, Some treasury) \<Rightarrow>
          Some \<lparr>su_rpc_url = rpc_url, su_package_id = package_id, su_treasury_address = treasury,
                su_price_per_1k = sac_price_per_1k a, su_token_id = token_or_native a,
                su_signer_seed = Option.bind (sac_signer_key_hex a) (seed_of_hex B)\<rparr>
      | _ \<Rightarrow> None)"

definition evm_config_of :: "build_env \<Rightarrow> settlement_adapter_config \<Rightarrow> evm_config option" where
  "evm_config_of B a =
     (case (sac_rpc_url a, sac_contract_address a,
            case sac_chain_id a of Some i \<Rightarrow> Some i | None \<Rightarrow> be_parse_u64 B (drop 4 (sac_id a))) of
        (Some rpc_url, Some contract, Some chain_id) \<Rightarrow>
          Some \<lparr>ec_id = sac_id a, ec_rpc_url = rpc_url, ec_contract_address = contract,
                ec_chain_id = chain_id, ec_price_per_1k = sac_price_per_1k a,
                ec_token_id = token_or_native a,
                ec_signer_seed = Option.bind (sac_signer_key_hex a) (seed_of_hex B)\<rparr>
      | _ \<Rightarrow> None)"

definition solana_config_of :: "build_env \<Rightarrow> settlement_adapter_config \<Rightarrow> solana_config option" where
  "solana_config_of B a =
     (case (be_solana B, sac_rpc_url a, sac_contract_address a) of
        (True, Some rpc_url, Some program_id_str) \<Rightarrow>
          let cfg = \<lparr>sl_rpc_url = rpc_url, sl_program_id_str = program_id_str,
                sl_keypair_hex = sac_signer_key_hex a, sl_node_p2p_pubkey_hex = sac_node_pubkey_hex a,
                sl_price_per_1k = sac_price_per_1k a\<rparr>
          in if be_solana_ok B cfg then Some cfg else None
      | _ \<Rightarrow> None)"

definition build_adapter :: "build_env \<Rightarrow> settlement_adapter_config \<Rightarrow> built_adapter option" where
  "build_adapter B a =
     (if sac_id a = ''free'' then Some BuiltFree
      else if sac_id a = ''receipt'' then Some BuiltReceipt
      else if sac_id a = ''arc-gateway'' then Some (BuiltArcGateway (arc_config B a))
      else if sac_id a = ''channel'' then Some (BuiltChannel (channel_config B a))
      else if sac_id a = ''sui'' then map_option BuiltSui (sui_config_of B a)
      else if starts_with ''evm-'' (sac_id a) then map_option BuiltEvm (evm_config_of B a)
      else if sac_id a = ''solana'' then map_option BuiltSolana (solana_config_of B a)
      else None)"

text \<open>The adapters in the order of the configuration, with the free one last when it is not among them.\<close>

definition build_settlements :: "build_env \<Rightarrow> node_config \<Rightarrow> built_adapter list" where
  "build_settlements B cfg =
     (let raw = List.map_filter (build_adapter B) (sts_adapters (cfg_settlement cfg))
      in if list_ex (\<lambda>a. built_id a = ''free'') raw then raw else raw @ [BuiltFree])"

section \<open>Stores\<close>

text \<open>The features of the binary, and which connections and files can be opened. A conversation store
  over Redis opens as soon as its URL parses (see \<open>Store_Connections\<close>).\<close>

record features =
  ft_redis :: bool
  ft_postgres :: bool
  ft_redis_ok :: bool
  ft_redis_url_ok :: bool
  ft_postgres_ok :: bool
  ft_files_ok :: bool

datatype built_payment = PayFree | PayLedger "string option"

definition build_payment :: "string option \<Rightarrow> features \<Rightarrow> node_config \<Rightarrow> built_payment" where
  "build_payment home F cfg =
     (case ns_mode (cfg_node cfg) of
        NetworkPaid \<Rightarrow>
          PayLedger (if ft_files_ok F then Some (path_push (expand_tilde home (ns_data_dir (cfg_node cfg))) ''ledger.json'')
                     else None)
      | Standalone \<Rightarrow> PayFree
      | Network \<Rightarrow> PayFree)"

text \<open>The path of the file, if it can be read, and whether new roots are broadcast.\<close>

definition build_reputation :: "string option \<Rightarrow> features \<Rightarrow> node_config \<Rightarrow> string option \<times> bool" where
  "build_reputation home F cfg =
     ((if ft_files_ok F
       then Some (path_push (expand_tilde home (ns_data_dir (cfg_node cfg))) ''reputation.json'') else None),
      (case rps_store (cfg_reputation cfg) of
         ReputationLocal \<Rightarrow> False | ReputationGossip \<Rightarrow> True | ReputationAnchored \<Rightarrow> True))"

datatype built_peer_store = PeersInMemory u64 | PeersInRedis string u64

definition build_peer_store :: "features \<Rightarrow> node_config \<Rightarrow> built_peer_store" where
  "build_peer_store F cfg =
     (let P = cfg_persistence cfg;
          ttl_ms = sat_mul (per_peer_ttl_secs P) 1000
      in case per_peer_store P of
           PeerRedis \<Rightarrow>
             if ft_redis F \<and> ft_redis_ok F then PeersInRedis (per_redis_url P) (per_peer_ttl_secs P)
             else PeersInMemory ttl_ms
         | PeerMemory \<Rightarrow> PeersInMemory ttl_ms)"

datatype built_job_store = JobsInMemory | JobsInPostgres string

definition build_job_store :: "features \<Rightarrow> node_config \<Rightarrow> built_job_store" where
  "build_job_store F cfg =
     (let P = cfg_persistence cfg
      in case per_job_store P of
           JobPostgres \<Rightarrow>
             if ft_postgres F \<and> ft_postgres_ok F then JobsInPostgres (per_database_url P) else JobsInMemory
         | JobMemory \<Rightarrow> JobsInMemory)"

datatype built_nonce_store = NoncesInMemory | NoncesInRedis string

definition build_nonce_store :: "features \<Rightarrow> node_config \<Rightarrow> built_nonce_store" where
  "build_nonce_store F cfg =
     (let P = cfg_persistence cfg
      in if per_peer_store P = PeerRedis \<and> ft_redis F \<and> ft_redis_ok F then NoncesInRedis (per_redis_url P)
         else NoncesInMemory)"

datatype built_context_store =
    ContextsInMemory u64 u64 | ContextsInFiles string u64 u64 | ContextsInRedis string u64 u64

definition build_context_store :: "string option \<Rightarrow> features \<Rightarrow> node_config \<Rightarrow> built_context_store" where
  "build_context_store home F cfg =
     (let C = cfg_context cfg; memory = ContextsInMemory (cx_max_messages C) (cx_ttl_seconds C)
      in case cx_store C of
           ContextLocal \<Rightarrow>
             if ft_files_ok F then
               ContextsInFiles (path_push (expand_tilde home (ns_data_dir (cfg_node cfg))) ''contexts'')
                 (cx_max_messages C) (cx_ttl_seconds C)
             else memory
         | ContextRedis \<Rightarrow>
             if ft_redis F \<and> ft_redis_url_ok F then
               ContextsInRedis (cx_redis_url C) (cx_ttl_seconds C) (cx_max_messages C)
             else memory
         | ContextMemory \<Rightarrow> memory)"

section \<open>Capabilities and the shared state\<close>

definition config_offer :: "settlement_adapter_config \<Rightarrow> settlement_offer" where
  "config_offer a = \<lparr>so_settlement_id = sac_id a, so_price_per_1k = sac_price_per_1k a,
     so_token_id = sac_token_id a\<rparr>"

text \<open>No capabilities without a network.\<close>

definition build_own_caps ::
  "node_config \<Rightarrow> string \<Rightarrow> (string list, 'e) res \<Rightarrow> reputation_score \<Rightarrow> node_capabilities option" where
  "build_own_caps cfg peer_id models reputation =
     (if ns_mode (cfg_node cfg) = Standalone then None
      else Some \<lparr>nc_peer_id = peer_id, nc_models = (case models of Inl e \<Rightarrow> [] | Inr ms \<Rightarrow> ms),
        nc_gpu_vram_mb = 0, nc_gpu_type = Cpu, nc_region = None,
        nc_tee_enabled = pv_tee_enabled (cfg_privacy cfg), nc_reputation = reputation,
        nc_accepted_settlements = map config_offer (sts_adapters (cfg_settlement cfg)),
        nc_api_url = hl_api_url (cfg_health cfg)\<rparr>)"

text \<open>The scheduler gets the configured slots and four waiting jobs for each, the semaphore of the
  handlers at least one permit; the job timeout is in milliseconds.\<close>

record built_limits =
  bl_max_concurrent :: u64
  bl_max_queue :: u64
  bl_permits :: u64
  bl_job_timeout_ms :: u64
  bl_max_context_tokens :: u32

definition build_limits :: "node_config \<Rightarrow> built_limits" where
  "build_limits cfg =
     (let jobs = gpu_concurrent_jobs (cfg_gpu cfg)
      in \<lparr>bl_max_concurrent = jobs, bl_max_queue = jobs * 4, bl_permits = max jobs 1,
          bl_job_timeout_ms = sat_mul (per_job_timeout_secs (cfg_persistence cfg)) 1000,
          bl_max_context_tokens = inf_max_context_length (cfg_inference cfg)\<rparr>)"

section \<open>Lemmas\<close>

lemma build_adapter_id: "build_adapter B a = Some b \<Longrightarrow> built_id b = sac_id a"
  by (auto simp: build_adapter_def evm_config_of_def split: if_splits option.splits)

lemma map_filter_eq: "List.map_filter f xs = map (the \<circ> f) (filter (\<lambda>x. f x \<noteq> None) xs)"
  by (induction xs) (auto simp: List.map_filter_simps)

lemma built_ids:
  "map built_id (List.map_filter (build_adapter B) as) = map sac_id (filter (\<lambda>a. build_adapter B a \<noteq> None) as)"
  unfolding map_filter_eq by (auto dest: build_adapter_id)

section \<open>Properties\<close>

text \<open>The adapters of a node are those of its configuration that could be loaded, under the ids
  and in the order given there, with the free one added last when it is not configured.\<close>

theorem settlements_follow_config:
  "map built_id (build_settlements B cfg) =
     (let ids = map sac_id (filter (\<lambda>a. build_adapter B a \<noteq> None) (sts_adapters (cfg_settlement cfg)))
      in if ''free'' \<in> set (map sac_id (sts_adapters (cfg_settlement cfg))) then ids else ids @ [''free''])"
proof -
  let ?as = "sts_adapters (cfg_settlement cfg)"
  let ?raw = "List.map_filter (build_adapter B) ?as"
  have free: "build_adapter B a \<noteq> None" if "sac_id a = ''free''" for a
    using that by (simp add: build_adapter_def)
  have "list_ex (\<lambda>b. built_id b = ''free'') ?raw \<longleftrightarrow> ''free'' \<in> set (map built_id ?raw)"
    by (auto simp: list_ex_iff intro: rev_image_eqI)
  also have "\<dots> \<longleftrightarrow> ''free'' \<in> set (map sac_id ?as)"
    unfolding built_ids set_map set_filter image_iff using free by force
  finally show ?thesis
    by (simp add: build_settlements_def built_ids Let_def)
qed

text \<open>The node offers what it cannot settle. A configured settlement that could not be loaded is
  still advertised in the capabilities and in every bid, but no adapter answers a client that
  accepts only this one.\<close>

theorem offered_but_not_settled:
  assumes "a \<in> set (sts_adapters (cfg_settlement cfg))" "sac_id a \<noteq> ''free''"
    and "\<forall>a'\<in>set (sts_adapters (cfg_settlement cfg)). sac_id a' = sac_id a \<longrightarrow> build_adapter B a' = None"
    and "build_own_caps cfg peer_id models rep = Some caps" "build_bid cfg active queue req peer_id = Done bid"
  shows "sac_id a \<in> so_settlement_id ` set (nc_accepted_settlements caps) \<and>
    sac_id a \<in> so_settlement_id ` set (ib_accepted_settlements bid) \<and>
    find (\<lambda>b. built_id b \<in> set [sac_id a]) (build_settlements B cfg) = None"
proof -
  have "sac_id a \<notin> built_id ` set (build_settlements B cfg)"
    using arg_cong [OF settlements_follow_config [of B cfg], of set] assms(2,3)
    by (auto simp: Let_def split: if_splits)
  then have "find (\<lambda>b. built_id b \<in> set [sac_id a]) (build_settlements B cfg) = None"
    by (force simp: find_None_iff)
  moreover have "sac_id a \<in> so_settlement_id ` set (nc_accepted_settlements caps)"
    using assms(1,4) by (force simp: build_own_caps_def config_offer_def split: if_splits)
  moreover have "sac_id a \<in> so_settlement_id ` set (ib_accepted_settlements bid)"
    using assms(1,5) by (force simp: build_bid_def bid_offer_def Let_def split: if_splits)
  ultimately show ?thesis
    by blast
qed

text \<open>A node on the network whose only settlement is Sui, without an endpoint.\<close>

definition toy_sui :: settlement_adapter_config where
  "toy_sui = settlement_adapter_config_default\<lparr>sac_id := ''sui''\<rparr>"

definition toy_sui_node :: node_config where
  "toy_sui_node = node_config_default\<lparr>cfg_settlement := \<lparr>sts_adapters = [toy_sui]\<rparr>\<rparr>"

theorem offered_but_not_settled_witness:
  "\<forall>B req. \<exists>caps bid. build_own_caps toy_sui_node ''me'' (Inr [] :: (string list, unit) res) reputation_default = Some caps \<and>
     build_bid toy_sui_node 0 0 req ''me'' = Done bid \<and>
     ''sui'' \<in> so_settlement_id ` set (ib_accepted_settlements bid) \<and>
     find (\<lambda>b. built_id b \<in> {''sui''}) (build_settlements B toy_sui_node) = None"
proof (intro allI)
  fix B req
  obtain caps where caps: "build_own_caps toy_sui_node ''me'' (Inr [] :: (string list, unit) res) reputation_default = Some caps"
    by (simp add: build_own_caps_def toy_sui_node_def node_config_default_def node_section_default_def)
  obtain bid where bid: "build_bid toy_sui_node 0 0 req ''me'' = Done bid"
    by (simp add: build_bid_def toy_sui_node_def node_config_default_def gpu_section_default_def Let_def)
  have as: "sts_adapters (cfg_settlement toy_sui_node) = [toy_sui]" "sac_id toy_sui = ''sui''"
    "build_adapter B toy_sui = None"
    by (simp_all add: toy_sui_node_def toy_sui_def settlement_adapter_config_default_def build_adapter_def
        sui_config_of_def)
  have "''sui'' \<in> so_settlement_id ` set (ib_accepted_settlements bid) \<and>
      find (\<lambda>b. built_id b \<in> set [''sui'']) (build_settlements B toy_sui_node) = None"
    using offered_but_not_settled [OF _ _ _ caps bid, of toy_sui B] as by simp
  with caps bid show "\<exists>caps bid. build_own_caps toy_sui_node ''me'' (Inr [] :: (string list, unit) res) reputation_default = Some caps \<and>
      build_bid toy_sui_node 0 0 req ''me'' = Done bid \<and>
      ''sui'' \<in> so_settlement_id ` set (ib_accepted_settlements bid) \<and>
      find (\<lambda>b. built_id b \<in> {''sui''}) (build_settlements B toy_sui_node) = None"
    by (intro exI [of _ caps] exI [of _ bid]) simp
qed

end
