(* ===== verification/Blob_Storage.thy ===== *)
theory Blob_Storage
  imports File_System Node_Types Rust_String
begin

text \<open>The blob stores of \<^verbatim>\<open>crates/storage/src\<close>: the interface of \<^verbatim>\<open>lib.rs\<close>, the store in memory
  and the content-addressed one on disk. The operating system's answer to a write is a function of
  the disk and the path. The clients of the remote stores are in a theory of their own.\<close>

section \<open>The interface\<close>

text \<open>The last three are errors of the remote stores: no answer, a status, and a reply that is not one.\<close>

datatype storage_error = BlobNotFound string | StorageIo | RemoteUnreachable | RemoteStatus nat bytes | BadStoreReply

type_synonym ('s, 'a) storage_op = "'s \<Rightarrow> ('a, storage_error) res \<times> 's"

record 's storage_client =
  bs_put :: "bytes \<Rightarrow> u64 \<Rightarrow> ('s, blob_id) storage_op"
  bs_get :: "blob_id \<Rightarrow> ('s, bytes) storage_op"
  bs_delete :: "blob_id \<Rightarrow> ('s, unit) storage_op"

section \<open>In memory\<close>

record mem_storage =
  ms_blobs :: "blob_id \<rightharpoonup> bytes"
  ms_counter :: u64

definition mem_storage_new :: mem_storage where
  "mem_storage_new = \<lparr>ms_blobs = Map.empty, ms_counter = 0\<rparr>"

definition mem_put :: "bytes \<Rightarrow> u64 \<Rightarrow> (mem_storage, blob_id) storage_op" where
  "mem_put data ttl_epochs s =
     (let c = ms_counter s + 1;
          i = ''mem_blob_'' @ decimal (unat c)
      in (Inr i, \<lparr>ms_blobs = (ms_blobs s)(i \<mapsto> data), ms_counter = c\<rparr>))"

definition mem_get :: "blob_id \<Rightarrow> (mem_storage, bytes) storage_op" where
  "mem_get i s = (case ms_blobs s i of None \<Rightarrow> (Inl (BlobNotFound i), s) | Some d \<Rightarrow> (Inr d, s))"

definition mem_delete :: "blob_id \<Rightarrow> (mem_storage, unit) storage_op" where
  "mem_delete i s = (Inr (), s\<lparr>ms_blobs := map_remove i (ms_blobs s)\<rparr>)"

definition mem_storage_client :: "mem_storage storage_client" where
  "mem_storage_client = \<lparr>bs_put = mem_put, bs_get = mem_get, bs_delete = mem_delete\<rparr>"

section \<open>On disk\<close>

text \<open>\<^verbatim>\<open>Path::join\<close>: an absolute second path replaces the first.\<close>

definition blob_path :: "path \<Rightarrow> blob_id \<Rightarrow> path" where
  "blob_path base_dir i = (if starts_with ''/'' i then i else base_dir @ ''/'' @ i)"

definition disk_put ::
  "crypto_env \<Rightarrow> (disk \<Rightarrow> path \<Rightarrow> io_result) \<Rightarrow> path \<Rightarrow> bytes \<Rightarrow> u64 \<Rightarrow> (disk, blob_id) storage_op" where
  "disk_put C io base_dir data ttl_epochs d =
     (let i = hex_encode C (sha256 C data);
          p = blob_path base_dir i
      in if d p = None then
           (case fs_write (io d p) p data d of
              (d', True) \<Rightarrow> (Inr i, d')
            | (d', False) \<Rightarrow> (Inl StorageIo, d'))
         else (Inr i, d))"

definition disk_get :: "path \<Rightarrow> blob_id \<Rightarrow> (disk, bytes) storage_op" where
  "disk_get base_dir i d =
     (case d (blob_path base_dir i) of None \<Rightarrow> (Inl (BlobNotFound i), d) | Some c \<Rightarrow> (Inr c, d))"

definition disk_delete :: "path \<Rightarrow> blob_id \<Rightarrow> (disk, unit) storage_op" where
  "disk_delete base_dir i d = (Inr (), d(blob_path base_dir i := None))"

definition disk_storage_client ::
  "crypto_env \<Rightarrow> (disk \<Rightarrow> path \<Rightarrow> io_result) \<Rightarrow> path \<Rightarrow> disk storage_client" where
  "disk_storage_client C io base_dir = \<lparr>bs_put = disk_put C io base_dir, bs_get = disk_get base_dir,
     bs_delete = disk_delete base_dir\<rparr>"

section \<open>The contract\<close>

text \<open>What a client of a store relies on, in the states where \<open>inv\<close> holds: a blob that was put is found
  under its id, up to what \<open>content\<close> observes; other blobs stay; reading changes nothing.\<close>

locale blob_storage =
  fixes S :: "'s storage_client"
    and inv :: "'s \<Rightarrow> bool"
    and ok_id :: "blob_id \<Rightarrow> bool"
    and content :: "bytes \<Rightarrow> 'c"
  assumes put_found: "inv s \<Longrightarrow> bs_put S d ttl s = (Inr i, s') \<Longrightarrow>
      inv s' \<and> ok_id i \<and> (\<exists>d'. fst (bs_get S i s') = Inr d' \<and> content d' = content d)"
    and put_keeps: "inv s \<Longrightarrow> bs_put S d ttl s = (Inr i, s') \<Longrightarrow> ok_id j \<Longrightarrow> j \<noteq> i \<Longrightarrow>
      fst (bs_get S j s') = fst (bs_get S j s)"
    and get_pure: "inv s \<Longrightarrow> snd (bs_get S i s) = s"
begin

lemma get_result: "inv s \<Longrightarrow> bs_get S i s = (r, s') \<longleftrightarrow> r = fst (bs_get S i s) \<and> s' = s"
  using get_pure [of s i] by (cases "bs_get S i s") auto

lemma put_get:
  assumes "inv s" "bs_put S d ttl s = (Inr i, s')" "inj content"
  shows "bs_get S i s' = (Inr d, s')"
  using put_found [OF assms(1,2)] assms(3) get_result [of s' i] by (auto simp: inj_eq)

end

text \<open>Deletion is best effort by the interface; the local stores do delete.\<close>

locale erasing_storage = blob_storage S inv ok_id content
  for S :: "'s storage_client" and inv ok_id and content :: "bytes \<Rightarrow> 'c" +
  assumes delete_gone: "bs_delete S i s = (r, s') \<Longrightarrow> ok_id i \<Longrightarrow> \<exists>e. fst (bs_get S i s') = Inl e"
    and delete_keeps: "inv s \<Longrightarrow> bs_delete S i s = (r, s') \<Longrightarrow> ok_id i \<Longrightarrow> ok_id j \<Longrightarrow> j \<noteq> i \<Longrightarrow>
      inv s' \<and> fst (bs_get S j s') = fst (bs_get S j s)"
begin

text \<open>Deleting one of two stored blobs leaves the other.\<close>

lemma delete_other:
  assumes "inv s" "bs_put S d ttl s = (Inr i, s1)" "ok_id j" "bs_delete S j s1 = (r, s2)" "i \<noteq> j" "inj content"
  shows "bs_get S i s2 = (Inr d, s2) \<and> (\<exists>e. fst (bs_get S j s2) = Inl e)"
proof -
  have "inv s1" "ok_id i" "fst (bs_get S i s1) = Inr d"
    using put_found [OF assms(1,2)] assms(6) by (auto simp: inj_eq)
  then show ?thesis
    using delete_keeps [OF _ assms(4,3), of i] delete_gone [OF assms(4,3)] assms(5) by (simp add: get_result)
qed

end

interpretation mem: erasing_storage mem_storage_client "\<lambda>s. True" "\<lambda>i. True" "\<lambda>d. d"
  by unfold_locales
    (auto simp: mem_storage_client_def mem_put_def mem_get_def mem_delete_def Let_def split: option.splits)

lemma mem_put_ids:
  assumes "bs_put mem_storage_client d ttl s = (Inr i, s1)" "bs_put mem_storage_client e ttl' s1 = (Inr j, s2)"
  shows "i \<noteq> j"
proof -
  have "ms_counter s + 1 + 1 \<noteq> ms_counter s + 1"
    by simp
  then have "unat (ms_counter s + 1) \<noteq> unat (ms_counter s + 1 + 1)"
    by (metis word_unat_eq_iff)
  moreover have "i = ''mem_blob_'' @ decimal (unat (ms_counter s + 1))"
    "j = ''mem_blob_'' @ decimal (unat (ms_counter s + 1 + 1))"
    using assms by (auto simp: mem_storage_client_def mem_put_def Let_def simp del: add_2_eq_Suc')
  ultimately show ?thesis
    by simp
qed

text \<open>On disk the content is only known up to its hash, the state is good when no file is partial, and ids
  are hexadecimal.\<close>

definition hex_id :: "blob_id \<Rightarrow> bool" where
  "hex_id i \<longleftrightarrow> CHR ''/'' \<notin> set i"

definition hex_lawful :: "crypto_env \<Rightarrow> bool" where
  "hex_lawful C \<longleftrightarrow> (\<forall>b. hex_id (hex_encode C b))"

definition disk_good :: "crypto_env \<Rightarrow> path \<Rightarrow> disk \<Rightarrow> bool" where
  "disk_good C base_dir d \<longleftrightarrow> hex_lawful C \<and>
     (\<forall>i c. hex_id i \<longrightarrow> d (blob_path base_dir i) = Some c \<longrightarrow> hex_encode C (sha256 C c) = i)"

lemma blob_path_hex: "hex_id i \<Longrightarrow> blob_path base_dir i = base_dir @ ''/'' @ i"
  by (cases i) (auto simp: hex_id_def blob_path_def starts_with_def)

lemma blob_path_inj: "hex_id i \<Longrightarrow> hex_id j \<Longrightarrow> blob_path base_dir i = blob_path base_dir j \<longleftrightarrow> i = j"
  by (simp add: blob_path_hex)

interpretation disk: erasing_storage "disk_storage_client C io base_dir" "disk_good C base_dir" hex_id
    "\<lambda>c. hex_encode C (sha256 C c)"
  for C io base_dir
proof
  fix s d ttl i s'
  assume s: "disk_good C base_dir s" and p: "bs_put (disk_storage_client C io base_dir) d ttl s = (Inr i, s')"
  let ?i = "hex_encode C (sha256 C d)"
  have i: "i = ?i" "hex_id ?i"
    using p s by (auto simp: disk_storage_client_def disk_put_def disk_good_def hex_lawful_def Let_def split: if_splits prod.splits bool.splits)
  have s': "s' = (if s (blob_path base_dir ?i) = None then s(blob_path base_dir ?i \<mapsto> d) else s)"
    using p by (auto simp: disk_storage_client_def disk_put_def fs_write_def Let_def split: if_splits)
  have "disk_good C base_dir s'"
    using s i unfolding s' disk_good_def by (auto simp: blob_path_inj)
  moreover have "\<exists>d'. s' (blob_path base_dir ?i) = Some d' \<and> hex_encode C (sha256 C d') = ?i"
    using s i(2) unfolding s' disk_good_def by auto
  ultimately show "disk_good C base_dir s' \<and> hex_id i \<and>
      (\<exists>d'. fst (bs_get (disk_storage_client C io base_dir) i s') = Inr d' \<and>
        hex_encode C (sha256 C d') = hex_encode C (sha256 C d))"
    using i by (auto simp: disk_storage_client_def disk_get_def)
  fix j
  assume "hex_id j" "j \<noteq> i"
  then show "fst (bs_get (disk_storage_client C io base_dir) j s') =
      fst (bs_get (disk_storage_client C io base_dir) j s)"
    using i s' by (auto simp: disk_storage_client_def disk_get_def blob_path_inj split: option.splits)
qed (auto simp: disk_storage_client_def disk_get_def disk_delete_def disk_good_def blob_path_inj split: option.splits)

section \<open>Properties\<close>

text \<open>A blob whose write broke off is lost for good. The store takes the file that a failed write
  left behind for the blob itself: putting the same data again succeeds without writing, and reading
  it back yields the partial content.\<close>

theorem disk_retry_returns_partial:
  assumes "disk_get base_dir (hex_encode C (sha256 C data)) d = (Inl (BlobNotFound i), d)"
    and "\<not> io_write_ok (io d (blob_path base_dir (hex_encode C (sha256 C data))))"
    and "io_partial (io d (blob_path base_dir (hex_encode C (sha256 C data)))) = Some part"
    and "disk_put C io base_dir data ttl d = (r, d1)"
  shows "r = Inl StorageIo \<and> disk_put C io' base_dir data ttl' d1 = (Inr (hex_encode C (sha256 C data)), d1) \<and>
    disk_get base_dir (hex_encode C (sha256 C data)) d1 = (Inr part, d1)"
proof -
  have "d (blob_path base_dir (hex_encode C (sha256 C data))) = None"
    using assms(1) by (auto simp: disk_get_def split: option.splits)
  then show ?thesis
    using assms(2-4) by (auto simp: disk_put_def disk_get_def fs_write_def Let_def)
qed

theorem disk_retry_returns_partial_witness:
  "\<forall>C. \<exists>d1. disk_put C (\<lambda>d p. \<lparr>io_write_ok = False, io_rename_ok = True, io_partial = Some [1]\<rparr>) ''s'' [1, 2] 0 Map.empty =
      (Inl StorageIo, d1) \<and>
    disk_put C (\<lambda>d p. \<lparr>io_write_ok = True, io_rename_ok = True, io_partial = None\<rparr>) ''s'' [1, 2] 0 d1 =
      (Inr (hex_encode C (sha256 C [1, 2])), d1) \<and>
    disk_get ''s'' (hex_encode C (sha256 C [1, 2])) d1 = (Inr [1], d1)"
proof
  fix C
  let ?io = "\<lambda>(d :: disk) (p :: path). \<lparr>io_write_ok = False, io_rename_ok = True, io_partial = Some [1]\<rparr>"
  obtain r d1 where p: "disk_put C ?io ''s'' [1, 2] 0 Map.empty = (r, d1)"
    by (cases "disk_put C ?io ''s'' [1, 2] 0 Map.empty")
  have "disk_get ''s'' (hex_encode C (sha256 C [1, 2])) Map.empty =
      (Inl (BlobNotFound (hex_encode C (sha256 C [1, 2]))), Map.empty)"
    by (simp add: disk_get_def)
  from disk_retry_returns_partial [OF this _ _ p] p
  show "\<exists>d1. disk_put C ?io ''s'' [1, 2] 0 Map.empty = (Inl StorageIo, d1) \<and>
      disk_put C (\<lambda>d p. \<lparr>io_write_ok = True, io_rename_ok = True, io_partial = None\<rparr>) ''s'' [1, 2] 0 d1 =
        (Inr (hex_encode C (sha256 C [1, 2])), d1) \<and>
      disk_get ''s'' (hex_encode C (sha256 C [1, 2])) d1 = (Inr [1], d1)"
    by (intro exI [of _ d1]) simp
qed

end
