(* ===== verification/Session.thy ===== *)
theory Session
  imports Blob_Storage Context_Window
begin

text \<open>Encrypted conversations: the keys and blobs of \<^verbatim>\<open>crates/context/src/crypto.rs\<close> and the
  session manager of \<^verbatim>\<open>session.rs\<close>, over any blob store and any place for the pointer to a user's
  index. AES-256-GCM, X25519 and SHA-256 are a parameter record, random nonces, ids and the clock are
  arguments. The window the manager builds for a model is in the theory of context windows.\<close>

section \<open>Keys and blobs\<close>

type_synonym session_key = bytes

record session_crypto =
  aes_encrypt :: "bytes \<Rightarrow> bytes \<Rightarrow> bytes \<Rightarrow> bytes option"
  aes_decrypt :: "bytes \<Rightarrow> bytes \<Rightarrow> bytes \<Rightarrow> bytes option"
  x25519_public :: "bytes \<Rightarrow> bytes"
  x25519_dh :: "bytes \<Rightarrow> bytes \<Rightarrow> bytes"
  kdf_sha256 :: "bytes \<Rightarrow> bytes"

record encrypted_blob =
  eb_ciphertext :: bytes
  eb_nonce :: bytes

datatype session_error =
    EncryptFailed
  | DecryptFailed
  | BlobTooShort nat
  | WrongKeyLength nat
  | SerialiseFailed
  | DeserialiseFailed
  | StorageFailed storage_error
  | IndexFailed

definition key_encrypt :: "session_crypto \<Rightarrow> session_key \<Rightarrow> bytes \<Rightarrow> bytes \<Rightarrow> (encrypted_blob, session_error) res" where
  "key_encrypt Y key nonce plaintext =
     (case aes_encrypt Y key nonce plaintext of
        None \<Rightarrow> Err EncryptFailed
      | Some ciphertext \<Rightarrow> Okay \<lparr>eb_ciphertext = ciphertext, eb_nonce = nonce\<rparr>)"

definition key_decrypt :: "session_crypto \<Rightarrow> session_key \<Rightarrow> encrypted_blob \<Rightarrow> (bytes, session_error) res" where
  "key_decrypt Y key blob =
     (case aes_decrypt Y key (eb_nonce blob) (eb_ciphertext blob) of
        None \<Rightarrow> Err DecryptFailed
      | Some p \<Rightarrow> Okay p)"

definition blob_to_bytes :: "encrypted_blob \<Rightarrow> bytes" where
  "blob_to_bytes blob = eb_nonce blob @ eb_ciphertext blob"

definition blob_from_bytes :: "bytes \<Rightarrow> (encrypted_blob, session_error) res" where
  "blob_from_bytes data =
     (if length data < 12 then Err (BlobTooShort (length data))
      else Okay \<lparr>eb_ciphertext = drop 12 data, eb_nonce = take 12 data\<rparr>)"

definition derive_wrap_key :: "session_crypto \<Rightarrow> bytes \<Rightarrow> session_key" where
  "derive_wrap_key Y shared_secret = kdf_sha256 Y (str_bytes ''deai-wrap-key-v1'' @ shared_secret)"

text \<open>The client's side takes its fresh secret and a nonce, the node's side its static secret.\<close>

definition encrypt_session_key ::
  "session_crypto \<Rightarrow> bytes \<Rightarrow> bytes \<Rightarrow> bytes \<Rightarrow> session_key \<Rightarrow> (bytes \<times> bytes, session_error) res" where
  "encrypt_session_key Y secret nonce node_pub_bytes key =
     (let shared = x25519_dh Y secret node_pub_bytes in
      case key_encrypt Y (derive_wrap_key Y shared) nonce key of
        Inl e \<Rightarrow> Inl e
      | Inr wrapped \<Rightarrow> Okay (x25519_public Y secret, blob_to_bytes wrapped))"

definition decrypt_session_key ::
  "session_crypto \<Rightarrow> bytes \<Rightarrow> bytes \<Rightarrow> bytes \<Rightarrow> (session_key, session_error) res" where
  "decrypt_session_key Y secret client_pub_bytes encrypted_key =
     (let shared = x25519_dh Y secret client_pub_bytes in
      case blob_from_bytes encrypted_key of
        Inl e \<Rightarrow> Inl e
      | Inr blob \<Rightarrow>
          (case key_decrypt Y (derive_wrap_key Y shared) blob of
             Inl e \<Rightarrow> Inl e
           | Inr raw \<Rightarrow> if length raw \<noteq> 32 then Err (WrongKeyLength (length raw)) else Okay raw))"

section \<open>The index pointer\<close>

record 'x index_store =
  ix_get :: "string \<Rightarrow> 'x \<Rightarrow> (blob_id option, session_error) res \<times> 'x"
  ix_set :: "string \<Rightarrow> blob_id \<Rightarrow> 'x \<Rightarrow> (unit, session_error) res \<times> 'x"

type_synonym local_index = "string \<rightharpoonup> blob_id"

definition local_index_get :: "string \<Rightarrow> local_index \<Rightarrow> (blob_id option, session_error) res \<times> local_index" where
  "local_index_get user_id m = (Okay (m user_id), m)"

definition local_index_set :: "string \<Rightarrow> blob_id \<Rightarrow> local_index \<Rightarrow> (unit, session_error) res \<times> local_index" where
  "local_index_set user_id i m = (Okay (), m(user_id \<mapsto> i))"

definition local_index_store :: "local_index index_store" where
  "local_index_store = \<lparr>ix_get = local_index_get, ix_set = local_index_set\<rparr>"

text \<open>The two calls of a blockchain client that the index on a chain delegates to.\<close>

record 'x blockchain_client =
  bc_get_session_index_blob :: "string \<Rightarrow> 'x \<Rightarrow> blob_id option option \<times> 'x"
  bc_set_session_index_blob :: "string \<Rightarrow> blob_id \<Rightarrow> 'x \<Rightarrow> unit option \<times> 'x"

definition chain_index_store :: "'x blockchain_client \<Rightarrow> 'x index_store" where
  "chain_index_store B = \<lparr>
     ix_get = (\<lambda>u x. case bc_get_session_index_blob B u x of
       (None, x') \<Rightarrow> (Err IndexFailed, x') | (Some i, x') \<Rightarrow> (Okay i, x')),
     ix_set = (\<lambda>u i x. case bc_set_session_index_blob B u i x of
       (None, x') \<Rightarrow> (Err IndexFailed, x') | (Some (), x') \<Rightarrow> (Okay (), x'))\<rparr>"

text \<open>The mock chain.\<close>

definition mock_chain :: "local_index blockchain_client" where
  "mock_chain = \<lparr>bc_get_session_index_blob = (\<lambda>a m. (Some (m a), m)),
     bc_set_session_index_blob = (\<lambda>a i m. (Some (), m(a \<mapsto> i)))\<rparr>"

section \<open>The manager\<close>

record ('s, 'x) session_manager =
  sg_storage :: 's
  sg_index :: 'x
  sg_cache :: "uuid \<rightharpoonup> session_context"

definition ttl_epochs :: u64 where
  "ttl_epochs = 365"

record ('s, 'x) session_env =
  se_storage :: "'s storage_client"
  se_index :: "'x index_store"
  se_crypto :: session_crypto
  se_to_vec :: "session_context \<Rightarrow> bytes option"
  se_from_slice :: "bytes \<Rightarrow> session_context option"
  se_index_to_vec :: "session_summary list \<Rightarrow> bytes option"
  se_index_from_slice :: "bytes \<Rightarrow> session_summary list option"

definition session_manager_new :: "'s \<Rightarrow> 'x \<Rightarrow> ('s, 'x) session_manager" where
  "session_manager_new s x = \<lparr>sg_storage = s, sg_index = x, sg_cache = Map.empty\<rparr>"

definition new_session :: "uuid \<Rightarrow> u64 \<Rightarrow> string \<Rightarrow> string \<Rightarrow> string option \<Rightarrow> session_context" where
  "new_session sid now user_address model_id system_prompt =
     \<lparr>sc_session_id = sid, sc_user_address = user_address, sc_model_id = model_id, sc_messages = [],
      sc_context_window = \<lparr>cw_system_prompt = system_prompt, cw_summary = None, cw_recent_messages = [],
        cw_total_tokens = 0\<rparr>,
      sc_metadata = \<lparr>sm_created_at = now, sm_last_updated = now, sm_turn_count = 0,
        sm_total_tokens_used = 0, sm_total_cost_nanox = 0, sm_blob_id = None, sm_prev_blob_id = None\<rparr>\<rparr>"

definition create_session ::
  "uuid \<Rightarrow> session_key \<Rightarrow> u64 \<Rightarrow> string \<Rightarrow> string \<Rightarrow> string option \<Rightarrow> ('s, 'x) session_manager \<Rightarrow>
     (session_context \<times> session_key) \<times> ('s, 'x) session_manager" where
  "create_session sid key now user_address model_id system_prompt m =
     (let session = new_session sid now user_address model_id system_prompt
      in ((session, key), m\<lparr>sg_cache := (sg_cache m)(sid \<mapsto> session)\<rparr>))"

definition open_blob :: "session_crypto \<Rightarrow> session_key \<Rightarrow> bytes \<Rightarrow> (bytes, session_error) res" where
  "open_blob Y key raw =
     (case blob_from_bytes raw of Inl e \<Rightarrow> Inl e | Inr blob \<Rightarrow> key_decrypt Y key blob)"

text \<open>A cached session is returned whatever the blob and the key.\<close>

definition load_session ::
  "('s, 'x) session_env \<Rightarrow> uuid \<Rightarrow> blob_id \<Rightarrow> session_key \<Rightarrow> ('s, 'x) session_manager \<Rightarrow>
     (session_context option, session_error) res \<times> ('s, 'x) session_manager" where
  "load_session E sid i key m =
     (case sg_cache m sid of
        Some cached \<Rightarrow> (Okay (Some cached), m)
      | None \<Rightarrow>
          (case bs_get (se_storage E) i (sg_storage m) of
             (Inl e, s) \<Rightarrow> (Okay None, m\<lparr>sg_storage := s\<rparr>)
           | (Inr raw_bytes, s) \<Rightarrow>
               let m1 = m\<lparr>sg_storage := s\<rparr> in
               case open_blob (se_crypto E) key raw_bytes of
                 Inl e \<Rightarrow> (Inl e, m1)
               | Inr plaintext \<Rightarrow>
                   (case se_from_slice E plaintext of
                      None \<Rightarrow> (Inl DeserialiseFailed, m1)
                    | Some session \<Rightarrow>
                        (Okay (Some session), m1\<lparr>sg_cache := (sg_cache m1)(sid \<mapsto> session)\<rparr>))))"

text \<open>The summaries a user's index holds: empty when there is no pointer, when its blob is gone, or when
  its content does not parse; a blob that cannot be decrypted is an error.\<close>

definition read_index ::
  "('s, 'x) session_env \<Rightarrow> string \<Rightarrow> session_key \<Rightarrow> ('s, 'x) session_manager \<Rightarrow>
     (session_summary list, session_error) res \<times> ('s, 'x) session_manager" where
  "read_index E user_address key m =
     (case ix_get (se_index E) user_address (sg_index m) of
        (Inl e, x) \<Rightarrow> (Inl e, m\<lparr>sg_index := x\<rparr>)
      | (Inr None, x) \<Rightarrow> (Okay [], m\<lparr>sg_index := x\<rparr>)
      | (Inr (Some i), x) \<Rightarrow>
          (case bs_get (se_storage E) i (sg_storage m) of
             (Inl e, s) \<Rightarrow> (Okay [], m\<lparr>sg_index := x, sg_storage := s\<rparr>)
           | (Inr raw, s) \<Rightarrow>
               let m1 = m\<lparr>sg_index := x, sg_storage := s\<rparr> in
               case open_blob (se_crypto E) key raw of
                 Inl e \<Rightarrow> (Inl e, m1)
               | Inr plain \<Rightarrow>
                   (Okay (case se_index_from_slice E plain of None \<Rightarrow> [] | Some ss \<Rightarrow> ss), m1)))"

definition session_preview :: "session_context \<Rightarrow> string" where
  "session_preview session =
     (case find (\<lambda>msg. msg_role msg = User) (sc_messages session) of
        None \<Rightarrow> [] | Some msg \<Rightarrow> take_chars 80 (msg_content msg))"

definition session_summary_of :: "session_context \<Rightarrow> session_summary" where
  "session_summary_of session =
     \<lparr>ss_session_id = sc_session_id session, ss_model_id = sc_model_id session,
      ss_turn_count = sm_turn_count (sc_metadata session), ss_created_at = sm_created_at (sc_metadata session),
      ss_last_updated = sm_last_updated (sc_metadata session), ss_preview = session_preview session\<rparr>"

fun upsert_summary :: "session_summary \<Rightarrow> session_summary list \<Rightarrow> session_summary list" where
  "upsert_summary x [] = [x]"
| "upsert_summary x (s # ss) =
     (if ss_session_id s = ss_session_id x then x # ss else s # upsert_summary x ss)"

definition latest_first :: "session_summary list \<Rightarrow> session_summary list" where
  "latest_first = sort_key (\<lambda>s. - int (unat (ss_last_updated s)))"

definition update_session_index ::
  "('s, 'x) session_env \<Rightarrow> bytes \<Rightarrow> string \<Rightarrow> session_context \<Rightarrow> session_key \<Rightarrow> ('s, 'x) session_manager \<Rightarrow>
     (unit, session_error) res \<times> ('s, 'x) session_manager" where
  "update_session_index E nonce user_address session key m =
     (case read_index E user_address key m of
        (Inl e, m1) \<Rightarrow> (Inl e, m1)
      | (Inr summaries, m1) \<Rightarrow>
          (case se_index_to_vec E (latest_first (upsert_summary (session_summary_of session) summaries)) of
             None \<Rightarrow> (Inl SerialiseFailed, m1)
           | Some index_json \<Rightarrow>
               (case key_encrypt (se_crypto E) key nonce index_json of
                  Inl e \<Rightarrow> (Inl e, m1)
                | Inr index_blob \<Rightarrow>
                    (case bs_put (se_storage E) (blob_to_bytes index_blob) ttl_epochs (sg_storage m1) of
                       (Inl e, s) \<Rightarrow> (Inl (StorageFailed e), m1\<lparr>sg_storage := s\<rparr>)
                     | (Inr index_id, s) \<Rightarrow>
                         let (r, x) = ix_set (se_index E) user_address index_id (sg_index m1)
                         in (r, m1\<lparr>sg_storage := s, sg_index := x\<rparr>)))))"

definition with_blob :: "blob_id \<Rightarrow> u64 \<Rightarrow> session_context \<Rightarrow> session_context" where
  "with_blob i now session = session\<lparr>sc_metadata := (sc_metadata session)\<lparr>
     sm_prev_blob_id := sm_blob_id (sc_metadata session), sm_blob_id := Some i, sm_last_updated := now\<rparr>\<rparr>"

definition save_session ::
  "('s, 'x) session_env \<Rightarrow> bytes \<times> bytes \<Rightarrow> u64 \<Rightarrow> session_context \<Rightarrow> session_key \<Rightarrow> ('s, 'x) session_manager \<Rightarrow>
     (blob_id, session_error) res \<times> ('s, 'x) session_manager" where
  "save_session E nonces now session key m =
     (case se_to_vec E session of
        None \<Rightarrow> (Inl SerialiseFailed, m)
      | Some plaintext \<Rightarrow>
          (case key_encrypt (se_crypto E) key (fst nonces) plaintext of
             Inl e \<Rightarrow> (Inl e, m)
           | Inr blob \<Rightarrow>
               (case bs_put (se_storage E) (blob_to_bytes blob) ttl_epochs (sg_storage m) of
                  (Inl e, s) \<Rightarrow> (Inl (StorageFailed e), m\<lparr>sg_storage := s\<rparr>)
                | (Inr new_blob_id, s) \<Rightarrow>
                    let m1 = m\<lparr>sg_storage := s,
                          sg_cache := (sg_cache m)(sc_session_id session \<mapsto> with_blob new_blob_id now session)\<rparr>
                    in case update_session_index E (snd nonces) (sc_user_address session) session key m1 of
                         (Inl e, m2) \<Rightarrow> (Inl e, m2)
                       | (Inr _, m2) \<Rightarrow> (Okay new_blob_id, m2))))"

text \<open>A turn changes the caller's session and saves it; the counters wrap.\<close>

definition add_turn ::
  "u64 \<Rightarrow> string \<Rightarrow> string \<Rightarrow> u64 \<Rightarrow> u64 \<Rightarrow> string option \<Rightarrow> session_context \<Rightarrow> session_context" where
  "add_turn now user_prompt assistant_reply tokens_used cost_nanox node_id session =
     session\<lparr>sc_messages := sc_messages session @
         [\<lparr>msg_role = User, msg_content = user_prompt, msg_timestamp = now, msg_node_id = None,
           msg_token_count = 0\<rparr>,
          \<lparr>msg_role = Assistant, msg_content = assistant_reply, msg_timestamp = now, msg_node_id = node_id,
           msg_token_count = ucast tokens_used\<rparr>],
       sc_metadata := (sc_metadata session)\<lparr>
         sm_turn_count := sm_turn_count (sc_metadata session) + 1,
         sm_total_tokens_used := sm_total_tokens_used (sc_metadata session) + tokens_used,
         sm_total_cost_nanox := sm_total_cost_nanox (sc_metadata session) + cost_nanox,
         sm_last_updated := now\<rparr>\<rparr>"

definition append_turn ::
  "('s, 'x) session_env \<Rightarrow> bytes \<times> bytes \<Rightarrow> u64 \<Rightarrow> u64 \<Rightarrow> string \<Rightarrow> string \<Rightarrow> u64 \<Rightarrow> u64 \<Rightarrow> string option \<Rightarrow>
     session_key \<Rightarrow> session_context \<times> ('s, 'x) session_manager \<Rightarrow>
     (blob_id, session_error) res \<times> (session_context \<times> ('s, 'x) session_manager)" where
  "append_turn E nonces now saved user_prompt assistant_reply tokens_used cost_nanox node_id key sm =
     (let session = add_turn now user_prompt assistant_reply tokens_used cost_nanox node_id (fst sm);
          (r, m) = save_session E nonces saved session key (snd sm)
      in (r, (session, m)))"

definition list_sessions ::
  "('s, 'x) session_env \<Rightarrow> string \<Rightarrow> session_key \<Rightarrow> ('s, 'x) session_manager \<Rightarrow>
     (session_summary list, session_error) res \<times> ('s, 'x) session_manager" where
  "list_sessions E user_address index_key m =
     (case ix_get (se_index E) user_address (sg_index m) of
        (Inl e, x) \<Rightarrow> (Inl e, m\<lparr>sg_index := x\<rparr>)
      | (Inr None, x) \<Rightarrow> (Okay [], m\<lparr>sg_index := x\<rparr>)
      | (Inr (Some i), x) \<Rightarrow>
          (case bs_get (se_storage E) i (sg_storage m) of
             (Inl e, s) \<Rightarrow> (Inl (StorageFailed e), m\<lparr>sg_index := x, sg_storage := s\<rparr>)
           | (Inr raw, s) \<Rightarrow>
               ((case open_blob (se_crypto E) index_key raw of
                   Inl e \<Rightarrow> Inl e
                 | Inr plain \<Rightarrow> Okay (case se_index_from_slice E plain of None \<Rightarrow> [] | Some ss \<Rightarrow> ss)),
                m\<lparr>sg_index := x, sg_storage := s\<rparr>)))"

section \<open>What the model relies on\<close>

text \<open>Decryption inverts encryption under the same key and nonce; the two sides of a key exchange agree;
  JSON round trips.\<close>

definition aes_lawful :: "session_crypto \<Rightarrow> bool" where
  "aes_lawful Y \<longleftrightarrow> (\<forall>k n p c. aes_encrypt Y k n p = Some c \<longrightarrow> aes_decrypt Y k n c = Some p)"

definition dh_lawful :: "session_crypto \<Rightarrow> bool" where
  "dh_lawful Y \<longleftrightarrow> (\<forall>a b. x25519_dh Y a (x25519_public Y b) = x25519_dh Y b (x25519_public Y a))"

definition json_lawful :: "('s, 'x) session_env \<Rightarrow> bool" where
  "json_lawful E \<longleftrightarrow>
     (\<forall>s d. se_to_vec E s = Some d \<longrightarrow> se_from_slice E d = Some s) \<and>
     (\<forall>ss d. se_index_to_vec E ss = Some d \<longrightarrow> se_index_from_slice E d = Some ss)"

section \<open>Lemmas\<close>

lemma blob_roundtrip [simp]:
  "length (eb_nonce b) = 12 \<Longrightarrow> blob_from_bytes (blob_to_bytes b) = Okay b"
  by (simp add: blob_from_bytes_def blob_to_bytes_def)

lemma open_blob_encrypt:
  assumes "aes_lawful Y" "key_encrypt Y key nonce p = Inr b" "length nonce = 12"
  shows "open_blob Y key (blob_to_bytes b) = Okay p"
proof -
  have b: "eb_nonce b = nonce" "aes_encrypt Y key nonce p = Some (eb_ciphertext b)"
    using assms(2) by (auto simp: key_encrypt_def split: option.splits)
  then have "aes_decrypt Y key (eb_nonce b) (eb_ciphertext b) = Some p"
    using assms(1) by (simp add: aes_lawful_def)
  with b(1) assms(3) show ?thesis
    by (simp add: open_blob_def key_decrypt_def)
qed

lemma upsert_summary_ids:
  "ss_session_id ` set (upsert_summary x ss) = insert (ss_session_id x) (ss_session_id ` set ss)"
  by (induction ss) auto

lemma upsert_summary_distinct:
  "distinct (map ss_session_id ss) \<Longrightarrow> distinct (map ss_session_id (upsert_summary x ss))"
proof (induction ss)
  case (Cons s ss)
  then show ?case
    using upsert_summary_ids [of x ss] by (cases "ss_session_id s = ss_session_id x") auto
qed simp

lemma upsert_summary_set:
  "distinct (map ss_session_id ss) \<Longrightarrow>
     set (upsert_summary x ss) = insert x {s \<in> set ss. ss_session_id s \<noteq> ss_session_id x}"
  by (induction ss) (auto simp: rev_image_eqI)

lemma latest_first_simps [simp]:
  "set (latest_first ss) = set ss"
  "distinct (map ss_session_id (latest_first ss)) \<longleftrightarrow> distinct (map ss_session_id ss)"
  by (simp_all add: latest_first_def distinct_map)

lemma latest_first_sorted: "sorted_wrt (\<lambda>a b. ss_last_updated b \<le> ss_last_updated a) (latest_first ss)"
proof -
  have "sorted (map (\<lambda>s. - int (unat (ss_last_updated s))) (latest_first ss))"
    by (simp add: latest_first_def)
  then show ?thesis
    unfolding sorted_map by (rule sorted_wrt_mono_rel [rotated]) (simp add: word_le_def)
qed

lemma save_session_cache:
  assumes "save_session E ns now session key m = (Inr i, m')"
  shows "sg_cache m' = (sg_cache m)(sc_session_id session \<mapsto> with_blob i now session)"
  using assms
  by (auto simp: save_session_def update_session_index_def read_index_def Let_def
      split: option.splits sum.splits prod.splits)

lemma local_index_simps [simp]:
  "ix_get local_index_store u x = (Okay (x u), x)" "ix_set local_index_store u i x = (Okay (), x(u \<mapsto> i))"
  by (simp_all add: local_index_store_def local_index_get_def local_index_set_def)

context blob_storage
begin

lemma read_index_storage:
  assumes "se_storage E = S" "se_index E = local_index_store" "inv (sg_storage m)" "read_index E u key m = (r, m')"
  shows "sg_storage m' = sg_storage m \<and> sg_index m' = sg_index m \<and> sg_cache m' = sg_cache m"
  using assms
  by (auto simp: read_index_def get_result Let_def split: option.splits sum.splits prod.splits)

text \<open>What a successful save did: one blob for the session, one for the index.\<close>

lemma save_session_parts:
  assumes "se_storage E = S" "se_index E = local_index_store" "inv (sg_storage m)"
    and "save_session E ns now session key m = (Inr i, m')"
  obtains p b s1 old q ib j where
    "se_to_vec E session = Some p" "key_encrypt (se_crypto E) key (fst ns) p = Inr b"
    "bs_put S (blob_to_bytes b) ttl_epochs (sg_storage m) = (Inr i, s1)"
    "fst (read_index E (sc_user_address session) key (m\<lparr>sg_storage := s1\<rparr>)) = Inr old"
    "se_index_to_vec E (latest_first (upsert_summary (session_summary_of session) old)) = Some q"
    "key_encrypt (se_crypto E) key (snd ns) q = Inr ib"
    "bs_put S (blob_to_bytes ib) ttl_epochs s1 = (Inr j, sg_storage m')"
    "sg_index m' = (sg_index m)(sc_user_address session \<mapsto> j)"
proof -
  obtain p where p: "se_to_vec E session = Some p"
    using assms(4) by (auto simp: save_session_def split: option.splits)
  obtain b where b: "key_encrypt (se_crypto E) key (fst ns) p = Inr b"
    using assms(4) p by (auto simp: save_session_def split: sum.splits)
  obtain s1 where s1: "bs_put S (blob_to_bytes b) ttl_epochs (sg_storage m) = (Inr i, s1)"
    using assms(1,4) p b
    by (auto simp: save_session_def Let_def split: sum.splits prod.splits)
  have "inv s1"
    using put_found [OF assms(3) s1] by simp
  define m1 where "m1 = m\<lparr>sg_storage := s1,
    sg_cache := (sg_cache m)(sc_session_id session \<mapsto> with_blob i now session)\<rparr>"
  have up: "update_session_index E (snd ns) (sc_user_address session) session key m1 = (Inr (), m')"
    using assms(1,4) p b s1 by (auto simp: save_session_def m1_def Let_def split: sum.splits prod.splits)
  obtain r m2 where r: "read_index E (sc_user_address session) key m1 = (r, m2)"
    by (cases "read_index E (sc_user_address session) key m1")
  have m2: "sg_storage m2 = s1" "sg_index m2 = sg_index m"
    using read_index_storage [OF assms(1,2) _ r] \<open>inv s1\<close> by (simp_all add: m1_def)
  obtain old where old: "r = Inr old"
    using up r by (auto simp: update_session_index_def split: sum.splits)
  have "fst (read_index E (sc_user_address session) key (m\<lparr>sg_storage := s1\<rparr>)) = Inr old"
    using r old assms(1,2)
    by (auto simp: read_index_def m1_def Let_def split: option.splits sum.splits prod.splits)
  moreover obtain q where q: "se_index_to_vec E (latest_first (upsert_summary (session_summary_of session) old)) = Some q"
    using up r old by (auto simp: update_session_index_def split: option.splits)
  moreover obtain ib where ib: "key_encrypt (se_crypto E) key (snd ns) q = Inr ib"
    using up r old q by (auto simp: update_session_index_def split: sum.splits)
  moreover obtain j where "bs_put S (blob_to_bytes ib) ttl_epochs s1 = (Inr j, sg_storage m')"
    "sg_index m' = (sg_index m)(sc_user_address session \<mapsto> j)"
    using up r old q ib m2 assms(1,2)
    by (auto simp: update_session_index_def Let_def split: sum.splits prod.splits)
  ultimately show ?thesis
    using that p b s1 by blast
qed

lemma save_session_inv:
  assumes "se_storage E = S" "se_index E = local_index_store" "inv (sg_storage m)"
    and "save_session E ns now session key m = (Inr i, m')"
  shows "inv (sg_storage m')"
  by (rule save_session_parts [OF assms(1-4)]) (use assms(3) put_found in blast)

text \<open>A later reader finds the session, and the index brought up to date, in a store that still returns
  the two blobs the save wrote and the index it read.\<close>

lemma save_then_load:
  assumes "se_storage E = S" "se_index E = local_index_store" "inv (sg_storage m)"
    and "aes_lawful (se_crypto E)" "json_lawful E" "length (fst ns) = 12" "length (snd ns) = 12"
    and "save_session E ns now session key m = (Inr i, m')"
    and "\<And>d e s1 j. bs_put S d ttl_epochs (sg_storage m) = (Inr i, s1) \<Longrightarrow>
      bs_put S e ttl_epochs s1 = (Inr j, sg_storage m') \<Longrightarrow> sg_index m' (sc_user_address session) = Some j \<Longrightarrow>
      fst (bs_get S i (sg_storage m')) = Inr d \<and> fst (bs_get S j (sg_storage m')) = Inr e"
    and "fst (list_sessions E (sc_user_address session) key m) = Inr old"
    and "\<And>k. sg_index m (sc_user_address session) = Some k \<Longrightarrow> ok_id k \<and> k \<noteq> i"
  shows "fst (load_session E (sc_session_id session) i key (session_manager_new (sg_storage m') x)) = Inr (Some session) \<and>
    fst (list_sessions E (sc_user_address session) key (session_manager_new (sg_storage m') (sg_index m'))) =
      Inr (latest_first (upsert_summary (session_summary_of session) old))"
proof -
  obtain p b s1 old' q ib j where parts:
    "se_to_vec E session = Some p" "key_encrypt (se_crypto E) key (fst ns) p = Inr b"
    "bs_put S (blob_to_bytes b) ttl_epochs (sg_storage m) = (Inr i, s1)"
    "fst (read_index E (sc_user_address session) key (m\<lparr>sg_storage := s1\<rparr>)) = Inr old'"
    "se_index_to_vec E (latest_first (upsert_summary (session_summary_of session) old')) = Some q"
    "key_encrypt (se_crypto E) key (snd ns) q = Inr ib"
    "bs_put S (blob_to_bytes ib) ttl_epochs s1 = (Inr j, sg_storage m')"
    "sg_index m' = (sg_index m)(sc_user_address session \<mapsto> j)"
    by (rule save_session_parts [OF assms(1-3,8)])
  have "inv s1"
    using put_found [OF assms(3) parts(3)] by simp
  have inv': "inv (sg_storage m')"
    using put_found [OF \<open>inv s1\<close> parts(7)] by simp
  have got: "bs_get S i (sg_storage m') = (Inr (blob_to_bytes b), sg_storage m')"
    "bs_get S j (sg_storage m') = (Inr (blob_to_bytes ib), sg_storage m')"
    using assms(9) [OF parts(3,7)] parts(8) by (simp_all add: get_result inv')
  have "open_blob (se_crypto E) key (blob_to_bytes b) = Inr p"
    by (rule open_blob_encrypt [OF assms(4) parts(2) assms(6)])
  then have 1: "fst (load_session E (sc_session_id session) i key (session_manager_new (sg_storage m') x)) = Inr (Some session)"
    using got(1) parts(1) assms(1,5) by (simp add: load_session_def json_lawful_def session_manager_new_def Let_def)
  have "open_blob (se_crypto E) key (blob_to_bytes ib) = Inr q"
    by (rule open_blob_encrypt [OF assms(4) parts(6) assms(7)])
  then have 2: "fst (list_sessions E (sc_user_address session) key (session_manager_new (sg_storage m') (sg_index m'))) =
      Inr (latest_first (upsert_summary (session_summary_of session) old'))"
    using got(2) parts(5,8) assms(1,2,5) by (simp add: list_sessions_def json_lawful_def session_manager_new_def)
  have "old' = old"
  proof (cases "sg_index m (sc_user_address session)")
    case None
    then show ?thesis
      using parts(4) assms(2,10) by (simp add: read_index_def list_sessions_def)
  next
    case (Some k)
    have "fst (bs_get S k s1) = fst (bs_get S k (sg_storage m))"
      using put_keeps [OF assms(3) parts(3)] assms(11) [OF Some] by simp
    then have "bs_get S k s1 = (fst (bs_get S k (sg_storage m)), s1)"
      by (simp add: get_result \<open>inv s1\<close>)
    moreover have "bs_get S k (sg_storage m) = (fst (bs_get S k (sg_storage m)), sg_storage m)"
      by (simp add: get_result assms(3))
    ultimately show ?thesis
      using Some parts(4) assms(1,2,10)
      by (auto simp: read_index_def list_sessions_def Let_def split: sum.splits prod.splits)
  qed
  with 1 2 show ?thesis
    by simp
qed

end

lemma disk_put_new:
  "bs_put (disk_storage_client C io base_dir) d ttl s = (Inr i, s') \<Longrightarrow> s (blob_path base_dir i) = None \<Longrightarrow>
     s' = s(blob_path base_dir i \<mapsto> d)"
  by (auto simp: disk_storage_client_def disk_put_def fs_write_def Let_def split: if_splits)

section \<open>Properties\<close>

text \<open>A session key survives the handoff. What the client wraps for the node's public key is what
  the node unwraps with its secret.\<close>

theorem session_key_handoff:
  assumes "aes_lawful Y" "dh_lawful Y" "length nonce = 12" "length key = 32"
    and "encrypt_session_key Y client nonce (x25519_public Y node) key = Inr (client_pub, wrapped)"
  shows "decrypt_session_key Y node client_pub wrapped = Inr key"
proof -
  let ?k = "derive_wrap_key Y (x25519_dh Y client (x25519_public Y node))"
  obtain b where b: "key_encrypt Y ?k nonce key = Inr b" "client_pub = x25519_public Y client"
    "wrapped = blob_to_bytes b"
    using assms(5) by (auto simp: encrypt_session_key_def Let_def split: sum.splits)
  have "x25519_dh Y node client_pub = x25519_dh Y client (x25519_public Y node)"
    using assms(2) b(2) by (simp add: dh_lawful_def)
  moreover have "open_blob Y ?k wrapped = Inr key"
    unfolding b(3) by (rule open_blob_encrypt [OF assms(1) b(1) assms(3)])
  ultimately show ?thesis
    using assms(4) by (auto simp: decrypt_session_key_def open_blob_def Let_def split: sum.splits)
qed

text \<open>C27: a saved session survives a restart. After a save to the store on disk that wrote two new
  files, a manager started afresh on that disk loads, by the id and key the client kept, exactly
  the session that was saved, whatever pointers to index files it has. With the pointers of the
  old manager it also lists the user's index: the old entries with this session's summary put in,
  once, by falling time of last update. The pointers are kept in memory only: without them the user
  has no sessions.\<close>

theorem session_survives_restart:
  assumes "se_storage E = disk_storage_client C io base_dir" "se_index E = local_index_store"
    and "aes_lawful (se_crypto E)" "json_lawful E" "length (fst ns) = 12" "length (snd ns) = 12"
    and "disk_good C base_dir (sg_storage m)"
    and "fst (list_sessions E (sc_user_address session) key m) = Inr old"
    and "\<forall>k. sg_index m (sc_user_address session) = Some k \<longrightarrow> hex_id k"
    and "save_session E ns now session key m = (Inr i, m')" "sg_index m' (sc_user_address session) = Some j"
    and "i \<noteq> j" "sg_storage m (blob_path base_dir i) = None" "sg_storage m (blob_path base_dir j) = None"
  shows "(\<forall>pointers. fst (load_session E (sc_session_id session) i key
      (session_manager_new (sg_storage m') pointers)) = Inr (Some session)) \<and>
    (\<exists>ss. fst (list_sessions E (sc_user_address session) key (session_manager_new (sg_storage m') (sg_index m'))) = Inr ss \<and>
       ss = latest_first (upsert_summary (session_summary_of session) old) \<and>
       sorted_wrt (\<lambda>a b. ss_last_updated b \<le> ss_last_updated a) ss \<and>
       (distinct (map ss_session_id old) \<longrightarrow> distinct (map ss_session_id ss) \<and>
          set ss = insert (session_summary_of session) {s \<in> set old. ss_session_id s \<noteq> sc_session_id session})) \<and>
    fst (list_sessions E (sc_user_address session) key (session_manager_new (sg_storage m') Map.empty)) = Inr []"
proof -
  let ?S = "disk_storage_client C io base_dir" and ?u = "sc_user_address session"
  have found: "fst (bs_get ?S i (sg_storage m')) = Inr d \<and> fst (bs_get ?S k (sg_storage m')) = Inr e"
    if "bs_put ?S d ttl_epochs (sg_storage m) = (Inr i, s1)" "bs_put ?S e ttl_epochs s1 = (Inr k, sg_storage m')"
      "sg_index m' ?u = Some k" for d e s1 k
  proof -
    have k: "k = j"
      using that(3) assms(11) by simp
    have s1: "s1 = (sg_storage m)(blob_path base_dir i \<mapsto> d)" "hex_id i" "disk_good C base_dir s1"
      using disk_put_new [OF that(1) assms(13)] disk.put_found [OF assms(7) that(1)] by simp_all
    have "hex_id j"
      using disk.put_found [OF s1(3) that(2)] k by simp
    then have ne: "blob_path base_dir j \<noteq> blob_path base_dir i"
      using s1(2) assms(12) by (simp add: blob_path_inj)
    then have "sg_storage m' = s1(blob_path base_dir j \<mapsto> e)"
      using disk_put_new [OF that(2)] s1(1) assms(14) k by simp
    then show ?thesis
      using ne s1(1) k by (simp add: disk_storage_client_def disk_get_def)
  qed
  have other: "hex_id k \<and> k \<noteq> i" if k: "sg_index m ?u = Some k" for k
  proof -
    have "fst (bs_get ?S k (sg_storage m)) \<noteq> Inl (BlobNotFound k)"
      using assms(1,2,8) k
      by (auto simp: list_sessions_def split: prod.splits sum.splits)
    then show ?thesis
      using assms(9,13) k by (auto simp: disk_storage_client_def disk_get_def)
  qed
  have saved: "fst (load_session E (sc_session_id session) i key (session_manager_new (sg_storage m') x)) = Inr (Some session) \<and>
      fst (list_sessions E ?u key (session_manager_new (sg_storage m') (sg_index m'))) =
        Inr (latest_first (upsert_summary (session_summary_of session) old))" for x
    by (rule disk.save_then_load [OF assms(1,2,7,3-6,10) _ assms(8)]) (use found other in blast)+
  let ?ss = "latest_first (upsert_summary (session_summary_of session) old)"
  have "sorted_wrt (\<lambda>a b. ss_last_updated b \<le> ss_last_updated a) ?ss"
    by (rule latest_first_sorted)
  moreover have "distinct (map ss_session_id ?ss) \<and>
      set ?ss = insert (session_summary_of session) {s \<in> set old. ss_session_id s \<noteq> sc_session_id session}"
    if "distinct (map ss_session_id old)"
    using upsert_summary_distinct [OF that] upsert_summary_set [OF that] by (simp add: session_summary_of_def)
  moreover have "fst (list_sessions E ?u key (session_manager_new (sg_storage m') Map.empty)) = Inr []"
    using assms(2) by (simp add: list_sessions_def session_manager_new_def)
  ultimately show ?thesis
    using saved by blast
qed

text \<open>A second session of a user cannot be saved. Every session has a key of its own, but the index
  of a user is encrypted with the key of the session saved last: once one session has been saved,
  saving another with a key that does not open its blobs fails. The blob is stored and the session
  is in the cache, but no index ever mentions it.\<close>

theorem second_session_not_saved:
  assumes "se_storage E = mem_storage_client" "se_index E = local_index_store" "length (snd ns) = 12"
    and "save_session E ns t1 session1 key1 m = (Inr i, m1)"
    and "sc_user_address session2 = sc_user_address session1"
    and "se_to_vec E session2 = Some p2" "aes_encrypt (se_crypto E) key2 (fst ns2) p2 = Some c2"
    and "\<forall>n p c. aes_encrypt (se_crypto E) key1 n p = Some c \<longrightarrow> aes_decrypt (se_crypto E) key2 n c = None"
  shows "\<exists>m2 k. save_session E ns2 t2 session2 key2 m1 = (Inl DecryptFailed, m2) \<and> sg_index m2 = sg_index m1 \<and>
    sg_cache m2 (sc_session_id session2) = Some (with_blob k t2 session2)"
proof -
  obtain q ib j s1 where ib: "key_encrypt (se_crypto E) key1 (snd ns) q = Inr ib"
    "bs_put mem_storage_client (blob_to_bytes ib) ttl_epochs s1 = (Inr j, sg_storage m1)"
    "sg_index m1 (sc_user_address session1) = Some j"
    by (rule mem.save_session_parts [OF assms(1,2) TrueI assms(4)]) simp
  let ?b = "\<lparr>eb_ciphertext = c2, eb_nonce = fst ns2\<rparr>"
  obtain k s2 where put: "bs_put mem_storage_client (blob_to_bytes ?b) ttl_epochs (sg_storage m1) = (Inr k, s2)"
    by (simp add: mem_storage_client_def mem_put_def Let_def)
  have "j \<noteq> k"
    by (rule mem_put_ids [OF ib(2) put])
  then have "fst (bs_get mem_storage_client j s2) = fst (bs_get mem_storage_client j (sg_storage m1))"
    by (rule mem.put_keeps [OF TrueI put TrueI])
  then have get: "bs_get mem_storage_client j s2 = (Inr (blob_to_bytes ib), s2)"
    using mem.put_get [OF TrueI ib(2)] by (simp add: mem.get_result)
  have parts: "eb_nonce ib = snd ns" "aes_encrypt (se_crypto E) key1 (snd ns) q = Some (eb_ciphertext ib)"
    using ib(1) by (auto simp: key_encrypt_def split: option.splits)
  have "open_blob (se_crypto E) key2 (blob_to_bytes ib) = Inl DecryptFailed"
    using parts(1) assms(3) assms(8) [rule_format, OF parts(2)] by (simp add: open_blob_def key_decrypt_def)
  then show ?thesis
    using assms(1,2,5-7) put get ib(3)
    by (simp add: save_session_def key_encrypt_def update_session_index_def read_index_def Let_def) blast
qed

text \<open>A cached session needs no key. Once a session has been saved or created, the manager returns
  it for its id whatever blob and key the caller names.\<close>

theorem cached_session_needs_no_key:
  assumes "save_session E ns now session key m = (Inr i, m')"
  shows "load_session E (sc_session_id session) any_blob any_key m' =
    (Okay (Some (with_blob i now session)), m')"
  using save_session_cache [OF assms] by (simp add: load_session_def)

section \<open>An example\<close>

text \<open>A cipher that prefixes the key, and JSON for two sessions and the index after the first.\<close>

definition toy_session :: "uuid \<Rightarrow> session_context" where
  "toy_session sid = new_session sid 1 ''u'' ''m'' None"

definition toy_crypt :: session_crypto where
  "toy_crypt = \<lparr>aes_encrypt = (\<lambda>k n p. Some (k @ p)),
     aes_decrypt = (\<lambda>k n c. if take (length k) c = k then Some (drop (length k) c) else None),
     x25519_public = (\<lambda>a. a), x25519_dh = (\<lambda>a b. [word_of_nat (length a + length b)]), kdf_sha256 = (\<lambda>b. b)\<rparr>"

definition toy_index :: "session_summary list" where
  "toy_index = latest_first (upsert_summary (session_summary_of (toy_session 1)) [])"

definition toy_session_env :: "(mem_storage, local_index) session_env" where
  "toy_session_env = \<lparr>se_storage = mem_storage_client, se_index = local_index_store, se_crypto = toy_crypt,
     se_to_vec = (\<lambda>s. if s = toy_session 1 then Some [1] else if s = toy_session 2 then Some [2] else None),
     se_from_slice = (\<lambda>d. if d = [1] then Some (toy_session 1) else if d = [2] then Some (toy_session 2) else None),
     se_index_to_vec = (\<lambda>ss. if ss = toy_index then Some [3] else None),
     se_index_from_slice = (\<lambda>d. if d = [3] then Some toy_index else None)\<rparr>"

lemma toy_session_laws:
  "aes_lawful toy_crypt" "dh_lawful toy_crypt" "json_lawful toy_session_env"
  by (auto simp: aes_lawful_def dh_lawful_def json_lawful_def toy_crypt_def toy_session_env_def add.commute
      split: if_splits)

lemma toy_saved:
  "\<exists>m. save_session toy_session_env (replicate 12 0, replicate 12 0) 5 (toy_session 1) (replicate 32 1)
      (session_manager_new mem_storage_new Map.empty) = (Inr ''mem_blob_1'', m)"
proof -
  have "decimal 1 = ''1''"
    by code_simp
  moreover have "sc_user_address (toy_session 1) = ''u''"
    by (simp add: toy_session_def new_session_def)
  ultimately show ?thesis
    by (simp add: save_session_def toy_session_env_def toy_crypt_def key_encrypt_def mem_storage_client_def
        mem_put_def mem_storage_new_def session_manager_new_def update_session_index_def read_index_def
        toy_index_def Let_def)
qed

theorem session_key_handoff_witness:
  "\<exists>pub wrapped. encrypt_session_key toy_crypt [1] (replicate 12 0) [2] (replicate 32 7) = Inr (pub, wrapped) \<and>
     decrypt_session_key toy_crypt [2] pub wrapped = Inr (replicate 32 7)"
proof -
  have pub: "x25519_public toy_crypt [2] = [2]"
    by (simp add: toy_crypt_def)
  obtain p w where e: "encrypt_session_key toy_crypt [1] (replicate 12 0) (x25519_public toy_crypt [2]) (replicate 32 7) = Inr (p, w)"
    by (simp add: encrypt_session_key_def key_encrypt_def toy_crypt_def Let_def)
  have "decrypt_session_key toy_crypt [2] p w = Inr (replicate 32 7)"
    by (rule session_key_handoff [OF toy_session_laws(1,2) _ _ e]) simp_all
  with e pub show ?thesis
    by (intro exI [of _ p] exI [of _ w]) simp
qed

text \<open>The same on disk: the hash is the identity, and only ones and other bytes are told apart in names.\<close>

definition toy_files :: crypto_env where
  "toy_files = \<lparr>json_signable = (\<lambda>p. []), sha256 = (\<lambda>b. b), vk_from_bytes_ok = (\<lambda>b. True),
     ed25519_verify = (\<lambda>k m s. True), hex_encode = map (\<lambda>x. if x = 1 then CHR ''a'' else CHR ''b'')\<rparr>"

definition toy_disk_env :: "(disk, local_index) session_env" where
  "toy_disk_env = \<lparr>se_storage = disk_storage_client toy_files
       (\<lambda>d p. \<lparr>io_write_ok = True, io_rename_ok = True, io_partial = None\<rparr>) ''s'',
     se_index = local_index_store, se_crypto = toy_crypt,
     se_to_vec = se_to_vec toy_session_env, se_from_slice = se_from_slice toy_session_env,
     se_index_to_vec = se_index_to_vec toy_session_env, se_index_from_slice = se_index_from_slice toy_session_env\<rparr>"

lemma toy_disk_good: "disk_good toy_files ''s'' Map.empty"
  by (simp add: disk_good_def hex_lawful_def hex_id_def toy_files_def) (auto split: if_splits)

definition toy_file :: "u8 \<Rightarrow> blob_id" where
  "toy_file x = replicate 12 (CHR ''b'') @ replicate 32 (CHR ''a'') @ [if x = 1 then CHR ''a'' else CHR ''b'']"

lemma toy_disk_saved:
  "\<exists>m. save_session toy_disk_env (replicate 12 0, replicate 12 0) 5 (toy_session 1) (replicate 32 1)
      (session_manager_new Map.empty Map.empty) = (Inr (toy_file 1), m) \<and> sg_index m ''u'' = Some (toy_file 3)"
proof -
  have "sc_user_address (toy_session 1) = ''u''"
    by (simp add: toy_session_def new_session_def)
  moreover have "blob_path ''s'' (toy_file x) = ''s/'' @ toy_file x" for x
    by (simp add: blob_path_def toy_file_def starts_with_def)
  ultimately show ?thesis
    by (simp add: save_session_def toy_disk_env_def toy_session_env_def toy_crypt_def key_encrypt_def
        disk_storage_client_def disk_put_def fs_write_def toy_files_def blob_to_bytes_def toy_file_def
        session_manager_new_def update_session_index_def read_index_def toy_index_def Let_def)
qed

theorem session_survives_restart_witness:
  "\<exists>m. save_session toy_disk_env (replicate 12 0, replicate 12 0) 5 (toy_session 1) (replicate 32 1)
      (session_manager_new Map.empty Map.empty) = (Inr (toy_file 1), m) \<and>
    fst (load_session toy_disk_env 1 (toy_file 1) (replicate 32 1)
      (session_manager_new (sg_storage m) Map.empty)) = Inr (Some (toy_session 1))"
proof -
  obtain m where m: "save_session toy_disk_env (replicate 12 0, replicate 12 0) 5 (toy_session 1) (replicate 32 1)
      (session_manager_new Map.empty Map.empty) = (Inr (toy_file 1), m)" "sg_index m ''u'' = Some (toy_file 3)"
    using toy_disk_saved by blast
  have user: "sc_user_address (toy_session 1) = ''u''" "sc_session_id (toy_session 1) = 1"
    by (simp_all add: toy_session_def new_session_def)
  have env: "se_storage toy_disk_env = disk_storage_client toy_files
       (\<lambda>d p. \<lparr>io_write_ok = True, io_rename_ok = True, io_partial = None\<rparr>) ''s''"
    "se_index toy_disk_env = local_index_store" "aes_lawful (se_crypto toy_disk_env)" "json_lawful toy_disk_env"
    using toy_session_laws(1,3) by (simp_all add: toy_disk_env_def json_lawful_def)
  have fresh: "sg_storage (session_manager_new Map.empty Map.empty :: (disk, local_index) session_manager) = Map.empty"
    "sg_index (session_manager_new Map.empty Map.empty :: (disk, local_index) session_manager) = Map.empty"
    by (simp_all add: session_manager_new_def)
  have none: "fst (list_sessions toy_disk_env (sc_user_address (toy_session 1)) (replicate 32 1)
      (session_manager_new Map.empty Map.empty)) = Inr []"
    by (simp add: list_sessions_def env fresh)
  have ne: "toy_file 1 \<noteq> toy_file 3"
    by (simp add: toy_file_def)
  from session_survives_restart [OF env _ _ _ none _ m(1) _ ne] toy_disk_good m(2)
  have "\<forall>pointers. fst (load_session toy_disk_env (sc_session_id (toy_session 1)) (toy_file 1) (replicate 32 1)
      (session_manager_new (sg_storage m) pointers)) = Inr (Some (toy_session 1))"
    by (simp add: fresh user)
  with m(1) user(2) show ?thesis
    by (intro exI [of _ m]) simp
qed

theorem second_session_not_saved_witness:
  "\<exists>m1 m2. save_session toy_session_env (replicate 12 0, replicate 12 0) 5 (toy_session 1) (replicate 32 1)
      (session_manager_new mem_storage_new Map.empty) = (Inr ''mem_blob_1'', m1) \<and>
    save_session toy_session_env (replicate 12 0, replicate 12 0) 6 (toy_session 2) (replicate 32 2) m1 =
      (Inl DecryptFailed, m2)"
proof -
  obtain m1 where m1: "save_session toy_session_env (replicate 12 0, replicate 12 0) 5 (toy_session 1) (replicate 32 1)
      (session_manager_new mem_storage_new Map.empty) = (Inr ''mem_blob_1'', m1)"
    using toy_saved by blast
  have env: "se_storage toy_session_env = mem_storage_client" "se_index toy_session_env = local_index_store"
    "se_crypto toy_session_env = toy_crypt" "se_to_vec toy_session_env (toy_session 2) = Some [2]"
    by (simp_all add: toy_session_env_def toy_session_def new_session_def)
  have sep: "\<forall>n p c. aes_encrypt (se_crypto toy_session_env) (replicate 32 1) n p = Some c \<longrightarrow>
      aes_decrypt (se_crypto toy_session_env) (replicate 32 2) n c = None"
    by (auto simp: env toy_crypt_def numeral_eq_Suc)
  have enc: "aes_encrypt (se_crypto toy_session_env) (replicate 32 2) (fst (replicate 12 0, replicate 12 0 :: bytes)) [2] =
      Some (replicate 32 2 @ [2])"
    by (simp add: env toy_crypt_def)
  have user: "sc_user_address (toy_session 2) = sc_user_address (toy_session 1)"
    by (simp add: toy_session_def new_session_def)
  show ?thesis
    using second_session_not_saved [OF env(1,2) _ m1 user env(4) enc sep, where ?t2.0 = 6] m1 by auto
qed

theorem cached_session_needs_no_key_witness:
  "\<exists>m. load_session toy_session_env 1 ''nothing'' [] m = (Okay (Some (with_blob ''mem_blob_1'' 5 (toy_session 1))), m)"
proof -
  obtain m where m: "save_session toy_session_env (replicate 12 0, replicate 12 0) 5 (toy_session 1) (replicate 32 1)
      (session_manager_new mem_storage_new Map.empty) = (Inr ''mem_blob_1'', m)"
    using toy_saved by blast
  have "sc_session_id (toy_session 1) = 1"
    by (simp add: toy_session_def new_session_def)
  then show ?thesis
    using cached_session_needs_no_key [OF m, of "''nothing''" "[]"] by auto
qed

end
