(* ===== verification/Payment_Ledger.thy ===== *)
theory Payment_Ledger
  imports File_System Node_Types
begin

text \<open>The payment backends of \<^verbatim>\<open>crates/common/src/payment.rs\<close>: the interface, the backend that does
  nothing and the local ledger with its file. A call of the ledger takes the lock twice, once to
  tally the job and once to write the file, so calls interleave at that point: they are sequences
  of the two steps. The clock and the answers of the operating system are arguments.\<close>

section \<open>The interface\<close>

record usage_stats =
  us_total_jobs :: u64
  us_total_tokens_used :: u64
  us_total_cost_nanox :: u64
  us_last_job_timestamp :: "u64 option"

definition usage_default :: usage_stats where
  "usage_default = \<lparr>us_total_jobs = 0, us_total_tokens_used = 0, us_total_cost_nanox = 0, us_last_job_timestamp = None\<rparr>"

datatype payment_error = LedgerUnreadable

type_synonym ('s, 'a) payment_op = "'s \<Rightarrow> ('a, payment_error) res \<times> 's"

text \<open>A recorded job sees the clock and the answers to its write.\<close>

record 's payment_backend =
  pb_record_completed_job :: "u64 \<times> io_result \<Rightarrow> proof_of_inference \<Rightarrow> ('s, unit) payment_op"
  pb_check_budget :: "string \<Rightarrow> u64 \<Rightarrow> ('s, unit) payment_op"
  pb_get_usage :: "string \<Rightarrow> ('s, usage_stats) payment_op"
  pb_name :: string

section \<open>Nothing is tracked\<close>

definition free_payment :: "unit payment_backend" where
  "free_payment = \<lparr>
     pb_record_completed_job = (\<lambda>x p s. (Inr (), s)),
     pb_check_budget = (\<lambda>user_id budget s. (Inr (), s)),
     pb_get_usage = (\<lambda>user_id s. (Inr usage_default, s)),
     pb_name = ''free''\<rparr>"

section \<open>The ledger\<close>

type_synonym ledger_data = "string \<rightharpoonup> usage_stats"

record local_ledger =
  ledger_file :: "path option"
  ledger_users :: ledger_data

text \<open>\<^verbatim>\<open>serde_json::to_vec_pretty\<close> and \<^verbatim>\<open>serde_json::from_slice\<close> of the table.\<close>

record ledger_json =
  lj_to_vec :: "ledger_data \<Rightarrow> bytes option"
  lj_from_slice :: "bytes \<Rightarrow> ledger_data option"

definition ledger_in_memory :: local_ledger where
  "ledger_in_memory = \<lparr>ledger_file = None, ledger_users = Map.empty\<rparr>"

text \<open>The flag tells whether an existing file can be read.\<close>

definition ledger_from_file :: "ledger_json \<Rightarrow> bool \<Rightarrow> path \<Rightarrow> disk \<Rightarrow> (local_ledger, payment_error) res" where
  "ledger_from_file J readable p d =
     (case d p of
        None \<Rightarrow> Inr \<lparr>ledger_file = Some p, ledger_users = Map.empty\<rparr>
      | Some raw \<Rightarrow>
          if readable then
            Inr \<lparr>ledger_file = Some p,
              ledger_users = (case lj_from_slice J raw of None \<Rightarrow> Map.empty | Some m \<Rightarrow> m)\<rparr>
          else Inl LedgerUnreadable)"

definition ledger_flush :: "ledger_json \<Rightarrow> io_result \<Rightarrow> local_ledger \<Rightarrow> disk \<Rightarrow> disk \<times> bool" where
  "ledger_flush J io l d =
     (case ledger_file l of
        None \<Rightarrow> (d, True)
      | Some p \<Rightarrow>
          (case lj_to_vec J (ledger_users l) of
             None \<Rightarrow> (d, False)
           | Some json \<Rightarrow> write_then_rename io p json d))"

definition add_job :: "u64 \<Rightarrow> proof_of_inference \<Rightarrow> usage_stats \<Rightarrow> usage_stats" where
  "add_job now p u =
     \<lparr>us_total_jobs = us_total_jobs u + 1,
      us_total_tokens_used = us_total_tokens_used u + ucast (poi_output_tokens p),
      us_total_cost_nanox = us_total_cost_nanox u + poi_price_paid_nanox p,
      us_last_job_timestamp = Some now\<rparr>"

definition usage_of :: "string \<Rightarrow> local_ledger \<Rightarrow> usage_stats" where
  "usage_of user_id l = (case ledger_users l user_id of None \<Rightarrow> usage_default | Some u \<Rightarrow> u)"

definition tally_job :: "u64 \<Rightarrow> proof_of_inference \<Rightarrow> local_ledger \<Rightarrow> local_ledger" where
  "tally_job now p l =
     l\<lparr>ledger_users := (ledger_users l)(poi_client_address p \<mapsto> add_job now p (usage_of (poi_client_address p) l))\<rparr>"

definition ledger_record_completed_job ::
  "ledger_json \<Rightarrow> u64 \<times> io_result \<Rightarrow> proof_of_inference \<Rightarrow> (local_ledger \<times> disk, unit) payment_op" where
  "ledger_record_completed_job J x p s =
     (let l = tally_job (fst x) p (fst s) in (Inr (), (l, fst (ledger_flush J (snd x) l (snd s)))))"

definition ledger_check_budget :: "string \<Rightarrow> u64 \<Rightarrow> (local_ledger \<times> disk, unit) payment_op" where
  "ledger_check_budget user_id budget_nanox s = (Inr (), s)"

definition ledger_get_usage :: "string \<Rightarrow> (local_ledger \<times> disk, usage_stats) payment_op" where
  "ledger_get_usage user_id s = (Inr (usage_of user_id (fst s)), s)"

definition local_ledger_backend :: "ledger_json \<Rightarrow> (local_ledger \<times> disk) payment_backend" where
  "local_ledger_backend J = \<lparr>
     pb_record_completed_job = ledger_record_completed_job J,
     pb_check_budget = ledger_check_budget,
     pb_get_usage = ledger_get_usage,
     pb_name = ''local_ledger''\<rparr>"

section \<open>The contract\<close>

text \<open>What the node may rely on of any backend: no call fails, reading and checking change nothing, and
  a job touches the usage of its client only.\<close>

locale payment =
  fixes B :: "'s payment_backend"
  assumes record_ok: "fst (pb_record_completed_job B x p s) = Inr ()"
    and check_ok: "pb_check_budget B u b s = (Inr (), s)"
    and usage_pure: "snd (pb_get_usage B u s) = s"
    and usage_ok: "\<exists>v. fst (pb_get_usage B u s) = Inr v"
    and record_own: "u \<noteq> poi_client_address p \<Longrightarrow>
      fst (pb_get_usage B u (snd (pb_record_completed_job B x p s))) = fst (pb_get_usage B u s)"
begin

definition run_jobs :: "((u64 \<times> io_result) \<times> proof_of_inference) list \<Rightarrow> 's \<Rightarrow> 's" where
  "run_jobs js s = foldl (\<lambda>s j. snd (pb_record_completed_job B (fst j) (snd j) s)) s js"

lemma usage_value: "\<exists>v. pb_get_usage B u s = (Inr v, s)"
  using usage_ok [of u s] usage_pure [of u s] by (cases "pb_get_usage B u s") auto

lemma jobs_of_others:
  "\<forall>j \<in> set js. poi_client_address (snd j) \<noteq> u \<Longrightarrow>
   fst (pb_get_usage B u (run_jobs js s)) = fst (pb_get_usage B u s)"
  by (induction js arbitrary: s) (auto simp: run_jobs_def record_own)

end

interpretation free_pay: payment free_payment
  by unfold_locales (simp_all add: free_payment_def)

interpretation ledger_pay: payment "local_ledger_backend J" for J
  by unfold_locales (auto simp: local_ledger_backend_def ledger_record_completed_job_def
      ledger_check_budget_def ledger_get_usage_def tally_job_def usage_of_def Let_def)

section \<open>Interleaved calls\<close>

datatype ledger_act = Tally u64 proof_of_inference | Flush io_result

fun act_step :: "ledger_json \<Rightarrow> local_ledger \<times> disk \<Rightarrow> ledger_act \<Rightarrow> local_ledger \<times> disk" where
  "act_step J (l, d) (Tally now p) = (tally_job now p l, d)"
| "act_step J (l, d) (Flush io) = (l, fst (ledger_flush J io l d))"

definition ledger_acts :: "ledger_json \<Rightarrow> ledger_act list \<Rightarrow> local_ledger \<times> disk \<Rightarrow> local_ledger \<times> disk" where
  "ledger_acts J as s = foldl (act_step J) s as"

text \<open>A call is the two steps in a row.\<close>

lemma record_as_acts:
  "ledger_record_completed_job J (now, io) p s = (Inr (), ledger_acts J [Tally now p, Flush io] s)"
  by (cases s) (simp add: ledger_record_completed_job_def ledger_acts_def Let_def)

fun jobs_of :: "string \<Rightarrow> ledger_act list \<Rightarrow> proof_of_inference list" where
  "jobs_of u [] = []"
| "jobs_of u (Tally now p # as) = (if poi_client_address p = u then p # jobs_of u as else jobs_of u as)"
| "jobs_of u (Flush io # as) = jobs_of u as"

text \<open>A codec that reads what it wrote.\<close>

definition ledger_json_lawful :: "ledger_json \<Rightarrow> bool" where
  "ledger_json_lawful J \<longleftrightarrow> (\<forall>m json. lj_to_vec J m = Some json \<longrightarrow> lj_from_slice J json = Some m)"

lemma ledger_acts_Nil [simp]: "ledger_acts J [] s = s"
  by (simp add: ledger_acts_def)

lemma ledger_acts_Cons [simp]: "ledger_acts J (a # as) s = ledger_acts J as (act_step J s a)"
  by (simp add: ledger_acts_def)

lemma ledger_acts_snoc [simp]: "ledger_acts J (as @ [a]) s = act_step J (ledger_acts J as s) a"
  by (simp add: ledger_acts_def)

lemma act_step_file [simp]: "ledger_file (fst (act_step J s a)) = ledger_file (fst s)"
  by (cases s; cases a) (simp_all add: tally_job_def)

lemma ledger_acts_file [simp]: "ledger_file (fst (ledger_acts J as s)) = ledger_file (fst s)"
  by (induction as arbitrary: s) simp_all

lemma from_file_path: "ledger_from_file J r f d = Inr l \<Longrightarrow> ledger_file l = Some f"
  by (auto simp: ledger_from_file_def split: option.splits if_splits)

lemma from_file_cong: "d' f = d f \<Longrightarrow> ledger_from_file J r f d' = ledger_from_file J r f d"
  by (simp add: ledger_from_file_def)

lemma from_file_written:
  assumes "ledger_json_lawful J" "lj_to_vec J (ledger_users l) = Some json" "d f = Some json" "ledger_file l = Some f"
  shows "ledger_from_file J True f d = Inr l"
  using assms by (simp add: ledger_from_file_def ledger_json_lawful_def)

text \<open>The temporary file is never the ledger itself.\<close>

lemma with_extension_tmp: "with_extension p ''json.tmp'' \<noteq> p"
proof
  assume eq: "with_extension p ''json.tmp'' = p"
  define name where "name = rev (takeWhile (\<lambda>c. c \<noteq> CHR ''/'') (rev p))"
  define dir where "dir = rev (dropWhile (\<lambda>c. c \<noteq> CHR ''/'') (rev p))"
  have p: "p = dir @ name"
    unfolding dir_def name_def by (metis rev_append rev_rev_ident takeWhile_dropWhile_id)
  define stem where "stem = rev (tl (dropWhile (\<lambda>c. c \<noteq> CHR ''.'') (rev name)))"
  define ext where "ext = rev (takeWhile (\<lambda>c. c \<noteq> CHR ''.'') (rev name))"
  have "CHR ''.'' \<in> set name \<and> stem \<noteq> []"
  proof (rule ccontr)
    assume "\<not> (CHR ''.'' \<in> set name \<and> stem \<noteq> [])"
    then have "with_extension p ''json.tmp'' = dir @ name @ CHR ''.'' # ''json.tmp''"
      unfolding with_extension_def Let_def dir_def [symmetric] name_def [symmetric] stem_def [symmetric] by (rule if_not_P)
    then show False
      using eq p by simp
  qed
  then have dot: "CHR ''.'' \<in> set name" and w: "with_extension p ''json.tmp'' = dir @ stem @ CHR ''.'' # ''json.tmp''"
    unfolding with_extension_def Let_def dir_def [symmetric] name_def [symmetric] stem_def [symmetric] by simp_all
  have "dropWhile (\<lambda>c. c \<noteq> CHR ''.'') (rev name) = CHR ''.'' # rev stem"
    using dot hd_dropWhile [of "\<lambda>c. c \<noteq> CHR ''.''" "rev name"] unfolding stem_def
    by (cases "dropWhile (\<lambda>c. c \<noteq> CHR ''.'') (rev name)") auto
  then have "rev name = rev ext @ CHR ''.'' # rev stem"
    unfolding ext_def by (metis rev_rev_ident takeWhile_dropWhile_id)
  then have "name = stem @ CHR ''.'' # ext"
    by (metis rev_append rev_rev_ident append.assoc append_Cons append_Nil rev.simps(2))
  then have "ext = ''json.tmp''"
    using eq w p by simp
  moreover have "CHR ''.'' \<notin> set ext"
    unfolding ext_def by (auto dest: set_takeWhileD)
  ultimately show False
    by simp
qed

lemma flush_cases:
  assumes "ledger_flush J io l d = (d', ok)" "ledger_file l = Some f"
  obtains (kept) "d' f = d f" "\<not> ok" | (written) json where "lj_to_vec J (ledger_users l) = Some json" "d' f = Some json" "ok"
proof (cases "lj_to_vec J (ledger_users l)")
  case None
  then show ?thesis
    using assms kept by (simp add: ledger_flush_def)
next
  case (Some json)
  then have w: "write_then_rename io f json d = (d', ok)"
    using assms by (simp add: ledger_flush_def)
  show ?thesis
  proof (cases ok)
    case True
    then show ?thesis
      using w write_then_rename_ok [of io f json d d'] written Some by simp
  next
    case False
    then show ?thesis
      using w write_then_rename_failed [OF _ with_extension_tmp] kept by simp
  qed
qed

section \<open>Properties\<close>

text \<open>C31: The ledger file survives a crash at any moment. However calls interleave and whichever writes
  and renames fail, the ledger read back from the disk is the ledger as it was after some first
  part of what happened.\<close>

theorem ledger_crash_consistent:
  assumes lawful: "ledger_json_lawful J"
    and start: "ledger_from_file J True f d = Inr l"
  shows "\<exists>k \<le> length as. ledger_from_file J True f (snd (ledger_acts J as (l, d))) =
    Inr (fst (ledger_acts J (take k as) (l, d)))"
proof (induction as rule: rev_induct)
  case Nil
  then show ?case
    using start by simp
next
  case (snoc a as)
  then obtain k where k: "k \<le> length as" "ledger_from_file J True f (snd (ledger_acts J as (l, d))) =
      Inr (fst (ledger_acts J (take k as) (l, d)))"
    by blast
  obtain l1 d1 where s: "ledger_acts J as (l, d) = (l1, d1)"
    by (cases "ledger_acts J as (l, d)")
  have f: "ledger_file l1 = Some f"
    using from_file_path [OF start] ledger_acts_file [of J as "(l, d)"] s by simp
  have keep: ?case if "d' f = d1 f" "snd (ledger_acts J (as @ [a]) (l, d)) = d'" for d'
    using k from_file_cong [of d' f d1, OF that(1)] that(2) s by (intro exI [of _ k]) simp
  show ?case
  proof (cases a)
    case (Tally now p)
    then show ?thesis
      using keep [of d1] s by simp
  next
    case (Flush io)
    obtain d2 ok where fl: "ledger_flush J io l1 d1 = (d2, ok)"
      by (cases "ledger_flush J io l1 d1")
    from fl f show ?thesis
    proof (cases rule: flush_cases)
      case kept
      then show ?thesis
        using keep [of d2] s fl Flush by simp
    next
      case (written json)
      have "ledger_from_file J True f d2 = Inr l1"
        using written(2) by (intro from_file_written [where d = d2, OF lawful written(1) _ f])
      then show ?thesis
        using s fl Flush by (intro exI [of _ "length (as @ [a])"]) simp
    qed
  qed
qed

lemma usage_of_tally:
  "usage_of u (tally_job now p l) =
     (if u = poi_client_address p then add_job now p (usage_of u l) else usage_of u l)"
  by (auto simp: usage_of_def tally_job_def)

lemma usage_after_acts:
  "usage_of u (fst (ledger_acts J as s)) = usage_of u (fst s) \<and> jobs_of u as = [] \<or>
   us_total_jobs (usage_of u (fst (ledger_acts J as s))) = us_total_jobs (usage_of u (fst s)) + of_nat (length (jobs_of u as)) \<and>
   us_total_tokens_used (usage_of u (fst (ledger_acts J as s))) =
     us_total_tokens_used (usage_of u (fst s)) + (\<Sum>p\<leftarrow>jobs_of u as. ucast (poi_output_tokens p)) \<and>
   us_total_cost_nanox (usage_of u (fst (ledger_acts J as s))) =
     us_total_cost_nanox (usage_of u (fst s)) + (\<Sum>p\<leftarrow>jobs_of u as. poi_price_paid_nanox p)"
proof (induction as arbitrary: s)
  case Nil
  then show ?case
    by simp
next
  case (Cons a as)
  obtain l d where s: "s = (l, d)"
    by (cases s)
  show ?case
    using Cons [of "act_step J s a"] s
    by (cases a) (auto simp: usage_of_tally add_job_def algebra_simps)
qed

lemma usage_totals:
  defines "v J as s u \<equiv> usage_of u (fst (ledger_acts J as s))"
  shows "us_total_jobs (v J as s u) = us_total_jobs (usage_of u (fst s)) + of_nat (length (jobs_of u as))"
    and "us_total_tokens_used (v J as s u) =
      us_total_tokens_used (usage_of u (fst s)) + (\<Sum>p\<leftarrow>jobs_of u as. ucast (poi_output_tokens p))"
    and "us_total_cost_nanox (v J as s u) =
      us_total_cost_nanox (usage_of u (fst s)) + (\<Sum>p\<leftarrow>jobs_of u as. poi_price_paid_nanox p)"
  unfolding v_def using usage_after_acts [of u J as s] by auto

text \<open>Accounts are exact and survive a restart. After a successful write, the ledger read back
  from the file reports for each user the number of the jobs tallied before and the sums of their
  tokens and prices, in the arithmetic of 64 bits, on top of what the file held at the start;
  whatever the interleaving of the calls and the failures of earlier writes.\<close>

theorem ledger_restart_exact:
  assumes lawful: "ledger_json_lawful J"
    and start: "ledger_from_file J True f d = Inr l"
    and io: "io_write_ok io" "io_rename_ok io"
    and json: "lj_to_vec J (ledger_users (fst (ledger_acts J as (l, d)))) = Some json"
  shows "\<exists>l'. ledger_from_file J True f (snd (ledger_acts J (as @ [Flush io]) (l, d))) = Inr l' \<and>
    us_total_jobs (usage_of u l') = us_total_jobs (usage_of u l) + of_nat (length (jobs_of u as)) \<and>
    us_total_tokens_used (usage_of u l') =
      us_total_tokens_used (usage_of u l) + (\<Sum>p\<leftarrow>jobs_of u as. ucast (poi_output_tokens p)) \<and>
    us_total_cost_nanox (usage_of u l') =
      us_total_cost_nanox (usage_of u l) + (\<Sum>p\<leftarrow>jobs_of u as. poi_price_paid_nanox p)"
proof -
  obtain l1 d1 where s: "ledger_acts J as (l, d) = (l1, d1)"
    by (cases "ledger_acts J as (l, d)")
  have f: "ledger_file l1 = Some f"
    using from_file_path [OF start] ledger_acts_file [of J as "(l, d)"] s by simp
  obtain d2 where w: "write_then_rename io f json d1 = (d2, True)"
    using write_then_rename_succeeds [OF io] by blast
  then have fl: "ledger_flush J io l1 d1 = (d2, True)"
    using f json s by (simp add: ledger_flush_def)
  have "ledger_from_file J True f d2 = Inr l1"
    using json s write_then_rename_ok [OF w] by (intro from_file_written [where d = d2, OF lawful _ _ f]) simp_all
  then show ?thesis
    using usage_totals [where J = J and as = as and s = "(l, d)" and u = u] s fl by simp
qed

text \<open>One job of a client on an empty disk, with a codec for just the table that results.\<close>

definition toy_table :: "proof_of_inference \<Rightarrow> ledger_data" where
  "toy_table p = [poi_client_address p \<mapsto> add_job 9 p usage_default]"

definition toy_ledger_json :: "proof_of_inference \<Rightarrow> ledger_json" where
  "toy_ledger_json p = \<lparr>lj_to_vec = (\<lambda>m. if m = toy_table p then Some [1] else None),
     lj_from_slice = (\<lambda>b. if b = [1] then Some (toy_table p) else None)\<rparr>"

lemma toy_ledger_lawful: "ledger_json_lawful (toy_ledger_json p)"
  by (simp add: ledger_json_lawful_def toy_ledger_json_def)

lemma toy_ledger_start: "ledger_from_file (toy_ledger_json p) True ''l.json'' Map.empty =
    Inr \<lparr>ledger_file = Some ''l.json'', ledger_users = Map.empty\<rparr>"
  by (simp add: ledger_from_file_def)

theorem ledger_crash_consistent_witness:
  "\<forall>p. \<exists>k \<le> 2. ledger_from_file (toy_ledger_json p) True ''l.json''
      (snd (ledger_acts (toy_ledger_json p) [Tally 9 p, Flush \<lparr>io_write_ok = True, io_rename_ok = False, io_partial = None\<rparr>]
        (\<lparr>ledger_file = Some ''l.json'', ledger_users = Map.empty\<rparr>, Map.empty))) =
    Inr (fst (ledger_acts (toy_ledger_json p)
      (take k [Tally 9 p, Flush \<lparr>io_write_ok = True, io_rename_ok = False, io_partial = None\<rparr>])
        (\<lparr>ledger_file = Some ''l.json'', ledger_users = Map.empty\<rparr>, Map.empty)))"
proof
  fix p
  show "\<exists>k \<le> 2. ledger_from_file (toy_ledger_json p) True ''l.json''
      (snd (ledger_acts (toy_ledger_json p) [Tally 9 p, Flush \<lparr>io_write_ok = True, io_rename_ok = False, io_partial = None\<rparr>]
        (\<lparr>ledger_file = Some ''l.json'', ledger_users = Map.empty\<rparr>, Map.empty))) =
    Inr (fst (ledger_acts (toy_ledger_json p)
      (take k [Tally 9 p, Flush \<lparr>io_write_ok = True, io_rename_ok = False, io_partial = None\<rparr>])
        (\<lparr>ledger_file = Some ''l.json'', ledger_users = Map.empty\<rparr>, Map.empty)))"
    using ledger_crash_consistent [OF toy_ledger_lawful toy_ledger_start [of p],
      of "[Tally 9 p, Flush \<lparr>io_write_ok = True, io_rename_ok = False, io_partial = None\<rparr>]"]
    by (simp only: list.size numeral_2_eq_2 add_Suc_right add_0_right One_nat_def plus_nat.simps)
qed

theorem ledger_restart_exact_witness:
  "\<forall>p. \<exists>l'. ledger_from_file (toy_ledger_json p) True ''l.json''
      (snd (ledger_acts (toy_ledger_json p)
        ([Tally 9 p] @ [Flush \<lparr>io_write_ok = True, io_rename_ok = True, io_partial = None\<rparr>])
        (\<lparr>ledger_file = Some ''l.json'', ledger_users = Map.empty\<rparr>, Map.empty))) = Inr l' \<and>
    us_total_jobs (usage_of (poi_client_address p) l') = 1 \<and>
    us_total_cost_nanox (usage_of (poi_client_address p) l') = poi_price_paid_nanox p"
proof
  fix p
  let ?l = "\<lparr>ledger_file = Some ''l.json'', ledger_users = Map.empty\<rparr>"
  let ?io = "\<lparr>io_write_ok = True, io_rename_ok = True, io_partial = None\<rparr>"
  have json: "lj_to_vec (toy_ledger_json p) (ledger_users (fst (ledger_acts (toy_ledger_json p) [Tally 9 p] (?l, Map.empty)))) = Some [1]"
    by (simp add: toy_ledger_json_def tally_job_def toy_table_def usage_of_def)
  have u: "usage_of u ?l = usage_default" for u
    by (simp add: usage_of_def)
  show "\<exists>l'. ledger_from_file (toy_ledger_json p) True ''l.json''
      (snd (ledger_acts (toy_ledger_json p) ([Tally 9 p] @ [Flush ?io]) (?l, Map.empty))) = Inr l' \<and>
    us_total_jobs (usage_of (poi_client_address p) l') = 1 \<and>
    us_total_cost_nanox (usage_of (poi_client_address p) l') = poi_price_paid_nanox p"
    using ledger_restart_exact [OF toy_ledger_lawful toy_ledger_start [of p] _ _ json,
      where io = ?io and u = "poi_client_address p"]
    by (auto simp only: u) (auto simp: usage_default_def)
qed

end
