(* ===== verification/Ollama_Client.thy ===== *)
theory Ollama_Client
  imports Context_Window Rpc_Client
begin

text \<open>The inference backend: the Ollama client of \<^verbatim>\<open>crates/inference/src/ollama.rs\<close> and the engine of
  \<^verbatim>\<open>crates/inference/src/lib.rs\<close> over it. HTTP is a parameter: a request either fails or answers; the
  body of a streaming answer is the sequence of its lines, which may break off with a read error.
  Lines are parsed as JSON by a parameter and decoded here as the derived deserialisers decode
  objects; their positional form, which Ollama does not send, is left out.\<close>

section \<open>Wire types\<close>

record ollama_message =
  om_role :: string
  om_content :: string

definition om_system :: "string \<Rightarrow> ollama_message" where
  "om_system content = \<lparr>om_role = ''system'', om_content = content\<rparr>"

definition om_user :: "string \<Rightarrow> ollama_message" where
  "om_user content = \<lparr>om_role = ''user'', om_content = content\<rparr>"

definition om_assistant :: "string \<Rightarrow> ollama_message" where
  "om_assistant content = \<lparr>om_role = ''assistant'', om_content = content\<rparr>"

record chat_options =
  co_num_predict :: u32
  co_temperature :: f32

record chat_request =
  cr_model :: string
  cr_messages :: "ollama_message list"
  cr_stream :: bool
  cr_options :: chat_options

record chat_response_chunk =
  cc_message :: "string option"
  cc_done :: bool
  cc_done_reason :: "string option"
  cc_eval_count :: "u32 option"
  cc_prompt_eval_count :: "u32 option"

record model_details =
  md_parameter_size :: "string option"
  md_quantization_level :: "string option"

record tag_entry =
  te_name :: string
  te_size :: u64
  te_details :: model_details

record model_info =
  mi_name :: string
  mi_size_bytes :: u64
  mi_parameter_size :: "string option"
  mi_quantization :: "string option"

text \<open>A field that may be missing or null: absent, or decoded, or an error.\<close>

definition optional_field :: "string \<Rightarrow> (json \<Rightarrow> 'a option) \<Rightarrow> json \<Rightarrow> 'a option option" where
  "optional_field k dec v =
     (case json_get k v of
        None \<Rightarrow> Some None
      | Some JNull \<Rightarrow> Some None
      | Some w \<Rightarrow> map_option Some (dec w))"

definition as_bool :: "json \<Rightarrow> bool option" where
  "as_bool v = (case v of JBool b \<Rightarrow> Some b | _ \<Rightarrow> None)"

definition as_u32 :: "json \<Rightarrow> u32 option" where
  "as_u32 v =
     (case v of JNum n \<Rightarrow> if 0 \<le> n \<and> n < 2 ^ 32 then Some (word_of_int n) else None | _ \<Rightarrow> None)"

definition fields_once :: "string list \<Rightarrow> json \<Rightarrow> bool" where
  "fields_once ks v = (case v of JObj fs \<Rightarrow> distinct (filter (\<lambda>k. k \<in> set ks) (map fst fs)) | _ \<Rightarrow> False)"

definition chunk_message :: "json \<Rightarrow> string option" where
  "chunk_message v = (if fields_once [''content''] v then Option.bind (json_get ''content'' v) as_str else None)"

definition chat_chunk_of_json :: "json \<Rightarrow> chat_response_chunk option" where
  "chat_chunk_of_json v =
     (if fields_once [''message'', ''done'', ''done_reason'', ''eval_count'', ''prompt_eval_count''] v then
        Option.bind (optional_field ''message'' chunk_message v) (\<lambda>m.
        Option.bind (Option.bind (json_get ''done'' v) as_bool) (\<lambda>d.
        Option.bind (optional_field ''done_reason'' as_str v) (\<lambda>r.
        Option.bind (optional_field ''eval_count'' as_u32 v) (\<lambda>e.
        Option.bind (optional_field ''prompt_eval_count'' as_u32 v) (\<lambda>p.
          Some \<lparr>cc_message = m, cc_done = d, cc_done_reason = r, cc_eval_count = e, cc_prompt_eval_count = p\<rparr>)))))
      else None)"

section \<open>The client\<close>

datatype ollama_error = OllamaHttp string | StreamRead string | ModelNotFound string

text \<open>What HTTP answers: the tags, or the lines of a streaming body; and \<^verbatim>\<open>serde_json::from_str\<close>.\<close>

type_synonym body_lines = "(string, string) res list"

record ollama_http =
  oh_get_tags :: "string \<Rightarrow> (tag_entry list, ollama_error) res"
  oh_post_chat :: "string \<Rightarrow> chat_request \<Rightarrow> (body_lines, ollama_error) res"
  oh_post_pull :: "string \<Rightarrow> string \<Rightarrow> (body_lines, ollama_error) res"
  oh_parse :: "string \<Rightarrow> json option"

record ollama_client =
  oc_base_url :: string

definition ollama_default_local :: ollama_client where
  "ollama_default_local = \<lparr>oc_base_url = ''http://127.0.0.1:11434''\<rparr>"

definition model_info_of :: "tag_entry \<Rightarrow> model_info" where
  "model_info_of e =
     \<lparr>mi_name = te_name e, mi_size_bytes = te_size e, mi_parameter_size = md_parameter_size (te_details e),
      mi_quantization = md_quantization_level (te_details e)\<rparr>"

definition list_models :: "ollama_http \<Rightarrow> ollama_client \<Rightarrow> (model_info list, ollama_error) res" where
  "list_models H c = (case oh_get_tags H (oc_base_url c @ ''/api/tags'') of Inl e \<Rightarrow> Inl e | Inr es \<Rightarrow> Inr (map model_info_of es))"

text \<open>The progress lines of a pull; a line that is not a status is skipped.\<close>

definition pull_status :: "(string \<Rightarrow> json option) \<Rightarrow> string \<Rightarrow> string option" where
  "pull_status parse line =
     Option.bind (parse line) (\<lambda>v. if fields_once [''status''] v then Option.bind (json_get ''status'' v) as_str else None)"

fun pull_loop :: "(string \<Rightarrow> json option) \<Rightarrow> body_lines \<Rightarrow> (unit, ollama_error) res" where
  "pull_loop parse [] = Inr ()"
| "pull_loop parse (Inl e # ls) = Inl (StreamRead e)"
| "pull_loop parse (Inr l # ls) =
     (if l = [] then pull_loop parse ls
      else if pull_status parse l = Some ''success'' then Inr ()
      else pull_loop parse ls)"

definition pull_model :: "ollama_http \<Rightarrow> ollama_client \<Rightarrow> string \<Rightarrow> (unit, ollama_error) res" where
  "pull_model H c model_id =
     (case oh_post_pull H (oc_base_url c @ ''/api/pull'') model_id of
        Inl e \<Rightarrow> Inl e
      | Inr ls \<Rightarrow> pull_loop (oh_parse H) ls)"

definition names_model :: "string \<Rightarrow> model_info \<Rightarrow> bool" where
  "names_model model_id m \<longleftrightarrow> mi_name m = model_id \<or> starts_with (model_id @ '':'') (mi_name m)"

definition is_model_available :: "ollama_http \<Rightarrow> ollama_client \<Rightarrow> string \<Rightarrow> (bool, ollama_error) res" where
  "is_model_available H c model_id =
     (case list_models H c of Inl e \<Rightarrow> Inl e | Inr ms \<Rightarrow> Inr (list_ex (names_model model_id) ms))"

text \<open>\<^verbatim>\<open>as u32\<close> truncates and saturates; the floating-point operations are exact ones, rounded.\<close>

definition f64_as_u32 :: "real \<Rightarrow> u32" where
  "f64_as_u32 x = (if x \<le> 0 then 0 else if 2 ^ 32 \<le> x then - 1 else word_of_int \<lfloor>x\<rfloor>)"

definition vram_mb :: "(real \<Rightarrow> real) \<Rightarrow> u64 \<Rightarrow> u32" where
  "vram_mb rnd size_bytes = f64_as_u32 (rnd (rnd (rnd (real (unat size_bytes)) * rnd (12 / 10)) / 1048576))"

definition estimated_vram_mb ::
  "(real \<Rightarrow> real) \<Rightarrow> ollama_http \<Rightarrow> ollama_client \<Rightarrow> string \<Rightarrow> (u32, ollama_error) res" where
  "estimated_vram_mb rnd H c model_id =
     (case list_models H c of
        Inl e \<Rightarrow> Inl e
      | Inr ms \<Rightarrow>
          (case find (names_model model_id) ms of
             None \<Rightarrow> Inl (ModelNotFound model_id)
           | Some m \<Rightarrow> Inr (vram_mb rnd (mi_size_bytes m))))"

text \<open>The background task that reads the lines; the receiver lives as long as the stream.\<close>

fun read_chunks :: "(string \<Rightarrow> json option) \<Rightarrow> body_lines \<Rightarrow> (chat_response_chunk, ollama_error) res list" where
  "read_chunks parse [] = []"
| "read_chunks parse (Inl e # ls) = [Inl (StreamRead e)]"
| "read_chunks parse (Inr l # ls) =
     (let trimmed = trim l in
      if trimmed = [] then read_chunks parse ls
      else
        (case Option.bind (parse trimmed) chat_chunk_of_json of
           None \<Rightarrow> read_chunks parse ls
         | Some c \<Rightarrow> if cc_done c then [Inr c] else Inr c # read_chunks parse ls))"

definition generate_stream ::
  "ollama_http \<Rightarrow> ollama_client \<Rightarrow> string \<Rightarrow> ollama_message list \<Rightarrow> u32 \<Rightarrow> f32 \<Rightarrow>
     ((chat_response_chunk, ollama_error) res list, ollama_error) res" where
  "generate_stream H c model_id messages max_tokens temperature =
     (case oh_post_chat H (oc_base_url c @ ''/api/chat'')
             \<lparr>cr_model = model_id, cr_messages = messages, cr_stream = True,
              cr_options = \<lparr>co_num_predict = max_tokens, co_temperature = temperature\<rparr>\<rparr> of
        Inl e \<Rightarrow> Inl e
      | Inr ls \<Rightarrow> Inr (read_chunks (oh_parse H) ls))"

section \<open>The engine\<close>

definition role_name :: "role \<Rightarrow> string" where
  "role_name r = (case r of User \<Rightarrow> ''user'' | Assistant \<Rightarrow> ''assistant'' | System \<Rightarrow> ''system'')"

definition summary_message :: "string \<Rightarrow> ollama_message" where
  "summary_message summary = om_system (''[Earlier conversation summary]: '' @ summary)"

definition build_messages :: "context_window \<Rightarrow> string \<Rightarrow> ollama_message list" where
  "build_messages cw prompt =
     (case cw_system_prompt cw of None \<Rightarrow> [] | Some sys \<Rightarrow> [om_system sys]) @
     (case cw_summary cw of None \<Rightarrow> [] | Some s \<Rightarrow> [summary_message s]) @
     map (\<lambda>m. \<lparr>om_role = role_name (msg_role m), om_content = msg_content m\<rparr>) (cw_recent_messages cw) @
     [om_user prompt]"

definition engine_chunk :: "uuid \<Rightarrow> u32 \<Rightarrow> chat_response_chunk \<Rightarrow> inference_stream_chunk" where
  "engine_chunk rid i c =
     \<lparr>sk_request_id = rid, sk_chunk_index = i,
      sk_token = (case cc_message c of None \<Rightarrow> [] | Some m \<Rightarrow> m),
      sk_is_final = cc_done c,
      sk_tokens_generated = (case cc_eval_count c of None \<Rightarrow> i + 1 | Some n \<Rightarrow> n),
      sk_finish_reason =
        (if cc_done c then (case cc_done_reason c of None \<Rightarrow> Some ''stop'' | Some r \<Rightarrow> Some r) else None)\<rparr>"

text \<open>The mapped stream, with the counter its closure carries; an error does not advance it.\<close>

fun engine_stream ::
  "uuid \<Rightarrow> u32 \<Rightarrow> (chat_response_chunk, ollama_error) res list \<Rightarrow> (inference_stream_chunk, ollama_error) res list" where
  "engine_stream rid i [] = []"
| "engine_stream rid i (Inl e # cs) = Inl e # engine_stream rid i cs"
| "engine_stream rid i (Inr c # cs) = Inr (engine_chunk rid i c) # engine_stream rid (i + 1) cs"

definition ollama_run_inference :: "ollama_http \<Rightarrow> ollama_client \<Rightarrow> ollama_error run_inference" where
  "ollama_run_inference H c model_id cw prompt params =
     (case generate_stream H c model_id (build_messages cw prompt) (ip_max_tokens params) (ip_temperature params) of
        Inl e \<Rightarrow> Inl e
      | Inr s \<Rightarrow> Inr (engine_stream (ip_request_id params) 0 s))"

definition list_available_models :: "ollama_http \<Rightarrow> ollama_client \<Rightarrow> (string list, ollama_error) res" where
  "list_available_models H c = (case list_models H c of Inl e \<Rightarrow> Inl e | Inr ms \<Rightarrow> Inr (map mi_name ms))"

definition model_loaded_in_vram :: "ollama_http \<Rightarrow> ollama_client \<Rightarrow> string \<Rightarrow> bool" where
  "model_loaded_in_vram H c model_id = (case is_model_available H c model_id of Inl e \<Rightarrow> False | Inr b \<Rightarrow> b)"

definition estimated_vram_usage_mb ::
  "(real \<Rightarrow> real) \<Rightarrow> ollama_http \<Rightarrow> ollama_client \<Rightarrow> string \<Rightarrow> (u32, ollama_error) res" where
  "estimated_vram_usage_mb rnd H c model_id = estimated_vram_mb rnd H c model_id"

section \<open>What a run yields\<close>

text \<open>The chunks in the lines before the first read error, up to the first that is marked done; and the read
  error, if no chunk before it is done.\<close>

fun until_done :: "chat_response_chunk list \<Rightarrow> chat_response_chunk list" where
  "until_done [] = []"
| "until_done (c # cs) = (if cc_done c then [c] else c # until_done cs)"

definition line_chunk :: "(string \<Rightarrow> json option) \<Rightarrow> string \<Rightarrow> chat_response_chunk option" where
  "line_chunk parse l = (if trim l = [] then None else Option.bind (parse (trim l)) chat_chunk_of_json)"

definition read_lines :: "body_lines \<Rightarrow> string list" where
  "read_lines ls = map projr (takeWhile (\<lambda>l. \<not> isl l) ls)"

definition line_chunks :: "(string \<Rightarrow> json option) \<Rightarrow> body_lines \<Rightarrow> chat_response_chunk list" where
  "line_chunks parse ls = List.map_filter (line_chunk parse) (read_lines ls)"

definition reply_chunks :: "(string \<Rightarrow> json option) \<Rightarrow> body_lines \<Rightarrow> chat_response_chunk list" where
  "reply_chunks parse ls = until_done (line_chunks parse ls)"

definition reply_error :: "(string \<Rightarrow> json option) \<Rightarrow> body_lines \<Rightarrow> (chat_response_chunk, ollama_error) res list" where
  "reply_error parse ls =
     (if list_ex cc_done (line_chunks parse ls) then []
      else (case dropWhile (\<lambda>l. \<not> isl l) ls of [] \<Rightarrow> [] | l # _ \<Rightarrow> [Inl (StreamRead (projl l))]))"

lemma read_lines_simps [simp]:
  "read_lines [] = []" "read_lines (Inl e # ls) = []" "read_lines (Inr l # ls) = l # read_lines ls"
  by (simp_all add: read_lines_def)

lemma line_chunks_simps [simp]:
  "line_chunks parse [] = []" "line_chunks parse (Inl e # ls) = []"
  "line_chunks parse (Inr l # ls) =
     (case line_chunk parse l of None \<Rightarrow> line_chunks parse ls | Some c \<Rightarrow> c # line_chunks parse ls)"
  by (simp_all add: line_chunks_def List.map_filter_simps split: option.split)

lemma read_chunks_exact: "read_chunks parse ls = map Inr (reply_chunks parse ls) @ reply_error parse ls"
proof (induction parse ls rule: read_chunks.induct)
  case (3 parse l ls)
  then show ?case
    by (cases "trim l = []"; cases "Option.bind (parse (trim l)) chat_chunk_of_json")
      (auto simp: Let_def reply_chunks_def reply_error_def line_chunk_def)
qed (simp_all add: reply_chunks_def reply_error_def)

lemma engine_stream_append:
  "engine_stream rid i (xs @ ys) = engine_stream rid i xs @ engine_stream rid (i + of_nat (length (filter (\<lambda>x. \<not> isl x) xs))) ys"
  by (induction rid i xs rule: engine_stream.induct) (simp_all add: algebra_simps)

lemma engine_stream_chunks:
  "engine_stream rid i (map Inr cs) = map Inr (map (\<lambda>(n, c). engine_chunk rid (i + of_nat n) c) (enumerate 0 cs))"
proof (induction cs arbitrary: i)
  case (Cons c cs)
  have "enumerate (Suc 0) cs = map (\<lambda>(n, c). (Suc n, c)) (enumerate 0 cs)"
    by (rule nth_equalityI) (simp_all add: nth_enumerate_eq case_prod_beta)
  then show ?case
    by (simp add: Cons.IH algebra_simps prod.case_distrib case_prod_beta)
qed simp

lemma until_done_last: "i < length (until_done cs) \<Longrightarrow> cc_done (until_done cs ! i) \<Longrightarrow> Suc i = length (until_done cs)"
  by (induction cs arbitrary: i) (auto simp: nth_Cons split: nat.splits if_splits)

lemma engine_stream_reply:
  "engine_stream rid 0 (read_chunks parse ls) =
     map Inr (map (\<lambda>(n, c). engine_chunk rid (of_nat n) c) (enumerate 0 (reply_chunks parse ls))) @
     engine_stream rid (of_nat (length (reply_chunks parse ls))) (reply_error parse ls)"
  by (simp add: read_chunks_exact engine_stream_append engine_stream_chunks comp_def)

text \<open>The error at the end of a stream, as a list of at most one item.\<close>

definition stream_errors :: "(string \<Rightarrow> json option) \<Rightarrow> body_lines \<Rightarrow> (inference_stream_chunk, ollama_error) res list" where
  "stream_errors parse ls = map (\<lambda>r. Inl (projl r)) (reply_error parse ls)"

lemma engine_stream_reply_error: "engine_stream rid i (reply_error parse ls) = stream_errors parse ls"
  by (auto simp: stream_errors_def reply_error_def split: list.split)

lemma ollama_run_accepted:
  assumes "oh_post_chat H (oc_base_url c @ ''/api/chat'')
    \<lparr>cr_model = model, cr_messages = build_messages cw prompt, cr_stream = True,
     cr_options = \<lparr>co_num_predict = ip_max_tokens ps, co_temperature = ip_temperature ps\<rparr>\<rparr> = Inr ls"
  shows "ollama_run_inference H c model cw prompt ps =
    Inr (map Inr (map (\<lambda>(n, c). engine_chunk (ip_request_id ps) (of_nat n) c) (enumerate 0 (reply_chunks (oh_parse H) ls))) @
      stream_errors (oh_parse H) ls)"
  using assms by (simp add: ollama_run_inference_def generate_stream_def engine_stream_reply engine_stream_reply_error)

text \<open>C32: A run yields exactly what the backend answered. Of the lines of the reply, up to the first read
  error, those that are chunks come out in order up to the first that is marked done; they are numbered
  from zero, carry the request and the text of their line, only the last can be final, and it is final
  exactly when it has a finish reason. An error follows only if the reading failed before any chunk was
  marked done.\<close>

theorem ollama_stream_exact:
  assumes "oh_post_chat H (oc_base_url c @ ''/api/chat'')
    \<lparr>cr_model = model, cr_messages = build_messages cw prompt, cr_stream = True,
     cr_options = \<lparr>co_num_predict = ip_max_tokens ps, co_temperature = ip_temperature ps\<rparr>\<rparr> = Inr ls"
  shows "\<exists>ks. ollama_run_inference H c model cw prompt ps = Inr (map Inr ks @ stream_errors (oh_parse H) ls) \<and>
    length ks = length (reply_chunks (oh_parse H) ls) \<and>
    (\<forall>i < length ks. sk_request_id (ks ! i) = ip_request_id ps \<and> sk_chunk_index (ks ! i) = of_nat i \<and>
      sk_token (ks ! i) = (case cc_message (reply_chunks (oh_parse H) ls ! i) of None \<Rightarrow> [] | Some m \<Rightarrow> m) \<and>
      (sk_is_final (ks ! i) \<longleftrightarrow> sk_finish_reason (ks ! i) \<noteq> None) \<and>
      (sk_is_final (ks ! i) \<longrightarrow> Suc i = length ks \<and> stream_errors (oh_parse H) ls = []))"
proof -
  let ?rs = "reply_chunks (oh_parse H) ls"
  let ?ks = "map (\<lambda>(n, c). engine_chunk (ip_request_id ps) (of_nat n) c) (enumerate 0 ?rs)"
  have done_no_error: "stream_errors (oh_parse H) ls = []" if "i < length ?rs" "cc_done (?rs ! i)" for i
  proof -
    have "set (until_done cs) \<subseteq> set cs" for cs
      by (induction cs) auto
    then have "?rs ! i \<in> set (line_chunks (oh_parse H) ls)"
      using nth_mem [OF that(1)] by (auto simp: reply_chunks_def)
    then show ?thesis
      using that(2) by (auto simp: stream_errors_def reply_error_def list_ex_iff)
  qed
  have last: "Suc i = length ?rs" if "i < length ?rs" "cc_done (?rs ! i)" for i
    using that until_done_last unfolding reply_chunks_def by blast
  show ?thesis
    using ollama_run_accepted [OF assms] done_no_error last
    by (intro exI [of _ ?ks]) (auto simp: nth_enumerate_eq engine_chunk_def split: option.splits)
qed

text \<open>A reply of two chunks with a line between them that is not one, and a line after the end.\<close>

definition toy_chat_lines :: body_lines where
  "toy_chat_lines = [Inr ''a'', Inr ''?'', Inr ''b'', Inl ''reset'']"

definition toy_chat_parse :: "string \<Rightarrow> json option" where
  "toy_chat_parse l =
     (if l = ''a'' then Some (JObj [(''message'', JObj [(''content'', JStr ''hi'')]), (''done'', JBool False)])
      else if l = ''b'' then Some (JObj [(''done'', JBool True), (''eval_count'', JNum 7)])
      else Some (JObj [(''error'', JStr ''out of memory'')]))"

definition toy_ollama :: ollama_http where
  "toy_ollama = \<lparr>oh_get_tags = (\<lambda>u. Inr []), oh_post_chat = (\<lambda>u b. Inr toy_chat_lines),
     oh_post_pull = (\<lambda>u m. Inr []), oh_parse = toy_chat_parse\<rparr>"

definition toy_reply :: "chat_response_chunk list" where
  "toy_reply =
     [\<lparr>cc_message = Some ''hi'', cc_done = False, cc_done_reason = None, cc_eval_count = None, cc_prompt_eval_count = None\<rparr>,
      \<lparr>cc_message = None, cc_done = True, cc_done_reason = None, cc_eval_count = Some 7, cc_prompt_eval_count = None\<rparr>]"

lemma toy_line_chunks: "line_chunks toy_chat_parse toy_chat_lines = toy_reply"
  by code_simp

lemma toy_reply_chunks: "reply_chunks (oh_parse toy_ollama) toy_chat_lines = toy_reply"
  "stream_errors (oh_parse toy_ollama) toy_chat_lines = []"
  by (simp_all add: toy_ollama_def reply_chunks_def toy_line_chunks stream_errors_def reply_error_def toy_reply_def)

theorem ollama_stream_exact_witness:
  "\<exists>k1 k2. ollama_run_inference toy_ollama ollama_default_local ''m'' context_window_default ''p''
      \<lparr>ip_max_tokens = 5, ip_temperature = 0, ip_request_id = 3\<rparr> = Inr [Inr k1, Inr k2] \<and>
    sk_token k1 = ''hi'' \<and> sk_chunk_index k2 = 1"
proof -
  let ?ps = "\<lparr>ip_max_tokens = 5, ip_temperature = 0, ip_request_id = 3\<rparr>"
  let ?run = "ollama_run_inference toy_ollama ollama_default_local ''m'' context_window_default ''p'' ?ps"
  have post: "oh_post_chat toy_ollama u b = Inr toy_chat_lines" for u b
    by (simp add: toy_ollama_def)
  obtain ks where run: "?run = Inr (map Inr ks @ [])" and n: "length ks = length toy_reply"
    and at: "\<forall>i < length ks. sk_request_id (ks ! i) = ip_request_id ?ps \<and> sk_chunk_index (ks ! i) = of_nat i \<and>
      sk_token (ks ! i) = (case cc_message (toy_reply ! i) of None \<Rightarrow> [] | Some m \<Rightarrow> m) \<and>
      (sk_is_final (ks ! i) \<longleftrightarrow> sk_finish_reason (ks ! i) \<noteq> None) \<and>
      (sk_is_final (ks ! i) \<longrightarrow> Suc i = length ks \<and> ([] :: (inference_stream_chunk, ollama_error) res list) = [])"
    using ollama_stream_exact [OF post, where c = ollama_default_local and model = "''m''" and
      cw = context_window_default and prompt = "''p''" and ps = ?ps, unfolded toy_reply_chunks]
    by (elim exE conjE) (rule that)
  obtain k1 k2 where k: "ks = [k1, k2]"
    using n by (auto simp: toy_reply_def length_Suc_conv)
  have "sk_token k1 = ''hi''" "sk_chunk_index k2 = 1"
    using at [rule_format, of 0] at [rule_format, of 1] by (simp_all add: k toy_reply_def)
  then show ?thesis
    using run by (simp add: k)
qed

end
