(* ===== verification/Remote_Storage.thy ===== *)
theory Remote_Storage
  imports Blob_Storage Rpc_Client
begin

text \<open>The remote blob stores: \<^verbatim>\<open>crates/storage/src/ipfs.rs\<close> and \<^verbatim>\<open>walrus.rs\<close>. HTTP over an external
  world and the JSON parser are parameters; the shapes of the replies are decoded here.\<close>

section \<open>HTTP\<close>

text \<open>A reply has a status and a body, unless reading it broke off.\<close>

record http_reply =
  hr_status :: nat
  hr_body :: "bytes option"

type_synonym 'w request = "string \<Rightarrow> 'w \<Rightarrow> http_reply option \<times> 'w"

record 'w remote_env =
  rm_post_file :: "bytes \<Rightarrow> 'w request"
  rm_post :: "'w request"
  rm_put :: "bytes \<Rightarrow> 'w request"
  rm_get :: "'w request"
  rm_json :: "bytes \<Rightarrow> json option"

definition status_success :: "http_reply \<Rightarrow> bool" where
  "status_success r \<longleftrightarrow> 200 \<le> hr_status r \<and> hr_status r < 300"

text \<open>\<^verbatim>\<open>resp.text().await.unwrap_or_default()\<close>, before its lossy decoding.\<close>

definition body_text :: "http_reply \<Rightarrow> bytes" where
  "body_text r = (case hr_body r of None \<Rightarrow> [] | Some b \<Rightarrow> b)"

text \<open>\<^verbatim>\<open>trim_end_matches('/')\<close>.\<close>

definition trim_slashes :: "string \<Rightarrow> string" where
  "trim_slashes s = rev (dropWhile (\<lambda>c. c = CHR ''/'') (rev s))"

definition str_field :: "string \<Rightarrow> json \<Rightarrow> string option" where
  "str_field k v = (case v of JObj fs \<Rightarrow>
      if length (filter (\<lambda>f. fst f = k) fs) = 1 then Option.bind (map_of fs k) as_str else None | _ \<Rightarrow> None)"

text \<open>The answer to a download.\<close>

definition read_blob :: "blob_id \<Rightarrow> http_reply \<Rightarrow> (bytes, storage_error) res" where
  "read_blob i r =
     (if hr_status r = 200 then (case hr_body r of None \<Rightarrow> Inl RemoteUnreachable | Some b \<Rightarrow> Inr b)
      else if hr_status r = 404 then Inl (BlobNotFound i)
      else Inl (RemoteStatus (hr_status r) (body_text r)))"

text \<open>The answer to an upload: a status of success and a body that the decoder accepts.\<close>

definition read_stored :: "'w remote_env \<Rightarrow> (json \<Rightarrow> string option) \<Rightarrow> http_reply \<Rightarrow> (blob_id, storage_error) res" where
  "read_stored E decode r =
     (if \<not> status_success r then Inl (RemoteStatus (hr_status r) (body_text r))
      else (case Option.bind (Option.bind (hr_body r) (rm_json E)) decode of
              None \<Rightarrow> Inl BadStoreReply
            | Some i \<Rightarrow> Inr i))"

section \<open>IPFS\<close>

record ipfs_storage =
  ip_api_url :: string

definition ipfs_new :: "string \<Rightarrow> ipfs_storage" where
  "ipfs_new api_url = \<lparr>ip_api_url = trim_slashes api_url\<rparr>"

definition add_response_hash :: "json \<Rightarrow> string option" where
  "add_response_hash v = (case str_field ''Size'' v of None \<Rightarrow> None | Some _ \<Rightarrow> str_field ''Hash'' v)"

definition ipfs_add_url :: "ipfs_storage \<Rightarrow> string" where
  "ipfs_add_url c = ip_api_url c @ ''/api/v0/add''"

definition ipfs_cat_url :: "ipfs_storage \<Rightarrow> blob_id \<Rightarrow> string" where
  "ipfs_cat_url c i = ip_api_url c @ ''/api/v0/cat?arg='' @ i"

definition ipfs_put :: "'w remote_env \<Rightarrow> ipfs_storage \<Rightarrow> bytes \<Rightarrow> u64 \<Rightarrow> ('w, blob_id) storage_op" where
  "ipfs_put E c data ttl_epochs w =
     (case rm_post_file E data (ipfs_add_url c) w of
        (None, w') \<Rightarrow> (Inl RemoteUnreachable, w')
      | (Some r, w') \<Rightarrow> (read_stored E add_response_hash r, w'))"

definition ipfs_get :: "'w remote_env \<Rightarrow> ipfs_storage \<Rightarrow> blob_id \<Rightarrow> ('w, bytes) storage_op" where
  "ipfs_get E c i w =
     (case rm_post E (ipfs_cat_url c i) w of
        (None, w') \<Rightarrow> (Inl RemoteUnreachable, w')
      | (Some r, w') \<Rightarrow> (read_blob i r, w'))"

text \<open>Every answer to the unpinning is accepted.\<close>

definition ipfs_delete :: "'w remote_env \<Rightarrow> ipfs_storage \<Rightarrow> blob_id \<Rightarrow> ('w, unit) storage_op" where
  "ipfs_delete E c i w = (Inr (), snd (rm_post E (ip_api_url c @ ''/api/v0/pin/rm?arg='' @ i) w))"

definition ipfs_storage_client :: "'w remote_env \<Rightarrow> ipfs_storage \<Rightarrow> 'w storage_client" where
  "ipfs_storage_client E c = \<lparr>bs_put = ipfs_put E c, bs_get = ipfs_get E c, bs_delete = ipfs_delete E c\<rparr>"

section \<open>Walrus\<close>

record walrus_storage =
  wl_aggregator :: string
  wl_publisher :: string

definition walrus_new :: "string \<Rightarrow> string \<Rightarrow> walrus_storage" where
  "walrus_new aggregator publisher = \<lparr>wl_aggregator = trim_slashes aggregator, wl_publisher = trim_slashes publisher\<rparr>"

text \<open>The two replies, an object with the variant as its only field.\<close>

definition store_response_id :: "json \<Rightarrow> string option" where
  "store_response_id v =
     (case v of
        JObj [(k, w)] \<Rightarrow>
          if k = ''newlyCreated'' then
            (case w of JObj fs \<Rightarrow>
               if length (filter (\<lambda>f. fst f = ''blobObject'') fs) = 1
               then Option.bind (map_of fs ''blobObject'') (str_field ''blobId'') else None
             | _ \<Rightarrow> None)
          else if k = ''alreadyCertified'' then str_field ''blobId'' w
          else None
      | _ \<Rightarrow> None)"

definition walrus_put_url :: "walrus_storage \<Rightarrow> u64 \<Rightarrow> string" where
  "walrus_put_url c ttl_epochs = wl_publisher c @ ''/v1/store?epochs='' @ decimal (unat ttl_epochs)"

definition walrus_get_url :: "walrus_storage \<Rightarrow> blob_id \<Rightarrow> string" where
  "walrus_get_url c i = wl_aggregator c @ ''/v1/'' @ i"

definition walrus_put :: "'w remote_env \<Rightarrow> walrus_storage \<Rightarrow> bytes \<Rightarrow> u64 \<Rightarrow> ('w, blob_id) storage_op" where
  "walrus_put E c data ttl_epochs w =
     (case rm_put E data (walrus_put_url c ttl_epochs) w of
        (None, w') \<Rightarrow> (Inl RemoteUnreachable, w')
      | (Some r, w') \<Rightarrow> (read_stored E store_response_id r, w'))"

definition walrus_get :: "'w remote_env \<Rightarrow> walrus_storage \<Rightarrow> blob_id \<Rightarrow> ('w, bytes) storage_op" where
  "walrus_get E c i w =
     (case rm_get E (walrus_get_url c i) w of
        (None, w') \<Rightarrow> (Inl RemoteUnreachable, w')
      | (Some r, w') \<Rightarrow> (read_blob i r, w'))"

definition walrus_delete :: "blob_id \<Rightarrow> ('w, unit) storage_op" where
  "walrus_delete i w = (Inr (), w)"

definition walrus_storage_client :: "'w remote_env \<Rightarrow> walrus_storage \<Rightarrow> 'w storage_client" where
  "walrus_storage_client E c = \<lparr>bs_put = walrus_put E c, bs_get = walrus_get E c, bs_delete = walrus_delete\<rparr>"

section \<open>The contract of a store\<close>

text \<open>What the documentation of the two services promises. An accepted upload names its id and the blob
  can be fetched under it from then on; other ids answer as before; fetching changes nothing.\<close>

definition kubo_lawful :: "'w remote_env \<Rightarrow> ipfs_storage \<Rightarrow> bool" where
  "kubo_lawful E c \<longleftrightarrow>
     (\<forall>i w. snd (rm_post E (ipfs_cat_url c i) w) = w) \<and>
     (\<forall>d w r w' v i. rm_post_file E d (ipfs_add_url c) w = (Some r, w') \<longrightarrow> status_success r \<longrightarrow>
        Option.bind (hr_body r) (rm_json E) = Some v \<longrightarrow> json_get ''Hash'' v = Some (JStr i) \<longrightarrow>
        fst (rm_post E (ipfs_cat_url c i) w') = Some \<lparr>hr_status = 200, hr_body = Some d\<rparr> \<and>
        (\<forall>j. j \<noteq> i \<longrightarrow> fst (rm_post E (ipfs_cat_url c j) w') = fst (rm_post E (ipfs_cat_url c j) w)))"

definition reply_names :: "json \<Rightarrow> blob_id \<Rightarrow> bool" where
  "reply_names v i \<longleftrightarrow>
     Option.bind (Option.bind (json_get ''newlyCreated'' v) (json_get ''blobObject'')) (json_get ''blobId'') = Some (JStr i) \<or>
     Option.bind (json_get ''alreadyCertified'' v) (json_get ''blobId'') = Some (JStr i)"

definition walrus_lawful :: "'w remote_env \<Rightarrow> walrus_storage \<Rightarrow> bool" where
  "walrus_lawful E c \<longleftrightarrow>
     (\<forall>i w. snd (rm_get E (walrus_get_url c i) w) = w) \<and>
     (\<forall>d ttl w r w' v i. rm_put E d (walrus_put_url c ttl) w = (Some r, w') \<longrightarrow> status_success r \<longrightarrow>
        Option.bind (hr_body r) (rm_json E) = Some v \<longrightarrow> reply_names v i \<longrightarrow>
        fst (rm_get E (walrus_get_url c i) w') = Some \<lparr>hr_status = 200, hr_body = Some d\<rparr> \<and>
        (\<forall>j. j \<noteq> i \<longrightarrow> fst (rm_get E (walrus_get_url c j) w') = fst (rm_get E (walrus_get_url c j) w)))"

lemma str_field_get: "str_field k v = Some s \<Longrightarrow> json_get k v = Some (JStr s)"
  by (auto simp: str_field_def as_str_Some bind_eq_Some_conv split: json.splits if_splits)

lemma add_response_get: "add_response_hash v = Some i \<Longrightarrow> json_get ''Hash'' v = Some (JStr i)"
  by (auto simp: add_response_hash_def str_field_get split: option.splits)

lemma store_response_names: "store_response_id v = Some i \<Longrightarrow> reply_names v i"
  by (auto simp: store_response_id_def reply_names_def bind_eq_Some_conv dest: str_field_get
      split: json.splits list.splits prod.splits if_splits)

lemma read_stored_Inr:
  "read_stored E decode r = Inr i \<longleftrightarrow>
     status_success r \<and> (\<exists>v. Option.bind (hr_body r) (rm_json E) = Some v \<and> decode v = Some i)"
  by (auto simp: read_stored_def bind_eq_Some_conv split: option.splits)

lemma read_blob_found [simp]: "read_blob i \<lparr>hr_status = 200, hr_body = Some d\<rparr> = Inr d"
  by (simp add: read_blob_def)

lemma ipfs_get_fst:
  "fst (ipfs_get E c i w) =
     (case fst (rm_post E (ipfs_cat_url c i) w) of None \<Rightarrow> Inl RemoteUnreachable | Some r \<Rightarrow> read_blob i r)"
  by (auto simp: ipfs_get_def split: prod.split option.split)

lemma walrus_get_fst:
  "fst (walrus_get E c i w) =
     (case fst (rm_get E (walrus_get_url c i) w) of None \<Rightarrow> Inl RemoteUnreachable | Some r \<Rightarrow> read_blob i r)"
  by (auto simp: walrus_get_def split: prod.split option.split)

interpretation ipfs: blob_storage "ipfs_storage_client E c" "\<lambda>w. kubo_lawful E c" "\<lambda>i. True" "\<lambda>d. d" for E c
proof
  fix w d ttl i w' j
  assume law: "kubo_lawful E c" and put: "bs_put (ipfs_storage_client E c) d ttl w = (Inr i, w')"
  then obtain r v where r: "rm_post_file E d (ipfs_add_url c) w = (Some r, w')" "status_success r"
    "Option.bind (hr_body r) (rm_json E) = Some v" "add_response_hash v = Some i"
    by (auto simp: ipfs_storage_client_def ipfs_put_def read_stored_Inr split: prod.splits option.splits)
  note stored = law [unfolded kubo_lawful_def, THEN conjunct2, rule_format, OF r(1-3) add_response_get [OF r(4)]]
  show "kubo_lawful E c \<and> True \<and> (\<exists>d'. fst (bs_get (ipfs_storage_client E c) i w') = Inr d' \<and> d' = d)"
    using law stored by (simp add: ipfs_storage_client_def ipfs_get_fst)
  show "fst (bs_get (ipfs_storage_client E c) j w') = fst (bs_get (ipfs_storage_client E c) j w)" if "j \<noteq> i"
    using stored that by (simp add: ipfs_storage_client_def ipfs_get_fst)
next
  fix w i
  assume "kubo_lawful E c"
  then show "snd (bs_get (ipfs_storage_client E c) i w) = w"
    by (auto simp: kubo_lawful_def ipfs_storage_client_def ipfs_get_def split: prod.split option.split) (metis snd_conv)+
qed

interpretation walrus: blob_storage "walrus_storage_client E c" "\<lambda>w. walrus_lawful E c" "\<lambda>i. True" "\<lambda>d. d" for E c
proof
  fix w d ttl i w' j
  assume law: "walrus_lawful E c" and put: "bs_put (walrus_storage_client E c) d ttl w = (Inr i, w')"
  then obtain r v where r: "rm_put E d (walrus_put_url c ttl) w = (Some r, w')" "status_success r"
    "Option.bind (hr_body r) (rm_json E) = Some v" "store_response_id v = Some i"
    by (auto simp: walrus_storage_client_def walrus_put_def read_stored_Inr split: prod.splits option.splits)
  note stored = law [unfolded walrus_lawful_def, THEN conjunct2, rule_format, OF r(1-3) store_response_names [OF r(4)]]
  show "walrus_lawful E c \<and> True \<and> (\<exists>d'. fst (bs_get (walrus_storage_client E c) i w') = Inr d' \<and> d' = d)"
    using law stored by (simp add: walrus_storage_client_def walrus_get_fst)
  show "fst (bs_get (walrus_storage_client E c) j w') = fst (bs_get (walrus_storage_client E c) j w)" if "j \<noteq> i"
    using stored that by (simp add: walrus_storage_client_def walrus_get_fst)
next
  fix w i
  assume "walrus_lawful E c"
  then show "snd (bs_get (walrus_storage_client E c) i w) = w"
    by (auto simp: walrus_lawful_def walrus_storage_client_def walrus_get_def split: prod.split option.split) (metis snd_conv)+
qed

end
