(* ===== verification/Context_Redis.thy ===== *)
theory Context_Redis
  imports Context_Store Peer_Registry
begin

text \<open>The conversation store over Redis, \<^verbatim>\<open>redis_store\<close> in \<^verbatim>\<open>crates/context/src/store.rs\<close>. The commands
  of a connection are parameters. Appending reads, changes and writes in separate commands, which
  other clients' commands can come between; the two halves are definitions of their own.\<close>

record 'r redis_session_conn = "'r redis_conn" +
  rd_connect :: "'r \<Rightarrow> bool \<times> 'r"
  rd_del :: "string \<Rightarrow> 'r \<Rightarrow> unit option \<times> 'r"

record stored_text =
  tx_to_string :: "stored_message list \<Rightarrow> string option"
  tx_from_str :: "string \<Rightarrow> stored_message list option"

record redis_context =
  rx_ttl_seconds :: u64
  rx_max_msgs :: nat

datatype redis_error = RedisConn | RedisGet | RedisSet | RedisDel | NotSerialised

type_synonym ('r, 'a) redis_op = "'r \<Rightarrow> ('a, redis_error) res \<times> 'r"

definition ctx_redis_key :: "string \<Rightarrow> string" where
  "ctx_redis_key session_id = ''pinaivu:ctx:'' @ session_id"

definition stored_or_none :: "stored_text \<Rightarrow> string option \<Rightarrow> stored_message list" where
  "stored_or_none J raw = (case Option.bind raw (tx_from_str J) of None \<Rightarrow> [] | Some ms \<Rightarrow> ms)"

definition redis_get_messages ::
  "'r redis_session_conn \<Rightarrow> stored_text \<Rightarrow> string \<Rightarrow> ('r, stored_message list) redis_op" where
  "redis_get_messages R J sid r =
     (case rd_connect R r of
        (False, r1) \<Rightarrow> (Inl RedisConn, r1)
      | (True, r1) \<Rightarrow>
          (case rd_get R (ctx_redis_key sid) r1 of
             (None, r2) \<Rightarrow> (Inl RedisGet, r2)
           | (Some raw, r2) \<Rightarrow> (Inr (stored_or_none J raw), r2)))"

text \<open>The second half of an append, on the messages the first half read.\<close>

definition redis_append_write ::
  "'r redis_session_conn \<Rightarrow> stored_text \<Rightarrow> redis_context \<Rightarrow> string \<Rightarrow> string \<Rightarrow> string \<Rightarrow>
     stored_message list \<Rightarrow> ('r, unit) redis_op" where
  "redis_append_write R J C sid user_msg asst_msg msgs r =
     (case tx_to_string J (push_turn (rx_max_msgs C) user_msg asst_msg msgs) of
        None \<Rightarrow> (Inl NotSerialised, r)
      | Some serialised \<Rightarrow>
          (case rd_set_ex R (ctx_redis_key sid) serialised (rx_ttl_seconds C) r of
             (None, r') \<Rightarrow> (Inl RedisSet, r')
           | (Some _, r') \<Rightarrow> (Inr (), r')))"

definition redis_append ::
  "'r redis_session_conn \<Rightarrow> stored_text \<Rightarrow> redis_context \<Rightarrow> string \<Rightarrow> string \<Rightarrow> string \<Rightarrow> ('r, unit) redis_op" where
  "redis_append R J C sid user_msg asst_msg r =
     (case redis_get_messages R J sid r of
        (Inl e, r') \<Rightarrow> (Inl e, r')
      | (Inr msgs, r') \<Rightarrow> redis_append_write R J C sid user_msg asst_msg msgs r')"

definition redis_clear :: "'r redis_session_conn \<Rightarrow> string \<Rightarrow> ('r, unit) redis_op" where
  "redis_clear R sid r =
     (case rd_connect R r of
        (False, r1) \<Rightarrow> (Inl RedisConn, r1)
      | (True, r1) \<Rightarrow>
          (case rd_del R (ctx_redis_key sid) r1 of
             (None, r2) \<Rightarrow> (Inl RedisDel, r2)
           | (Some _, r2) \<Rightarrow> (Inr (), r2)))"

section \<open>The contract of a store\<close>

text \<open>What Redis documents of a server that is up, before keys expire: commands succeed, \<^verbatim>\<open>GET\<close> returns
  the value of the key and the others change the one key. An expiry of zero is not accepted.\<close>

definition redis_up :: "'r redis_session_conn \<Rightarrow> ('r \<Rightarrow> string \<Rightarrow> string option) \<Rightarrow> bool" where
  "redis_up R val \<longleftrightarrow>
     (\<forall>r. \<exists>r'. rd_connect R r = (True, r') \<and> val r' = val r) \<and>
     (\<forall>k r. \<exists>r'. rd_get R k r = (Some (val r k), r') \<and> val r' = val r) \<and>
     (\<forall>k v ttl r. 0 < ttl \<longrightarrow> (\<exists>r'. rd_set_ex R k v ttl r = (Some (), r') \<and> val r' = (val r)(k \<mapsto> v))) \<and>
     (\<forall>k r. \<exists>r'. rd_del R k r = (Some (), r') \<and> val r' = (val r)(k := None))"

definition text_lawful :: "stored_text \<Rightarrow> bool" where
  "text_lawful J \<longleftrightarrow> (\<forall>ms. \<exists>s. tx_to_string J ms = Some s \<and> tx_from_str J s = Some ms)"

definition redis_fine ::
  "'r redis_session_conn \<Rightarrow> stored_text \<Rightarrow> redis_context \<Rightarrow> ('r \<Rightarrow> string \<Rightarrow> string option) \<Rightarrow> bool" where
  "redis_fine R J C val \<longleftrightarrow> redis_up R val \<and> text_lawful J \<and> 0 < rx_ttl_seconds C"

definition redis_view :: "stored_text \<Rightarrow> ('r \<Rightarrow> string \<Rightarrow> string option) \<Rightarrow> 'r \<Rightarrow> string \<Rightarrow> stored_message list" where
  "redis_view J val r sid = stored_or_none J (val r (ctx_redis_key sid))"

lemma redis_key_inj [simp]: "ctx_redis_key a = ctx_redis_key b \<longleftrightarrow> a = b"
  by (simp add: ctx_redis_key_def)

lemma redis_get_up:
  assumes "redis_fine R J C val"
  shows "\<exists>r'. redis_get_messages R J sid r = (Inr (redis_view J val r sid), r') \<and> val r' = val r"
proof -
  obtain r1 where 1: "rd_connect R r = (True, r1)" "val r1 = val r"
    using assms unfolding redis_fine_def redis_up_def by blast
  obtain r2 where "rd_get R (ctx_redis_key sid) r1 = (Some (val r1 (ctx_redis_key sid)), r2)" "val r2 = val r1"
    using assms unfolding redis_fine_def redis_up_def by blast
  with 1 show ?thesis
    by (simp add: redis_get_messages_def redis_view_def)
qed

lemma redis_write_up:
  assumes "redis_fine R J C val"
  shows "\<exists>r'. redis_append_write R J C sid u a ms r = (Inr (), r') \<and>
    (\<forall>sid'. redis_view J val r' sid' = (if sid' = sid then push_turn (rx_max_msgs C) u a ms else redis_view J val r sid'))"
proof -
  obtain s where s: "tx_to_string J (push_turn (rx_max_msgs C) u a ms) = Some s"
    "tx_from_str J s = Some (push_turn (rx_max_msgs C) u a ms)"
    using assms unfolding redis_fine_def text_lawful_def by blast
  obtain r' where "rd_set_ex R (ctx_redis_key sid) s (rx_ttl_seconds C) r = (Some (), r')"
    "val r' = (val r)(ctx_redis_key sid \<mapsto> s)"
    using assms unfolding redis_fine_def redis_up_def by blast
  with s show ?thesis
    by (auto simp: redis_append_write_def redis_view_def stored_or_none_def)
qed

lemma redis_append_up:
  assumes "redis_fine R J C val"
  shows "\<exists>r'. redis_append R J C sid u a r = (Inr (), r') \<and>
    (\<forall>sid'. redis_view J val r' sid' =
      (if sid' = sid then push_turn (rx_max_msgs C) u a (redis_view J val r sid) else redis_view J val r sid'))"
proof -
  obtain r1 where r1: "redis_get_messages R J sid r = (Inr (redis_view J val r sid), r1)" "val r1 = val r"
    using redis_get_up [OF assms] by blast
  obtain r2 where "redis_append_write R J C sid u a (redis_view J val r sid) r1 = (Inr (), r2)"
    "\<forall>sid'. redis_view J val r2 sid' =
      (if sid' = sid then push_turn (rx_max_msgs C) u a (redis_view J val r sid) else redis_view J val r1 sid')"
    using redis_write_up [OF assms] by blast
  moreover have "redis_view J val r1 = redis_view J val r"
    using r1(2) by (simp add: redis_view_def fun_eq_iff)
  ultimately show ?thesis
    using r1(1) by (simp add: redis_append_def)
qed

lemma redis_clear_up:
  assumes "redis_fine R J C val"
  shows "\<exists>r'. redis_clear R sid r = (Inr (), r') \<and>
    (\<forall>sid'. redis_view J val r' sid' = (if sid' = sid then [] else redis_view J val r sid'))"
proof -
  obtain r1 where "rd_connect R r = (True, r1)" "val r1 = val r"
    using assms unfolding redis_fine_def redis_up_def by blast
  moreover obtain r2 where "rd_del R (ctx_redis_key sid) r1 = (Some (), r2)" "val r2 = (val r1)(ctx_redis_key sid := None)"
    using assms unfolding redis_fine_def redis_up_def by blast
  ultimately show ?thesis
    by (simp add: redis_clear_def redis_view_def stored_or_none_def)
qed

interpretation ctx_redis: context_store "redis_view J val" "\<lambda>now sid u a r. snd (redis_append R J C sid u a r)"
    "\<lambda>sid r. snd (redis_clear R sid r)" "\<lambda>sid. sid" "rx_max_msgs C" "\<lambda>r. redis_fine R J C val"
  for R J C val
proof unfold_locales
  fix r and now :: u64 and sid u a sid'
  assume "redis_fine R J C val"
  from redis_append_up [OF this, of sid u a r]
  show "redis_view J val (snd (redis_append R J C sid u a r)) sid' =
      (if sid' = sid then push_turn (rx_max_msgs C) u a (redis_view J val r sid) else redis_view J val r sid')"
    by auto
next
  fix r sid sid'
  assume "redis_fine R J C val"
  from redis_clear_up [OF this, of sid r]
  show "redis_view J val (snd (redis_clear R sid r)) sid' = (if sid' = sid then [] else redis_view J val r sid')"
    by auto
qed auto

section \<open>Properties\<close>

text \<open>C33: Two replicas answering in the same session can lose a turn. When both read the history before
  either writes, both report success, and the history afterwards has the turn of the later writer
  only.\<close>

theorem redis_turn_lost:
  assumes up: "redis_fine R J C val"
    and reads: "redis_get_messages R J sid r = (Inr ms1, r1)" "redis_get_messages R J sid r1 = (Inr ms2, r2)"
    and first: "redis_append_write R J C sid u1 a1 ms1 r2 = (w1, r3)"
    and second: "redis_append_write R J C sid u2 a2 ms2 r3 = (w2, r4)"
  shows "w1 = Inr () \<and> w2 = Inr () \<and>
    fst (redis_get_messages R J sid r4) =
      Inr (recent_messages (rx_max_msgs C) (redis_view J val r sid @ turn_messages u2 a2))"
proof -
  have v1: "ms1 = redis_view J val r sid" "val r1 = val r"
    using redis_get_up [OF up, of sid r] reads(1) by auto
  have v2: "ms2 = redis_view J val r sid"
    using redis_get_up [OF up, of sid r1] reads(2) v1(2) by (auto simp: redis_view_def)
  have w: "w1 = Inr ()" "w2 = Inr ()" "redis_view J val r4 sid = push_turn (rx_max_msgs C) u2 a2 ms2"
    using redis_write_up [OF up, of sid u1 a1 ms1 r2] redis_write_up [OF up, of sid u2 a2 ms2 r3] first second by auto
  then show ?thesis
    using redis_get_up [OF up, of sid r4] v2 by (auto simp: push_turn_recent)
qed

text \<open>A server that is a table.\<close>

definition toy_redis :: "(string \<rightharpoonup> string) redis_session_conn" where
  "toy_redis = \<lparr>rd_set_ex = (\<lambda>k v ttl r. if 0 < ttl then (Some (), r(k \<mapsto> v)) else (None, r)),
     rd_get = (\<lambda>k r. (Some (r k), r)), rd_keys = (\<lambda>p r. (Some [], r)), rd_set_nx_ex = (\<lambda>k ttl r. (None, r)),
     rd_connect = (\<lambda>r. (True, r)), rd_del = (\<lambda>k r. (Some (), r(k := None)))\<rparr>"

definition toy_text :: stored_text where
  "toy_text = \<lparr>tx_to_string = \<lambda>ms. Some (replicate (to_nat (map (\<lambda>m. (sg_role m, sg_content m)) ms)) (CHR ''x'')),
     tx_from_str = \<lambda>s. Some (map (\<lambda>(r, c). \<lparr>sg_role = r, sg_content = c\<rparr>) (from_nat (length s)))\<rparr>"

definition toy_redis_context :: redis_context where
  "toy_redis_context = \<lparr>rx_ttl_seconds = 60, rx_max_msgs = 0\<rparr>"

lemma toy_redis_fine: "redis_fine toy_redis toy_text toy_redis_context (\<lambda>r. r)"
proof -
  have "(\<lambda>x. \<lparr>sg_role = sg_role x, sg_content = sg_content x\<rparr>) = (\<lambda>x :: stored_message. x)"
    by (rule ext) simp
  then have "text_lawful toy_text"
    by (simp add: text_lawful_def toy_text_def o_def)
  then show ?thesis
    by (simp add: redis_fine_def redis_up_def toy_redis_def toy_redis_context_def)
qed

theorem redis_turn_lost_witness:
  "\<exists>r3 r4. redis_append_write toy_redis toy_text toy_redis_context ''s'' ''a'' ''b'' [] Map.empty = (Inr (), r3) \<and>
    redis_append_write toy_redis toy_text toy_redis_context ''s'' ''c'' ''d'' [] r3 = (Inr (), r4) \<and>
    fst (redis_get_messages toy_redis toy_text ''s'' r4) = Inr (turn_messages ''c'' ''d'')"
proof -
  have get: "redis_get_messages toy_redis toy_text ''s'' Map.empty = (Inr [], Map.empty)"
    by (simp add: redis_get_messages_def toy_redis_def stored_or_none_def)
  obtain w1 r3 where 1: "redis_append_write toy_redis toy_text toy_redis_context ''s'' ''a'' ''b'' [] Map.empty = (w1, r3)"
    by fastforce
  obtain w2 r4 where 2: "redis_append_write toy_redis toy_text toy_redis_context ''s'' ''c'' ''d'' [] r3 = (w2, r4)"
    by fastforce
  from redis_turn_lost [OF toy_redis_fine get get 1 2] 1 2 show ?thesis
    by (auto simp: redis_view_def stored_or_none_def recent_messages_def toy_redis_context_def)
qed

end
