(* ===== verification/Node_Startup.thy ===== *)
theory Node_Startup
  imports Node_Assembly Ollama_Client Remote_Storage Node_Receipt
begin

text \<open>How a node comes up: the command line and its subcommands (\<^verbatim>\<open>crates/node/src/main.rs\<close> and
  \<^verbatim>\<open>cli.rs\<close>), the key files (\<^verbatim>\<open>identity.rs\<close> and \<^verbatim>\<open>p2p/src/service.rs\<close>), the choice of the blob
  store, and the registration of the node on Arc (\<^verbatim>\<open>erc8004.rs\<close>). What the environment and the
  network answer are arguments.\<close>

section \<open>Key files\<close>

datatype startup_error =
    FileUnreadable path
  | BadKeyLength path
  | BadKeyEncoding path
  | DirectoryFailed
  | WriteFailed path
  | NotEncodable
  | BadConfig path
  | UnknownMode string

text \<open>Writing a new file in a directory that is created first.\<close>

record file_io =
  fi_readable :: bool
  fi_dir_ok :: bool
  fi_write :: io_result

definition create_file :: "file_io \<Rightarrow> path \<Rightarrow> bytes \<Rightarrow> disk \<Rightarrow> (unit, startup_error) res \<times> disk" where
  "create_file io p c d =
     (if \<not> fi_dir_ok io then (Inl DirectoryFailed, d)
      else (case fs_write (fi_write io) p c d of (d', True) \<Rightarrow> (Inr (), d') | (d', False) \<Rightarrow> (Inl (WriteFailed p), d')))"

text \<open>The seed of the identity; \<open>fresh\<close> is what the random generator would give.\<close>

definition load_or_generate :: "bytes \<Rightarrow> file_io \<Rightarrow> path \<Rightarrow> disk \<Rightarrow> (bytes, startup_error) res \<times> disk" where
  "load_or_generate fresh io p d =
     (case d p of
        Some b \<Rightarrow>
          if \<not> fi_readable io then (Inl (FileUnreadable p), d)
          else if length b = 32 then (Inr b, d) else (Inl (BadKeyLength p), d)
      | None \<Rightarrow>
          (case create_file io p fresh d of
             (Inl e, d') \<Rightarrow> (Inl e, d')
           | (Inr _, d') \<Rightarrow> (Inr fresh, d')))"

text \<open>Ed25519, SHA-512 and X25519.\<close>

record key_env =
  ky_public :: "bytes \<Rightarrow> bytes"
  ky_sign :: "bytes \<Rightarrow> bytes \<Rightarrow> bytes"
  ky_sha512 :: "bytes \<Rightarrow> bytes"
  ky_x25519 :: "bytes \<Rightarrow> bytes \<Rightarrow> bytes"
  ky_x25519_public :: "bytes \<Rightarrow> bytes"

definition ed25519_seed_to_x25519 :: "key_env \<Rightarrow> bytes \<Rightarrow> bytes" where
  "ed25519_seed_to_x25519 K seed = take 32 (ky_sha512 K seed)"

definition identity_of_seed :: "key_env \<Rightarrow> bytes \<Rightarrow> node_identity" where
  "identity_of_seed K seed =
     \<lparr>ni_public_key_bytes = ky_public K seed, ni_sign = ky_sign K seed,
      ni_diffie_hellman = ky_x25519 K (ed25519_seed_to_x25519 K seed)\<rparr>"

definition x25519_public_key :: "key_env \<Rightarrow> bytes \<Rightarrow> bytes" where
  "x25519_public_key K seed = ky_x25519_public K (ed25519_seed_to_x25519 K seed)"

text \<open>The network key pair, as its protobuf encoding.\<close>

definition load_or_create_keypair ::
  "('k \<Rightarrow> bytes option) \<Rightarrow> (bytes \<Rightarrow> 'k option) \<Rightarrow> 'k \<Rightarrow> file_io \<Rightarrow> path \<Rightarrow> disk \<Rightarrow> ('k, startup_error) res \<times> disk" where
  "load_or_create_keypair enc dec fresh io data_dir d =
     (let p = path_push data_dir ''p2p_keypair.key'' in
      case d p of
        Some b \<Rightarrow>
          if \<not> fi_readable io then (Inl (FileUnreadable p), d)
          else (case dec b of None \<Rightarrow> (Inl (BadKeyEncoding p), d) | Some k \<Rightarrow> (Inr k, d))
      | None \<Rightarrow>
          if \<not> fi_dir_ok io then (Inl DirectoryFailed, d)
          else (case enc fresh of
                  None \<Rightarrow> (Inl NotEncodable, d)
                | Some b \<Rightarrow>
                    (case create_file io p b d of
                       (Inl e, d') \<Rightarrow> (Inl e, d')
                     | (Inr _, d') \<Rightarrow> (Inr fresh, d'))))"

definition identity_path :: "string option \<Rightarrow> node_config \<Rightarrow> path" where
  "identity_path home cfg = path_push (expand_tilde home (ns_data_dir (cfg_node cfg))) ''node_identity.key''"

section \<open>The blob store and the engine\<close>

datatype built_storage = StoreIpfs ipfs_storage | StoreWalrus walrus_storage | StoreLocal path

text \<open>The flag tells whether the directory of the local store can be created.\<close>

definition build_storage :: "string option \<Rightarrow> bool \<Rightarrow> node_config \<Rightarrow> (built_storage, startup_error) res" where
  "build_storage home dir_ok cfg =
     (let S = cfg_storage cfg in
      if st_backend S = ''ipfs'' then Inr (StoreIpfs (ipfs_new (st_ipfs_api S)))
      else if st_backend S = ''walrus'' \<or> st_backend S = ''walrus_chain''
      then Inr (StoreWalrus (walrus_new (st_walrus_aggregator S) (st_walrus_publisher S)))
      else if dir_ok then Inr (StoreLocal (expand_tilde home (st_sessions_dir S)))
      else Inl DirectoryFailed)"

definition ollama_base_url :: "inference_section \<Rightarrow> string" where
  "ollama_base_url s = ''http://localhost:11434''"

section \<open>Registration on Arc\<close>

definition erc_chain_id :: "u64 \<Rightarrow> settlement_adapter_config \<Rightarrow> u64" where
  "erc_chain_id dflt a =
     (case sac_chain_id a of
        Some i \<Rightarrow> i
      | None \<Rightarrow>
          (case Option.bind (strip_prefix ''evm-'' (sac_id a)) parse_u64 of None \<Rightarrow> dflt | Some n \<Rightarrow> n))"

definition is_arc_chain :: "u64 \<Rightarrow> bool" where
  "is_arc_chain i \<longleftrightarrow> i = arc_testnet \<or> i = arc_mainnet"

definition find_arc_adapter :: "settlement_adapter_config list \<Rightarrow> settlement_adapter_config option" where
  "find_arc_adapter as = find (\<lambda>a. is_arc_chain (erc_chain_id 0 a)) as"

definition erc_evm_config :: "build_env \<Rightarrow> settlement_adapter_config \<Rightarrow> evm_config option" where
  "erc_evm_config B a =
     (case (sac_rpc_url a, Option.bind (sac_signer_key_hex a) (seed_of_hex B)) of
        (Some rpc_url, Some seed) \<Rightarrow>
          Some \<lparr>ec_id = sac_id a, ec_rpc_url = rpc_url,
            ec_contract_address = (case sac_contract_address a of
               None \<Rightarrow> ''0x0000000000000000000000000000000000000000'' | Some c \<Rightarrow> c),
            ec_chain_id = erc_chain_id arc_testnet a, ec_price_per_1k = sac_price_per_1k a,
            ec_token_id = token_or_native a, ec_signer_seed = Some seed\<rparr>
      | _ \<Rightarrow> None)"

text \<open>Both are best effort: whatever happens is logged, and only the world remains.\<close>

definition try_register ::
  "build_env \<Rightarrow> 'w http \<Rightarrow> (string list \<Rightarrow> string option) \<Rightarrow> settlement_adapter_config list \<Rightarrow> string \<Rightarrow>
     string option \<Rightarrow> string list \<Rightarrow> 'w \<Rightarrow> 'w" where
  "try_register B post to_json as node_pubkey api_url models w =
     (case Option.bind (find_arc_adapter as) (erc_evm_config B) of
        None \<Rightarrow> w
      | Some cfg \<Rightarrow> snd (evm_register_erc8004_agent (be_evm B) post to_json cfg node_pubkey api_url models w))"

definition try_update_reputation ::
  "build_env \<Rightarrow> 'w http \<Rightarrow> settlement_adapter_config list \<Rightarrow> u64 \<Rightarrow> 'w \<Rightarrow> 'w" where
  "try_update_reputation B post as score_bps w =
     (case Option.bind (find_arc_adapter as) (erc_evm_config B) of
        None \<Rightarrow> w
      | Some cfg \<Rightarrow> snd (evm_update_erc8004_reputation (be_evm B) post cfg score_bps w))"

section \<open>The command line\<close>

datatype commands =
    Init bool
  | Start "string option" "u16 option"
  | Status
  | Models

record cli =
  cli_config :: "path option"
  cli_command :: commands

text \<open>\<^verbatim>\<open>HOME\<close>, else \<^verbatim>\<open>USERPROFILE\<close>, else the current directory.\<close>

definition default_config_path :: "string option \<Rightarrow> string option \<Rightarrow> path" where
  "default_config_path home profile =
     (let dir = (case home of Some h \<Rightarrow> h | None \<Rightarrow> (case profile of Some h \<Rightarrow> h | None \<Rightarrow> ''.''))
      in path_push (path_push dir ''.pinaivu'') ''config.toml'')"

definition parse_mode :: "string \<Rightarrow> (operation_mode, startup_error) res" where
  "parse_mode s =
     (let t = to_lowercase s in
      if t = ''standalone'' then Inr Standalone
      else if t = ''network'' then Inr Network
      else if t = ''network_paid'' then Inr NetworkPaid
      else Inl (UnknownMode t))"

text \<open>The configuration file; \<open>enc\<close> and \<open>dec\<close> are the TOML codec.\<close>

definition config_from_file :: "(bytes \<Rightarrow> node_config option) \<Rightarrow> file_io \<Rightarrow> path \<Rightarrow> disk \<Rightarrow> (node_config, startup_error) res" where
  "config_from_file dec io p d =
     (case d p of
        None \<Rightarrow> Inl (FileUnreadable p)
      | Some raw \<Rightarrow>
          if \<not> fi_readable io then Inl (FileUnreadable p)
          else (case dec raw of None \<Rightarrow> Inl (BadConfig p) | Some cfg \<Rightarrow> Inr cfg))"

definition config_write_to_file ::
  "(node_config \<Rightarrow> bytes option) \<Rightarrow> node_config \<Rightarrow> file_io \<Rightarrow> path \<Rightarrow> disk \<Rightarrow> (unit, startup_error) res \<times> disk" where
  "config_write_to_file enc cfg io p d =
     (if \<not> fi_dir_ok io then (Inl DirectoryFailed, d)
      else (case enc cfg of None \<Rightarrow> (Inl NotEncodable, d) | Some raw \<Rightarrow> create_file io p raw d))"

section \<open>init\<close>

definition preferred_models :: "string list" where
  "preferred_models = [''gemma3:1b'', ''gemma3:4b'', ''llama3.2:1b'', ''llama3.1:8b'', ''deepseek-r1:7b'']"

definition best_model :: "string list \<Rightarrow> string" where
  "best_model names = (case find (\<lambda>p. p \<in> set names) preferred_models of Some p \<Rightarrow> p | None \<Rightarrow> hd names)"

definition set_default_model :: "string \<Rightarrow> node_config \<Rightarrow> node_config" where
  "set_default_model m cfg = cfg\<lparr>cfg_inference := (cfg_inference cfg)\<lparr>inf_default_model := m\<rparr>\<rparr>"

definition init_model :: "(model_info list, ollama_error) res \<Rightarrow> node_config \<Rightarrow> node_config" where
  "init_model models cfg =
     (case models of
        Inl e \<Rightarrow> cfg
      | Inr ms \<Rightarrow> if ms = [] then cfg else set_default_model (best_model (map mi_name ms)) cfg)"

text \<open>The text each address answers, if the request and its body succeed.\<close>

type_synonym web = "string \<Rightarrow> string option"

definition is_digit :: "char \<Rightarrow> bool" where
  "is_digit c \<longleftrightarrow> 48 \<le> (of_char c :: nat) \<and> (of_char c :: nat) \<le> 57"

fun first_ip :: "web \<Rightarrow> string list \<Rightarrow> string option" where
  "first_ip W [] = None"
| "first_ip W (url # urls) =
     (case W url of
        None \<Rightarrow> first_ip W urls
      | Some text \<Rightarrow>
          let ip = trim text in if ip \<noteq> [] \<and> is_digit (hd ip) then Some ip else first_ip W urls)"

definition ip_services :: "string list" where
  "ip_services = [''https://api.ipify.org'', ''https://ifconfig.me/ip'', ''https://icanhazip.com'']"

definition detect_public_ip :: "web \<Rightarrow> string option" where
  "detect_public_ip W = first_ip W ip_services"

fun str_contains :: "string \<Rightarrow> string \<Rightarrow> bool" where
  "str_contains p [] = (p = [])"
| "str_contains p (c # s) = (starts_with p (c # s) \<or> str_contains p s)"

definition is_port_reachable :: "web \<Rightarrow> string \<Rightarrow> u16 \<Rightarrow> bool" where
  "is_port_reachable W ip port =
     (case W (''https://portchecker.io/api/v1/query?host='' @ ip @ ''&port='' @ decimal (unat port)) of
        None \<Rightarrow> False
      | Some text \<Rightarrow> str_contains ''\"status\":true'' text \<or> str_contains ''\"open\":true'' text)"

definition init_api_url :: "web \<Rightarrow> node_config \<Rightarrow> node_config" where
  "init_api_url W cfg =
     (case detect_public_ip W of
        None \<Rightarrow> cfg
      | Some ip \<Rightarrow>
          let port = hl_api_port (cfg_health cfg) in
          if is_port_reachable W ip port then
            cfg\<lparr>cfg_health := (cfg_health cfg)\<lparr>hl_api_url := Some (''http://'' @ ip @ '':'' @ decimal (unat port))\<rparr>\<rparr>
          else cfg)"

definition init_config :: "(model_info list, ollama_error) res \<Rightarrow> web \<Rightarrow> node_config" where
  "init_config models W = init_api_url W (init_model models node_config_default)"

text \<open>How a command ends: exit code 1, an error of \<^verbatim>\<open>main\<close>, lines printed, the file written, or the
  daemon taking over.\<close>

datatype main_result = ExitFailure | MainError startup_error | Printed "string list" | Initialised path | DaemonStarts node_config

record toml =
  tm_enc :: "node_config \<Rightarrow> bytes option"
  tm_dec :: "bytes \<Rightarrow> node_config option"

definition cmd_init ::
  "toml \<Rightarrow> (model_info list, ollama_error) res \<Rightarrow> web \<Rightarrow> file_io \<Rightarrow> bool \<Rightarrow> path \<Rightarrow> disk \<Rightarrow> main_result \<times> disk" where
  "cmd_init T models W io force p d =
     (if d p \<noteq> None \<and> \<not> force then (ExitFailure, d)
      else (case config_write_to_file (tm_enc T) (init_config models W) io p d of
              (Inl e, d') \<Rightarrow> (MainError e, d')
            | (Inr _, d') \<Rightarrow> (Initialised p, d')))"

section \<open>start, status, models\<close>

text \<open>A configured model that Ollama lacks is replaced by one it has.\<close>

definition start_config :: "(model_info list, ollama_error) res \<Rightarrow> node_config \<Rightarrow> node_config" where
  "start_config models cfg =
     (case models of
        Inl e \<Rightarrow> cfg
      | Inr ms \<Rightarrow>
          let names = map mi_name ms in
          if names \<noteq> [] \<and> inf_default_model (cfg_inference cfg) \<notin> set names
          then set_default_model (best_model names) cfg else cfg)"

definition apply_overrides :: "commands \<Rightarrow> node_config \<Rightarrow> (node_config, startup_error) res" where
  "apply_overrides c cfg =
     (case c of
        Start mode port \<Rightarrow>
          let with_port = (\<lambda>cfg. case port of
                None \<Rightarrow> cfg | Some n \<Rightarrow> cfg\<lparr>cfg_health := (cfg_health cfg)\<lparr>hl_metrics_port := n\<rparr>\<rparr>)
          in (case mode of
                None \<Rightarrow> Inr (with_port cfg)
              | Some s \<Rightarrow>
                  (case parse_mode s of
                     Inl e \<Rightarrow> Inl e
                   | Inr m \<Rightarrow> Inr (with_port (cfg\<lparr>cfg_node := (cfg_node cfg)\<lparr>ns_mode := m\<rparr>\<rparr>))))
      | _ \<Rightarrow> Inr cfg)"

definition mode_name :: "operation_mode \<Rightarrow> string" where
  "mode_name m = (case m of Standalone \<Rightarrow> ''Standalone'' | Network \<Rightarrow> ''Network'' | NetworkPaid \<Rightarrow> ''NetworkPaid'')"

definition status_lines :: "string \<Rightarrow> node_config \<Rightarrow> string list" where
  "status_lines version cfg =
     [''pinaivu v'' @ version, ''mode:    '' @ mode_name (ns_mode (cfg_node cfg)),
      ''storage: '' @ st_backend (cfg_storage cfg),
      ''metrics: :'' @ decimal (unat (hl_metrics_port (cfg_health cfg)))]"

definition cmd_models :: "(model_info list, ollama_error) res \<Rightarrow> main_result" where
  "cmd_models models =
     (case models of
        Inl e \<Rightarrow> ExitFailure
      | Inr ms \<Rightarrow> Printed (if ms = [] then [''No models found. Run: ollama pull llama3.1:8b'']
                          else map (\<lambda>m. ''  '' @ mi_name m) ms))"

definition dispatch :: "string \<Rightarrow> (model_info list, ollama_error) res \<Rightarrow> commands \<Rightarrow> node_config \<Rightarrow> main_result" where
  "dispatch version models c cfg =
     (case c of
        Start mode port \<Rightarrow> DaemonStarts (start_config models cfg)
      | Status \<Rightarrow> Printed (status_lines version cfg)
      | _ \<Rightarrow> cmd_models models)"

definition main_command ::
  "toml \<Rightarrow> string option \<times> string option \<Rightarrow> string \<Rightarrow> (model_info list, ollama_error) res \<Rightarrow> web \<Rightarrow> file_io \<Rightarrow>
     cli \<Rightarrow> disk \<Rightarrow> main_result \<times> disk" where
  "main_command T env version models W io c d =
     (let p = (case cli_config c of Some p \<Rightarrow> p | None \<Rightarrow> default_config_path (fst env) (snd env)) in
      case cli_command c of
        Init force \<Rightarrow> cmd_init T models W io force p d
      | cmd \<Rightarrow>
          if d p = None then (ExitFailure, d)
          else
            (case config_from_file (tm_dec T) io p d of
               Inl e \<Rightarrow> (MainError e, d)
             | Inr cfg \<Rightarrow>
                 (case apply_overrides cmd cfg of
                    Inl e \<Rightarrow> (MainError e, d)
                  | Inr cfg' \<Rightarrow> (dispatch version models cmd cfg', d))))"

section \<open>Properties\<close>

definition toml_lawful :: "toml \<Rightarrow> bool" where
  "toml_lawful T \<longleftrightarrow> (\<forall>cfg raw. tm_enc T cfg = Some raw \<longrightarrow> tm_dec T raw = Some cfg)"

lemma best_model_in: "names \<noteq> [] \<Longrightarrow> best_model names \<in> set names"
  by (auto simp: best_model_def find_Some_iff split: option.split)

lemma create_file_ok: "create_file io p c d = (Inr u, d') \<Longrightarrow> d' = d(p \<mapsto> c)"
  by (auto simp: create_file_def fs_write_def split: if_splits)

lemma write_config_ok:
  "config_write_to_file enc cfg io p d = (Inr u, d') \<Longrightarrow> \<exists>raw. enc cfg = Some raw \<and> d' = d(p \<mapsto> raw)"
  by (auto simp: config_write_to_file_def dest: create_file_ok split: if_splits option.splits)

lemma set_default_model_twice [simp]:
  "set_default_model m (set_default_model m' cfg) = set_default_model m cfg"
  "inf_default_model (cfg_inference (set_default_model m cfg)) = m"
  by (simp_all add: set_default_model_def)

lemma set_default_model_same [simp]: "set_default_model (inf_default_model (cfg_inference cfg)) cfg = cfg"
  by (simp add: set_default_model_def)

lemma start_config_model:
  "start_config models cfg = set_default_model (inf_default_model (cfg_inference (start_config models cfg))) cfg"
  by (simp add: start_config_def Let_def split: sum.split)

lemma start_config_installed:
  "ms \<noteq> [] \<Longrightarrow> inf_default_model (cfg_inference (start_config (Inr ms) cfg)) \<in> mi_name ` set ms"
  using best_model_in [of "map mi_name ms"] by (auto simp: start_config_def Let_def)

text \<open>C34: What \<^verbatim>\<open>init\<close> writes is what \<^verbatim>\<open>start\<close> runs. After a successful initialisation, a start with the
  same options and no overrides comes up with the written configuration, whatever models are found
  then; at most the default model differs, and it is an installed one whenever Ollama lists any. A
  second initialisation without force is refused and leaves the file alone.\<close>

theorem init_then_start:
  assumes "toml_lawful T" "fi_readable io'"
    and "main_command T env version models W io \<lparr>cli_config = c, cli_command = Init force\<rparr> d = (Initialised p, d')"
  shows "\<exists>cfg m. main_command T env version' models' W' io' \<lparr>cli_config = c, cli_command = Start None None\<rparr> d' = (DaemonStarts cfg, d') \<and>
    cfg = set_default_model m (init_config models W) \<and>
    (\<forall>ms. models' = Inr ms \<longrightarrow> ms \<noteq> [] \<longrightarrow> m \<in> mi_name ` set ms) \<and>
    main_command T env version modelsb Wb iob \<lparr>cli_config = c, cli_command = Init False\<rparr> d' = (ExitFailure, d')"
proof -
  let ?p = "case c of Some p \<Rightarrow> p | None \<Rightarrow> default_config_path (fst env) (snd env)"
  let ?cfg = "start_config models' (init_config models W)"
  obtain u where "config_write_to_file (tm_enc T) (init_config models W) io ?p d = (Inr u, d')"
    using assms(3)
    by (cases "config_write_to_file (tm_enc T) (init_config models W) io ?p d")
      (auto simp: main_command_def cmd_init_def Let_def split: if_splits sum.splits)
  then obtain raw where raw: "tm_enc T (init_config models W) = Some raw" "d' = d(?p \<mapsto> raw)"
    using write_config_ok by blast
  then have dec: "tm_dec T raw = Some (init_config models W)" and at: "d' ?p = Some raw"
    using assms(1) by (auto simp: toml_lawful_def)
  have "main_command T env version' models' W' io' \<lparr>cli_config = c, cli_command = Start None None\<rparr> d' = (DaemonStarts ?cfg, d')"
    using at dec assms(2) by (simp add: main_command_def config_from_file_def apply_overrides_def dispatch_def)
  moreover have "main_command T env version modelsb Wb iob \<lparr>cli_config = c, cli_command = Init False\<rparr> d' = (ExitFailure, d')"
    using at by (simp add: main_command_def cmd_init_def)
  ultimately show ?thesis
    using start_config_model [of models' "init_config models W"] start_config_installed
    by (intro exI [of _ ?cfg] exI [of _ "inf_default_model (cfg_inference ?cfg)"]) auto
qed

text \<open>A node keeps its identity. A first start on a missing key file either yields the key that every
  later start finds again, whatever it would generate itself, or fails; and if the failed write left
  part of a key behind, no later start succeeds until the file is removed.\<close>

theorem identity_survives_restart:
  assumes "d p = None" "length fresh = 32" "load_or_generate fresh io p d = (r, d')"
  shows "(\<exists>seed. r = Inr seed \<and>
      (\<forall>fresh' io'. fi_readable io' \<longrightarrow> load_or_generate fresh' io' p d' = (Inr seed, d'))) \<or>
    (\<exists>e. r = Inl e \<and>
      (\<forall>part. d' p = Some part \<longrightarrow> length part \<noteq> 32 \<longrightarrow>
        (\<forall>fresh' io'. \<exists>e'. load_or_generate fresh' io' p d' = (Inl e', d'))))"
proof (cases r)
  case (Inl e)
  then show ?thesis
    by (auto simp: load_or_generate_def)
next
  case (Inr seed)
  then obtain u where "create_file io p fresh d = (Inr u, d')" "seed = fresh"
    using assms(1,3) by (auto simp: load_or_generate_def split: prod.splits sum.splits)
  then have "d' p = Some seed" "length seed = 32"
    using create_file_ok [of io p fresh d u d'] assms(2) by simp_all
  with Inr show ?thesis
    by (simp add: load_or_generate_def)
qed

text \<open>An initialisation with one model installed and no network, then a start with another one.\<close>

definition toy_toml :: toml where
  "toy_toml = \<lparr>tm_enc = (\<lambda>cfg. if cfg = set_default_model ''m1'' node_config_default then Some [1] else None),
     tm_dec = (\<lambda>b. Some (set_default_model ''m1'' node_config_default))\<rparr>"

definition toy_model :: "string \<Rightarrow> model_info" where
  "toy_model n = \<lparr>mi_name = n, mi_size_bytes = 0, mi_parameter_size = None, mi_quantization = None\<rparr>"

definition toy_file_io :: file_io where
  "toy_file_io = \<lparr>fi_readable = True, fi_dir_ok = True, fi_write = \<lparr>io_write_ok = True, io_rename_ok = True, io_partial = None\<rparr>\<rparr>"

theorem init_then_start_witness:
  "\<exists>cfg d'. main_command toy_toml (None, None) ''0.1'' (Inr [toy_model ''m1'']) (\<lambda>u. None) toy_file_io
      \<lparr>cli_config = Some ''c'', cli_command = Init False\<rparr> Map.empty = (Initialised ''c'', d') \<and>
    main_command toy_toml (None, None) ''0.1'' (Inr [toy_model ''m2'']) (\<lambda>u. None) toy_file_io
      \<lparr>cli_config = Some ''c'', cli_command = Start None None\<rparr> d' = (DaemonStarts cfg, d') \<and>
    inf_default_model (cfg_inference cfg) = ''m2''"
proof -
  let ?d = "[''c'' \<mapsto> [1]] :: disk"
  have best: "best_model [''m1''] = ''m1''"
    by (simp add: best_model_def preferred_models_def)
  have cfg: "init_config (Inr [toy_model ''m1'']) (\<lambda>u. None) = set_default_model ''m1'' node_config_default"
    by (simp add: init_config_def init_model_def init_api_url_def detect_public_ip_def ip_services_def toy_model_def best)
  have init: "main_command toy_toml (None, None) ''0.1'' (Inr [toy_model ''m1'']) (\<lambda>u. None) toy_file_io
      \<lparr>cli_config = Some ''c'', cli_command = Init False\<rparr> Map.empty = (Initialised ''c'', ?d)"
    by (simp add: main_command_def cmd_init_def cfg config_write_to_file_def create_file_def fs_write_def
        toy_toml_def toy_file_io_def Let_def)
  have "toml_lawful toy_toml" "fi_readable toy_file_io"
    by (simp_all add: toml_lawful_def toy_toml_def toy_file_io_def)
  from init_then_start [OF this init, where version' = "''0.1''" and models' = "Inr [toy_model ''m2'']" and W' = "\<lambda>u. None"
      and modelsb = "Inr []" and Wb = "\<lambda>u. None" and iob = toy_file_io]
  obtain cfg m where start: "main_command toy_toml (None, None) ''0.1'' (Inr [toy_model ''m2'']) (\<lambda>u. None) toy_file_io
      \<lparr>cli_config = Some ''c'', cli_command = Start None None\<rparr> ?d = (DaemonStarts cfg, ?d)"
    "cfg = set_default_model m (init_config (Inr [toy_model ''m1'']) (\<lambda>u. None))"
    "\<forall>ms. Inr [toy_model ''m2''] = (Inr ms :: (model_info list, ollama_error) res) \<longrightarrow> ms \<noteq> [] \<longrightarrow> m \<in> mi_name ` set ms"
    by (elim exE conjE) (rule that)
  have "m = ''m2''"
    using start(3) by (simp add: toy_model_def)
  with init start(1,2) show ?thesis
    by (intro exI [of _ cfg] exI [of _ ?d]) simp
qed

theorem identity_survives_restart_witness:
  "\<exists>d'. load_or_generate (replicate 32 7) toy_file_io ''k'' Map.empty = (Inr (replicate 32 7), d') \<and>
    load_or_generate (replicate 32 9) toy_file_io ''k'' d' = (Inr (replicate 32 7), d')"
proof -
  obtain r d' where g: "load_or_generate (replicate 32 7) toy_file_io ''k'' Map.empty = (r, d')"
    by fastforce
  have "r = Inr (replicate 32 7)"
    using g by (auto simp: load_or_generate_def create_file_def fs_write_def toy_file_io_def)
  then show ?thesis
    using identity_survives_restart [OF _ _ g] g by (auto simp: toy_file_io_def)
qed

end
