(* ===== verification/Solana_Accounts.thy ===== *)
theory Solana_Accounts
  imports Solana_Program
begin

text \<open>The account structs of \<^verbatim>\<open>programs/pinaivu/src\<close>: which accounts a caller may hand to an
  instruction. \<open>Solana_Program\<close> looks its accounts up by their seeds; here an instruction gets plain
  addresses, chosen by whoever sends it, and the checks of the account structs (type, derived
  address, stored bump, constraint) are all that stands between it and somebody else's account. The
  refinement shows that they are enough. Anchor and the derivation of addresses are parameters: an
  account is loaded only if the program owns it and its discriminator is the type's, an address is
  derived from the seeds and a bump, and \<^verbatim>\<open>init\<close> takes the canonical one.\<close>

section \<open>Accounts at addresses\<close>

datatype seeds = Seed_State | Seed_Escrow bytes | Seed_Node bytes | Seed_Score bytes

text \<open>What is stored at an address. \<open>Foreign\<close> is everything the program cannot load: an empty address,
  an account of another program, or one without a known discriminator.\<close>

datatype account =
    Foreign
  | Acc_State program_state
  | Acc_Escrow escrow_account
  | Acc_Node node_registration
  | Acc_Score node_score

record ledger =
  lg_account :: "pubkey \<Rightarrow> account"
  lg_lamports :: "pubkey \<Rightarrow> u64"
  lg_events :: "chain_event list"

text \<open>\<^verbatim>\<open>find_program_address\<close> with the canonical bump, and \<^verbatim>\<open>create_program_address\<close> with a given one.\<close>

record pda_rules =
  pda_find :: "seeds \<Rightarrow> pubkey \<times> u8"
  pda_create :: "seeds \<Rightarrow> u8 \<Rightarrow> pubkey option"

fun seed_kind :: "seeds \<Rightarrow> string" where
  "seed_kind Seed_State = ''state''"
| "seed_kind (Seed_Escrow _) = ''escrow''"
| "seed_kind (Seed_Node _) = ''node''"
| "seed_kind (Seed_Score _) = ''score''"

fun seed_bytes :: "seeds \<Rightarrow> bytes" where
  "seed_bytes Seed_State = []"
| "seed_bytes (Seed_Escrow rid) = rid"
| "seed_bytes (Seed_Node k) = k"
| "seed_bytes (Seed_Score k) = k"

datatype account_error = Not_Of_Type | Wrong_Address | Rejected anchor_error

section \<open>Loading and creating\<close>

fun as_state :: "account \<Rightarrow> (program_state, account_error) res" where
  "as_state (Acc_State ps) = Okay ps"
| "as_state _ = Err Not_Of_Type"

fun as_escrow :: "account \<Rightarrow> (escrow_account, account_error) res" where
  "as_escrow (Acc_Escrow e) = Okay e"
| "as_escrow _ = Err Not_Of_Type"

fun as_node :: "account \<Rightarrow> (node_registration, account_error) res" where
  "as_node (Acc_Node r) = Okay r"
| "as_node _ = Err Not_Of_Type"

fun as_score :: "account \<Rightarrow> (node_score, account_error) res" where
  "as_score (Acc_Score n) = Okay n"
| "as_score _ = Err Not_Of_Type"

definition init_account ::
  "pda_rules \<Rightarrow> solana_runtime \<Rightarrow> seeds \<Rightarrow> nat \<Rightarrow> pubkey \<Rightarrow> pubkey \<Rightarrow> ledger \<Rightarrow>
     (u8 \<times> (pubkey \<Rightarrow> u64), account_error) res" where
  "init_account A R s len key payer L =
     (if key \<noteq> fst (pda_find A s) then Err Wrong_Address
      else if lg_account L key \<noteq> Foreign then Err (Rejected AccountInUse)
      else
        (case rt_create R (seed_kind s) (seed_bytes s) len payer (lg_lamports L) of
           None \<Rightarrow> Err (Rejected SystemFailed)
         | Some lam \<Rightarrow> Okay (snd (pda_find A s), lam)))"

text \<open>The program account, \<^verbatim>\<open>seeds = [SEED_STATE], bump = program_state.bump\<close> in every struct.\<close>

definition state_account :: "pda_rules \<Rightarrow> pubkey \<Rightarrow> ledger \<Rightarrow> (program_state, account_error) res" where
  "state_account A key L =
     (case as_state (lg_account L key) of
        Inl e \<Rightarrow> Err e
      | Inr ps \<Rightarrow> if pda_create A Seed_State (ps_bump ps) = Some key then Okay ps else Err Wrong_Address)"

definition put_account :: "pubkey \<Rightarrow> account \<Rightarrow> ledger \<Rightarrow> ledger" where
  "put_account key a L = L\<lparr>lg_account := (lg_account L)(key := a)\<rparr>"

definition log_event :: "chain_event \<Rightarrow> ledger \<Rightarrow> ledger" where
  "log_event e L = L\<lparr>lg_events := lg_events L @ [e]\<rparr>"

section \<open>The account structs\<close>

definition initialize_accounts ::
  "pda_rules \<Rightarrow> solana_runtime \<Rightarrow> pubkey \<Rightarrow> pubkey \<Rightarrow> ledger \<Rightarrow> (u8 \<times> (pubkey \<Rightarrow> u64), account_error) res" where
  "initialize_accounts A R state_key admin L = init_account A R Seed_State program_state_len state_key admin L"

definition lock_accounts ::
  "pda_rules \<Rightarrow> solana_runtime \<Rightarrow> bytes \<Rightarrow> pubkey \<Rightarrow> pubkey \<Rightarrow> pubkey \<Rightarrow> ledger \<Rightarrow>
     (u8 \<times> (pubkey \<Rightarrow> u64) \<times> program_state, account_error) res" where
  "lock_accounts A R request_id escrow_key state_key client L =
     (case init_account A R (Seed_Escrow request_id) escrow_account_len escrow_key client L of
        Inl e \<Rightarrow> Err e
      | Inr (bump, lam) \<Rightarrow>
          (case state_account A state_key L of
             Inl e \<Rightarrow> Err e
           | Inr ps \<Rightarrow> Okay (bump, lam, ps)))"

definition release_accounts ::
  "pda_rules \<Rightarrow> pubkey \<Rightarrow> pubkey \<Rightarrow> pubkey \<Rightarrow> ledger \<Rightarrow> (escrow_account \<times> program_state, account_error) res" where
  "release_accounts A escrow_key state_key node_wallet L =
     (case as_escrow (lg_account L escrow_key) of
        Inl e \<Rightarrow> Err e
      | Inr escrow \<Rightarrow>
          if pda_create A (Seed_Escrow (ea_request_id escrow)) (ea_bump escrow) \<noteq> Some escrow_key
          then Err Wrong_Address
          else if ea_node escrow \<noteq> node_wallet then Err (Rejected NotAuthorized)
          else
            (case state_account A state_key L of
               Inl e \<Rightarrow> Err e
             | Inr ps \<Rightarrow> Okay (escrow, ps)))"

definition refund_accounts ::
  "pda_rules \<Rightarrow> pubkey \<Rightarrow> pubkey \<Rightarrow> ledger \<Rightarrow> (escrow_account, account_error) res" where
  "refund_accounts A escrow_key client L =
     (case as_escrow (lg_account L escrow_key) of
        Inl e \<Rightarrow> Err e
      | Inr escrow \<Rightarrow>
          if pda_create A (Seed_Escrow (ea_request_id escrow)) (ea_bump escrow) \<noteq> Some escrow_key
          then Err Wrong_Address
          else if ea_client escrow \<noteq> client then Err (Rejected NotAuthorized)
          else Okay escrow)"

definition register_accounts ::
  "pda_rules \<Rightarrow> solana_runtime \<Rightarrow> bytes \<Rightarrow> pubkey \<Rightarrow> pubkey \<Rightarrow> pubkey \<Rightarrow> ledger \<Rightarrow>
     (u8 \<times> (pubkey \<Rightarrow> u64) \<times> program_state, account_error) res" where
  "register_accounts A R node_pubkey reg_key state_key authority L =
     (case init_account A R (Seed_Node node_pubkey) node_registration_len reg_key authority L of
        Inl e \<Rightarrow> Err e
      | Inr (bump, lam) \<Rightarrow>
          (case state_account A state_key L of
             Inl e \<Rightarrow> Err e
           | Inr ps \<Rightarrow> Okay (bump, lam, ps)))"

definition update_accounts ::
  "pda_rules \<Rightarrow> pubkey \<Rightarrow> pubkey \<Rightarrow> ledger \<Rightarrow> (node_registration, account_error) res" where
  "update_accounts A reg_key authority L =
     (case as_node (lg_account L reg_key) of
        Inl e \<Rightarrow> Err e
      | Inr reg \<Rightarrow>
          if pda_create A (Seed_Node (nr_node_pubkey reg)) (nr_bump reg) \<noteq> Some reg_key then Err Wrong_Address
          else if nr_authority reg \<noteq> authority then Err (Rejected NotAuthorized)
          else Okay reg)"

definition init_score_accounts ::
  "pda_rules \<Rightarrow> solana_runtime \<Rightarrow> bytes \<Rightarrow> pubkey \<Rightarrow> pubkey \<Rightarrow> ledger \<Rightarrow>
     (u8 \<times> (pubkey \<Rightarrow> u64), account_error) res" where
  "init_score_accounts A R node_pubkey score_key authority L =
     init_account A R (Seed_Score node_pubkey) node_score_len score_key authority L"

text \<open>\<^verbatim>\<open>SubmitProof\<close> and \<^verbatim>\<open>AnchorMerkleRoot\<close> declare the same accounts.\<close>

definition score_accounts ::
  "pda_rules \<Rightarrow> pubkey \<Rightarrow> pubkey \<Rightarrow> ledger \<Rightarrow> (node_score, account_error) res" where
  "score_accounts A score_key authority L =
     (case as_score (lg_account L score_key) of
        Inl e \<Rightarrow> Err e
      | Inr score \<Rightarrow>
          if pda_create A (Seed_Score (sr_node_pubkey score)) (sr_bump score) \<noteq> Some score_key
          then Err Wrong_Address
          else if sr_authority score \<noteq> authority then Err (Rejected NotAuthorized)
          else Okay score)"


section \<open>Instructions on the accounts they are given\<close>

type_synonym ledger_op = "ledger \<Rightarrow> (ledger, account_error) res"

definition acc_initialize :: "pda_rules \<Rightarrow> solana_runtime \<Rightarrow> pubkey \<Rightarrow> pubkey \<Rightarrow> i64 \<Rightarrow> ledger_op" where
  "acc_initialize A R state_key admin escrow_timeout_secs L =
     (case initialize_accounts A R state_key admin L of
        Inl e \<Rightarrow> Err e
      | Inr (bump, lam) \<Rightarrow>
          Okay (put_account state_key (Acc_State
            \<lparr>ps_admin = admin, ps_total_nodes_registered = 0, ps_total_jobs_completed = 0,
             ps_total_volume_lamports = 0, ps_escrow_timeout_secs = escrow_timeout_secs, ps_bump = bump\<rparr>)
            (L\<lparr>lg_lamports := lam\<rparr>)))"

definition acc_lock ::
  "pda_rules \<Rightarrow> solana_runtime \<Rightarrow> i64 \<Rightarrow> pubkey \<Rightarrow> pubkey \<Rightarrow> pubkey \<Rightarrow> pubkey \<Rightarrow> bytes \<Rightarrow> u64 \<Rightarrow> i64 \<Rightarrow> ledger_op" where
  "acc_lock A R now escrow_key state_key client node_wallet request_id amount_lamports timeout_secs L =
     (case lock_accounts A R request_id escrow_key state_key client L of
        Inl e \<Rightarrow> Err e
      | Inr (bump, lam1, ps) \<Rightarrow>
          let timeout = (if 0 <s timeout_secs then timeout_secs else ps_escrow_timeout_secs ps);
              escrow = \<lparr>ea_client = client, ea_node = node_wallet,
                ea_amount_lamports = amount_lamports, ea_request_id = request_id,
                ea_state = Locked, ea_created_at = now, ea_expires_at = now + timeout,
                ea_proof_hash = replicate 32 0, ea_bump = bump\<rparr>
          in case rt_transfer R client escrow_key amount_lamports lam1 of
               None \<Rightarrow> Err (Rejected SystemFailed)
             | Some lam2 \<Rightarrow>
                 Okay (log_event (EscrowLocked request_id client node_wallet amount_lamports (now + timeout))
                   (put_account escrow_key (Acc_Escrow escrow) (L\<lparr>lg_lamports := lam2\<rparr>))))"

definition acc_release ::
  "pda_rules \<Rightarrow> i64 \<Rightarrow> pubkey \<Rightarrow> pubkey \<Rightarrow> pubkey \<Rightarrow> bytes \<Rightarrow> ledger_op" where
  "acc_release A now escrow_key state_key node_wallet proof_hash L =
     (case release_accounts A escrow_key state_key node_wallet L of
        Inl e \<Rightarrow> Err e
      | Inr (escrow, ps) \<Rightarrow>
          if ea_state escrow \<noteq> Locked then Err (Rejected EscrowNotLocked)
          else if \<not> now \<le>s ea_expires_at escrow then Err (Rejected EscrowExpired)
          else
            let amount = ea_amount_lamports escrow in
            case move_lamports escrow_key node_wallet amount (lg_lamports L) of
              None \<Rightarrow> Err (Rejected LamportsUnbalanced)
            | Some lam \<Rightarrow>
                Okay (log_event (EscrowReleased (ea_request_id escrow) node_wallet amount proof_hash)
                  (put_account state_key (Acc_State (ps\<lparr>
                       ps_total_jobs_completed := sat_add (ps_total_jobs_completed ps) 1,
                       ps_total_volume_lamports := sat_add (ps_total_volume_lamports ps) amount\<rparr>))
                    (put_account escrow_key (Acc_Escrow
                       (escrow\<lparr>ea_state := Released, ea_proof_hash := proof_hash\<rparr>))
                      (L\<lparr>lg_lamports := lam\<rparr>)))))"

definition acc_refund :: "pda_rules \<Rightarrow> i64 \<Rightarrow> pubkey \<Rightarrow> pubkey \<Rightarrow> ledger_op" where
  "acc_refund A now escrow_key client L =
     (case refund_accounts A escrow_key client L of
        Inl e \<Rightarrow> Err e
      | Inr escrow \<Rightarrow>
          if ea_state escrow \<noteq> Locked then Err (Rejected EscrowNotLocked)
          else if \<not> ea_expires_at escrow <s now then Err (Rejected EscrowNotExpired)
          else
            let amount = ea_amount_lamports escrow in
            case move_lamports escrow_key client amount (lg_lamports L) of
              None \<Rightarrow> Err (Rejected LamportsUnbalanced)
            | Some lam \<Rightarrow>
                Okay (log_event (EscrowRefunded (ea_request_id escrow) client amount)
                  (put_account escrow_key (Acc_Escrow (escrow\<lparr>ea_state := Refunded\<rparr>))
                    (L\<lparr>lg_lamports := lam\<rparr>))))"

definition acc_register ::
  "pda_rules \<Rightarrow> solana_runtime \<Rightarrow> i64 \<Rightarrow> pubkey \<Rightarrow> pubkey \<Rightarrow> pubkey \<Rightarrow> bytes \<Rightarrow> bytes list \<Rightarrow> u32 \<Rightarrow> u64 \<Rightarrow> ledger_op" where
  "acc_register A R now reg_key state_key authority node_pubkey model_hashes gpu_vram_mb price L =
     (case register_accounts A R node_pubkey reg_key state_key authority L of
        Inl e \<Rightarrow> Err e
      | Inr (bump, lam, ps) \<Rightarrow>
          if length model_hashes > max_models then Err (Rejected TooManyModels)
          else
            Okay (log_event (NodeRegistered authority node_pubkey gpu_vram_mb price)
              (put_account state_key (Acc_State (ps\<lparr>
                   ps_total_nodes_registered := sat_add (ps_total_nodes_registered ps) 1\<rparr>))
                (put_account reg_key (Acc_Node
                   \<lparr>nr_authority = authority, nr_node_pubkey = node_pubkey,
                    nr_model_hashes = model_hashes, nr_gpu_vram_mb = gpu_vram_mb,
                    nr_price_per_1k_lamports = price, nr_registered_at = now, nr_active = True,
                    nr_bump = bump\<rparr>)
                  (L\<lparr>lg_lamports := lam\<rparr>)))))"

definition acc_update ::
  "pda_rules \<Rightarrow> pubkey \<Rightarrow> pubkey \<Rightarrow> bytes list \<Rightarrow> u32 \<Rightarrow> u64 \<Rightarrow> bool \<Rightarrow> ledger_op" where
  "acc_update A reg_key authority model_hashes gpu_vram_mb price active L =
     (case update_accounts A reg_key authority L of
        Inl e \<Rightarrow> Err e
      | Inr reg \<Rightarrow>
          if length model_hashes > max_models then Err (Rejected TooManyModels)
          else
            Okay (log_event (NodeUpdated (nr_node_pubkey reg) gpu_vram_mb price active)
              (put_account reg_key (Acc_Node (reg\<lparr>nr_model_hashes := model_hashes,
                 nr_gpu_vram_mb := gpu_vram_mb, nr_price_per_1k_lamports := price, nr_active := active\<rparr>)) L)))"

definition acc_init_score :: "pda_rules \<Rightarrow> solana_runtime \<Rightarrow> i64 \<Rightarrow> pubkey \<Rightarrow> pubkey \<Rightarrow> bytes \<Rightarrow> ledger_op" where
  "acc_init_score A R now score_key authority node_pubkey L =
     (case init_score_accounts A R node_pubkey score_key authority L of
        Inl e \<Rightarrow> Err e
      | Inr (bump, lam) \<Rightarrow>
          Okay (log_event (ScoreInitialized node_pubkey authority)
            (put_account score_key (Acc_Score
               \<lparr>sr_node_pubkey = node_pubkey, sr_authority = authority,
                sr_merkle_root = replicate 32 0, sr_merkle_root_label = replicate 32 0,
                sr_total_jobs = 0, sr_total_tokens_earned = 0, sr_total_lamports_earned = 0,
                sr_success_rate_bps = 10000, sr_avg_latency_ms = 0, sr_score = 0,
                sr_last_updated = now, sr_bump = bump\<rparr>)
              (L\<lparr>lg_lamports := lam\<rparr>))))"

definition acc_submit ::
  "pda_rules \<Rightarrow> i64 \<Rightarrow> pubkey \<Rightarrow> pubkey \<Rightarrow> bytes \<Rightarrow> u32 \<Rightarrow> u32 \<Rightarrow> u64 \<Rightarrow> ledger_op" where
  "acc_submit A now score_key authority proof_hash output_tokens latency_ms lamports_earned L =
     (case score_accounts A score_key authority L of
        Inl e \<Rightarrow> Err e
      | Inr n \<Rightarrow>
          if proof_hash = replicate 32 0 then Err (Rejected InvalidProofHash)
          else
            let n1 = n\<lparr>sr_total_jobs := sat_add (sr_total_jobs n) 1,
                  sr_total_tokens_earned := sat_add (sr_total_tokens_earned n) (ucast output_tokens),
                  sr_total_lamports_earned := sat_add (sr_total_lamports_earned n) lamports_earned,
                  sr_avg_latency_ms := ema_latency (sr_avg_latency_ms n) latency_ms\<rparr>;
                n2 = (recompute_score n1)\<lparr>sr_last_updated := now\<rparr>
            in Okay (log_event (ProofSubmitted (sr_node_pubkey n2) proof_hash output_tokens latency_ms
                 lamports_earned (sr_score n2) (sr_total_jobs n2))
               (put_account score_key (Acc_Score n2) L)))"

definition acc_anchor :: "pda_rules \<Rightarrow> i64 \<Rightarrow> pubkey \<Rightarrow> pubkey \<Rightarrow> bytes \<Rightarrow> bytes \<Rightarrow> ledger_op" where
  "acc_anchor A now score_key authority root_hash label L =
     (case score_accounts A score_key authority L of
        Inl e \<Rightarrow> Err e
      | Inr n \<Rightarrow>
          Okay (log_event (MerkleRootAnchored (sr_node_pubkey n) root_hash label now)
            (put_account score_key (Acc_Score (n\<lparr>sr_merkle_root := root_hash,
               sr_merkle_root_label := label, sr_last_updated := now\<rparr>)) L)))"

section \<open>Runs\<close>

text \<open>Derived addresses: the canonical one is the one its bump gives, two different seeds never derive the
  same address (a collision of SHA-256), and the runtime of \<open>Solana_Program\<close> uses the same.\<close>

definition pda_lawful :: "pda_rules \<Rightarrow> solana_runtime \<Rightarrow> bool" where
  "pda_lawful A R \<longleftrightarrow>
     (\<forall>s. pda_create A s (snd (pda_find A s)) = Some (fst (pda_find A s))) \<and>
     (\<forall>s s' b b' k. pda_create A s b = Some k \<longrightarrow> pda_create A s' b' = Some k \<longrightarrow> s = s') \<and>
     (\<forall>s. rt_bump R (seed_kind s) (seed_bytes s) = snd (pda_find A s)) \<and>
     (\<forall>rid. rt_escrow_address R rid = fst (pda_find A (Seed_Escrow rid)))"

text \<open>One instruction of anybody, with any accounts, or anything outside the program.\<close>

inductive ledger_step :: "pda_rules \<Rightarrow> solana_runtime \<Rightarrow> ledger \<Rightarrow> ledger \<Rightarrow> bool" for A R where
  initialize: "can_sign R a \<Longrightarrow> acc_initialize A R sk a t L = Inr L' \<Longrightarrow> ledger_step A R L L'"
| lock: "can_sign R c \<Longrightarrow> acc_lock A R now ek sk c n rid amt t L = Inr L' \<Longrightarrow> ledger_step A R L L'"
| release: "can_sign R n \<Longrightarrow> acc_release A now ek sk n h L = Inr L' \<Longrightarrow> ledger_step A R L L'"
| refund: "can_sign R c \<Longrightarrow> acc_refund A now ek c L = Inr L' \<Longrightarrow> ledger_step A R L L'"
| register: "can_sign R a \<Longrightarrow> acc_register A R now rk sk a k ms g p L = Inr L' \<Longrightarrow> ledger_step A R L L'"
| update: "can_sign R a \<Longrightarrow> acc_update A rk a ms g p act L = Inr L' \<Longrightarrow> ledger_step A R L L'"
| init_score: "can_sign R a \<Longrightarrow> acc_init_score A R now ck a k L = Inr L' \<Longrightarrow> ledger_step A R L L'"
| submit: "can_sign R a \<Longrightarrow> acc_submit A now ck a h o' l e L = Inr L' \<Longrightarrow> ledger_step A R L L'"
| anchor: "can_sign R a \<Longrightarrow> acc_anchor A now ck a m l L = Inr L' \<Longrightarrow> ledger_step A R L L'"
| outside: "(\<And>rid. lg_lamports L (rt_escrow_address R rid) \<le> lam (rt_escrow_address R rid)) \<Longrightarrow>
    ledger_step A R L (L\<lparr>lg_lamports := lam\<rparr>)"

definition ledger_empty :: "(pubkey \<Rightarrow> u64) \<Rightarrow> ledger" where
  "ledger_empty lam = \<lparr>lg_account = \<lambda>k. Foreign, lg_lamports = lam, lg_events = []\<rparr>"

definition ledger_reachable :: "pda_rules \<Rightarrow> solana_runtime \<Rightarrow> ledger \<Rightarrow> bool" where
  "ledger_reachable A R L \<longleftrightarrow> (\<exists>lam. (ledger_step A R)\<^sup>*\<^sup>* (ledger_empty lam) L)"

text \<open>The type of the account that belongs at the address of some seeds.\<close>

fun account_fits :: "seeds \<Rightarrow> u8 \<Rightarrow> account \<Rightarrow> bool" where
  "account_fits Seed_State b (Acc_State ps) \<longleftrightarrow> ps_bump ps = b"
| "account_fits (Seed_Escrow rid) b (Acc_Escrow e) \<longleftrightarrow> ea_request_id e = rid \<and> ea_bump e = b"
| "account_fits (Seed_Node k) b (Acc_Node r) \<longleftrightarrow> nr_node_pubkey r = k \<and> nr_bump r = b"
| "account_fits (Seed_Score k) b (Acc_Score n) \<longleftrightarrow> sr_node_pubkey n = k \<and> sr_bump n = b"
| "account_fits _ _ _ \<longleftrightarrow> False"

definition ledger_typed :: "pda_rules \<Rightarrow> ledger \<Rightarrow> bool" where
  "ledger_typed A L \<longleftrightarrow>
     (\<forall>key. lg_account L key \<noteq> Foreign \<longrightarrow>
        (\<exists>s. fst (pda_find A s) = key \<and> account_fits s (snd (pda_find A s)) (lg_account L key)))"

text \<open>The chain of \<open>Solana_Program\<close> that a ledger stands for: each account looked up by its seeds.\<close>

definition chain_of :: "pda_rules \<Rightarrow> ledger \<Rightarrow> chain_state" where
  "chain_of A L =
     \<lparr>cs_program = (case lg_account L (fst (pda_find A Seed_State)) of Acc_State ps \<Rightarrow> Some ps | _ \<Rightarrow> None),
      cs_escrows = (\<lambda>rid. case lg_account L (fst (pda_find A (Seed_Escrow rid))) of Acc_Escrow e \<Rightarrow> Some e | _ \<Rightarrow> None),
      cs_nodes = (\<lambda>k. case lg_account L (fst (pda_find A (Seed_Node k))) of Acc_Node r \<Rightarrow> Some r | _ \<Rightarrow> None),
      cs_scores = (\<lambda>k. case lg_account L (fst (pda_find A (Seed_Score k))) of Acc_Score n \<Rightarrow> Some n | _ \<Rightarrow> None),
      cs_lamports = lg_lamports L, cs_events = lg_events L\<rparr>"


section \<open>Addresses\<close>

abbreviation addr :: "pda_rules \<Rightarrow> seeds \<Rightarrow> pubkey" where
  "addr A s \<equiv> fst (pda_find A s)"

lemma pda_canonical: "pda_lawful A R \<Longrightarrow> pda_create A s (snd (pda_find A s)) = Some (addr A s)"
  by (simp add: pda_lawful_def)

lemma pda_injective: "pda_lawful A R \<Longrightarrow> pda_create A s b = Some k \<Longrightarrow> pda_create A s' b' = Some k \<Longrightarrow> s = s'"
  unfolding pda_lawful_def by blast

lemma addr_eq: "pda_lawful A R \<Longrightarrow> addr A s = addr A s' \<longleftrightarrow> s = s'"
  by (metis pda_canonical pda_injective)

lemma rt_bump_find:
  assumes "pda_lawful A R"
  shows "rt_bump R ''state'' [] = snd (pda_find A Seed_State)"
    "rt_bump R ''escrow'' rid = snd (pda_find A (Seed_Escrow rid))"
    "rt_bump R ''node'' k = snd (pda_find A (Seed_Node k))"
    "rt_bump R ''score'' k = snd (pda_find A (Seed_Score k))"
    "rt_escrow_address R rid = addr A (Seed_Escrow rid)"
proof -
  have "rt_bump R (seed_kind s) (seed_bytes s) = snd (pda_find A s)" for s
    using assms by (simp add: pda_lawful_def)
  from this [of Seed_State] this [of "Seed_Escrow rid"] this [of "Seed_Node k"] this [of "Seed_Score k"]
  show "rt_bump R ''state'' [] = snd (pda_find A Seed_State)"
    "rt_bump R ''escrow'' rid = snd (pda_find A (Seed_Escrow rid))"
    "rt_bump R ''node'' k = snd (pda_find A (Seed_Node k))"
    "rt_bump R ''score'' k = snd (pda_find A (Seed_Score k))"
    by simp_all
  show "rt_escrow_address R rid = addr A (Seed_Escrow rid)"
    using assms by (simp add: pda_lawful_def)
qed

section \<open>Typed ledgers\<close>

fun_cases account_fits_StateE: "account_fits s b (Acc_State ps)"
fun_cases account_fits_EscrowE: "account_fits s b (Acc_Escrow e)"
fun_cases account_fits_NodeE: "account_fits s b (Acc_Node r)"
fun_cases account_fits_ScoreE: "account_fits s b (Acc_Score n)"

lemmas account_fitsE = account_fits_StateE account_fits_EscrowE account_fits_NodeE account_fits_ScoreE

lemma typed_loads:
  assumes "ledger_typed A L"
  shows "lg_account L key = Acc_State ps \<Longrightarrow> key = addr A Seed_State"
    "lg_account L key = Acc_Escrow e \<Longrightarrow> key = addr A (Seed_Escrow (ea_request_id e))"
    "lg_account L key = Acc_Node r \<Longrightarrow> key = addr A (Seed_Node (nr_node_pubkey r))"
    "lg_account L key = Acc_Score n \<Longrightarrow> key = addr A (Seed_Score (sr_node_pubkey n))"
  using assms [unfolded ledger_typed_def, rule_format, of key] by (auto elim: account_fitsE)

lemma typed_bumps:
  assumes "pda_lawful A R" "ledger_typed A L"
  shows "lg_account L (addr A Seed_State) = Acc_State ps \<Longrightarrow> ps_bump ps = snd (pda_find A Seed_State)"
    "lg_account L (addr A (Seed_Escrow rid)) = Acc_Escrow e \<Longrightarrow>
       ea_request_id e = rid \<and> ea_bump e = snd (pda_find A (Seed_Escrow rid))"
    "lg_account L (addr A (Seed_Node k)) = Acc_Node r \<Longrightarrow>
       nr_node_pubkey r = k \<and> nr_bump r = snd (pda_find A (Seed_Node k))"
    "lg_account L (addr A (Seed_Score k)) = Acc_Score n \<Longrightarrow>
       sr_node_pubkey n = k \<and> sr_bump n = snd (pda_find A (Seed_Score k))"
  using assms(2) [unfolded ledger_typed_def, rule_format, of "addr A Seed_State"]
    assms(2) [unfolded ledger_typed_def, rule_format, of "addr A (Seed_Escrow rid)"]
    assms(2) [unfolded ledger_typed_def, rule_format, of "addr A (Seed_Node k)"]
    assms(2) [unfolded ledger_typed_def, rule_format, of "addr A (Seed_Score k)"]
  by (auto elim!: account_fitsE simp: addr_eq [OF assms(1)])

lemma typed_put:
  "ledger_typed A L \<Longrightarrow> account_fits s (snd (pda_find A s)) a \<Longrightarrow> ledger_typed A (put_account (addr A s) a L)"
  by (auto simp: ledger_typed_def put_account_def)

lemma typed_frame [simp]:
  "ledger_typed A (log_event e L) \<longleftrightarrow> ledger_typed A L"
  "ledger_typed A (L\<lparr>lg_lamports := lam\<rparr>) \<longleftrightarrow> ledger_typed A L"
  by (simp_all add: ledger_typed_def log_event_def)

section \<open>The chain a ledger stands for\<close>

lemma chain_of_frame [simp]:
  "chain_of A (log_event e L) = emit e (chain_of A L)"
  "chain_of A (L\<lparr>lg_lamports := lam\<rparr>) = chain_of A L\<lparr>cs_lamports := lam\<rparr>"
  "cs_lamports (chain_of A L) = lg_lamports L"
  by (simp_all add: chain_of_def log_event_def emit_def)

lemma chain_of_put:
  assumes "pda_lawful A R"
  shows "chain_of A (put_account (addr A Seed_State) (Acc_State ps) L) = chain_of A L\<lparr>cs_program := Some ps\<rparr>"
    "chain_of A (put_account (addr A (Seed_Escrow rid)) (Acc_Escrow e) L) =
       chain_of A L\<lparr>cs_escrows := (cs_escrows (chain_of A L))(rid \<mapsto> e)\<rparr>"
    "chain_of A (put_account (addr A (Seed_Node k)) (Acc_Node r) L) =
       chain_of A L\<lparr>cs_nodes := (cs_nodes (chain_of A L))(k \<mapsto> r)\<rparr>"
    "chain_of A (put_account (addr A (Seed_Score k)) (Acc_Score n) L) =
       chain_of A L\<lparr>cs_scores := (cs_scores (chain_of A L))(k \<mapsto> n)\<rparr>"
  by (auto simp: chain_of_def put_account_def addr_eq [OF assms] fun_eq_iff)

lemma chain_of_lookup:
  "lg_account L (addr A Seed_State) = Acc_State ps \<Longrightarrow> cs_program (chain_of A L) = Some ps"
  "lg_account L (addr A (Seed_Escrow rid)) = Acc_Escrow e \<Longrightarrow> cs_escrows (chain_of A L) rid = Some e"
  "lg_account L (addr A (Seed_Node k)) = Acc_Node r \<Longrightarrow> cs_nodes (chain_of A L) k = Some r"
  "lg_account L (addr A (Seed_Score k)) = Acc_Score n \<Longrightarrow> cs_scores (chain_of A L) k = Some n"
  by (simp_all add: chain_of_def)

lemma chain_of_foreign:
  "lg_account L (addr A Seed_State) = Foreign \<Longrightarrow> cs_program (chain_of A L) = None"
  "lg_account L (addr A (Seed_Escrow rid)) = Foreign \<Longrightarrow> cs_escrows (chain_of A L) rid = None"
  "lg_account L (addr A (Seed_Node k)) = Foreign \<Longrightarrow> cs_nodes (chain_of A L) k = None"
  "lg_account L (addr A (Seed_Score k)) = Foreign \<Longrightarrow> cs_scores (chain_of A L) k = None"
  by (simp_all add: chain_of_def)

text \<open>What the checks establish.\<close>

fun_cases as_stateE: "as_state a = Inr ps"
fun_cases as_escrowE: "as_escrow a = Inr e"
fun_cases as_nodeE: "as_node a = Inr r"
fun_cases as_scoreE: "as_score a = Inr n"

lemma as_Inr [simp]:
  "as_state a = Inr ps \<longleftrightarrow> a = Acc_State ps" "as_escrow a = Inr e \<longleftrightarrow> a = Acc_Escrow e"
  "as_node a = Inr r \<longleftrightarrow> a = Acc_Node r" "as_score a = Inr n \<longleftrightarrow> a = Acc_Score n"
  by (auto elim: as_stateE as_escrowE as_nodeE as_scoreE)

lemma init_account_Inr:
  "init_account A R s len key payer L = Inr (b, lam) \<longleftrightarrow>
     key = addr A s \<and> lg_account L key = Foreign \<and> b = snd (pda_find A s) \<and>
     rt_create R (seed_kind s) (seed_bytes s) len payer (lg_lamports L) = Some lam"
  by (auto simp: init_account_def split: option.splits)

lemma state_account_Inr:
  "state_account A key L = Inr ps \<longleftrightarrow>
     lg_account L key = Acc_State ps \<and> pda_create A Seed_State (ps_bump ps) = Some key"
  by (auto simp: state_account_def split: sum.splits)

lemma release_accounts_Inr:
  "release_accounts A ek sk n L = Inr (e, ps) \<longleftrightarrow>
     lg_account L ek = Acc_Escrow e \<and> pda_create A (Seed_Escrow (ea_request_id e)) (ea_bump e) = Some ek \<and>
     ea_node e = n \<and> state_account A sk L = Inr ps"
  by (auto simp: release_accounts_def split: sum.splits)

lemma refund_accounts_Inr:
  "refund_accounts A ek c L = Inr e \<longleftrightarrow>
     lg_account L ek = Acc_Escrow e \<and> pda_create A (Seed_Escrow (ea_request_id e)) (ea_bump e) = Some ek \<and>
     ea_client e = c"
  by (auto simp: refund_accounts_def split: sum.splits)

lemma update_accounts_Inr:
  "update_accounts A rk a L = Inr r \<longleftrightarrow>
     lg_account L rk = Acc_Node r \<and> pda_create A (Seed_Node (nr_node_pubkey r)) (nr_bump r) = Some rk \<and>
     nr_authority r = a"
  by (auto simp: update_accounts_def split: sum.splits)

lemma score_accounts_Inr:
  "score_accounts A ck a L = Inr n \<longleftrightarrow>
     lg_account L ck = Acc_Score n \<and> pda_create A (Seed_Score (sr_node_pubkey n)) (sr_bump n) = Some ck \<and>
     sr_authority n = a"
  by (auto simp: score_accounts_def split: sum.splits)

lemma lock_accounts_Inr:
  "lock_accounts A R rid ek sk c L = Inr (b, lam, ps) \<longleftrightarrow>
     init_account A R (Seed_Escrow rid) escrow_account_len ek c L = Inr (b, lam) \<and> state_account A sk L = Inr ps"
  by (auto simp: lock_accounts_def split: sum.splits)

lemma register_accounts_Inr:
  "register_accounts A R k rk sk a L = Inr (b, lam, ps) \<longleftrightarrow>
     init_account A R (Seed_Node k) node_registration_len rk a L = Inr (b, lam) \<and> state_account A sk L = Inr ps"
  by (auto simp: register_accounts_def split: sum.splits)

lemmas accounts_Inr = init_account_Inr state_account_Inr release_accounts_Inr refund_accounts_Inr
  update_accounts_Inr score_accounts_Inr lock_accounts_Inr register_accounts_Inr


section \<open>Every instruction is the one of the chain\<close>

lemma sim_initialize:
  assumes A: "pda_lawful A R" "ledger_typed A L" and x: "acc_initialize A R sk a t L = Inr L'"
  shows "sol_initialize R a t (chain_of A L) = Inr (chain_of A L') \<and> ledger_typed A L'"
proof -
  obtain b lam where i: "init_account A R Seed_State program_state_len sk a L = Inr (b, lam)"
    and L': "L' = put_account sk (Acc_State
            \<lparr>ps_admin = a, ps_total_nodes_registered = 0, ps_total_jobs_completed = 0,
             ps_total_volume_lamports = 0, ps_escrow_timeout_secs = t, ps_bump = b\<rparr>)
            (L\<lparr>lg_lamports := lam\<rparr>)"
    using x by (auto simp: acc_initialize_def initialize_accounts_def split: sum.splits)
  then have sk: "sk = addr A Seed_State" "b = snd (pda_find A Seed_State)"
    "lg_account L (addr A Seed_State) = Foreign"
    "rt_create R ''state'' [] program_state_len a (lg_lamports L) = Some lam"
    by (auto simp: accounts_Inr)
  have "cs_program (chain_of A L) = None"
    using sk(3) by (rule chain_of_foreign)
  then show ?thesis
    using sk A unfolding L'
    by (simp add: sol_initialize_def chain_of_put [OF A(1)] rt_bump_find [OF A(1)] typed_put)
qed

lemma sim_lock:
  assumes A: "pda_lawful A R" "ledger_typed A L"
    and x: "acc_lock A R now ek sk c n rid amt t L = Inr L'"
  shows "lock_escrow R now c n rid amt t (chain_of A L) = Inr (chain_of A L') \<and> ledger_typed A L'"
proof -
  obtain b lam1 ps where a: "lock_accounts A R rid ek sk c L = Inr (b, lam1, ps)"
    using x by (auto simp: acc_lock_def split: sum.splits)
  then have ek: "ek = addr A (Seed_Escrow rid)" "b = snd (pda_find A (Seed_Escrow rid))"
    "lg_account L (addr A (Seed_Escrow rid)) = Foreign"
    "rt_create R ''escrow'' rid escrow_account_len c (lg_lamports L) = Some lam1"
    and sk: "lg_account L sk = Acc_State ps"
    by (auto simp: accounts_Inr)
  have none: "cs_escrows (chain_of A L) rid = None" and prog: "cs_program (chain_of A L) = Some ps"
    using ek(3) sk typed_loads(1) [OF A(2) sk] by (simp_all add: chain_of_foreign chain_of_lookup)
  define T where "T = (if 0 <s t then t else ps_escrow_timeout_secs ps)"
  define e where "e = \<lparr>ea_client = c, ea_node = n, ea_amount_lamports = amt, ea_request_id = rid,
     ea_state = Locked, ea_created_at = now, ea_expires_at = now + T, ea_proof_hash = replicate 32 0, ea_bump = b\<rparr>"
  obtain lam2 where t: "rt_transfer R c ek amt lam1 = Some lam2"
    and L': "L' = log_event (EscrowLocked rid c n amt (now + T)) (put_account ek (Acc_Escrow e) (L\<lparr>lg_lamports := lam2\<rparr>))"
    using x a by (auto simp: acc_lock_def e_def T_def Let_def split: option.splits)
  have "account_fits (Seed_Escrow rid) (snd (pda_find A (Seed_Escrow rid))) (Acc_Escrow e)"
    by (simp add: e_def ek(2))
  then have "ledger_typed A L'"
    using A(2) typed_put unfolding L' ek(1) typed_frame(1) by (metis typed_frame(2))
  moreover have "chain_of A L' = emit (EscrowLocked rid c n amt (now + T)) (chain_of A L\<lparr>cs_lamports := lam2,
      cs_escrows := (cs_escrows (chain_of A L))(rid \<mapsto> e)\<rparr>)"
    by (simp add: L' ek(1) chain_of_put [OF A(1)])
  moreover have "rt_transfer R c (rt_escrow_address R rid) amt lam1 = Some lam2"
    using t by (simp add: rt_bump_find [OF A(1)] ek(1))
  ultimately show ?thesis
    using none prog ek(4)
    by (simp add: lock_escrow_def rt_bump_find(2) [OF A(1)] ek(2) e_def T_def Let_def)
qed

lemma sim_release:
  assumes A: "pda_lawful A R" "ledger_typed A L" and x: "acc_release A now ek sk n h L = Inr L'"
  shows "\<exists>rid. ek = addr A (Seed_Escrow rid) \<and>
    release_escrow R now n rid h (chain_of A L) = Inr (chain_of A L') \<and> ledger_typed A L'"
proof -
  obtain e ps where a: "release_accounts A ek sk n L = Inr (e, ps)"
    using x by (auto simp: acc_release_def split: sum.splits)
  let ?rid = "ea_request_id e"
  have e: "lg_account L ek = Acc_Escrow e" "ea_node e = n" and ps: "lg_account L sk = Acc_State ps"
    using a by (simp_all add: accounts_Inr)
  have ek: "ek = addr A (Seed_Escrow ?rid)" and sk: "sk = addr A Seed_State"
    using typed_loads [OF A(2)] e(1) ps by blast+
  have at_ek: "lg_account L (addr A (Seed_Escrow ?rid)) = Acc_Escrow e"
    and at_sk: "lg_account L (addr A Seed_State) = Acc_State ps"
    using e(1) ps ek sk by metis+
  note look = chain_of_lookup(2) [OF at_ek] chain_of_lookup(1) [OF at_sk]
  define ps' where "ps' = ps\<lparr>ps_total_jobs_completed := sat_add (ps_total_jobs_completed ps) 1,
    ps_total_volume_lamports := sat_add (ps_total_volume_lamports ps) (ea_amount_lamports e)\<rparr>"
  define e' where "e' = e\<lparr>ea_state := Released, ea_proof_hash := h\<rparr>"
  obtain lam where s: "ea_state e = Locked" "now \<le>s ea_expires_at e"
    "move_lamports ek n (ea_amount_lamports e) (lg_lamports L) = Some lam"
    and L': "L' = log_event (EscrowReleased ?rid n (ea_amount_lamports e) h)
      (put_account sk (Acc_State ps') (put_account ek (Acc_Escrow e') (L\<lparr>lg_lamports := lam\<rparr>)))"
    using x a by (auto simp: acc_release_def Let_def ps'_def e'_def split: if_splits option.splits)
  have L2: "L' = log_event (EscrowReleased ?rid n (ea_amount_lamports e) h)
      (put_account (addr A Seed_State) (Acc_State ps')
        (put_account (addr A (Seed_Escrow ?rid)) (Acc_Escrow e') (L\<lparr>lg_lamports := lam\<rparr>)))"
    using L' ek sk by metis
  have "account_fits (Seed_Escrow ?rid) (snd (pda_find A (Seed_Escrow ?rid))) (Acc_Escrow e')"
    "account_fits Seed_State (snd (pda_find A Seed_State)) (Acc_State ps')"
    using typed_bumps(2) [OF A at_ek] typed_bumps(1) [OF A at_sk] by (simp_all add: e'_def ps'_def)
  then have "ledger_typed A L'"
    unfolding L2 typed_frame by (intro typed_put) (simp_all add: A(2))
  moreover have "chain_of A L' = emit (EscrowReleased ?rid n (ea_amount_lamports e) h)
      (chain_of A L\<lparr>cs_lamports := lam, cs_escrows := (cs_escrows (chain_of A L))(?rid \<mapsto> e'), cs_program := Some ps'\<rparr>)"
    unfolding L2 by (simp only: chain_of_put [OF A(1)] chain_of_frame) simp
  moreover have "move_lamports (rt_escrow_address R ?rid) n (ea_amount_lamports e) (lg_lamports L) = Some lam"
    using s(3) ek by (simp add: rt_bump_find [OF A(1)])
  ultimately show ?thesis
    using look s(1,2) e(2) ek
    by (intro exI [of _ ?rid]) (simp add: release_escrow_def e'_def ps'_def Let_def)
qed

lemma sim_refund:
  assumes A: "pda_lawful A R" "ledger_typed A L" and x: "acc_refund A now ek c L = Inr L'"
  shows "\<exists>rid. ek = addr A (Seed_Escrow rid) \<and>
    refund_escrow R now c rid (chain_of A L) = Inr (chain_of A L') \<and> ledger_typed A L'"
proof -
  obtain e where a: "refund_accounts A ek c L = Inr e"
    using x by (auto simp: acc_refund_def split: sum.splits)
  let ?rid = "ea_request_id e"
  have e: "lg_account L ek = Acc_Escrow e" "ea_client e = c"
    using a by (simp_all add: accounts_Inr)
  have ek: "ek = addr A (Seed_Escrow ?rid)"
    using typed_loads [OF A(2)] e(1) by blast
  have at_ek: "lg_account L (addr A (Seed_Escrow ?rid)) = Acc_Escrow e"
    using e(1) ek by metis
  note look = chain_of_lookup(2) [OF at_ek]
  define e' where "e' = e\<lparr>ea_state := Refunded\<rparr>"
  obtain lam where s: "ea_state e = Locked" "ea_expires_at e <s now"
    "move_lamports ek c (ea_amount_lamports e) (lg_lamports L) = Some lam"
    and L': "L' = log_event (EscrowRefunded ?rid c (ea_amount_lamports e))
      (put_account ek (Acc_Escrow e') (L\<lparr>lg_lamports := lam\<rparr>))"
    using x a by (auto simp: acc_refund_def Let_def e'_def split: if_splits option.splits)
  have L2: "L' = log_event (EscrowRefunded ?rid c (ea_amount_lamports e))
      (put_account (addr A (Seed_Escrow ?rid)) (Acc_Escrow e') (L\<lparr>lg_lamports := lam\<rparr>))"
    using L' ek by metis
  have "account_fits (Seed_Escrow ?rid) (snd (pda_find A (Seed_Escrow ?rid))) (Acc_Escrow e')"
    using typed_bumps(2) [OF A at_ek] by (simp add: e'_def)
  then have "ledger_typed A L'"
    unfolding L2 typed_frame by (intro typed_put) (simp_all add: A(2))
  moreover have "chain_of A L' = emit (EscrowRefunded ?rid c (ea_amount_lamports e))
      (chain_of A L\<lparr>cs_lamports := lam, cs_escrows := (cs_escrows (chain_of A L))(?rid \<mapsto> e')\<rparr>)"
    unfolding L2 by (simp only: chain_of_put [OF A(1)] chain_of_frame) simp
  moreover have "move_lamports (rt_escrow_address R ?rid) c (ea_amount_lamports e) (lg_lamports L) = Some lam"
    using s(3) ek by (simp add: rt_bump_find [OF A(1)])
  ultimately show ?thesis
    using look s(1,2) e(2) ek
    by (intro exI [of _ ?rid]) (simp add: refund_escrow_def e'_def Let_def)
qed


lemma sim_register:
  assumes A: "pda_lawful A R" "ledger_typed A L"
    and x: "acc_register A R now rk sk a k ms g p L = Inr L'"
  shows "register_node R now a k ms g p (chain_of A L) = Inr (chain_of A L') \<and> ledger_typed A L'"
proof -
  obtain b lam ps where r: "register_accounts A R k rk sk a L = Inr (b, lam, ps)"
    using x by (auto simp: acc_register_def split: sum.splits)
  then have rk: "rk = addr A (Seed_Node k)" "b = snd (pda_find A (Seed_Node k))"
    "lg_account L (addr A (Seed_Node k)) = Foreign"
    "rt_create R ''node'' k node_registration_len a (lg_lamports L) = Some lam"
    and ps: "lg_account L sk = Acc_State ps"
    by (auto simp: accounts_Inr)
  have sk: "sk = addr A Seed_State" and at_sk: "lg_account L (addr A Seed_State) = Acc_State ps"
    using typed_loads(1) [OF A(2) ps] ps by simp_all
  define reg where "reg = \<lparr>nr_authority = a, nr_node_pubkey = k, nr_model_hashes = ms, nr_gpu_vram_mb = g,
    nr_price_per_1k_lamports = p, nr_registered_at = now, nr_active = True, nr_bump = b\<rparr>"
  define ps' where "ps' = ps\<lparr>ps_total_nodes_registered := sat_add (ps_total_nodes_registered ps) 1\<rparr>"
  have len: "length ms \<le> max_models"
    and L': "L' = log_event (NodeRegistered a k g p) (put_account (addr A Seed_State) (Acc_State ps')
      (put_account (addr A (Seed_Node k)) (Acc_Node reg) (L\<lparr>lg_lamports := lam\<rparr>)))"
    using x r sk rk(1) by (auto simp: acc_register_def reg_def ps'_def split: if_splits)
  have "account_fits (Seed_Node k) (snd (pda_find A (Seed_Node k))) (Acc_Node reg)"
    "account_fits Seed_State (snd (pda_find A Seed_State)) (Acc_State ps')"
    using typed_bumps(1) [OF A at_sk] by (simp_all add: reg_def ps'_def rk(2))
  then have "ledger_typed A L'"
    unfolding L' typed_frame by (intro typed_put) (simp_all add: A(2))
  moreover have "chain_of A L' = emit (NodeRegistered a k g p) (chain_of A L\<lparr>cs_lamports := lam,
      cs_nodes := (cs_nodes (chain_of A L))(k \<mapsto> reg), cs_program := Some ps'\<rparr>)"
    unfolding L' by (simp only: chain_of_put [OF A(1)] chain_of_frame) simp
  ultimately show ?thesis
    using len rk(4) chain_of_foreign(3) [OF rk(3)] chain_of_lookup(1) [OF at_sk]
    by (simp add: register_node_def rt_bump_find(3) [OF A(1)] reg_def ps'_def rk(2))
qed

lemma sim_update:
  assumes A: "pda_lawful A R" "ledger_typed A L" and x: "acc_update A rk a ms g p act L = Inr L'"
  shows "\<exists>k. rk = addr A (Seed_Node k) \<and>
    update_node a k ms g p act (chain_of A L) = Inr (chain_of A L') \<and> ledger_typed A L'"
proof -
  obtain r where r: "update_accounts A rk a L = Inr r"
    using x by (auto simp: acc_update_def split: sum.splits)
  let ?k = "nr_node_pubkey r"
  have a: "lg_account L rk = Acc_Node r" "nr_authority r = a"
    using r by (simp_all add: accounts_Inr)
  have rk: "rk = addr A (Seed_Node ?k)"
    using typed_loads [OF A(2)] a(1) by blast
  have at_rk: "lg_account L (addr A (Seed_Node ?k)) = Acc_Node r"
    using a(1) rk by metis
  define r' where "r' = r\<lparr>nr_model_hashes := ms, nr_gpu_vram_mb := g, nr_price_per_1k_lamports := p, nr_active := act\<rparr>"
  have len: "length ms \<le> max_models"
    and L': "L' = log_event (NodeUpdated ?k g p act) (put_account rk (Acc_Node r') L)"
    using x r by (auto simp: acc_update_def r'_def split: if_splits)
  have L2: "L' = log_event (NodeUpdated ?k g p act) (put_account (addr A (Seed_Node ?k)) (Acc_Node r') L)"
    using L' rk by metis
  have "account_fits (Seed_Node ?k) (snd (pda_find A (Seed_Node ?k))) (Acc_Node r')"
    using typed_bumps(3) [OF A at_rk] by (simp add: r'_def)
  then have "ledger_typed A L'"
    unfolding L2 typed_frame by (intro typed_put) (simp_all add: A(2))
  moreover have "chain_of A L' = emit (NodeUpdated ?k g p act)
      (chain_of A L\<lparr>cs_nodes := (cs_nodes (chain_of A L))(?k \<mapsto> r')\<rparr>)"
    unfolding L2 by (simp only: chain_of_put [OF A(1)] chain_of_frame)
  ultimately show ?thesis
    using len a(2) rk chain_of_lookup(3) [OF at_rk]
    by (intro exI [of _ ?k]) (simp add: update_node_def r'_def)
qed

lemma sim_init_score:
  assumes A: "pda_lawful A R" "ledger_typed A L" and x: "acc_init_score A R now ck a k L = Inr L'"
  shows "initialize_score R now a k (chain_of A L) = Inr (chain_of A L') \<and> ledger_typed A L'"
proof -
  obtain b lam where i: "init_account A R (Seed_Score k) node_score_len ck a L = Inr (b, lam)"
    using x by (auto simp: acc_init_score_def init_score_accounts_def split: sum.splits)
  then have ck: "ck = addr A (Seed_Score k)" "b = snd (pda_find A (Seed_Score k))"
    "lg_account L (addr A (Seed_Score k)) = Foreign"
    "rt_create R ''score'' k node_score_len a (lg_lamports L) = Some lam"
    by (auto simp: accounts_Inr)
  define n where "n = \<lparr>sr_node_pubkey = k, sr_authority = a,
    sr_merkle_root = replicate 32 0, sr_merkle_root_label = replicate 32 0,
    sr_total_jobs = 0, sr_total_tokens_earned = 0, sr_total_lamports_earned = 0,
    sr_success_rate_bps = 10000, sr_avg_latency_ms = 0, sr_score = 0,
    sr_last_updated = now, sr_bump = b\<rparr>"
  have L': "L' = log_event (ScoreInitialized k a) (put_account (addr A (Seed_Score k)) (Acc_Score n) (L\<lparr>lg_lamports := lam\<rparr>))"
    using x i ck(1) by (simp add: acc_init_score_def init_score_accounts_def n_def)
  have "account_fits (Seed_Score k) (snd (pda_find A (Seed_Score k))) (Acc_Score n)"
    by (simp add: n_def ck(2))
  then have "ledger_typed A L'"
    unfolding L' typed_frame by (intro typed_put) (simp_all add: A(2))
  moreover have "chain_of A L' = emit (ScoreInitialized k a)
      (chain_of A L\<lparr>cs_lamports := lam, cs_scores := (cs_scores (chain_of A L))(k \<mapsto> n)\<rparr>)"
    unfolding L' by (simp only: chain_of_put [OF A(1)] chain_of_frame) simp
  ultimately show ?thesis
    using ck(4) chain_of_foreign(4) [OF ck(3)]
    by (simp add: initialize_score_def rt_bump_find(4) [OF A(1)] n_def ck(2))
qed

text \<open>The two instructions that change a score, by what they write into it.\<close>

lemma score_put:
  assumes A: "pda_lawful A R" "ledger_typed A L" and s: "score_accounts A ck a L = Inr n"
    and n': "sr_node_pubkey n' = sr_node_pubkey n" "sr_bump n' = sr_bump n"
    and L': "L' = log_event ev (put_account ck (Acc_Score n') L)"
  shows "\<exists>k. ck = addr A (Seed_Score k) \<and> sr_authority n = a \<and> cs_scores (chain_of A L) k = Some n \<and>
    chain_of A L' = emit ev (chain_of A L\<lparr>cs_scores := (cs_scores (chain_of A L))(k \<mapsto> n')\<rparr>) \<and> ledger_typed A L'"
proof -
  let ?k = "sr_node_pubkey n"
  have a: "lg_account L ck = Acc_Score n" "sr_authority n = a"
    using s by (simp_all add: accounts_Inr)
  have ck: "ck = addr A (Seed_Score ?k)"
    using typed_loads [OF A(2)] a(1) by blast
  have at_ck: "lg_account L (addr A (Seed_Score ?k)) = Acc_Score n"
    using a(1) ck by metis
  have L2: "L' = log_event ev (put_account (addr A (Seed_Score ?k)) (Acc_Score n') L)"
    using L' ck by metis
  have "account_fits (Seed_Score ?k) (snd (pda_find A (Seed_Score ?k))) (Acc_Score n')"
    using typed_bumps(4) [OF A at_ck] n' by simp
  then have "ledger_typed A L'"
    unfolding L2 typed_frame by (intro typed_put) (simp_all add: A(2))
  moreover have "chain_of A L' = emit ev (chain_of A L\<lparr>cs_scores := (cs_scores (chain_of A L))(?k \<mapsto> n')\<rparr>)"
    unfolding L2 by (simp only: chain_of_put [OF A(1)] chain_of_frame)
  ultimately show ?thesis
    using a(2) ck chain_of_lookup(4) [OF at_ck] by (intro exI [of _ ?k]) simp
qed

lemma recompute_score_frame [simp]:
  "sr_node_pubkey (recompute_score n) = sr_node_pubkey n" "sr_bump (recompute_score n) = sr_bump n"
  by (simp_all add: recompute_score_def Let_def)

lemma sim_submit:
  assumes A: "pda_lawful A R" "ledger_typed A L" and x: "acc_submit A now ck a h tok l e L = Inr L'"
  shows "\<exists>k. ck = addr A (Seed_Score k) \<and>
    submit_proof now a k h tok l e (chain_of A L) = Inr (chain_of A L') \<and> ledger_typed A L'"
proof -
  obtain n where s: "score_accounts A ck a L = Inr n"
    using x by (auto simp: acc_submit_def split: sum.splits)
  define n' where "n' = (recompute_score (submitted n tok l e))\<lparr>sr_last_updated := now\<rparr>"
  have h: "h \<noteq> replicate 32 0"
    and L': "L' = log_event (ProofSubmitted (sr_node_pubkey n') h tok l e (sr_score n') (sr_total_jobs n'))
      (put_account ck (Acc_Score n') L)"
    using x s by (auto simp: acc_submit_def n'_def submitted_def Let_def split: if_splits)
  have "sr_node_pubkey n' = sr_node_pubkey n" "sr_bump n' = sr_bump n"
    by (simp_all add: n'_def submitted_def)
  from score_put [OF A s this L'] h show ?thesis
    by (auto simp: submit_proof_def Let_def n'_def submitted_def)
qed

lemma sim_anchor:
  assumes A: "pda_lawful A R" "ledger_typed A L" and x: "acc_anchor A now ck a m l L = Inr L'"
  shows "\<exists>k. ck = addr A (Seed_Score k) \<and>
    anchor_merkle_root now a k m l (chain_of A L) = Inr (chain_of A L') \<and> ledger_typed A L'"
proof -
  obtain n where s: "score_accounts A ck a L = Inr n"
    using x by (auto simp: acc_anchor_def split: sum.splits)
  define n' where "n' = n\<lparr>sr_merkle_root := m, sr_merkle_root_label := l, sr_last_updated := now\<rparr>"
  have L': "L' = log_event (MerkleRootAnchored (sr_node_pubkey n) m l now) (put_account ck (Acc_Score n') L)"
    using x s by (simp add: acc_anchor_def n'_def)
  have "sr_node_pubkey n' = sr_node_pubkey n" "sr_bump n' = sr_bump n"
    by (simp_all add: n'_def)
  from score_put [OF A s this L'] show ?thesis
    by (auto simp: anchor_merkle_root_def n'_def)
qed

text \<open>All of them together: a step of the typed ledger is a step of the chain, and leaves it typed.\<close>

lemma ledger_step_sim:
  assumes "ledger_step A R L L'" "pda_lawful A R" "ledger_typed A L"
  shows "sol_step R (chain_of A L) (chain_of A L') \<and> ledger_typed A L'"
  using assms(1)
proof (cases rule: ledger_step.cases)
  case (initialize a sk t)
  then show ?thesis
    using sim_initialize [OF assms(2,3)] by (blast intro: sol_step.initialize)
next
  case (lock c now ek sk n rid amt t)
  then show ?thesis
    using sim_lock [OF assms(2,3)] by (blast intro: sol_step.lock)
next
  case (release n now ek sk h)
  then show ?thesis
    using sim_release [OF assms(2,3)] by (blast intro: sol_step.release)
next
  case (refund c now ek)
  then show ?thesis
    using sim_refund [OF assms(2,3)] by (blast intro: sol_step.refund)
next
  case (register a now rk sk k ms g p)
  then show ?thesis
    using sim_register [OF assms(2,3)] by (blast intro: sol_step.register)
next
  case (update a rk ms g p act)
  then show ?thesis
    using sim_update [OF assms(2,3)] by (blast intro: sol_step.update)
next
  case (init_score a now ck k)
  then show ?thesis
    using sim_init_score [OF assms(2,3)] by (blast intro: sol_step.init_score)
next
  case (submit a now ck h o' l e)
  then show ?thesis
    using sim_submit [OF assms(2,3)] by (blast intro: sol_step.submit)
next
  case (anchor a now ck m l)
  then show ?thesis
    using sim_anchor [OF assms(2,3)] by (blast intro: sol_step.anchor)
next
  case (outside lam)
  then show ?thesis
    using assms(3) sol_step.outside [of "chain_of A L" R lam] by simp
qed

lemma chain_of_empty: "chain_of A (ledger_empty lam) = chain_empty lam"
  by (simp add: chain_of_def ledger_empty_def chain_empty_def)

lemma reachable_typed:
  assumes "ledger_reachable A R L" "pda_lawful A R"
  shows "ledger_typed A L \<and> sol_reachable R (chain_of A L)"
proof -
  obtain lam where "(ledger_step A R)\<^sup>*\<^sup>* (ledger_empty lam) L"
    using assms(1) by (auto simp: ledger_reachable_def)
  then have "ledger_typed A L \<and> (sol_step R)\<^sup>*\<^sup>* (chain_empty lam) (chain_of A L)"
  proof (induction rule: rtranclp_induct)
    case base
    show ?case
      by (simp add: chain_of_empty) (simp add: ledger_typed_def ledger_empty_def)
  next
    case (step L1 L2)
    then show ?case
      using ledger_step_sim [OF step(2) assms(2)] by (meson rtranclp.rtrancl_into_rtrancl)
  qed
  then show ?thesis
    by (auto simp: sol_reachable_def)
qed


text \<open>And conversely for the payouts: what the chain allows, the derived accounts get through.\<close>

lemma complete_release:
  assumes A: "pda_lawful A R" "ledger_typed A L"
    and x: "release_escrow R now n rid h (chain_of A L) = Inr s'"
  shows "\<exists>L'. acc_release A now (addr A (Seed_Escrow rid)) (addr A Seed_State) n h L = Inr L' \<and> chain_of A L' = s'"
proof -
  let ?ek = "addr A (Seed_Escrow rid)" and ?sk = "addr A Seed_State"
  obtain e ps lam where e: "cs_escrows (chain_of A L) rid = Some e" "cs_program (chain_of A L) = Some ps"
    "ea_node e = n" "ea_state e = Locked" "now \<le>s ea_expires_at e"
    "move_lamports ?ek n (ea_amount_lamports e) (lg_lamports L) = Some lam"
    using x by (auto simp: release_escrow_def rt_bump_find [OF A(1)] Let_def split: if_splits option.splits)
  have at_ek: "lg_account L ?ek = Acc_Escrow e" and at_sk: "lg_account L ?sk = Acc_State ps"
    using e(1,2) by (auto simp: chain_of_def split: account.splits)
  have "release_accounts A ?ek ?sk n L = Inr (e, ps)"
    using at_ek at_sk e(3) typed_bumps(2) [OF A at_ek] typed_bumps(1) [OF A at_sk]
    by (simp add: accounts_Inr pda_canonical [OF A(1)])
  then obtain L' where L': "acc_release A now ?ek ?sk n h L = Inr L'"
    using e(4-6) by (simp add: acc_release_def Let_def)
  from sim_release [OF A this] obtain rid' where "?ek = addr A (Seed_Escrow rid')"
    "release_escrow R now n rid' h (chain_of A L) = Inr (chain_of A L')"
    by blast
  with x L' show ?thesis
    by (simp add: addr_eq [OF A(1)])
qed

lemma complete_refund:
  assumes A: "pda_lawful A R" "ledger_typed A L"
    and x: "refund_escrow R now c rid (chain_of A L) = Inr s'"
  shows "\<exists>L'. acc_refund A now (addr A (Seed_Escrow rid)) c L = Inr L' \<and> chain_of A L' = s'"
proof -
  let ?ek = "addr A (Seed_Escrow rid)"
  obtain e lam where e: "cs_escrows (chain_of A L) rid = Some e"
    "ea_client e = c" "ea_state e = Locked" "ea_expires_at e <s now"
    "move_lamports ?ek c (ea_amount_lamports e) (lg_lamports L) = Some lam"
    using x by (auto simp: refund_escrow_def rt_bump_find [OF A(1)] Let_def split: if_splits option.splits)
  have at_ek: "lg_account L ?ek = Acc_Escrow e"
    using e(1) by (auto simp: chain_of_def split: account.splits)
  have "refund_accounts A ?ek c L = Inr e"
    using at_ek e(2) typed_bumps(2) [OF A at_ek] by (simp add: accounts_Inr pda_canonical [OF A(1)])
  then obtain L' where L': "acc_refund A now ?ek c L = Inr L'"
    using e(3-5) by (simp add: acc_refund_def Let_def)
  from sim_refund [OF A this] obtain rid' where "?ek = addr A (Seed_Escrow rid')"
    "refund_escrow R now c rid' (chain_of A L) = Inr (chain_of A L')"
    by blast
  with x L' show ?thesis
    by (simp add: addr_eq [OF A(1)])
qed

text \<open>An account of the program stays one.\<close>

lemma put_account_owned [simp]:
  "a \<noteq> Foreign \<Longrightarrow> lg_account L key \<noteq> Foreign \<Longrightarrow> lg_account (put_account k a L) key \<noteq> Foreign"
  "lg_account (log_event e L) = lg_account L"
  by (simp_all add: put_account_def log_event_def)

lemma owned_step: "ledger_step A R L L' \<Longrightarrow> lg_account L key \<noteq> Foreign \<Longrightarrow> lg_account L' key \<noteq> Foreign"
  by (induction rule: ledger_step.induct)
    (auto simp: acc_initialize_def acc_lock_def acc_release_def acc_refund_def acc_register_def acc_update_def
      acc_init_score_def acc_submit_def acc_anchor_def Let_def split: sum.splits option.splits if_splits)

lemma owned_steps: "(ledger_step A R)\<^sup>*\<^sup>* L L' \<Longrightarrow> lg_account L key \<noteq> Foreign \<Longrightarrow> lg_account L' key \<noteq> Foreign"
  by (induction rule: rtranclp_induct) (blast dest: owned_step)+

lemma reachable_steps:
  "ledger_reachable A R L \<Longrightarrow> (ledger_step A R)\<^sup>*\<^sup>* L L' \<Longrightarrow> ledger_reachable A R L'"
  unfolding ledger_reachable_def by (meson rtranclp_trans)

section \<open>An example ledger\<close>

text \<open>The addresses of \<open>toy_runtime\<close>, and the same setup as \<open>toy_chain\<close>: the program account, then an
  escrow of 500 from \<open>[0]\<close> for the node \<open>[0, 1]\<close>.\<close>

fun toy_find :: "seeds \<Rightarrow> pubkey" where
  "toy_find Seed_State = [2]"
| "toy_find (Seed_Escrow rid) = 1 # rid"
| "toy_find (Seed_Node k) = 3 # k"
| "toy_find (Seed_Score k) = 4 # k"

definition toy_pda :: pda_rules where
  "toy_pda = \<lparr>pda_find = \<lambda>s. (toy_find s, 255), pda_create = \<lambda>s b. if b = 255 then Some (toy_find s) else None\<rparr>"

lemma toy_find_inj: "toy_find s = toy_find s' \<Longrightarrow> s = s'"
  by (cases s; cases s') auto

lemma toy_pda_lawful: "pda_lawful toy_pda toy_runtime"
  by (auto simp: pda_lawful_def toy_pda_def toy_runtime_def dest: toy_find_inj split: if_splits)

definition toy_ledger :: ledger where
  "toy_ledger = (ledger_empty (\<lambda>k. 1000))\<lparr>lg_account := (\<lambda>k. Foreign)([2] := Acc_State toy_program)\<rparr>"

definition toy_locked_ledger :: ledger where
  "toy_locked_ledger = toy_ledger\<lparr>lg_account := (lg_account toy_ledger)([1, 7] := Acc_Escrow (toy_escrow 100)),
     lg_lamports := (\<lambda>k. 1000)([0] := 500, [1, 7] := 1500),
     lg_events := [EscrowLocked [7] [0] [0, 1] 500 110]\<rparr>"

lemma toy_ledger_setup:
  "acc_initialize toy_pda toy_runtime [2] [0, 2] 300 (ledger_empty (\<lambda>k. 1000)) = Inr toy_ledger"
  by (simp add: acc_initialize_def initialize_accounts_def init_account_def toy_pda_def toy_runtime_def
      ledger_empty_def toy_ledger_def put_account_def toy_program_def)

lemma toy_ledger_lock:
  "acc_lock toy_pda toy_runtime 10 [1, 7] [2] [0] [0, 1] [7] 500 100 toy_ledger = Inr toy_locked_ledger"
  by (simp add: acc_lock_def lock_accounts_def init_account_def state_account_def toy_pda_def toy_runtime_def
      ledger_empty_def toy_ledger_def toy_locked_ledger_def put_account_def log_event_def toy_program_def
      toy_escrow_def Let_def word_sless_alt)

lemma toy_ledger_reachable: "ledger_reachable toy_pda toy_runtime toy_locked_ledger"
proof -
  have "ledger_step toy_pda toy_runtime (ledger_empty (\<lambda>k. 1000)) toy_ledger"
    by (rule ledger_step.initialize [OF _ toy_ledger_setup]) simp
  moreover have "ledger_step toy_pda toy_runtime toy_ledger toy_locked_ledger"
    by (rule ledger_step.lock [OF _ toy_ledger_lock]) (simp add: can_sign_def toy_runtime_def image_iff)
  ultimately show ?thesis
    unfolding ledger_reachable_def by (meson rtranclp.simps)
qed

section \<open>Properties\<close>

text \<open>C37: accounts keep their type. In every reachable ledger each account of the program holds the
  type of exactly one tuple of seeds, sits at the canonical address of these seeds, carries their bump
  and the seeds' bytes in its own fields, and whatever instructions anybody sends afterwards, with
  whatever accounts, it keeps doing so.\<close>

theorem accounts_stay_typed:
  assumes "ledger_reachable A R L" "pda_lawful A R" "lg_account L key \<noteq> Foreign"
    and "(ledger_step A R)\<^sup>*\<^sup>* L L'"
  shows "\<exists>!s. fst (pda_find A s) = key \<and> account_fits s (snd (pda_find A s)) (lg_account L key) \<and>
    account_fits s (snd (pda_find A s)) (lg_account L' key)"
proof -
  obtain s where s: "addr A s = key" "account_fits s (snd (pda_find A s)) (lg_account L key)"
    using reachable_typed [OF assms(1,2)] assms(3) by (auto simp: ledger_typed_def)
  obtain s' where s': "addr A s' = key" "account_fits s' (snd (pda_find A s')) (lg_account L' key)"
    using reachable_typed [OF reachable_steps [OF assms(1,4)] assms(2)] owned_steps [OF assms(4,3)]
    by (auto simp: ledger_typed_def)
  have "s' = s"
    using s(1) s'(1) addr_eq [OF assms(2)] by metis
  with s s' show ?thesis
    using addr_eq [OF assms(2)] by (intro ex1I [of _ s]) auto
qed

theorem accounts_stay_typed_witness:
  "\<exists>s. fst (pda_find toy_pda s) = [1, 7] \<and> account_fits s 255 (lg_account toy_locked_ledger [1, 7])"
proof -
  have "lg_account toy_locked_ledger [1, 7] \<noteq> Foreign"
    by (simp add: toy_locked_ledger_def)
  from accounts_stay_typed [OF toy_ledger_reachable toy_pda_lawful this, OF rtranclp.rtrancl_refl]
  obtain s where "fst (pda_find toy_pda s) = [1, 7]"
    "account_fits s (snd (pda_find toy_pda s)) (lg_account toy_locked_ledger [1, 7])"
    by blast
  then show ?thesis
    by (auto simp: toy_pda_def)
qed

text \<open>C38: no account can be substituted. Instructions that get plain addresses implement the ones that
  look their accounts up by seeds: every reachable ledger stands for a reachable chain, an accepted
  instruction, on whatever accounts it was sent with, is a step of that chain, and a release or
  refund that the chain allows goes through with the derived accounts.\<close>

theorem ledger_refines_chain:
  assumes "ledger_reachable A R L" "pda_lawful A R"
  shows "sol_reachable R (chain_of A L) \<and>
    (ledger_step A R L L' \<longrightarrow> sol_step R (chain_of A L) (chain_of A L')) \<and>
    (acc_release A now ek sk n h L = Inr L' \<longrightarrow>
      (\<exists>rid. ek = fst (pda_find A (Seed_Escrow rid)) \<and>
         release_escrow R now n rid h (chain_of A L) = Inr (chain_of A L'))) \<and>
    (release_escrow R now n rid h (chain_of A L) = Inr s' \<longrightarrow>
      (\<exists>L'. acc_release A now (fst (pda_find A (Seed_Escrow rid))) (fst (pda_find A Seed_State)) n h L = Inr L' \<and>
         chain_of A L' = s')) \<and>
    (refund_escrow R now c rid (chain_of A L) = Inr s'' \<longrightarrow>
      (\<exists>L'. acc_refund A now (fst (pda_find A (Seed_Escrow rid))) c L = Inr L' \<and> chain_of A L' = s''))"
proof -
  have t: "ledger_typed A L" "sol_reachable R (chain_of A L)"
    using reachable_typed [OF assms] by simp_all
  show ?thesis
    using t(2) ledger_step_sim [OF _ assms(2) t(1)] sim_release [OF assms(2) t(1)]
      complete_release [OF assms(2) t(1)] complete_refund [OF assms(2) t(1)] by blast
qed

theorem ledger_refines_chain_witness:
  "\<exists>L' s'. release_escrow toy_runtime 20 [0, 1] [7] [9] (chain_of toy_pda toy_locked_ledger) = Inr s' \<and>
     acc_release toy_pda 20 [1, 7] [2] [0, 1] [9] toy_locked_ledger = Inr L' \<and> chain_of toy_pda L' = s'"
proof -
  have "chain_of toy_pda toy_locked_ledger = toy_chain 100"
    by (auto simp: chain_of_def toy_locked_ledger_def toy_ledger_def toy_chain_def toy_chain0_def chain_empty_def
        ledger_empty_def toy_pda_def)
  then obtain s' where "release_escrow toy_runtime 20 [0, 1] [7] [9] (chain_of toy_pda toy_locked_ledger) = Inr s'"
    by (simp add: release_escrow_def toy_chain_def toy_chain0_def toy_escrow_def toy_runtime_def
        move_lamports_def Let_def word_sle_eq)
  moreover from ledger_refines_chain [OF toy_ledger_reachable toy_pda_lawful] this
  have "\<exists>L'. acc_release toy_pda 20 (fst (pda_find toy_pda (Seed_Escrow [7]))) (fst (pda_find toy_pda Seed_State))
      [0, 1] [9] toy_locked_ledger = Inr L' \<and> chain_of toy_pda L' = s'"
    by blast
  ultimately show ?thesis
    by (auto simp: toy_pda_def)
qed

end
