(* ===== verification/Node_Metrics.thy ===== *)
theory Node_Metrics
  imports Node_Api P2p_Service "HOL-Library.AList"
begin

text \<open>The counters of \<^verbatim>\<open>crates/node/src/metrics.rs\<close>, how the handlers and the deadline watcher move
  them, and the health server of \<^verbatim>\<open>health.rs\<close> that shows them. The Prometheus library is a parameter:
  what it does with the families at a scrape, and their text format. A labelled counter has a value
  for a tuple of labels from the first use of that tuple on; its additions wrap.\<close>

section \<open>The counters\<close>

type_synonym counter_vec = "(string list \<times> u64) list"

text \<open>\<^verbatim>\<open>with_label_values(ls).inc_by(n)\<close>.\<close>

definition vec_inc_by :: "string list \<Rightarrow> u64 \<Rightarrow> counter_vec \<Rightarrow> counter_vec" where
  "vec_inc_by ls n v = AList.update ls ((case map_of v ls of None \<Rightarrow> 0 | Some c \<Rightarrow> c) + n) v"

definition vec_value :: "string list \<Rightarrow> counter_vec \<Rightarrow> u64" where
  "vec_value ls v = (case map_of v ls of None \<Rightarrow> 0 | Some c \<Rightarrow> c)"

text \<open>The histogram keeps what was observed, per endpoint, in order.\<close>

definition vec_observe :: "string list \<Rightarrow> u64 \<Rightarrow> (string list \<times> u64 list) list \<Rightarrow> (string list \<times> u64 list) list" where
  "vec_observe ls x v = AList.update ls ((case map_of v ls of None \<Rightarrow> [] | Some xs \<Rightarrow> xs) @ [x]) v"

record metrics =
  mt_requests :: counter_vec
  mt_latency_ms :: "(string list \<times> u64 list) list"
  mt_tokens :: counter_vec
  mt_concurrent :: i64
  mt_bids_served :: counter_vec
  mt_settlement_nanox :: u64
  mt_context_trims :: u64
  mt_replay_rejected :: u64
  mt_jobs :: counter_vec

definition metrics_new :: metrics where
  "metrics_new = \<lparr>mt_requests = [], mt_latency_ms = [], mt_tokens = [], mt_concurrent = 0, mt_bids_served = [],
     mt_settlement_nanox = 0, mt_context_trims = 0, mt_replay_rejected = 0, mt_jobs = []\<rparr>"

definition count_request :: "string \<Rightarrow> string \<Rightarrow> metrics \<Rightarrow> metrics" where
  "count_request endpoint status m = m\<lparr>mt_requests := vec_inc_by [endpoint, status] 1 (mt_requests m)\<rparr>"

definition count_job :: "string \<Rightarrow> metrics \<Rightarrow> metrics" where
  "count_job outcome m = m\<lparr>mt_jobs := vec_inc_by [outcome] 1 (mt_jobs m)\<rparr>"

definition count_tokens :: "string \<Rightarrow> u32 \<Rightarrow> metrics \<Rightarrow> metrics" where
  "count_tokens direction n m = m\<lparr>mt_tokens := vec_inc_by [direction] (ucast n) (mt_tokens m)\<rparr>"

definition gauge_inc :: "metrics \<Rightarrow> metrics" where
  "gauge_inc m = m\<lparr>mt_concurrent := mt_concurrent m + 1\<rparr>"

definition gauge_dec :: "metrics \<Rightarrow> metrics" where
  "gauge_dec m = m\<lparr>mt_concurrent := mt_concurrent m - 1\<rparr>"

section \<open>The families at a scrape\<close>

datatype family_kind = CounterKind | GaugeKind | HistogramKind "nat list"

record family =
  fam_name :: string
  fam_help :: string
  fam_kind :: family_kind
  fam_labels :: "string list"
  fam_samples :: "(string list \<times> u64 list) list"

definition counter_samples :: "counter_vec \<Rightarrow> (string list \<times> u64 list) list" where
  "counter_samples = map (\<lambda>(ls, c). (ls, [c]))"

definition requests_family :: "metrics \<Rightarrow> family" where
  "requests_family m = \<lparr>fam_name = ''deai_requests_total'',
     fam_help = ''Total inference requests by endpoint and status'', fam_kind = CounterKind,
     fam_labels = [''endpoint'', ''status''], fam_samples = counter_samples (mt_requests m)\<rparr>"

definition latency_family :: "metrics \<Rightarrow> family" where
  "latency_family m = \<lparr>fam_name = ''deai_inference_latency_ms'',
     fam_help = ''End-to-end inference latency in milliseconds'',
     fam_kind = HistogramKind [50, 100, 250, 500, 1000, 2000, 5000, 15000, 60000],
     fam_labels = [''endpoint''], fam_samples = mt_latency_ms m\<rparr>"

definition tokens_family :: "metrics \<Rightarrow> family" where
  "tokens_family m = \<lparr>fam_name = ''deai_tokens_total'',
     fam_help = ''Total tokens processed by the inference engine'', fam_kind = CounterKind,
     fam_labels = [''direction''], fam_samples = counter_samples (mt_tokens m)\<rparr>"

definition concurrent_family :: "metrics \<Rightarrow> family" where
  "concurrent_family m = \<lparr>fam_name = ''deai_concurrent_requests'',
     fam_help = ''Inference requests currently being processed'', fam_kind = GaugeKind,
     fam_labels = [], fam_samples = [([], [mt_concurrent m])]\<rparr>"

definition bids_family :: "metrics \<Rightarrow> family" where
  "bids_family m = \<lparr>fam_name = ''deai_marketplace_bids_total'',
     fam_help = ''Marketplace bids served to clients'', fam_kind = CounterKind,
     fam_labels = [''model''], fam_samples = counter_samples (mt_bids_served m)\<rparr>"

definition settlement_family :: "metrics \<Rightarrow> family" where
  "settlement_family m = \<lparr>fam_name = ''deai_settlement_volume_nanox_total'',
     fam_help = ''Cumulative settlement volume released in NanoX'', fam_kind = CounterKind,
     fam_labels = [], fam_samples = [([], [mt_settlement_nanox m])]\<rparr>"

definition trims_family :: "metrics \<Rightarrow> family" where
  "trims_family m = \<lparr>fam_name = ''deai_context_trims_total'',
     fam_help = ''Context window sliding-window trims to stay within model token limit'',
     fam_kind = CounterKind, fam_labels = [], fam_samples = [([], [mt_context_trims m])]\<rparr>"

definition replay_family :: "metrics \<Rightarrow> family" where
  "replay_family m = \<lparr>fam_name = ''deai_replay_rejected_total'',
     fam_help = ''Requests rejected due to duplicate request_id (replay protection)'',
     fam_kind = CounterKind, fam_labels = [], fam_samples = [([], [mt_replay_rejected m])]\<rparr>"

definition jobs_family :: "metrics \<Rightarrow> family" where
  "jobs_family m = \<lparr>fam_name = ''deai_jobs_total'', fam_help = ''Inference jobs by terminal outcome'',
     fam_kind = CounterKind, fam_labels = [''outcome''], fam_samples = counter_samples (mt_jobs m)\<rparr>"

text \<open>The library: what a scrape of the registered families returns, and its text, if it can be written.\<close>

record prometheus =
  pm_gather :: "family list \<Rightarrow> family list"
  pm_encode :: "family list \<Rightarrow> bytes"
  pm_from_utf8 :: "bytes \<Rightarrow> string option"

definition all_families :: "metrics \<Rightarrow> family list" where
  "all_families m = [requests_family m, latency_family m, tokens_family m, concurrent_family m, bids_family m,
     settlement_family m, trims_family m, replay_family m, jobs_family m]"

definition gather_text :: "prometheus \<Rightarrow> metrics \<Rightarrow> string" where
  "gather_text X m =
     (case pm_from_utf8 X (pm_encode X (pm_gather X (all_families m))) of None \<Rightarrow> [] | Some s \<Rightarrow> s)"

section \<open>The health server\<close>

record 'w health_state =
  hs_p2p :: "'w service option"
  hs_node_version :: string
  hs_mode :: string

text \<open>The peers of the network handle; an error counts as none.\<close>

definition health_peers ::
  "'w libp2p \<Rightarrow> p2p_wire \<Rightarrow> 'w health_state \<Rightarrow> string list \<times> 'w health_state" where
  "health_peers L W hs =
     (case hs_p2p hs of
        None \<Rightarrow> ([], hs)
      | Some svc \<Rightarrow>
          (let (r, svc') = connected_peers L W svc
           in (case r of Inl e \<Rightarrow> [] | Inr ps \<Rightarrow> ps, hs\<lparr>hs_p2p := Some svc'\<rparr>)))"

definition probe_health ::
  "'w libp2p \<Rightarrow> p2p_wire \<Rightarrow> 'w health_state \<Rightarrow> response \<times> 'w health_state" where
  "probe_health L W hs =
     (let (peers, hs') = health_peers L W hs
      in (\<lparr>rsp_status = 200, rsp_headers = [], rsp_body = BodyJson (JObj
            [(''status'', JStr ''ok''), (''version'', JStr (hs_node_version hs)), (''mode'', JStr (hs_mode hs)),
             (''peers'', JNum (int (length peers)))])\<rparr>, hs'))"

definition probe_peers ::
  "'w libp2p \<Rightarrow> p2p_wire \<Rightarrow> 'w health_state \<Rightarrow> response \<times> 'w health_state" where
  "probe_peers L W hs =
     (let (peers, hs') = health_peers L W hs
      in (\<lparr>rsp_status = 200, rsp_headers = [], rsp_body = BodyJson (JObj
            [(''count'', JNum (int (length peers))), (''peers'', JArr (map JStr peers))])\<rparr>, hs'))"

definition probe_metrics :: "prometheus \<Rightarrow> metrics \<Rightarrow> response" where
  "probe_metrics X m =
     \<lparr>rsp_status = 200, rsp_headers = [(''Content-Type'', ''text/plain; version=0.0.4; charset=utf-8'')],
      rsp_body = BodyText (gather_text X m)\<rparr>"

section \<open>What the handlers count\<close>

text \<open>A run under the semaphore, between \<^verbatim>\<open>CONCURRENT_REQUESTS.inc()\<close> and the records after the answer; the
  job is counted as completed whether or not the job store could be told.\<close>

definition meter_answered :: "string \<Rightarrow> u64 \<Rightarrow> u32 \<Rightarrow> u32 \<Rightarrow> metrics \<Rightarrow> metrics" where
  "meter_answered endpoint elapsed_ms input_toks output_toks m =
     count_job ''completed'' (count_tokens ''output'' output_toks (count_tokens ''input'' input_toks
       ((count_request endpoint ''ok'' m)\<lparr>mt_latency_ms := vec_observe [endpoint] elapsed_ms (mt_latency_ms m)\<rparr>)))"

definition meter_tracked :: "string \<Rightarrow> u64 \<Rightarrow> string \<Rightarrow> 'e tracked \<Rightarrow> metrics \<Rightarrow> metrics" where
  "meter_tracked endpoint elapsed_ms prompt res m =
     (let m1 = gauge_inc m in
      case res of
        AtCapacity \<Rightarrow> count_request endpoint ''capacity'' (gauge_dec m1)
      | RunFailed e \<Rightarrow> count_job ''failed'' (count_request endpoint ''error'' (gauge_dec m1))
      | RunAnswered tokens \<Rightarrow>
          meter_answered endpoint elapsed_ms (count_input_tokens prompt) (count_output_tokens tokens) (gauge_dec m1))"

definition meter_replay :: "string \<Rightarrow> metrics \<Rightarrow> metrics" where
  "meter_replay endpoint m =
     count_request endpoint ''replay'' (m\<lparr>mt_replay_rejected := mt_replay_rejected m + 1\<rparr>)"

definition meter_trim :: "nat \<Rightarrow> metrics \<Rightarrow> metrics" where
  "meter_trim dropped m = (if 0 < dropped then m\<lparr>mt_context_trims := mt_context_trims m + 1\<rparr> else m)"

text \<open>The counters next to \<open>infer_local\<close> and \<open>chat_completions_handler\<close>, along the same tests.\<close>

definition infer_metrics ::
  "('s, 'j, 'e, 'w) node_env \<Rightarrow> request_inputs \<Rightarrow> u64 \<Rightarrow> infer_request \<Rightarrow> ('s, 'j) node_state \<Rightarrow> metrics \<Rightarrow> metrics" where
  "infer_metrics N inp elapsed_ms body st m =
     (let (replay, nonces) = nonce_check_and_set (in_nonce_ms inp) (in_request_id inp)
            replay_window_secs (nst_nonces st);
          st1 = st\<lparr>nst_nonces := nonces\<rparr>
      in if replay then meter_replay ''infer'' m
         else
           let (cw0, contexts) = load_context inp (irq_session_id body) (nst_contexts st1);
               st2 = st1\<lparr>nst_contexts := contexts\<rparr>;
               (cw, dropped) = trim_context_window cw0 (ne_max_context_tokens N);
               (actual, notice) = resolve_model (irq_model_id body) (ne_list_models N);
               res = fst (run_tracked N inp actual cw (irq_prompt body) (default_to 2048 (irq_max_tokens body))
                     (default_to (7 / 10) (irq_temperature body)) st2)
           in meter_tracked ''infer'' elapsed_ms (irq_prompt body) res (meter_trim dropped m))"

definition chat_metrics ::
  "('s, 'j, 'e, 'w) node_env \<Rightarrow> request_inputs \<Rightarrow> headers \<Rightarrow> u64 \<Rightarrow> chat_completion_request \<Rightarrow>
     ('s, 'j) node_state \<Rightarrow> metrics \<Rightarrow> metrics" where
  "chat_metrics N inp hs elapsed_ms body st m =
     (case check_api_key hs (ne_api_key N) of
        Inl e \<Rightarrow> m
      | Inr _ \<Rightarrow>
          let (replay, nonces) = nonce_check_and_set (in_nonce_ms inp) (in_request_id inp)
                replay_window_secs (nst_nonces st);
              st1 = st\<lparr>nst_nonces := nonces\<rparr>
          in if replay then meter_replay ''chat'' m
             else
               let (cw0, prompt) = messages_to_context (ccr_messages body);
                   (actual, notice) = resolve_model (ccr_model body) (ne_list_models N);
                   (cw, dropped) = trim_context_window cw0 (ne_max_context_tokens N);
                   res = fst (run_tracked N inp actual cw prompt (default_to 2048 (ccr_max_tokens body))
                         (default_to (7 / 10) (ccr_temperature body)) st1)
               in meter_tracked ''chat'' elapsed_ms prompt res (meter_trim dropped m))"

text \<open>The watcher counts an overdue job for each of its two marks; an error ends the sweep.\<close>

fun meter_compensate :: "('s, 'e) job_store \<Rightarrow> job_record list \<Rightarrow> 's \<Rightarrow> metrics \<Rightarrow> metrics" where
  "meter_compensate S [] s m = m"
| "meter_compensate S (job # due) s m =
     (case js_mark S (job_request_id job) TimedOut s of
        (Inl e, s1) \<Rightarrow> m
      | (Inr _, s1) \<Rightarrow>
          let m1 = count_job ''timed_out'' m in
          case js_mark S (job_request_id job) Failed s1 of
            (Inl e, s2) \<Rightarrow> m1
          | (Inr _, s2) \<Rightarrow> meter_compensate S due s2 (count_job ''failed'' m1))"

definition meter_marketplace :: "string \<Rightarrow> nat \<Rightarrow> metrics \<Rightarrow> metrics" where
  "meter_marketplace model bids m = m\<lparr>mt_bids_served := vec_inc_by [model] (of_nat bids) (mt_bids_served m)\<rparr>"


section \<open>Counters\<close>

lemma vec_value_inc [simp]:
  "vec_value k' (vec_inc_by k n v) = vec_value k' v + (if k' = k then n else 0)"
  by (simp add: vec_value_def vec_inc_by_def update_conv' split: option.splits)

lemma metrics_frames [simp]:
  "mt_concurrent (count_request e s m) = mt_concurrent m" "mt_concurrent (count_job outcome m) = mt_concurrent m"
  "mt_concurrent (count_tokens d n m) = mt_concurrent m" "mt_concurrent (gauge_inc m) = mt_concurrent m + 1"
  "mt_concurrent (gauge_dec m) = mt_concurrent m - 1" "mt_concurrent (meter_trim k m) = mt_concurrent m"
  "mt_requests (count_job outcome m) = mt_requests m" "mt_requests (count_tokens d n m) = mt_requests m"
  "mt_requests (gauge_inc m) = mt_requests m" "mt_requests (gauge_dec m) = mt_requests m"
  "mt_requests (meter_trim k m) = mt_requests m"
  "mt_requests (count_request e s m) = vec_inc_by [e, s] 1 (mt_requests m)"
  "mt_jobs (count_request e s m) = mt_jobs m" "mt_jobs (count_tokens d n m) = mt_jobs m"
  "mt_jobs (gauge_inc m) = mt_jobs m" "mt_jobs (gauge_dec m) = mt_jobs m" "mt_jobs (meter_trim k m) = mt_jobs m"
  "mt_jobs (count_job outcome m) = vec_inc_by [outcome] 1 (mt_jobs m)"
  by (simp_all add: count_request_def count_job_def count_tokens_def gauge_inc_def gauge_dec_def meter_trim_def)

text \<open>Increments of the labelled counters commute, so requests served at the same time count the same in
  any order.\<close>

lemma vec_inc_commute:
  "vec_value k (vec_inc_by a n (vec_inc_by b n' v)) = vec_value k (vec_inc_by b n' (vec_inc_by a n v))"
  by (simp add: add_ac)

definition tracked_status :: "'e tracked \<Rightarrow> string" where
  "tracked_status res = (case res of AtCapacity \<Rightarrow> ''capacity'' | RunFailed _ \<Rightarrow> ''error'' | RunAnswered _ \<Rightarrow> ''ok'')"

definition tracked_outcome :: "'e tracked \<Rightarrow> counter_vec \<Rightarrow> counter_vec" where
  "tracked_outcome res v =
     (case res of AtCapacity \<Rightarrow> v | RunFailed _ \<Rightarrow> vec_inc_by [''failed''] 1 v
      | RunAnswered _ \<Rightarrow> vec_inc_by [''completed''] 1 v)"

lemma meter_tracked_spec:
  "mt_concurrent (meter_tracked ep ms p res m) = mt_concurrent m"
  "mt_requests (meter_tracked ep ms p res m) = vec_inc_by [ep, tracked_status res] 1 (mt_requests m)"
  "mt_jobs (meter_tracked ep ms p res m) = tracked_outcome res (mt_jobs m)"
  by (simp_all add: meter_tracked_def meter_answered_def tracked_status_def tracked_outcome_def Let_def
      split: tracked.splits)

lemma meter_replay_spec:
  "mt_concurrent (meter_replay ep m) = mt_concurrent m"
  "mt_requests (meter_replay ep m) = vec_inc_by [ep, ''replay''] 1 (mt_requests m)"
  "mt_jobs (meter_replay ep m) = mt_jobs m"
  by (simp_all add: meter_replay_def)

text \<open>The gauge is back after every request that is served to its end.\<close>

lemma gauge_balanced:
  "mt_concurrent (infer_metrics N inp ms body st m) = mt_concurrent m"
  "mt_concurrent (chat_metrics N inp hs ms cbody st m) = mt_concurrent m"
  by (simp_all add: infer_metrics_def chat_metrics_def meter_tracked_spec meter_replay_spec Let_def
      split: prod.splits sum.splits)

text \<open>The label under which a request is counted, by the status of its answer.\<close>

definition status_label :: "nat \<Rightarrow> string" where
  "status_label code =
     (if code = 409 then ''replay'' else if code = 503 then ''capacity'' else if code = 200 then ''ok'' else ''error'')"

lemma infer_counted:
  assumes "infer_local N inp body payer st = (r, st')"
  shows "mt_requests (infer_metrics N inp ms body st m) =
    vec_inc_by [''infer'', status_label (rsp_status r)] 1 (mt_requests m)"
proof -
  obtain replay nonces where n: "nonce_check_and_set (in_nonce_ms inp) (in_request_id inp)
      replay_window_secs (nst_nonces st) = (replay, nonces)"
    by fastforce
  show ?thesis
    using assms n
    by (auto simp: infer_local_def infer_metrics_def Let_def meter_tracked_spec meter_replay_spec
        status_label_def tracked_status_def error_response_def api_error_parts_def add_headers_def
        ndjson_response_def split: prod.splits tracked.splits if_splits)
qed

text \<open>The totals of jobs are no number of jobs: one that is overdue when its answer comes has been counted
  as timed out and as failed, and is counted as completed too.\<close>

lemma compensate_counts:
  assumes "\<And>i st s. \<exists>s'. js_mark S i st s = (Inr (), s')"
  shows "vec_value [outcome] (mt_jobs (meter_compensate S due s m)) = vec_value [outcome] (mt_jobs m) +
    (if outcome = ''timed_out'' \<or> outcome = ''failed'' then of_nat (length due) else 0)"
proof (induction due arbitrary: s m)
  case Nil
  show ?case
    by simp
next
  case (Cons job due)
  obtain s1 where s1: "js_mark S (job_request_id job) TimedOut s = (Inr (), s1)"
    using assms by blast
  obtain s2 where s2: "js_mark S (job_request_id job) Failed s1 = (Inr (), s2)"
    using assms by blast
  show ?case
    using Cons.IH [of s2 "count_job ''failed'' (count_job ''timed_out'' m)"] by (simp add: s1 s2 Let_def)
qed

lemma late_job_counted_thrice:
  assumes "\<And>i st s. \<exists>s'. js_mark S i st s = (Inr (), s')" "outcome \<in> {''timed_out'', ''failed'', ''completed''}"
  shows "vec_value [outcome]
      (mt_jobs (meter_answered ep ms i o' (meter_compensate S [job] s metrics_new))) = 1"
proof -
  have "mt_jobs (meter_answered ep ms i o' m) = vec_inc_by [''completed''] 1 (mt_jobs m)" for m
    by (simp add: meter_answered_def)
  moreover have "vec_value [outcome] (mt_jobs (meter_compensate S [job] s metrics_new)) =
      (if outcome = ''timed_out'' \<or> outcome = ''failed'' then 1 else 0)"
    using compensate_counts [OF assms(1), of outcome "[job]" s metrics_new]
    by (simp del: meter_compensate.simps) (simp add: metrics_new_def vec_value_def)
  ultimately show ?thesis
    using assms(2) by (auto simp del: meter_compensate.simps)
qed

text \<open>A library that leaves out families without samples shows four of the nine before the first
  request, touched or not.\<close>

lemma labelled_families_missing:
  assumes "\<And>fs. set (pm_gather X fs) \<subseteq> {f \<in> set fs. fam_samples f \<noteq> []}"
  shows "fam_name ` set (pm_gather X (all_families metrics_new)) \<subseteq>
    {''deai_concurrent_requests'', ''deai_settlement_volume_nanox_total'', ''deai_context_trims_total'',
     ''deai_replay_rejected_total''}"
proof -
  have "fam_samples (requests_family metrics_new) = []" "fam_samples (latency_family metrics_new) = []"
    "fam_samples (tokens_family metrics_new) = []" "fam_samples (bids_family metrics_new) = []"
    "fam_samples (jobs_family metrics_new) = []"
    by (simp_all add: metrics_new_def requests_family_def latency_family_def tokens_family_def bids_family_def
        jobs_family_def counter_samples_def)
  then have "{f \<in> set (all_families metrics_new). fam_samples f \<noteq> []} \<subseteq>
      {concurrent_family metrics_new, settlement_family metrics_new, trims_family metrics_new,
       replay_family metrics_new}"
    unfolding all_families_def by auto
  then have "fam_name ` set (pm_gather X (all_families metrics_new)) \<subseteq>
      fam_name ` {concurrent_family metrics_new, settlement_family metrics_new, trims_family metrics_new,
        replay_family metrics_new}"
    using assms [of "all_families metrics_new"] by (intro image_mono) blast
  then show ?thesis
    by (simp add: concurrent_family_def settlement_family_def trims_family_def replay_family_def)
qed

end
