(* ===== verification/Api_Server.thy ===== *)
theory Api_Server
  imports Node_Metrics
begin

text \<open>The two HTTP servers as a whole: \<^verbatim>\<open>start\<close> in \<^verbatim>\<open>crates/node/src/api/mod.rs\<close> and \<^verbatim>\<open>health.rs\<close> with
  their routes, and the shutdown signal of \<^verbatim>\<open>shutdown.rs\<close> that ends them. A request is routed by path
  and method, its JSON body is decoded before the handler runs, and the handler's answer and state are
  those of \<open>Node_Api\<close>. The HTTP library is a parameter where it answers by itself: an unknown path, a
  method without a route, a body that does not decode. Requests are served one after the other.\<close>

section \<open>Routes\<close>

datatype http_method = GET | HEAD | POST | OPTIONS | OtherMethod string

datatype endpoint =
    ChatCompletions | Infer | InferEncrypted | Pubkey | Models | Peers | Marketplace | Health | Ready | Preflight

definition api_routes :: "(string \<times> http_method \<times> endpoint) list" where
  "api_routes =
     [(''/v1/chat/completions'', POST, ChatCompletions), (''/v1/chat/completions'', OPTIONS, Preflight),
      (''/v1/infer'', POST, Infer), (''/v1/infer'', OPTIONS, Preflight),
      (''/v1/infer_encrypted'', POST, InferEncrypted), (''/v1/infer_encrypted'', OPTIONS, Preflight),
      (''/v1/pubkey'', GET, Pubkey), (''/v1/pubkey'', OPTIONS, Preflight),
      (''/v1/models'', GET, Models), (''/v1/models'', OPTIONS, Preflight),
      (''/v1/peers'', GET, Peers), (''/v1/peers'', OPTIONS, Preflight),
      (''/v1/marketplace/request'', POST, Marketplace), (''/v1/marketplace/request'', OPTIONS, Preflight),
      (''/health'', GET, Health), (''/health'', OPTIONS, Preflight),
      (''/ready'', GET, Ready), (''/ready'', OPTIONS, Preflight)]"

datatype probe = ProbeHealth | ProbePeers | ProbeMetrics

definition health_routes :: "(string \<times> http_method \<times> probe) list" where
  "health_routes =
     [(''/health'', GET, ProbeHealth), (''/livez'', GET, ProbeHealth),
      (''/peers'', GET, ProbePeers), (''/metrics'', GET, ProbeMetrics)]"

text \<open>A route for GET also takes HEAD.\<close>

definition method_matches :: "http_method \<Rightarrow> http_method \<Rightarrow> bool" where
  "method_matches asked routed \<longleftrightarrow> asked = routed \<or> asked = HEAD \<and> routed = GET"

datatype 'e routing = Routed 'e | NoMethod | NoRoute

definition route :: "(string \<times> http_method \<times> 'e) list \<Rightarrow> http_method \<Rightarrow> string \<Rightarrow> 'e routing" where
  "route routes meth path =
     (case filter (\<lambda>(p, m, e). p = path) routes of
        [] \<Rightarrow> NoRoute
      | here \<Rightarrow>
          (case find (\<lambda>(p, m, e). method_matches meth m) here of
             None \<Rightarrow> NoMethod
           | Some (p, m, e) \<Rightarrow> Routed e))"

section \<open>Serving a request\<close>

record http_request =
  rq_method :: http_method
  rq_path :: string
  rq_headers :: headers
  rq_body :: bytes

text \<open>The library: decoding a body for a handler, or its own answer, and the answers without a handler.\<close>

record web_server =
  ws_chat :: "bytes \<Rightarrow> (chat_completion_request, response) res"
  ws_infer :: "bytes \<Rightarrow> (infer_request, response) res"
  ws_infer_encrypted :: "bytes \<Rightarrow> (infer_encrypted_request, response) res"
  ws_marketplace :: "bytes \<Rightarrow> (marketplace_request, response) res"
  ws_caps_json :: "node_capabilities \<Rightarrow> json"
  ws_no_method :: response
  ws_no_route :: response

text \<open>What is fixed for the node, and what a request meets besides the inputs of its handler: the peers of
  the registry, the bids that arrive for it, and the time.\<close>

record api_site =
  as_version :: string
  as_mode :: string
  as_x25519_public :: bytes
  as_show_rat :: "f64 \<Rightarrow> json"

record api_inputs =
  ai_request :: request_inputs
  ai_peers :: "node_capabilities list"
  ai_bids :: "inference_bid list"
  ai_created :: u64

text \<open>The state of the handlers, the world behind the payment gate, and the bid collectors.\<close>

type_synonym ('s, 'j, 'w) api_state = "('s, 'j) node_state \<times> 'w \<times> uuid set"

definition json_response :: "json \<Rightarrow> response" where
  "json_response v = \<lparr>rsp_status = 200, rsp_headers = cors_headers, rsp_body = BodyJson v\<rparr>"

definition peers_handler :: "web_server \<Rightarrow> node_capabilities list \<Rightarrow> response" where
  "peers_handler S peers = json_response (JArr (map (ws_caps_json S) peers))"

definition offer_json :: "settlement_offer \<Rightarrow> json" where
  "offer_json f = JObj [(''settlement_id'', JStr (so_settlement_id f)),
     (''price_per_1k'', json_u64 (so_price_per_1k f)), (''token_id'', JStr (so_token_id f))]"

definition bid_json :: "api_site \<Rightarrow> bid_response \<Rightarrow> json" where
  "bid_json Z b = JObj
     [(''node_peer_id'', JStr (br_node_peer_id b)), (''api_url'', json_opt (br_api_url b)),
      (''estimated_latency_ms'', json_u32 (br_estimated_latency_ms b)),
      (''current_load_pct'', JNum (int (unat (br_current_load_pct b)))), (''model_id'', JStr (br_model_id b)),
      (''reputation_score'', as_show_rat Z (br_reputation_score b)),
      (''accepted_settlements'', JArr (map offer_json (br_accepted_settlements b)))]"

definition marketplace_response :: "api_site \<Rightarrow> marketplace_reply \<Rightarrow> response" where
  "marketplace_response Z reply =
     (case reply of
        NoNetwork r \<Rightarrow> r
      | Ranked bids \<Rightarrow> json_response (JArr (map (bid_json Z) bids)))"

definition serve_endpoint ::
  "web_server \<Rightarrow> api_site \<Rightarrow> ('s, 'j, 'e, 'w) node_env \<Rightarrow> api_inputs \<Rightarrow> http_request \<Rightarrow> endpoint \<Rightarrow>
     ('s, 'j, 'w) api_state \<Rightarrow> response outcome \<times> ('s, 'j, 'w) api_state" where
  "serve_endpoint S Z N x rq ep sw =
     (let (st, w, coll) = sw in
      case ep of
        ChatCompletions \<Rightarrow>
          (case ws_chat S (rq_body rq) of
             Inl r \<Rightarrow> (Done r, sw)
           | Inr body \<Rightarrow>
               (let (r, st') = chat_completions_handler N (ai_request x) (rq_headers rq) body st
                in (Done r, st', w, coll)))
      | Infer \<Rightarrow>
          (case ws_infer S (rq_body rq) of
             Inl r \<Rightarrow> (Done r, sw)
           | Inr body \<Rightarrow>
               (let (r, st', w') = infer_handler N (ai_request x) (rq_headers rq) body (st, w)
                in (r, st', w', coll)))
      | InferEncrypted \<Rightarrow>
          (case ws_infer_encrypted S (rq_body rq) of
             Inl r \<Rightarrow> (Done r, sw)
           | Inr body \<Rightarrow>
               (let (r, st') = infer_encrypted_handler N (ai_request x) (rq_headers rq) body st
                in (Done r, st', w, coll)))
      | Marketplace \<Rightarrow>
          (case ws_marketplace S (rq_body rq) of
             Inl r \<Rightarrow> (Done r, sw)
           | Inr body \<Rightarrow>
               (let (reply, coll', sent) = marketplace_request_handler (ne_p2p_broadcast N) (ai_peers x) (ai_bids x)
                      (ai_request x) body (coll, nst_broadcasts st)
                in (Done (marketplace_response Z reply), st\<lparr>nst_broadcasts := sent\<rparr>, w, coll')))
      | Pubkey \<Rightarrow> (Done (pubkey_handler N (as_x25519_public Z)), sw)
      | Models \<Rightarrow> (Done (models_handler N (ai_created x)), sw)
      | Peers \<Rightarrow> (Done (peers_handler S (ai_peers x)), sw)
      | Health \<Rightarrow> (Done (health_handler N (as_version Z) (as_mode Z)), sw)
      | Ready \<Rightarrow> (Done (ready_handler N), sw)
      | Preflight \<Rightarrow> (Done preflight, sw))"

text \<open>The answer to HEAD has no body.\<close>

definition answer_head :: "http_method \<Rightarrow> response \<Rightarrow> response" where
  "answer_head meth r = (if meth = HEAD then r\<lparr>rsp_body := BodyEmpty\<rparr> else r)"

definition api_serve ::
  "web_server \<Rightarrow> api_site \<Rightarrow> ('s, 'j, 'e, 'w) node_env \<Rightarrow> api_inputs \<Rightarrow> http_request \<Rightarrow>
     ('s, 'j, 'w) api_state \<Rightarrow> response outcome \<times> ('s, 'j, 'w) api_state" where
  "api_serve S Z N x rq sw =
     (case route api_routes (rq_method rq) (rq_path rq) of
        NoRoute \<Rightarrow> (Done (ws_no_route S), sw)
      | NoMethod \<Rightarrow> (Done (ws_no_method S), sw)
      | Routed ep \<Rightarrow>
          (case serve_endpoint S Z N x rq ep sw of
             (Done r, sw') \<Rightarrow> (Done (answer_head (rq_method rq) r), sw')
           | (Panic, sw') \<Rightarrow> (Panic, sw')))"

definition health_serve ::
  "web_server \<Rightarrow> 'v libp2p \<Rightarrow> p2p_wire \<Rightarrow> prometheus \<Rightarrow> metrics \<Rightarrow> http_request \<Rightarrow> 'v health_state \<Rightarrow>
     response \<times> 'v health_state" where
  "health_serve S L W X m rq hs =
     (case route health_routes (rq_method rq) (rq_path rq) of
        NoRoute \<Rightarrow> (ws_no_route S, hs)
      | NoMethod \<Rightarrow> (ws_no_method S, hs)
      | Routed ep \<Rightarrow>
          (let (r, hs') = (case ep of ProbeHealth \<Rightarrow> probe_health L W hs | ProbePeers \<Rightarrow> probe_peers L W hs
                           | ProbeMetrics \<Rightarrow> (probe_metrics X m, hs))
           in (answer_head (rq_method rq) r, hs')))"


section \<open>Shutdown\<close>

text \<open>What a receiver of the watch channel sees: values sent, and the sender going away. \<open>wait_for_signal\<close>
  gives the number of events until it resolves, if it does.\<close>

datatype watch_event = Sent bool | SenderDropped

definition shutdown_channel :: bool where
  "shutdown_channel = False"

fun is_signal :: "watch_event \<Rightarrow> bool" where
  "is_signal (Sent v) = v"
| "is_signal SenderDropped = True"

fun wait_for_signal :: "watch_event list \<Rightarrow> nat option" where
  "wait_for_signal [] = None"
| "wait_for_signal (e # es) = (if is_signal e then Some 1 else map_option Suc (wait_for_signal es))"

definition shutdown_wait :: "bool \<Rightarrow> watch_event list \<Rightarrow> nat option" where
  "shutdown_wait current es = (if current then Some 0 else wait_for_signal es)"

lemma shutdown_wait_spec:
  "shutdown_wait current es = None \<longleftrightarrow> \<not> current \<and> (\<forall>e\<in>set es. e = Sent False)"
proof -
  have "wait_for_signal es = None \<longleftrightarrow> (\<forall>e\<in>set es. \<not> is_signal e)"
    by (induction es) auto
  moreover have "\<not> is_signal e \<longleftrightarrow> e = Sent False" for e
    by (cases e) auto
  ultimately show ?thesis
    by (simp add: shutdown_wait_def)
qed

text \<open>The API server under graceful shutdown: requests are answered until the signal, those accepted before
  it to their end.\<close>

datatype server_event = Request api_inputs http_request | Watch watch_event

fun api_run ::
  "web_server \<Rightarrow> api_site \<Rightarrow> ('s, 'j, 'e, 'w) node_env \<Rightarrow> server_event list \<Rightarrow> ('s, 'j, 'w) api_state \<Rightarrow>
     response outcome list \<times> ('s, 'j, 'w) api_state" where
  "api_run S Z N [] sw = ([], sw)"
| "api_run S Z N (Request x rq # evs) sw =
     (let (r, sw1) = api_serve S Z N x rq sw; (rs, sw2) = api_run S Z N evs sw1 in (r # rs, sw2))"
| "api_run S Z N (Watch e # evs) sw = (if is_signal e then ([], sw) else api_run S Z N evs sw)"

definition api_start ::
  "web_server \<Rightarrow> api_site \<Rightarrow> ('s, 'j, 'e, 'w) node_env \<Rightarrow> bool \<Rightarrow> server_event list \<Rightarrow> ('s, 'j, 'w) api_state \<Rightarrow>
     response outcome list \<times> ('s, 'j, 'w) api_state" where
  "api_start S Z N current evs sw = (if current then ([], sw) else api_run S Z N evs sw)"

lemma api_run_stops:
  "is_signal e \<Longrightarrow> api_run S Z N (evs @ Watch e # later) sw = api_run S Z N (evs @ [Watch e]) sw"
proof (induction evs arbitrary: sw)
  case (Cons ev evs)
  then show ?case
    by (cases ev) (auto split: prod.splits)
qed simp

fun is_request :: "server_event \<Rightarrow> bool" where
  "is_request (Request x rq) = True"
| "is_request (Watch e) = False"

lemma api_run_answers:
  "\<forall>e. Watch e \<in> set evs \<longrightarrow> \<not> is_signal e \<Longrightarrow>
     length (fst (api_run S Z N evs sw)) = length (filter is_request evs)"
proof (induction evs arbitrary: sw)
  case (Cons ev evs)
  show ?case
  proof (cases ev)
    case (Request x rq)
    then show ?thesis
      using Cons.IH [of "snd (api_serve S Z N x rq sw)"] Cons.prems by (auto split: prod.splits)
  next
    case (Watch e)
    then show ?thesis
      using Cons by simp
  qed
qed simp

section \<open>The route table\<close>

lemma api_routes_distinct: "distinct (map (\<lambda>(p, m, e). (p, m)) api_routes)"
  by (simp add: api_routes_def)

lemma api_routes_routed:
  "list_all (\<lambda>(p, m, e). route api_routes m p = Routed e \<and> route api_routes OPTIONS p = Routed Preflight) api_routes"
  by code_simp

lemma check_api_key_Inl: "\<not> is_ok (check_api_key hs key) \<longleftrightarrow> check_api_key hs key = Inl Unauthorized"
  by (auto simp: check_api_key_def Let_def split: option.splits)

text \<open>What the network is asked for a request of the marketplace, and for a list of events up to the end
  of the server: nothing for any other request.\<close>

definition marketplace_calls ::
  "web_server \<Rightarrow> ('s, 'j, 'e, 'w) node_env \<Rightarrow> api_inputs \<Rightarrow> http_request \<Rightarrow> network_call list" where
  "marketplace_calls S N x rq =
     (case (route api_routes (rq_method rq) (rq_path rq), ws_marketplace S (rq_body rq), ne_p2p_broadcast N) of
        (Routed Marketplace, Inr body, Some broadcast) \<Rightarrow>
          [(marketplace_broadcast (ai_request x) body, broadcast (marketplace_broadcast (ai_request x) body))]
      | _ \<Rightarrow> [])"

fun network_calls :: "web_server \<Rightarrow> ('s, 'j, 'e, 'w) node_env \<Rightarrow> server_event list \<Rightarrow> network_call list" where
  "network_calls S N [] = []"
| "network_calls S N (Request x rq # evs) = marketplace_calls S N x rq @ network_calls S N evs"
| "network_calls S N (Watch e # evs) = (if is_signal e then [] else network_calls S N evs)"

definition sent_more :: "network_call list \<Rightarrow> ('s, 'j) node_state \<Rightarrow> ('s, 'j) node_state" where
  "sent_more calls st = st\<lparr>nst_broadcasts := nst_broadcasts st @ calls\<rparr>"

lemma sent_more_simps [simp]:
  "sent_more [] st = st" "sent_more b (sent_more a st) = sent_more (a @ b) st"
  by (simp_all add: sent_more_def)

lemma api_serve_unauthorized:
  assumes "\<not> is_ok (check_api_key (rq_headers rq) (ne_api_key N))"
  shows "\<exists>r coll'. api_serve S Z N x rq (st, w, coll) = (Done r, sent_more (marketplace_calls S N x rq) st, w, coll')"
proof (cases "route api_routes (rq_method rq) (rq_path rq)")
  case (Routed ep)
  have key: "check_api_key (rq_headers rq) (ne_api_key N) = Inl Unauthorized"
    using assms by (simp only: check_api_key_Inl)
  have "\<exists>r coll'. serve_endpoint S Z N x rq ep (st, w, coll) =
      (Done r, sent_more (marketplace_calls S N x rq) st, w, coll')"
  proof (cases "ep = Marketplace")
    case True
    then show ?thesis
      by (auto simp: serve_endpoint_def marketplace_calls_def Routed marketplace_request_handler_def sent_more_def Let_def
          split: sum.split option.split)
  next
    case False
    then have "marketplace_calls S N x rq = []"
      by (cases ep) (simp_all add: marketplace_calls_def Routed)
    with False key show ?thesis
      by (cases ep) (auto simp: serve_endpoint_def chat_completions_handler_def infer_handler_def
          infer_encrypted_handler_def split: sum.splits prod.splits)
  qed
  with Routed show ?thesis
    by (auto simp: api_serve_def)
qed (simp_all add: api_serve_def marketplace_calls_def)

lemma api_run_unauthorized:
  assumes "\<And>x rq. Request x rq \<in> set evs \<Longrightarrow> \<not> is_ok (check_api_key (rq_headers rq) (ne_api_key N))"
  shows "\<exists>rs coll'. api_run S Z N evs (st, w, coll) = (rs, sent_more (network_calls S N evs) st, w, coll')"
  using assms
proof (induction evs arbitrary: st coll)
  case (Cons ev evs)
  show ?case
  proof (cases ev)
    case (Request x rq)
    then have "Request x rq \<in> set (ev # evs)"
      by simp
    then have "\<not> is_ok (check_api_key (rq_headers rq) (ne_api_key N))"
      by (rule Cons.prems)
    then obtain r coll1 where "api_serve S Z N x rq (st, w, coll) =
        (Done r, sent_more (marketplace_calls S N x rq) st, w, coll1)"
      using api_serve_unauthorized [where S = S and Z = Z and x = x and st = st and w = w and coll = coll] by blast
    moreover obtain rs coll2 where "api_run S Z N evs (sent_more (marketplace_calls S N x rq) st, w, coll1) =
        (rs, sent_more (network_calls S N evs) (sent_more (marketplace_calls S N x rq) st), w, coll2)"
      using Cons.IH [of "sent_more (marketplace_calls S N x rq) st" coll1] Cons.prems by (meson list.set_intros(2))
    ultimately show ?thesis
      by (simp add: Request)
  next
    case (Watch e)
    obtain rs coll2 where "api_run S Z N evs (st, w, coll) = (rs, sent_more (network_calls S N evs) st, w, coll2)"
      using Cons.IH [of st coll] Cons.prems by (meson list.set_intros(2))
    then show ?thesis
      by (simp add: Watch)
  qed
qed simp

section \<open>An example server\<close>

text \<open>The node of \<open>Node_Api\<close> with a key, and a request for inference that does not carry it.\<close>

definition toy_keyed_node :: "(unit, job_map, unit, unit) node_env" where
  "toy_keyed_node = toy_node\<lparr>ne_api_key := ''secret''\<rparr>"

definition toy_web :: web_server where
  "toy_web = \<lparr>ws_chat = \<lambda>b. Inl preflight, ws_infer = \<lambda>b. Inr (toy_request ''hello''),
     ws_infer_encrypted = \<lambda>b. Inl preflight, ws_marketplace = \<lambda>b. Inl preflight, ws_caps_json = \<lambda>c. JNull,
     ws_no_method = preflight, ws_no_route = preflight\<rparr>"

definition toy_site :: api_site where
  "toy_site = \<lparr>as_version = ''0.1.0'', as_mode = ''Network'', as_x25519_public = [], as_show_rat = \<lambda>r. JNull\<rparr>"

definition toy_keyless :: http_request where
  "toy_keyless = \<lparr>rq_method = POST, rq_path = ''/v1/infer'', rq_headers = Map.empty, rq_body = []\<rparr>"

definition toy_api_inputs :: api_inputs where
  "toy_api_inputs = \<lparr>ai_request = toy_inputs, ai_peers = [], ai_bids = [], ai_created = 0\<rparr>"

section \<open>Properties\<close>

text \<open>C39: the API key guards the node's state. Whatever requests arrive without the key, in any order and
  number and with any headers, method, path and body, none of them runs a model, spends, stores or
  settles anything: jobs, replay set, conversations, permits, journal, written blobs and the world
  behind the payment gate are untouched, and the three inference endpoints answer 401. The
  marketplace is not behind the key: what these requests do to the node is exactly to have each
  well-formed marketplace request handed to the network, once and in order, and answered with 200.\<close>

theorem api_key_guards_state:
  assumes "\<forall>x rq. Request x rq \<in> set evs \<longrightarrow> \<not> is_ok (check_api_key (rq_headers rq) (ne_api_key N))"
    and "api_start S Z N False evs (st, w, coll) = (rs, st', w', coll')"
    and "\<not> is_ok (check_api_key (rq_headers rq) (ne_api_key N))"
    and "rq_method rq = POST"
  shows "st' = st\<lparr>nst_broadcasts := nst_broadcasts st @ network_calls S N evs\<rparr> \<and> w' = w \<and>
    (rq_path rq = ''/v1/infer'' \<and> is_ok (ws_infer S (rq_body rq)) \<or>
     rq_path rq = ''/v1/chat/completions'' \<and> is_ok (ws_chat S (rq_body rq)) \<or>
     rq_path rq = ''/v1/infer_encrypted'' \<and> is_ok (ws_infer_encrypted S (rq_body rq)) \<longrightarrow>
       api_serve S Z N x rq sw = (Done (error_response Unauthorized), sw)) \<and>
    (\<forall>body broadcast. rq_path rq = ''/v1/marketplace/request'' \<and> ws_marketplace S (rq_body rq) = Inr body \<and>
       ne_p2p_broadcast N = Some broadcast \<longrightarrow>
       (let req = marketplace_broadcast (ai_request x) body; (st1, w1, coll1) = sw in
        \<exists>r. api_serve S Z N x rq sw =
           (Done r, st1\<lparr>nst_broadcasts := nst_broadcasts st1 @ [(req, broadcast req)]\<rparr>, w1,
            coll1 - {in_request_id (ai_request x)}) \<and> rsp_status r = 200))"
proof -
  have "\<exists>rs coll'. api_run S Z N evs (st, w, coll) = (rs, sent_more (network_calls S N evs) st, w, coll')"
    by (rule api_run_unauthorized) (use assms(1) in blast)
  then have "st' = st\<lparr>nst_broadcasts := nst_broadcasts st @ network_calls S N evs\<rparr> \<and> w' = w"
    using assms(2) by (auto simp: api_start_def sent_more_def)
  moreover have "check_api_key (rq_headers rq) (ne_api_key N) = Inl Unauthorized"
    using assms(3) by (simp only: check_api_key_Inl)
  moreover obtain st1 w1 coll1 where "sw = (st1, w1, coll1)"
    by (cases sw)
  ultimately show ?thesis
    using assms(4)
    by (auto simp: api_serve_def api_routes_def route_def method_matches_def serve_endpoint_def is_ok_def
        answer_head_def chat_completions_handler_def infer_handler_def infer_encrypted_handler_def
        marketplace_request_handler_def marketplace_response_def json_response_def Let_def
        split: sum.splits option.splits)
qed

text \<open>A request for bids, without the key, at a node with a network.\<close>

definition toy_market :: marketplace_request where
  "toy_market = \<lparr>mkt_model = ''m'', mkt_max_tokens = None, mkt_accepted_settlements = None, mkt_bid_timeout_ms = None\<rparr>"

definition toy_market_web :: web_server where
  "toy_market_web = toy_web\<lparr>ws_marketplace := \<lambda>b. Inr toy_market\<rparr>"

definition toy_market_node :: "(unit, job_map, unit, unit) node_env" where
  "toy_market_node = toy_keyed_node\<lparr>ne_p2p_broadcast := Some (\<lambda>r. None)\<rparr>"

definition toy_market_rq :: http_request where
  "toy_market_rq = toy_keyless\<lparr>rq_path := ''/v1/marketplace/request''\<rparr>"

theorem api_key_guards_state_witness:
  "\<exists>rs coll. api_start toy_market_web toy_site toy_market_node False
       [Request toy_api_inputs toy_keyless, Request toy_api_inputs toy_market_rq] (toy_state, (), {}) =
     (rs, toy_state\<lparr>nst_broadcasts := [(marketplace_broadcast toy_inputs toy_market, None)]\<rparr>, (), coll) \<and>
   api_serve toy_market_web toy_site toy_market_node toy_api_inputs toy_keyless (toy_state, (), {}) =
     (Done (error_response Unauthorized), toy_state, (), {})"
proof -
  let ?evs = "[Request toy_api_inputs toy_keyless, Request toy_api_inputs toy_market_rq]"
  have node: "ne_api_key toy_market_node = ''secret''" "ne_p2p_broadcast toy_market_node = Some (\<lambda>r. None)"
    by (simp_all add: toy_market_node_def toy_keyed_node_def)
  have no_key: "\<not> is_ok (check_api_key (rq_headers rq) (ne_api_key toy_market_node))"
    if "rq = toy_keyless \<or> rq = toy_market_rq" for rq
    using that by (auto simp: check_api_key_def toy_keyless_def toy_market_rq_def node)
  obtain rs st' w' coll' where run: "api_start toy_market_web toy_site toy_market_node False ?evs (toy_state, (), {}) =
      (rs, st', w', coll')"
    by (rule prod_cases4)
  have reqs: "\<forall>x rq. Request x rq \<in> set ?evs \<longrightarrow> \<not> is_ok (check_api_key (rq_headers rq) (ne_api_key toy_market_node))"
    using no_key by auto
  have rq: "rq_method toy_keyless = POST" "rq_path toy_keyless = ''/v1/infer''" "is_ok (ws_infer toy_market_web (rq_body toy_keyless))"
    by (simp_all add: toy_keyless_def toy_market_web_def toy_web_def)
  have "network_calls toy_market_web toy_market_node ?evs = [(marketplace_broadcast toy_inputs toy_market, None)]"
    by (simp add: marketplace_calls_def toy_keyless_def toy_market_rq_def toy_market_web_def node toy_api_inputs_def
        api_routes_def route_def method_matches_def)
  moreover have "nst_broadcasts toy_state = []"
    by (simp add: toy_state_def)
  ultimately show ?thesis
    using api_key_guards_state [OF reqs run no_key [OF disjI1 [OF refl]] rq(1), where x = toy_api_inputs and
        sw = "(toy_state, (), {})"] rq(2,3) run
    by auto
qed

end
