(* ===== verification/Node_Runtime.thy ===== *)
theory Node_Runtime
  imports Node_Startup Daemon Api_Server Reputation Session "HOL-Library.Sublist"
begin

text \<open>The running node: what \<^verbatim>\<open>DeAIDaemon::from_config\<close> puts together (\<^verbatim>\<open>crates/node/src/daemon.rs\<close>), the
  daemon's run loop with the task that forwards reputation roots, the deadline watcher's loop
  (\<^verbatim>\<open>jobs.rs\<close>), and the order in which \<^verbatim>\<open>cmd_start\<close> of \<^verbatim>\<open>main.rs\<close> starts and drains the servers. Events of
  the network, ticks of timers and the shutdown signal are lists of inputs in the order in which the
  tasks see them.\<close>

section \<open>The blob store of the sessions\<close>

text \<open>\<^verbatim>\<open>StorageAdapter\<close> passes every call on to the storage crate.\<close>

definition storage_adapter :: "'s storage_client \<Rightarrow> 's storage_client" where
  "storage_adapter C =
     \<lparr>bs_put = (\<lambda>data ttl s. bs_put C data ttl s), bs_get = (\<lambda>i s. bs_get C i s),
      bs_delete = (\<lambda>i s. bs_delete C i s)\<rparr>"

lemma storage_adapter_same: "storage_adapter C = C"
  by (simp add: storage_adapter_def)

section \<open>The chain client\<close>

text \<open>The whole interface of \<^verbatim>\<open>crates/blockchain-iface\<close>; the two operations on the session index are those of
  \<open>Session\<close>. \<open>None\<close> is an error.\<close>

record 'x blockchain_iface = "'x blockchain_client" +
  bc_deposit_escrow :: "u64 \<Rightarrow> uuid \<Rightarrow> 'x \<Rightarrow> string option \<times> 'x"
  bc_release_escrow :: "proof_of_inference \<Rightarrow> 'x \<Rightarrow> unit option \<times> 'x"
  bc_refund_escrow :: "uuid \<Rightarrow> 'x \<Rightarrow> unit option \<times> 'x"
  bc_get_balance :: "string \<Rightarrow> 'x \<Rightarrow> u64 option \<times> 'x"
  bc_submit_proof :: "proof_of_inference \<Rightarrow> 'x \<Rightarrow> unit option \<times> 'x"

text \<open>The mock keeps the index only: it takes any deposit, release and refund, without amounts.\<close>

definition mock_blockchain :: "(uuid \<Rightarrow> string) \<Rightarrow> local_index blockchain_iface" where
  "mock_blockchain uuid_str =
     blockchain_client.extend mock_chain
       (blockchain_iface.fields
          (\<lambda>amount rid m. (Some (''mock_tx_'' @ uuid_str rid), m))
          (\<lambda>p m. (Some (), m))
          (\<lambda>rid m. (Some (), m))
          (\<lambda>address m. (Some 1000000000, m))
          (\<lambda>p m. (Some (), m)))"

lemma mock_blockchain_ops:
  "bc_deposit_escrow (mock_blockchain u) amount rid m = (Some (''mock_tx_'' @ u rid), m)"
  "bc_release_escrow (mock_blockchain u) p m = (Some (), m)"
  "bc_get_session_index_blob (mock_blockchain u) a m = (Some (m a), m)"
  "bc_set_session_index_blob (mock_blockchain u) a i m = (Some (), m(a \<mapsto> i))"
  by (simp_all add: mock_blockchain_def blockchain_client.defs blockchain_iface.defs mock_chain_def)

section \<open>The network at start\<close>

definition static_topics :: "string list" where
  "static_topics = [topic_node_announce, topic_node_health, topic_inference_any, topic_reputation]"

text \<open>A refused subscription to a static topic panics.\<close>

fun subscribe_static :: "'w libp2p \<Rightarrow> string list \<Rightarrow> 'w \<Rightarrow> 'w outcome" where
  "subscribe_static L [] w = Done w"
| "subscribe_static L (t # ts) w =
     (case lp_subscribe L t w of (None, w') \<Rightarrow> subscribe_static L ts w' | (Some e, w') \<Rightarrow> Panic)"

datatype assembly_error = StartupFailed startup_error | TransportFailed

text \<open>What libp2p and the key codec contribute: keys as files, the peer id of a key, and whether the
  transports can be set up.\<close>

record 'k network_env =
  nw_enc :: "'k \<Rightarrow> bytes option"
  nw_dec :: "bytes \<Rightarrow> 'k option"
  nw_fresh :: 'k
  nw_peer_id :: "'k \<Rightarrow> string"
  nw_transport_ok :: bool

definition build_swarm ::
  "'w libp2p \<Rightarrow> 'k network_env \<Rightarrow> file_io \<Rightarrow> string option \<Rightarrow> node_config \<Rightarrow> disk \<times> 'w \<Rightarrow>
     (unit, assembly_error) res outcome \<times> disk \<times> 'w" where
  "build_swarm L K io home cfg dw =
     (let (d, w) = dw in
      case load_or_create_keypair (nw_enc K) (nw_dec K) (nw_fresh K) io
             (expand_tilde home (ns_data_dir (cfg_node cfg))) d of
        (Inl e, d') \<Rightarrow> (Done (Inl (StartupFailed e)), d', w)
      | (Inr k, d') \<Rightarrow>
          if \<not> nw_transport_ok K then (Done (Inl TransportFailed), d', w)
          else (case subscribe_static L static_topics w of
                  Done w' \<Rightarrow> (Done (Inr ()), d', w')
                | Panic \<Rightarrow> (Panic, d', w)))"

definition subscribe_models :: "'w libp2p \<Rightarrow> p2p_wire \<Rightarrow> string list \<Rightarrow> 'w service \<Rightarrow> 'w service" where
  "subscribe_models L W models svc = fold (\<lambda>m s. snd (subscribe_model L W m s)) models svc"

text \<open>The network part of \<^verbatim>\<open>from_config\<close>: nothing in standalone mode. The key is loaded twice, for the peer
  id and by the swarm. The reputation advertised is the store's for that peer id.\<close>

definition start_p2p ::
  "'w libp2p \<Rightarrow> p2p_wire \<Rightarrow> 'k network_env \<Rightarrow> file_io \<Rightarrow> string option \<Rightarrow> node_config \<Rightarrow> (string list, 'e) res \<Rightarrow>
     (string \<Rightarrow> reputation_score) \<Rightarrow> disk \<times> 'w \<Rightarrow>
     (('w service \<times> node_capabilities) option, assembly_error) res outcome \<times> disk" where
  "start_p2p L W K io home cfg models score dw =
     (let (d, w) = dw in
      if ns_mode (cfg_node cfg) = Standalone then (Done (Inr None), d)
      else
        (case load_or_create_keypair (nw_enc K) (nw_dec K) (nw_fresh K) io
                (expand_tilde home (ns_data_dir (cfg_node cfg))) d of
           (Inl e, d1) \<Rightarrow> (Done (Inl (StartupFailed e)), d1)
         | (Inr k, d1) \<Rightarrow>
             (let peer_id = nw_peer_id K k in
              case build_own_caps cfg peer_id models (score peer_id) of
                None \<Rightarrow> (Done (Inr None), d1)
              | Some caps \<Rightarrow>
                  (case build_swarm L K io home cfg (d1, w) of
                     (Panic, d2, w') \<Rightarrow> (Panic, d2)
                   | (Done (Inl e), d2, w') \<Rightarrow> (Done (Inl e), d2)
                   | (Done (Inr _), d2, w') \<Rightarrow>
                       (Done (Inr (Some (subscribe_models L W (nc_models caps) (Some (swarm_start w')), caps))), d2)))))"

text \<open>Both loads give the same key: the second reads what the first has read or written.\<close>

lemma load_keypair_again:
  assumes "load_or_create_keypair enc dec fresh io dir d = (Inr k, d')" "fi_readable io"
    and "\<And>b. enc fresh = Some b \<Longrightarrow> dec b = Some fresh"
  shows "load_or_create_keypair enc dec fresh' io dir d' = (Inr k, d')"
  using assms
  by (auto simp: load_or_create_keypair_def create_file_def fs_write_def Let_def
      split: option.splits if_splits sum.splits prod.splits bool.splits)


section \<open>The assembled node\<close>

definition journal_path :: "string option \<Rightarrow> node_config \<Rightarrow> path" where
  "journal_path home cfg = path_push (expand_tilde home (ns_data_dir (cfg_node cfg))) ''jobs.ndjson''"

text \<open>\<^verbatim>\<open>NodeStateInner\<close>, each service by the choice of its implementation.\<close>

record 'w node_shared =
  sh_version :: string
  sh_mode :: string
  sh_api_key :: string
  sh_x402 :: x402_section
  sh_limits :: built_limits
  sh_started_at_ms :: u64
  sh_engine_url :: string
  sh_settlements :: "built_adapter list"
  sh_identity_seed :: bytes
  sh_reputation :: "string option \<times> bool"
  sh_storage :: built_storage
  sh_context_store :: built_context_store
  sh_payment :: built_payment
  sh_journal :: path
  sh_peer_store :: built_peer_store
  sh_job_store :: built_job_store
  sh_nonce_store :: built_nonce_store
  sh_p2p :: "'w service option"

definition uptime_ms :: "u64 \<Rightarrow> 'w node_shared \<Rightarrow> u64" where
  "uptime_ms now s = sat_sub now (sh_started_at_ms s)"

text \<open>The daemon: the shared state, the capabilities to announce, and whether roots are received from the
  reputation store.\<close>

record 'w daemon =
  da_state :: "'w node_shared"
  da_own_caps :: "node_capabilities option"
  da_rep_roots :: bool

definition assemble_state ::
  "string option \<Rightarrow> build_env \<Rightarrow> features \<Rightarrow> string \<Rightarrow> u64 \<Rightarrow> node_config \<Rightarrow> built_storage \<Rightarrow> bytes \<Rightarrow>
     'w service option \<Rightarrow> 'w node_shared" where
  "assemble_state home B F version now cfg storage seed p2p =
     \<lparr>sh_version = version, sh_mode = mode_name (ns_mode (cfg_node cfg)), sh_api_key = api_key (cfg_api cfg),
      sh_x402 = cfg_x402 cfg, sh_limits = build_limits cfg, sh_started_at_ms = now,
      sh_engine_url = ollama_base_url (cfg_inference cfg), sh_settlements = build_settlements B cfg,
      sh_identity_seed = seed, sh_reputation = build_reputation home F cfg, sh_storage = storage,
      sh_context_store = build_context_store home F cfg, sh_payment = build_payment home F cfg,
      sh_journal = journal_path home cfg, sh_peer_store = build_peer_store F cfg,
      sh_job_store = build_job_store F cfg, sh_nonce_store = build_nonce_store F cfg, sh_p2p = p2p\<rparr>"

text \<open>The order of what can fail: the blob store, the identity, the network.\<close>

definition from_config ::
  "'w libp2p \<Rightarrow> p2p_wire \<Rightarrow> 'k network_env \<Rightarrow> file_io \<Rightarrow> bytes \<Rightarrow> bool \<Rightarrow> string option \<Rightarrow> build_env \<Rightarrow> features \<Rightarrow>
     string \<Rightarrow> u64 \<Rightarrow> (string list, 'e) res \<Rightarrow> (string \<Rightarrow> reputation_score) \<Rightarrow> node_config \<Rightarrow> disk \<times> 'w \<Rightarrow>
     ('w daemon, assembly_error) res outcome \<times> disk" where
  "from_config L W K io fresh_seed dir_ok home B F version now models score cfg dw =
     (let (d, w) = dw in
      case build_storage home dir_ok cfg of
        Inl e \<Rightarrow> (Done (Inl (StartupFailed e)), d)
      | Inr storage \<Rightarrow>
          (case load_or_generate fresh_seed io (identity_path home cfg) d of
             (Inl e, d1) \<Rightarrow> (Done (Inl (StartupFailed e)), d1)
           | (Inr seed, d1) \<Rightarrow>
               (case start_p2p L W K io home cfg models score (d1, w) of
                  (Panic, d2) \<Rightarrow> (Panic, d2)
                | (Done (Inl e), d2) \<Rightarrow> (Done (Inl e), d2)
                | (Done (Inr p2p), d2) \<Rightarrow>
                    (Done (Inr \<lparr>da_state = assemble_state home B F version now cfg storage seed (map_option fst p2p),
                       da_own_caps = map_option snd p2p, da_rep_roots = snd (build_reputation home F cfg)\<rparr>), d2))))"

text \<open>A daemon has its own capabilities exactly when it has a network, and a network exactly outside
  standalone mode: the two \<^verbatim>\<open>expect\<close> of \<^verbatim>\<open>run\<close> never fail.\<close>

lemma from_config_network:
  assumes "from_config L W K io fresh dir_ok home B F v now models score cfg dw = (Done (Inr da), d')"
  shows "(sh_p2p (da_state da) = None \<longleftrightarrow> ns_mode (cfg_node cfg) = Standalone) \<and>
    (da_own_caps da = None \<longleftrightarrow> ns_mode (cfg_node cfg) = Standalone)"
proof -
  obtain storage seed p2p d1 d2 where s: "start_p2p L W K io home cfg models score (d1, snd dw) = (Done (Inr p2p), d2)"
    and da: "da = \<lparr>da_state = assemble_state home B F v now cfg storage seed (map_option fst p2p),
       da_own_caps = map_option snd p2p, da_rep_roots = snd (build_reputation home F cfg)\<rparr>"
    using assms by (auto simp: from_config_def split: sum.splits prod.splits outcome.splits)
  have "p2p = None \<longleftrightarrow> ns_mode (cfg_node cfg) = Standalone"
    using s by (auto simp: start_p2p_def build_own_caps_def Let_def
        split: if_splits sum.splits prod.splits outcome.splits)
  then show ?thesis
    by (simp add: da assemble_state_def)
qed

section \<open>Forwarding reputation roots\<close>

text \<open>The spawned task takes roots from the channel and publishes them; a failure is logged. It runs beside
  whatever records receipts: \<open>RecordReceipt\<close> is a recording, \<open>ForwardRoot\<close> one turn of the task. What has
  been handed to the network is kept in a list.\<close>

datatype root_event = RecordReceipt "u64 \<times> io_result" proof_of_inference | ForwardRoot

record 'w root_task =
  rt_store :: gossip_store
  rt_service :: "'w service"
  rt_published :: "bytes list"

definition forward_root :: "'w libp2p \<Rightarrow> p2p_wire \<Rightarrow> 'w root_task \<Rightarrow> 'w root_task" where
  "forward_root L W t =
     (case gs_broadcast_tx (rt_store t) of
        None \<Rightarrow> t
      | Some c \<Rightarrow>
          (case rc_queue c of
             [] \<Rightarrow> t
           | r # rs \<Rightarrow>
               t\<lparr>rt_store := (rt_store t)\<lparr>gs_broadcast_tx := Some (c\<lparr>rc_queue := rs\<rparr>)\<rparr>,
                 rt_service := snd (publish_reputation_root L W r (rt_service t)),
                 rt_published := rt_published t @ [r]\<rparr>))"

fun root_step :: "'w libp2p \<Rightarrow> p2p_wire \<Rightarrow> crypto_env \<Rightarrow> (rat \<Rightarrow> rat) \<Rightarrow> store_json \<Rightarrow> root_event \<Rightarrow>
    'w root_task \<Rightarrow> 'w root_task" where
  "root_step L W E rnd J (RecordReceipt x p) t = t\<lparr>rt_store := gossip_record_proof E rnd J x p (rt_store t)\<rparr>"
| "root_step L W E rnd J ForwardRoot t = forward_root L W t"

text \<open>The roots after each recording of a run.\<close>

fun recorded_roots :: "'w libp2p \<Rightarrow> p2p_wire \<Rightarrow> crypto_env \<Rightarrow> (rat \<Rightarrow> rat) \<Rightarrow> store_json \<Rightarrow> root_event list \<Rightarrow>
    'w root_task \<Rightarrow> bytes list" where
  "recorded_roots L W E rnd J [] t = []"
| "recorded_roots L W E rnd J (e # es) t =
     (let t' = root_step L W E rnd J e t
      in (case e of RecordReceipt x p \<Rightarrow> [gossip_merkle_root E (rt_store t')] | ForwardRoot \<Rightarrow> []) @
         recorded_roots L W E rnd J es t')"

definition root_run :: "'w libp2p \<Rightarrow> p2p_wire \<Rightarrow> crypto_env \<Rightarrow> (rat \<Rightarrow> rat) \<Rightarrow> store_json \<Rightarrow> root_event list \<Rightarrow>
    'w root_task \<Rightarrow> 'w root_task" where
  "root_run L W E rnd J es t = fold (root_step L W E rnd J) es t"

definition queued_roots :: "'w root_task \<Rightarrow> bytes list" where
  "queued_roots t = (case gs_broadcast_tx (rt_store t) of None \<Rightarrow> [] | Some c \<Rightarrow> rc_queue c)"

lemma queued_record:
  "queued_roots (root_step L W E rnd J (RecordReceipt x p) t) = queued_roots t \<or>
   queued_roots (root_step L W E rnd J (RecordReceipt x p) t) =
     queued_roots t @ [gossip_merkle_root E (rt_store (root_step L W E rnd J (RecordReceipt x p) t))]"
  by (auto simp: queued_roots_def gossip_record_proof_def gossip_merkle_root_def try_send_def Let_def
      split: option.splits)

lemma published_step:
  "rt_published (root_step L W E rnd J ForwardRoot t) @ queued_roots (root_step L W E rnd J ForwardRoot t) =
     rt_published t @ queued_roots t"
  by (auto simp: forward_root_def queued_roots_def split: option.splits list.splits)

text \<open>What is published and still queued is, in order, some of the roots the store has had: never a root it
  did not have, never an older one after a newer one.\<close>

lemma published_subseq:
  "subseq (rt_published (root_run L W E rnd J es t) @ queued_roots (root_run L W E rnd J es t))
     (rt_published t @ queued_roots t @ recorded_roots L W E rnd J es t)"
proof (induction es arbitrary: t)
  case Nil
  show ?case
    by (simp add: root_run_def)
next
  case (Cons e es)
  let ?t = "root_step L W E rnd J e t"
  have "subseq (rt_published (root_run L W E rnd J (e # es) t) @ queued_roots (root_run L W E rnd J (e # es) t))
     ((rt_published ?t @ queued_roots ?t) @ recorded_roots L W E rnd J es ?t)"
    using Cons.IH [of ?t] by (simp add: root_run_def)
  also have "subseq \<dots> (rt_published t @ queued_roots t @ recorded_roots L W E rnd J (e # es) t)"
  proof (cases e)
    case (RecordReceipt x p)
    then have "rt_published ?t = rt_published t"
      by simp
    with queued_record [of L W E rnd J x p t] RecordReceipt show ?thesis
      by (auto simp: Let_def subseq_append' intro: list_emb_Cons)
  next
    case ForwardRoot
    with published_step [of L W E rnd J t] show ?thesis
      by (simp add: Let_def)
  qed
  finally show ?case .
qed

text \<open>A root recorded while the channel is full is never announced: it is the newest that is lost.\<close>

lemma full_channel_keeps_old:
  assumes "gs_broadcast_tx (rt_store t) = Some c" "length (rc_queue c) \<ge> rc_capacity c"
  shows "queued_roots (root_step L W E rnd J (RecordReceipt x p) t) = queued_roots t"
  using assms by (simp add: queued_roots_def gossip_record_proof_def try_send_def Let_def)

section \<open>The deadline watcher\<close>

text \<open>The loop sweeps at each tick, which comes with the two clock readings, and ends at the signal; a sweep
  that fails is logged.\<close>

datatype watcher_input = Tick u64 u64 | WatchShutdown watch_event

fun watcher_loop :: "('s, 'e) job_store \<Rightarrow> watcher_input list \<Rightarrow> 's \<times> peer_store \<Rightarrow> 's \<times> peer_store" where
  "watcher_loop S [] st = st"
| "watcher_loop S (Tick now evict_now # is) st = watcher_loop S is (snd (sweep S now evict_now st))"
| "watcher_loop S (WatchShutdown e # is) st = (if is_signal e then st else watcher_loop S is st)"

lemma watcher_loop_stops:
  "is_signal e \<Longrightarrow> watcher_loop S (is @ WatchShutdown e # later) st = watcher_loop S is st"
proof (induction "is" arbitrary: st)
  case (Cons i "is")
  then show ?case
    by (cases i) auto
qed simp

section \<open>The run loop\<close>

text \<open>What the daemon selects between: an event of the network with the clock, the end of the events, and
  what the shutdown channel shows.\<close>

datatype daemon_input = NetEvent u64 p2p_event | NetClosed | Shutdown watch_event

datatype run_end = StillRunning | ByShutdown | ByNetwork

fun daemon_loop :: "string \<Rightarrow> daemon_input list \<Rightarrow> daemon_state \<Rightarrow> run_end \<times> daemon_state" where
  "daemon_loop own [] d = (StillRunning, d)"
| "daemon_loop own (NetEvent now e # is) d = daemon_loop own is (event_step own now e d)"
| "daemon_loop own (NetClosed # is) d = (ByNetwork, d)"
| "daemon_loop own (Shutdown e # is) d = (if is_signal e then (ByShutdown, d) else daemon_loop own is d)"

fun await_shutdown :: "daemon_input list \<Rightarrow> run_end" where
  "await_shutdown [] = StillRunning"
| "await_shutdown (Shutdown e # is) = (if is_signal e then ByShutdown else await_shutdown is)"
| "await_shutdown (i # is) = await_shutdown is"

definition daemon_run :: "'w daemon \<Rightarrow> string \<Rightarrow> daemon_input list \<Rightarrow> daemon_state \<Rightarrow> run_end \<times> daemon_state" where
  "daemon_run da own is d =
     (if sh_p2p (da_state da) = None then (await_shutdown is, d) else daemon_loop own is d)"

text \<open>The events the swarm task sends before it ends, and whether it ends: at once if it cannot listen.\<close>

definition swarm_ends :: "'w libp2p \<Rightarrow> node_config \<Rightarrow> swarm_input list \<Rightarrow> 'w \<Rightarrow> bool" where
  "swarm_ends L cfg sis w \<longleftrightarrow>
     fst (lp_listen L (net_listen_port (cfg_network cfg)) w) \<noteq> None \<or> SwarmClosed \<in> set sis \<or> HandlesDropped \<in> set sis"

definition network_feed ::
  "'w libp2p \<Rightarrow> p2p_wire \<Rightarrow> node_config \<Rightarrow> node_capabilities \<Rightarrow> swarm_input list \<Rightarrow> u64 \<Rightarrow> 'w \<Rightarrow> daemon_input list" where
  "network_feed L W cfg own_caps sis now w =
     map (NetEvent now) (sw_events (snd (swarm_task L W cfg own_caps sis w))) @
     (if swarm_ends L cfg sis w then [NetClosed] else [])"

text \<open>\<^verbatim>\<open>cmd_start\<close> after the assembly: the health server, the watcher, the API server, the run loop, and ten
  seconds for the servers to drain, which they do only if the signal was given. A port that cannot be
  bound ends the process with an error; after the run loop it always ends with success.\<close>

datatype node_exit = NodeRunning | BindFailed u16 | ExitedOk bool

definition start_node ::
  "(u16 \<Rightarrow> bool) \<Rightarrow> node_config \<Rightarrow> 'w daemon \<Rightarrow> string \<Rightarrow> daemon_input list \<Rightarrow> daemon_state \<Rightarrow> node_exit \<times> daemon_state" where
  "start_node can_bind cfg da own is d =
     (if \<not> can_bind (hl_metrics_port (cfg_health cfg)) then (BindFailed (hl_metrics_port (cfg_health cfg)), d)
      else if \<not> can_bind (hl_api_port (cfg_health cfg)) then (BindFailed (hl_api_port (cfg_health cfg)), d)
      else
        (case daemon_run da own is d of
           (StillRunning, d') \<Rightarrow> (NodeRunning, d')
         | (ByShutdown, d') \<Rightarrow> (ExitedOk True, d')
         | (ByNetwork, d') \<Rightarrow> (ExitedOk False, d')))"

lemma daemon_loop_append:
  "daemon_loop own (is @ js) d =
     (case daemon_loop own is d of (StillRunning, d') \<Rightarrow> daemon_loop own js d' | r \<Rightarrow> r)"
proof (induction "is" arbitrary: d)
  case (Cons i "is")
  then show ?case
    by (cases i) auto
qed simp

text \<open>Without the network the events of a run are those of \<open>event_loop\<close>.\<close>

lemma daemon_loop_events:
  "daemon_loop own (map (\<lambda>(now, e). NetEvent now e) es) d = (StillRunning, event_loop own es d)"
  by (induction es arbitrary: d) (auto simp: event_loop_def)


section \<open>Properties\<close>

lemma feed_without_listener:
  assumes "lp_listen L (net_listen_port (cfg_network cfg)) w = (Some e, w1)"
  shows "network_feed L W cfg own_caps sis now w = [NetClosed]"
  using assms by (simp add: network_feed_def swarm_task_def swarm_start_def swarm_ends_def)

lemma loop_closed:
  assumes "filter (\<lambda>i. \<forall>e. i \<noteq> Shutdown e) is = [NetClosed]" "\<And>e. Shutdown e \<in> set is \<Longrightarrow> \<not> is_signal e"
  shows "daemon_loop own is d = (ByNetwork, d)"
  using assms
proof (induction "is")
  case (Cons i "is")
  then show ?case
    by (cases i) (auto split: if_splits)
qed simp

text \<open>C40: a node that cannot listen for peers gives up without saying so. If the swarm cannot listen,
  say because the port is taken, its task ends and closes the daemon's events; the run loop then ends although nobody asked the node to
  stop, the HTTP servers, which are up and answer that all is well, are never told, and the process
  exits with success. In standalone mode the same node would keep running.\<close>

theorem node_stops_without_listener:
  assumes "lp_listen L (net_listen_port (cfg_network cfg)) w = (Some e, w1)"
    and "sh_p2p (da_state da) \<noteq> None"
    and "filter (\<lambda>i. \<forall>e. i \<noteq> Shutdown e) is = network_feed L W cfg own_caps sis now w"
    and "\<forall>e. Shutdown e \<in> set is \<longrightarrow> \<not> is_signal e"
    and "can_bind (hl_metrics_port (cfg_health cfg))" "can_bind (hl_api_port (cfg_health cfg))"
  shows "start_node can_bind cfg da own is d = (ExitedOk False, d) \<and>
    start_node can_bind cfg (da\<lparr>da_state := (da_state da)\<lparr>sh_p2p := None\<rparr>\<rparr>) own is d = (NodeRunning, d)"
proof -
  have f: "filter (\<lambda>i. \<forall>e. i \<noteq> Shutdown e) is = [NetClosed]"
    using assms(3) feed_without_listener [OF assms(1)] by simp
  have "daemon_loop own is d = (ByNetwork, d)"
    using loop_closed [OF f] assms(4) by blast
  moreover have "await_shutdown is = StillRunning"
    using assms(4)
  proof (induction "is")
    case (Cons i "is")
    then show ?case
      by (cases i) auto
  qed simp
  ultimately show ?thesis
    using assms(2,5,6) by (simp add: start_node_def daemon_run_def)
qed

theorem node_stops_without_listener_witness:
  "\<forall>da :: (string \<times> bytes) list daemon.
     start_node (\<lambda>p. True) node_config_default (da\<lparr>da_state := (da_state da)\<lparr>sh_p2p := Some None\<rparr>\<rparr>) ''me''
       [Shutdown (Sent False), NetClosed] toy_daemon = (ExitedOk False, toy_daemon)"
proof
  fix da :: "(string \<times> bytes) list daemon"
  let ?L = "toy_libp2p\<lparr>lp_listen := \<lambda>p w. (Some ''address in use'', w)\<rparr>"
  have l: "lp_listen ?L (net_listen_port (cfg_network node_config_default)) [] = (Some ''address in use'', [])"
    by simp
  have n: "sh_p2p (da_state (da\<lparr>da_state := (da_state da)\<lparr>sh_p2p := Some None\<rparr>\<rparr>)) \<noteq> None"
    by simp
  have f: "filter (\<lambda>i. \<forall>e. i \<noteq> Shutdown e) [Shutdown (Sent False), NetClosed] =
      network_feed ?L W node_config_default caps [] 0 []" for W caps
    using feed_without_listener [OF l] by simp
  have s: "\<forall>e. Shutdown e \<in> set [Shutdown (Sent False), NetClosed] \<longrightarrow> \<not> is_signal e"
    by simp
  show "start_node (\<lambda>p. True) node_config_default (da\<lparr>da_state := (da_state da)\<lparr>sh_p2p := Some None\<rparr>\<rparr>) ''me''
       [Shutdown (Sent False), NetClosed] toy_daemon = (ExitedOk False, toy_daemon)"
    by (rule conjunct1 [OF node_stops_without_listener [OF l n f s]]) simp_all
qed

end
