(* ===== verification/Common_Errors.thy ===== *)
theory Common_Errors
  imports Rust_String
begin

text \<open>The error type of \<^verbatim>\<open>crates/common/src/errors.rs\<close> with its messages. Nothing of the node constructs
  it yet; a transparent error is shown by the text it carries.\<close>

datatype pinaivu_error =
    P2PError string | PeerNotFound string | ConnectionTimeout string
  | NoBidsReceived string | InferenceEngineError string | ModelNotAvailable string
  | SchedulerFull nat | InferenceTimeout "64 word"
  | SessionNotFound string | EncryptionError string | DecryptionError string
  | ContextWindowExceeded "32 word" "32 word"
  | StorageError string | BlobNotFound string
  | BlockchainError string | InsufficientBalance "64 word" "64 word" | EscrowFailed string
  | ConfigError string | InternalError string | AnyhowError string

fun pinaivu_error_text :: "pinaivu_error \<Rightarrow> string" where
  "pinaivu_error_text (P2PError s) = ''P2P error: '' @ s"
| "pinaivu_error_text (PeerNotFound s) = ''Peer not found: '' @ s"
| "pinaivu_error_text (ConnectionTimeout s) = ''Connection timeout to peer '' @ s"
| "pinaivu_error_text (NoBidsReceived s) = ''No bids received for request '' @ s"
| "pinaivu_error_text (InferenceEngineError s) = ''Inference engine error: '' @ s"
| "pinaivu_error_text (ModelNotAvailable s) = ''Model not available: '' @ s"
| "pinaivu_error_text (SchedulerFull n) = ''Scheduler queue full (max '' @ decimal n @ '' jobs)''"
| "pinaivu_error_text (InferenceTimeout ms) = ''Inference request timed out after '' @ decimal (unat ms) @ ''ms''"
| "pinaivu_error_text (SessionNotFound s) = ''Session not found: '' @ s"
| "pinaivu_error_text (EncryptionError s) = ''Encryption error: '' @ s"
| "pinaivu_error_text (DecryptionError s) = ''Decryption error: '' @ s"
| "pinaivu_error_text (ContextWindowExceeded used max_tokens) =
     ''Context window exceeded: used '' @ decimal (unat used) @ '' of '' @ decimal (unat max_tokens) @ '' tokens''"
| "pinaivu_error_text (StorageError s) = ''Storage error: '' @ s"
| "pinaivu_error_text (BlobNotFound s) = ''Blob not found: '' @ s"
| "pinaivu_error_text (BlockchainError s) = ''Blockchain error: '' @ s"
| "pinaivu_error_text (InsufficientBalance need have_nanox) =
     ''Insufficient balance: need '' @ decimal (unat need) @ '' NanoX, have '' @ decimal (unat have_nanox) @ '' NanoX''"
| "pinaivu_error_text (EscrowFailed s) = ''Escrow failed for request '' @ s"
| "pinaivu_error_text (ConfigError s) = ''Configuration error: '' @ s"
| "pinaivu_error_text (InternalError s) = ''Internal error: '' @ s"
| "pinaivu_error_text (AnyhowError s) = s"

text \<open>A message is never empty, except a transparent one.\<close>

lemma pinaivu_error_text_nonempty: "pinaivu_error_text e = [] \<Longrightarrow> e = AnyhowError []"
  by (cases e) auto

end
