(* ===== verification/Context_Expiry.thy ===== *)
theory Context_Expiry
  imports Context_Store
begin

text \<open>Expiry of the conversation stores of \<^verbatim>\<open>crates/context/src/store.rs\<close> over time: how a store is
  opened, the task that sweeps it in the background, and runs in which reads, turns, clears and
  sweeps interleave, each with its own reading of the clock.\<close>

section \<open>Opening a store\<close>

text \<open>The seconds between two rounds of the task, which exists only with a positive time to live.\<close>

definition clamp :: "u64 \<Rightarrow> u64 \<Rightarrow> u64 \<Rightarrow> u64" where
  "clamp lo hi x = (if x < lo then lo else if hi < x then hi else x)"

definition mem_cleanup_interval :: "u64 \<Rightarrow> u64 option" where
  "mem_cleanup_interval ttl = (if ttl > 0 then Some (clamp 30 300 (ttl div 4)) else None)"

definition local_cleanup_interval :: "u64 \<Rightarrow> u64 option" where
  "local_cleanup_interval ttl = (if ttl > 0 then Some (clamp 60 600 (ttl div 4)) else None)"

text \<open>The task sleeps, asks for the store, which may be gone, and sweeps it. A round is the second at
  which it woke, or \<open>None\<close> once the store has been dropped; the flag says whether the task still
  runs.\<close>

primrec cleanup_task :: "(u64 \<Rightarrow> 's \<Rightarrow> 's) \<Rightarrow> u64 option list \<Rightarrow> 's \<Rightarrow> 's \<times> bool" where
  "cleanup_task sweep [] s = (s, True)"
| "cleanup_task sweep (r # rs) s =
     (case r of None \<Rightarrow> (s, False) | Some now \<Rightarrow> cleanup_task sweep rs (sweep now s))"

text \<open>The file store creates its directory first; the flag is the answer of the operating system.\<close>

definition local_context_new :: "bool \<Rightarrow> path \<Rightarrow> nat \<Rightarrow> u64 \<Rightarrow> (local_context \<times> u64 option) option" where
  "local_context_new mkdir_ok dir max_messages ttl =
     (if \<not> mkdir_ok then None
      else Some (\<lparr>lc_dir = dir, lc_max_msgs = max_messages, lc_ttl_secs = ttl\<rparr>, local_cleanup_interval ttl))"

definition mem_context_open :: "nat \<Rightarrow> u64 \<Rightarrow> mem_context \<times> u64 option" where
  "mem_context_open max_messages ttl = (mem_context_new max_messages ttl, mem_cleanup_interval ttl)"

lemma cleanup_intervals:
  "mem_cleanup_interval ttl = Some i \<Longrightarrow> 30 \<le> i \<and> i \<le> 300"
  "local_cleanup_interval ttl = Some i \<Longrightarrow> 60 \<le> i \<and> i \<le> 600"
  by (auto simp: mem_cleanup_interval_def local_cleanup_interval_def clamp_def split: if_splits)

section \<open>Runs over time\<close>

text \<open>What happens to the store in memory; the clock is read once more at the end of a read.\<close>

datatype store_op =
    ReadSession u64 string
  | AddTurn string string string
  | ClearSession string
  | Sweep

type_synonym timed_op = "u64 \<times> store_op"

definition mem_step :: "timed_op \<Rightarrow> mem_context \<Rightarrow> mem_context" where
  "mem_step ev s =
     (case ev of (now, op) \<Rightarrow>
        (case op of
           ReadSession now' sid \<Rightarrow> snd (mem_get_messages now now' sid s)
         | AddTurn sid u a \<Rightarrow> mem_append now sid u a s
         | ClearSession sid \<Rightarrow> mem_clear sid s
         | Sweep \<Rightarrow> (if mc_ttl_secs s > 0 then mem_context_cleanup now s else s)))"

primrec mem_run :: "timed_op list \<Rightarrow> mem_context \<Rightarrow> mem_context" where
  "mem_run [] s = s"
| "mem_run (ev # evs) s = mem_run evs (mem_step ev s)"

lemma mem_run_append [simp]: "mem_run (evs @ evs') s = mem_run evs' (mem_run evs s)"
  by (induction evs arbitrary: s) simp_all

lemma mem_step_settings [simp]:
  "mc_max_msgs (mem_step ev s) = mc_max_msgs s" "mc_ttl_secs (mem_step ev s) = mc_ttl_secs s"
  by (auto simp: mem_step_def mem_get_messages_def mem_append_def mem_clear_def mem_context_cleanup_def Let_def
      split: prod.split store_op.split option.split)

lemma mem_run_settings_kept [simp]:
  "mc_max_msgs (mem_run evs s) = mc_max_msgs s" "mc_ttl_secs (mem_run evs s) = mc_ttl_secs s"
  by (induction evs arbitrary: s) simp_all

text \<open>The task of the store is a run of sweeps.\<close>

lemma cleanup_task_run:
  "mc_ttl_secs s > 0 \<Longrightarrow>
   fst (cleanup_task mem_context_cleanup rs s) =
     mem_run (map (\<lambda>r. (the r, Sweep)) (takeWhile (\<lambda>r. r \<noteq> None) rs)) s"
proof (induction rs arbitrary: s)
  case (Cons r rs)
  then show ?case
    by (cases r) (simp_all add: mem_step_def mem_context_cleanup_def Let_def)
qed simp

section \<open>When a session is kept\<close>

text \<open>The specification follows one session: the second at which it was last used, if it has been
  written since it was cleared, and whether every use and every sweep found it idle for less than
  the time to live.\<close>

definition in_use :: "u64 \<Rightarrow> u64 \<Rightarrow> u64 option \<Rightarrow> bool" where
  "in_use ttl now used = (case used of None \<Rightarrow> True | Some l \<Rightarrow> ttl = 0 \<or> sat_sub now l < ttl)"

primrec use_step :: "u64 \<Rightarrow> string \<Rightarrow> u64 \<Rightarrow> store_op \<Rightarrow> u64 option \<times> bool \<Rightarrow> u64 option \<times> bool" where
  "use_step ttl sid now (ReadSession now' x) st =
     (if x = sid then (map_option (\<lambda>_. now') (fst st), snd st \<and> in_use ttl now (fst st)) else st)"
| "use_step ttl sid now (AddTurn x u a) st =
     (if x = sid then (Some now, snd st \<and> in_use ttl now (fst st)) else st)"
| "use_step ttl sid now (ClearSession x) st = (if x = sid then (None, snd st) else st)"
| "use_step ttl sid now Sweep st = (fst st, snd st \<and> in_use ttl now (fst st))"

primrec use_log :: "u64 \<Rightarrow> string \<Rightarrow> timed_op list \<Rightarrow> u64 option \<times> bool \<Rightarrow> u64 option \<times> bool" where
  "use_log ttl sid [] st = st"
| "use_log ttl sid (ev # evs) st = use_log ttl sid evs (use_step ttl sid (fst ev) (snd ev) st)"

definition kept_in_use :: "u64 \<Rightarrow> string \<Rightarrow> timed_op list \<Rightarrow> bool" where
  "kept_in_use ttl sid evs = snd (use_log ttl sid evs (None, True))"

text \<open>The turns and clears of a run, as the events of the specification without time.\<close>

primrec op_turns :: "u64 \<Rightarrow> store_op \<Rightarrow> ctx_event list" where
  "op_turns now (ReadSession now' x) = []"
| "op_turns now (AddTurn x u a) = [Turn now x u a]"
| "op_turns now (ClearSession x) = [Cleared x]"
| "op_turns now Sweep = []"

definition turns_of :: "timed_op list \<Rightarrow> ctx_event list" where
  "turns_of evs = concat (map (\<lambda>(now, op). op_turns now op) evs)"

lemma turns_of_simps [simp]:
  "turns_of [] = []" "turns_of (ev # evs) = op_turns (fst ev) (snd ev) @ turns_of evs"
  "turns_of (evs @ evs') = turns_of evs @ turns_of evs'"
  by (simp_all add: turns_of_def split_beta)

text \<open>The seconds at which a session was read or appended to.\<close>

primrec op_touches :: "string \<Rightarrow> u64 \<Rightarrow> store_op \<Rightarrow> u64 list" where
  "op_touches sid now (ReadSession now' x) = (if x = sid then [now'] else [])"
| "op_touches sid now (AddTurn x u a) = (if x = sid then [now] else [])"
| "op_touches sid now (ClearSession x) = []"
| "op_touches sid now Sweep = []"

definition touches :: "string \<Rightarrow> timed_op list \<Rightarrow> u64 list" where
  "touches sid evs = concat (map (\<lambda>(now, op). op_touches sid now op) evs)"

lemma touches_simps [simp]:
  "touches sid [] = []" "touches sid (ev # evs) = op_touches sid (fst ev) (snd ev) @ touches sid evs"
  "touches sid (evs @ evs') = touches sid evs @ touches sid evs'"
  by (simp_all add: touches_def split_beta)

lemma use_log_append [simp]:
  "use_log ttl sid (evs @ evs') st = use_log ttl sid evs' (use_log ttl sid evs st)"
  by (induction evs arbitrary: st) simp_all

lemma use_log_kept: "snd (use_log ttl sid evs st) \<Longrightarrow> snd st"
proof (induction evs arbitrary: st)
  case (Cons ev evs)
  have "snd (use_step ttl sid (fst ev) (snd ev) st)"
    using Cons by simp
  then show ?case
    by (cases "snd ev") (auto split: if_splits)
qed simp

section \<open>The store follows the specification\<close>

definition tracks :: "mem_context \<Rightarrow> string \<Rightarrow> u64 option \<Rightarrow> stored_message list \<Rightarrow> bool" where
  "tracks s sid used acc \<longleftrightarrow> (case mc_sessions s sid of
       None \<Rightarrow> used = None \<and> acc = []
     | Some e \<Rightarrow> used = Some (se_last_touched e) \<and> se_messages e = recent_messages (mc_max_msgs s) acc)"

lemma in_use_survives:
  "ttl > 0 \<Longrightarrow> now > 0 \<Longrightarrow> l > 0 \<Longrightarrow> in_use ttl now (Some l) \<Longrightarrow> sat_sub now ttl < l"
  by (auto simp: in_use_def word_less_nat_alt unat_sat_sub)

lemma in_use_read: "in_use ttl now (Some l) \<Longrightarrow> \<not> (ttl > 0 \<and> sat_sub now l > ttl)"
  by (auto simp: in_use_def)

lemma mem_step_tracks:
  assumes "tracks s sid used acc" "\<forall>l. used = Some l \<longrightarrow> l > 0" "now > 0"
    and "snd (use_step (mc_ttl_secs s) sid now op (used, True))"
  shows "tracks (mem_step (now, op) s) sid (fst (use_step (mc_ttl_secs s) sid now op (used, True)))
    (ctx_history (\<lambda>x. x) sid (op_turns now op) acc)"
proof (cases op)
  case (ReadSession now' x)
  then show ?thesis
    using assms in_use_read [of "mc_ttl_secs s" now]
    by (auto simp: tracks_def mem_step_def mem_get_messages_def map_remove_def split: option.splits)
next
  case (AddTurn x u a)
  then show ?thesis
    using assms
    by (auto simp: tracks_def mem_step_def mem_append_def push_turn_recent recent_messages_append Let_def
        split: option.splits)
next
  case (ClearSession x)
  then show ?thesis
    using assms by (auto simp: tracks_def mem_step_def mem_clear_def map_remove_def split: option.splits)
next
  case Sweep
  then show ?thesis
    using assms in_use_survives [of "mc_ttl_secs s" now]
    by (auto simp: tracks_def mem_step_def mem_context_cleanup_def map_retain_def Let_def split: option.splits)
qed

text \<open>The clock never reads zero, its value before 1970.\<close>

primrec op_clock_ok :: "u64 \<Rightarrow> store_op \<Rightarrow> bool" where
  "op_clock_ok now (ReadSession now' x) = (now > 0 \<and> now' > 0)"
| "op_clock_ok now (AddTurn x u a) = (now > 0)"
| "op_clock_ok now (ClearSession x) = (now > 0)"
| "op_clock_ok now Sweep = (now > 0)"

definition clock_ok :: "timed_op list \<Rightarrow> bool" where
  "clock_ok evs \<longleftrightarrow> list_all (\<lambda>(now, op). op_clock_ok now op) evs"

lemma op_clock_ok_pos: "op_clock_ok now op \<Longrightarrow> now > 0"
  by (cases op) simp_all

lemma use_step_fst: "fst (use_step ttl sid now op (used, b)) = fst (use_step ttl sid now op (used, True))"
  by (cases op) simp_all

lemma use_step_pos:
  "op_clock_ok now op \<Longrightarrow> \<forall>l. used = Some l \<longrightarrow> l > 0 \<Longrightarrow>
   fst (use_step ttl sid now op (used, b)) = Some l \<Longrightarrow> l > 0"
  by (cases op) (auto split: if_splits)

lemma mem_run_tracks:
  assumes "tracks s sid used acc" "\<forall>l. used = Some l \<longrightarrow> l > 0" "clock_ok evs"
    and "snd (use_log (mc_ttl_secs s) sid evs (used, True))"
  shows "tracks (mem_run evs s) sid (fst (use_log (mc_ttl_secs s) sid evs (used, True)))
    (ctx_history (\<lambda>x. x) sid (turns_of evs) acc)"
  using assms
proof (induction evs arbitrary: s used acc)
  case (Cons ev evs)
  obtain now op where ev: "ev = (now, op)"
    by (cases ev)
  let ?st = "use_step (mc_ttl_secs s) sid now op (used, True)"
  let ?acc = "ctx_history (\<lambda>x. x) sid (op_turns now op) acc"
  have clock: "op_clock_ok now op" "clock_ok evs"
    using Cons.prems(3) by (simp_all add: clock_ok_def ev)
  have "snd (use_log (mc_ttl_secs s) sid evs ?st)"
    using Cons.prems(4) by (simp add: ev)
  moreover from this have kept: "snd ?st"
    by (rule use_log_kept)
  then have st: "?st = (fst ?st, True)"
    by (simp add: prod_eq_iff)
  ultimately have rest: "snd (use_log (mc_ttl_secs s) sid evs (fst ?st, True))"
    by simp
  have "tracks (mem_step (now, op) s) sid (fst ?st) ?acc"
    using Cons.prems(1,2) op_clock_ok_pos [OF clock(1)] kept by (rule mem_step_tracks)
  moreover have "\<forall>l. fst ?st = Some l \<longrightarrow> l > 0"
    using use_step_pos [OF clock(1) Cons.prems(2)] by blast
  ultimately have "tracks (mem_run evs (mem_step (now, op) s)) sid
      (fst (use_log (mc_ttl_secs s) sid evs (fst ?st, True))) (ctx_history (\<lambda>x. x) sid (turns_of evs) ?acc)"
    using Cons.IH [of "mem_step (now, op) s" "fst ?st" ?acc] clock(2) rest by simp
  moreover have "ctx_history (\<lambda>x. x) sid (turns_of evs) ?acc =
      ctx_history (\<lambda>x. x) sid (op_turns now op @ turns_of evs) acc"
    by (cases op) simp_all
  ultimately show ?case
    using st by (simp add: ev)
qed simp

text \<open>An entry was last touched by a read or a turn of its own.\<close>

lemma mem_run_touched:
  assumes "mc_sessions (mem_run evs s) sid = Some e"
  shows "se_last_touched e \<in> set (touches sid evs) \<or>
    (\<exists>e0. mc_sessions s sid = Some e0 \<and> se_last_touched e = se_last_touched e0)"
  using assms
proof (induction evs arbitrary: s)
  case (Cons ev evs)
  have step: "se_last_touched e' \<in> set (op_touches sid now op) \<or>
      (\<exists>e0. mc_sessions s sid = Some e0 \<and> se_last_touched e' = se_last_touched e0)"
    if "mc_sessions (mem_step (now, op) s) sid = Some e'" for e' now op
    using that
    by (cases op) (auto simp: mem_step_def mem_get_messages_def mem_append_def mem_clear_def
        mem_context_cleanup_def Let_def split: if_splits option.splits)
  show ?case
    using Cons.IH [of "mem_step ev s"] Cons.prems step [of "fst ev" "snd ev"] by auto
qed simp

text \<open>After a sweep only sessions touched within the time to live are left.\<close>

lemma sweep_leaves_recent:
  assumes "mc_ttl_secs s > 0" "mc_sessions (mem_step (now, Sweep) s) sid = Some e"
  shows "mc_sessions s sid = Some e \<and> sat_sub now (se_last_touched e) < mc_ttl_secs s"
  using assms
  by (auto simp: mem_step_def mem_context_cleanup_def Let_def word_less_nat_alt unat_sat_sub)

section \<open>Properties\<close>

lemma tracks_read:
  "tracks s sid used acc \<Longrightarrow> in_use (mc_ttl_secs s) now used \<Longrightarrow>
   fst (mem_get_messages now now' sid s) = recent_messages (mc_max_msgs s) acc"
  by (auto simp: tracks_def mem_get_messages_def in_use_def recent_messages_def split: option.splits)

text \<open>C19: expiry of a conversation. However reads, turns, clears and rounds of the background task
  interleave, a session that every use and every round found idle for less than its time to live,
  or that has none, reads as exactly its own turns since it was cleared, the most recent ones
  within the limit; a session last touched longer ago than its time to live reads as empty.\<close>

theorem context_expires_when_idle:
  assumes "clock_ok evs" and s_def: "s = mem_run evs (mem_context_new n ttl)"
  shows "(kept_in_use ttl sid (evs @ [(now, ReadSession now' sid)]) \<longrightarrow>
      fst (mem_get_messages now now' sid s) = recent_messages n (ctx_history (\<lambda>x. x) sid (turns_of evs) [])) \<and>
    (ttl > 0 \<and> (\<forall>t \<in> set (touches sid evs). sat_sub now t > ttl) \<longrightarrow>
      fst (mem_get_messages now now' sid s) = [])"
proof (intro conjI impI)
  assume kept: "kept_in_use ttl sid (evs @ [(now, ReadSession now' sid)])"
  let ?st = "use_log ttl sid evs (None, True)"
  have "snd ?st" "in_use ttl now (fst ?st)"
    using kept by (simp_all add: kept_in_use_def)
  moreover have "tracks (mem_context_new n ttl) sid None []"
    by (simp add: tracks_def mem_context_new_def)
  moreover have settings: "mc_ttl_secs (mem_context_new n ttl) = ttl" "mc_max_msgs (mem_context_new n ttl) = n"
    by (simp_all add: mem_context_new_def)
  ultimately have "tracks s sid (fst ?st) (ctx_history (\<lambda>x. x) sid (turns_of evs) [])"
    using mem_run_tracks [of "mem_context_new n ttl" sid None "[]" evs] assms(1) by (simp add: s_def)
  then show "fst (mem_get_messages now now' sid s) = recent_messages n (ctx_history (\<lambda>x. x) sid (turns_of evs) [])"
    using \<open>in_use ttl now (fst ?st)\<close> tracks_read [of s] settings by (simp add: s_def)
next
  assume "ttl > 0 \<and> (\<forall>t \<in> set (touches sid evs). sat_sub now t > ttl)"
  then show "fst (mem_get_messages now now' sid s) = []"
    using mem_run_touched [of evs "mem_context_new n ttl" sid]
    by (fastforce simp: s_def mem_get_messages_def mem_context_new_def split: option.split)
qed

definition expiry_example :: "timed_op list" where
  "expiry_example =
     [(5, AddTurn ''a'' ''hi'' ''yo''), (8, Sweep), (9, ReadSession 9 ''a''), (12, AddTurn ''b'' ''x'' ''y''), (15, Sweep)]"

theorem context_expires_when_idle_witness:
  "fst (mem_get_messages 16 16 ''a'' (mem_run expiry_example (mem_context_new 100 10))) = turn_messages ''hi'' ''yo'' \<and>
   fst (mem_get_messages 20 20 ''a'' (mem_run expiry_example (mem_context_new 100 10))) = []"
proof -
  have clock: "clock_ok expiry_example"
    by (simp add: clock_ok_def expiry_example_def)
  have kept: "kept_in_use 10 ''a'' (expiry_example @ [(16, ReadSession 16 ''a'')])"
    by (simp add: kept_in_use_def expiry_example_def in_use_def sat_sub_def)
  have hist: "ctx_history (\<lambda>x. x) ''a'' (turns_of expiry_example) [] = turn_messages ''hi'' ''yo''"
    by (simp add: expiry_example_def)
  have idle: "(10 :: u64) > 0 \<and> (\<forall>t \<in> set (touches ''a'' expiry_example). sat_sub 20 t > 10)"
    by (simp add: expiry_example_def sat_sub_def)
  have "recent_messages 100 (turn_messages ''hi'' ''yo'') = turn_messages ''hi'' ''yo''"
    by (simp add: recent_messages_def turn_messages_def)
  then show ?thesis
    using context_expires_when_idle [OF clock refl, of 10 "''a''" 16 16 100] kept hist
      context_expires_when_idle [OF clock refl, of 10 "''a''" 20 20 100] idle
    by simp
qed

text \<open>A turn does not look at the age of the session: one that expired, and that neither a read nor a
  round has met since, goes on where it stopped.\<close>

theorem turn_revives_expired_session:
  assumes "mc_sessions s sid = Some e" "mc_max_msgs s = 0"
  shows "fst (mem_get_messages now now sid (mem_append now sid u a s)) = se_messages e @ turn_messages u a"
  using assms by (simp add: mem_get_messages_def mem_append_def push_turn_def turn_messages_def sat_sub_def)

end
