(* ===== verification/Store_Connections.thy ===== *)
theory Store_Connections
  imports Peer_Registry Job_Store Context_Redis
begin

text \<open>How the stores that other replicas share are opened: the connections of \<^verbatim>\<open>persistence/peer.rs\<close>,
  \<^verbatim>\<open>persistence/nonce.rs\<close>, \<^verbatim>\<open>persistence/job.rs\<close> and \<^verbatim>\<open>context/store.rs\<close>. The client libraries of Redis
  and Postgres are parameters.\<close>

section \<open>Redis\<close>

text \<open>Parsing the URL, opening a managed connection and sending \<^verbatim>\<open>PING\<close>; \<open>None\<close> is a failed command.\<close>

record 'r redis_server =
  rs_url_ok :: "string \<Rightarrow> bool"
  rs_manager :: "string \<Rightarrow> 'r \<Rightarrow> bool \<times> 'r"
  rs_ping :: "'r \<Rightarrow> string option \<times> 'r"

datatype redis_setup_error = BadRedisUrl | RedisUnreachable | PingFailed | UnexpectedPing string

definition redis_connect :: "'r redis_server \<Rightarrow> string \<Rightarrow> 'r \<Rightarrow> (unit, redis_setup_error) res \<times> 'r" where
  "redis_connect S url r =
     (if \<not> rs_url_ok S url then (Inl BadRedisUrl, r)
      else case rs_manager S url r of
          (False, r1) \<Rightarrow> (Inl RedisUnreachable, r1)
        | (True, r1) \<Rightarrow>
            (case rs_ping S r1 of
               (None, r2) \<Rightarrow> (Inl PingFailed, r2)
             | (Some pong, r2) \<Rightarrow>
                 if pong = ''PONG'' then (Inr (), r2) else (Inl (UnexpectedPing pong), r2)))"

record redis_peers =
  rp_ttl_secs :: u64
  rp_key_prefix :: string

definition redis_peers_connect ::
  "'r redis_server \<Rightarrow> string \<Rightarrow> u64 \<Rightarrow> 'r \<Rightarrow> (redis_peers, redis_setup_error) res \<times> 'r" where
  "redis_peers_connect S url ttl r =
     (case redis_connect S url r of
        (Inl e, r') \<Rightarrow> (Inl e, r')
      | (Inr _, r') \<Rightarrow> (Inr \<lparr>rp_ttl_secs = ttl, rp_key_prefix = ''peer:''\<rparr>, r'))"

definition redis_nonces_connect :: "'r redis_server \<Rightarrow> string \<Rightarrow> 'r \<Rightarrow> (unit, redis_setup_error) res \<times> 'r" where
  "redis_nonces_connect S url r = redis_connect S url r"

text \<open>The conversation store only parses the URL; it connects anew for every operation.\<close>

definition redis_context_new :: "'r redis_server \<Rightarrow> string \<Rightarrow> u64 \<Rightarrow> nat \<Rightarrow> (redis_context, redis_setup_error) res" where
  "redis_context_new S url ttl max_messages =
     (if rs_url_ok S url then Inr \<lparr>rx_ttl_seconds = ttl, rx_max_msgs = max_messages\<rparr> else Inl BadRedisUrl)"

lemma redis_connect_Inr:
  "fst (redis_connect S url r) = Inr () \<longleftrightarrow>
   rs_url_ok S url \<and> fst (rs_manager S url r) \<and> fst (rs_ping S (snd (rs_manager S url r))) = Some ''PONG''"
  by (auto simp: redis_connect_def split: prod.split bool.split option.split)

text \<open>A server that is down when the node starts: the peer registry and the replay set report it, so
  that the node falls back to memory, but the conversation store is accepted and then fails at
  every read and turn as long as the server stays down.\<close>

theorem redis_down_at_start:
  assumes "rs_url_ok S url" "\<not> fst (rs_manager S url r)" "\<not> fst (rd_connect R r)"
  shows "fst (redis_peers_connect S url ttl r) = Inl RedisUnreachable"
    and "fst (redis_nonces_connect S url r) = Inl RedisUnreachable"
    and "\<exists>C. redis_context_new S url ttl n = Inr C \<and>
      fst (redis_get_messages R J sid r) = Inl RedisConn \<and>
      fst (redis_append R J C sid u a r) = Inl RedisConn \<and> fst (redis_clear R sid r) = Inl RedisConn"
  using assms
  by (auto simp: redis_peers_connect_def redis_nonces_connect_def redis_connect_def redis_context_new_def
      redis_get_messages_def redis_append_def redis_clear_def split: prod.split bool.split)

section \<open>Postgres\<close>

text \<open>A database with the table of jobs once it has been created; each statement meets a fault.\<close>

record pg_server =
  pv_jobs :: "(uuid \<rightharpoonup> job_row) option"
  pv_faults :: "fault list"

text \<open>\<^verbatim>\<open>CREATE TABLE IF NOT EXISTS\<close>, with the index beside it.\<close>

definition create_jobs_table :: "(uuid \<rightharpoonup> job_row) option \<Rightarrow> (uuid \<rightharpoonup> job_row) option" where
  "create_jobs_table jobs = (case jobs of None \<Rightarrow> Some Map.empty | Some t \<Rightarrow> Some t)"

definition pg_migrate :: "pg_server \<Rightarrow> (unit, db_error) res \<times> pg_server" where
  "pg_migrate v =
     (let fault = (case pv_faults v of [] \<Rightarrow> NoFault | f # fs \<Rightarrow> f);
          v1 = v\<lparr>pv_faults := tl (pv_faults v)\<rparr>;
          v2 = v1\<lparr>pv_jobs := create_jobs_table (pv_jobs v)\<rparr>
      in case fault of
           NoFault \<Rightarrow> (Inr (), v2)
         | FailBefore \<Rightarrow> (Inl DbError, v1)
         | FailAfter \<Rightarrow> (Inl DbError, v2))"

definition pg_from_pool :: "pg_server \<Rightarrow> (pg_state, db_error) res \<times> pg_server" where
  "pg_from_pool v =
     (case pg_migrate v of
        (Inl e, v') \<Rightarrow> (Inl e, v')
      | (Inr _, v') \<Rightarrow>
          (Inr \<lparr>pg_table = (case pv_jobs v' of None \<Rightarrow> Map.empty | Some t \<Rightarrow> t), pg_faults = pv_faults v'\<rparr>, v'))"

definition pg_connect :: "bool \<Rightarrow> pg_server \<Rightarrow> (pg_state, db_error) res \<times> pg_server" where
  "pg_connect reachable v = (if \<not> reachable then (Inl DbError, v) else pg_from_pool v)"

text \<open>Connecting, also again after a failure, keeps every job that is already there, and what a
  replica finds is what the others left.\<close>

definition pv_rows :: "pg_server \<Rightarrow> uuid \<rightharpoonup> job_row" where
  "pv_rows v = (case pv_jobs v of None \<Rightarrow> Map.empty | Some t \<Rightarrow> t)"

lemma pg_connect_keeps_jobs:
  "pv_rows (snd (pg_connect reachable v)) = pv_rows v"
  "fst (pg_connect reachable v) = Inr s \<Longrightarrow> pg_table s = pv_rows v"
  by (auto simp: pg_connect_def pg_from_pool_def pg_migrate_def create_jobs_table_def pv_rows_def Let_def
      split: fault.splits list.splits option.splits if_splits)

end
