(* ===== verification/Spec2Isabelle.thy ===== *)
theory Spec2Isabelle
  imports Reputation Evm_Settlement Payment_Channel Job_Store Bidding Node_Api Solana_Program Daemon Node_Assembly Session
    Payment_Ledger Ollama_Client Remote_Storage Context_Redis Node_Startup Solana_Accounts Node_Runtime Common_Errors
    Context_Expiry Store_Connections
begin

text \<open>
  A model of the PeerAI node: a daemon that sells language-model inference to HTTP clients and to
  peers, settles each inference through one of several backends, and keeps a signed, Merkle-committed
  history of what it did; and of the escrow program it uses on Solana.

  \<^bold>\<open>The program and how its parts meet.\<close> An HTTP request (\<^verbatim>\<open>crates/node/src/api\<close>) passes the payment gate
  (\<^verbatim>\<open>x402.rs\<close>), the replay check (\<^verbatim>\<open>persistence/nonce.rs\<close>) and a permit, is recorded in the job store
  (\<^verbatim>\<open>persistence/job.rs\<close>), gets its context from the conversation store (\<^verbatim>\<open>context/store.rs\<close>), runs the
  model, and ends in a settlement: \<^verbatim>\<open>select_adapter\<close> picks a backend (\<^verbatim>\<open>settlement/\<close>), the funds are
  locked, a receipt (\<^verbatim>\<open>common/types.rs\<close>) is signed by the node's identity, and the funds are released.
  The reputation store (\<^verbatim>\<open>reputation/\<close>) keeps receipts and has its roots gossiped, but no code of the node
  records a receipt in it. A request from a peer
  arrives over gossip (\<^verbatim>\<open>p2p/\<close>), the daemon (\<^verbatim>\<open>node/daemon.rs\<close>) decides whether to bid
  (\<^verbatim>\<open>inference/bid.rs\<close>) and runs it, streaming chunks over a response topic. A watcher
  (\<^verbatim>\<open>node/jobs.rs\<close>) fails overdue jobs. \<^verbatim>\<open>DeAIDaemon::from_config\<close> assembles all of it from the
  configuration (\<^verbatim>\<open>common/config.rs\<close>).

  \<^bold>\<open>Theories.\<close>
  \<^item> \<open>Prelude\<close>, \<open>Rust_String\<close>, \<open>File_System\<close>, \<open>Rpc_Client\<close>: machine integers, byte encodings, maps;
    string operations; a disk with failing writes; JSON values and JSON-RPC over an external world.
  \<^item> \<open>Node_Types\<close>, \<open>Node_Config\<close>: the records of \<^verbatim>\<open>common/types.rs\<close> and \<^verbatim>\<open>common/config.rs\<close>.
  \<^item> \<open>Merkle_Tree\<close>, \<open>Reputation\<close>: \<^verbatim>\<open>reputation/merkle.rs\<close>, \<^verbatim>\<open>local.rs\<close>, \<^verbatim>\<open>gossip.rs\<close>. Proofs are sound
    for the roots from two leaves on, binding up to a hash collision, and the history is exactly the
    receipts recorded; a tree of one leaf, whose proof does not verify, and the panics are stated.
  \<^item> \<open>Settlement_Adapter\<close>, \<open>Evm_Codec\<close>, \<open>Evm_Settlement\<close>, \<open>Payment_Channel\<close>, \<open>Arc_Gateway\<close>:
    \<^verbatim>\<open>settlement/\<close>. One locale states what the node relies on of an adapter and is interpreted on each.
    Encodings are injective or are read back by a reference decoder; channels conserve money.
  \<^item> \<open>Solana_Wire\<close>, \<open>Solana_Settlement\<close>, \<open>Sui_Settlement\<close>: \<^verbatim>\<open>solana.rs\<close> builds transactions byte by byte; a
    reference decoder reads them back, and what the client posts, decoded and run on \<open>Solana_Program\<close>, is
    the operation it asked for. \<^verbatim>\<open>sui.rs\<close> over its JSON-RPC calls.
  \<^item> \<open>Payment_Ledger\<close>: \<^verbatim>\<open>common/payment.rs\<close>; the ledger file survives a crash under any interleaving.
  \<^item> \<open>Solana_Program\<close>: the on-chain program \<^verbatim>\<open>programs/pinaivu\<close>, with a step relation for everything
    that can happen on the chain; escrows stay covered, settle at most once, and can always settle.
  \<^item> \<open>Solana_Accounts\<close>: the account structs of the program as checks on bare addresses, and the ledger of
    typed accounts they act on; accounts stay typed, and an accepted instruction is one of \<open>Solana_Program\<close>.
  \<^item> \<open>Peer_Registry\<close>, \<open>Job_Store\<close>, \<open>Store_Connections\<close>: \<^verbatim>\<open>persistence/\<close> and the watcher, and how shared
    stores are opened; the Postgres sweep refines the
    abstract queue that the store in memory implements.
  \<^item> \<open>Ollama_Client\<close>: \<^verbatim>\<open>inference/lib.rs\<close> and \<^verbatim>\<open>ollama.rs\<close>, from the lines of a reply to numbered chunks.
  \<^item> \<open>Scheduler\<close>, \<open>Bidding\<close>: \<^verbatim>\<open>inference/scheduler.rs\<close> as interleaved steps, \<^verbatim>\<open>bid.rs\<close>.
  \<^item> \<open>X402\<close>, \<open>Context_Window\<close>, \<open>Context_Store\<close>, \<open>Context_Expiry\<close>, \<open>Context_Redis\<close>, \<open>Node_Receipt\<close>,
    \<open>Node_Api\<close>: the request path above. One locale states what a conversation store promises and holds of
    all three; expiry and clean-up are followed over time.
  \<^item> \<open>Api_Server\<close>, \<open>Node_Metrics\<close>, \<open>Common_Errors\<close>: the routes and the server of \<^verbatim>\<open>api/mod.rs\<close> with
    \<^verbatim>\<open>shutdown.rs\<close>; \<^verbatim>\<open>metrics.rs\<close> and \<^verbatim>\<open>health.rs\<close> with what each request counts; \<^verbatim>\<open>common/errors.rs\<close>.
  \<^item> \<open>Blob_Storage\<close>, \<open>Remote_Storage\<close>, \<open>Session\<close>: \<^verbatim>\<open>storage/\<close> and the encrypted sessions of \<^verbatim>\<open>context/session.rs\<close> and
    \<^verbatim>\<open>crypto.rs\<close>, proved over the contract of a blob store, which the four stores satisfy.
  \<^item> \<open>P2p_Service\<close>, \<open>Daemon\<close>, \<open>Node_Assembly\<close>: \<^verbatim>\<open>p2p/\<close>, the event loop and remote execution, and the
    assembly of the services.
  \<^item> \<open>Node_Startup\<close>: \<^verbatim>\<open>main.rs\<close>, \<^verbatim>\<open>cli.rs\<close>, the key files, the choice of the blob store and the ERC-8004
    registration; what \<^verbatim>\<open>init\<close> writes is what \<^verbatim>\<open>start\<close> runs.
  \<^item> \<open>Node_Runtime\<close>: the swarm set-up, the assembled state, the run loops of daemon, watcher and root
    forwarder, and the order in which \<^verbatim>\<open>start\<close> brings them up and drains them.
  \<^item> This theory: properties of the model, the engine and the HTTP handlers together.

  \<^bold>\<open>How state and operations correspond.\<close> A struct is a record with its fields in the order of the
  source, an enum a datatype, an async method a function from the state to its result and the new state,
  with every early return a branch. \<^verbatim>\<open>Result\<close> is a sum with the error on the left; a panic is \<open>Panic\<close>.
  Integers are words of their width and wrap, as in the release build the repository ships. A lock held
  over a whole method makes the method atomic; where the code releases it between awaits (the scheduler,
  the payment gate, job updates) the steps are separate. A trait object is a record of functions.

  \<^bold>\<open>Parameters and hypotheses.\<close> Third-party code is a field of a parameter record: hashes, signatures,
  ciphers, JSON and base64 codecs, HTTP, libp2p, Redis, Postgres, the Solana runtime. What is relied on is a
  named predicate that states documented behaviour: \<open>identity_lawful\<close> and \<open>aes_lawful\<close> (what was signed
  verifies, what was encrypted decrypts), \<open>dh_lawful\<close>, \<open>json_lawful\<close>, \<open>lawful_json\<close>, \<open>wire_lawful\<close>
  (what was written parses back), \<open>gossip_lawful\<close> and \<open>mesh_up\<close> (duplicate suppression and delivery of
  gossipsub), \<open>runtime_lawful\<close> and \<open>pda_lawful\<close> (addresses and transfers), \<open>solana_lawful\<close>, \<open>chain_matches\<close> and \<open>score_matches\<close> (keys,
  base64 and the accounts the cluster holds), \<open>b58_short\<close>, \<open>hex_lawful\<close>, \<open>ledger_json_lawful\<close>,
  \<open>text_lawful\<close>, \<open>toml_lawful\<close> (codecs), \<open>redis_up\<close>, \<open>kubo_lawful\<close>, \<open>walrus_lawful\<close> (documented behaviour of
  the services). Each witness instantiates those its property has.
  The clock, random values and iteration orders of hash maps are arguments.

  \<^bold>\<open>Loops.\<close> No fuel is used: every loop of the code is a structural recursion or a function with a
  termination proof, except the event loop and the swarm task, which consume a list of events.

  \<^bold>\<open>Not modelled.\<close> Logging; the internals of libp2p, of the HTTP server and of the database drivers; the
  scheduling of tasks (timers are inputs, spawned loops are modelled by themselves); dropping a stream or
  a handler when its client goes away; the Solidity and Move contracts, the TypeScript SDK and the web
  pages, which are other languages; the integration tests under \<^verbatim>\<open>p2p/tests\<close>. Handlers are modelled over
  the in-memory replay set, job store and conversation store; what they hand to the peer-to-peer service
  is kept as the list of broadcasts made, with the delivery in \<open>P2p_Service\<close> and \<open>Daemon\<close>. Each runs to its end before the next; concurrent
  calls are covered only where their shared store is (scheduler, job store, conversation stores, payment
  ledger). The rest of the Rust files is imports, comments, trait declarations and unit tests.
\<close>

section \<open>The model behind the HTTP interface\<close>

definition chunk_text :: "chat_response_chunk \<Rightarrow> string" where
  "chunk_text c = (case cc_message c of None \<Rightarrow> [] | Some m \<Rightarrow> m)"

lemma collect_ollama:
  assumes "oh_post_chat H (oc_base_url c @ ''/api/chat'')
    \<lparr>cr_model = model, cr_messages = build_messages cw prompt, cr_stream = True,
     cr_options = \<lparr>co_num_predict = max_tokens, co_temperature = temperature\<rparr>\<rparr> = Inr ls"
  shows "run_and_collect (ollama_run_inference H c) model cw prompt max_tokens temperature rid =
    Inr (map chunk_text (reply_chunks (oh_parse H) ls))"
proof -
  let ?oks = "\<lambda>rs. List.map_filter (\<lambda>r. case r of Inl _ \<Rightarrow> None | Inr c \<Rightarrow> Some (sk_token c)) rs"
  have oks: "?oks (map Inr ks) = map sk_token ks" for ks :: "inference_stream_chunk list"
    by (induction ks) (simp_all add: List.map_filter_simps)
  have errs: "?oks (stream_errors parse ls) = []" for parse
    by (auto simp: stream_errors_def reply_error_def List.map_filter_simps split: list.split)
  have app: "?oks (xs @ ys) = ?oks xs @ ?oks ys" for xs ys :: "(inference_stream_chunk, ollama_error) res list"
    by (simp add: List.map_filter_def)
  define ks where "ks = map (\<lambda>(n, c). engine_chunk rid (of_nat n) c) (enumerate 0 (reply_chunks (oh_parse H) ls))"
  have "ollama_run_inference H c model cw prompt
      \<lparr>ip_max_tokens = max_tokens, ip_temperature = temperature, ip_request_id = rid\<rparr> =
    Inr (map Inr ks @ stream_errors (oh_parse H) ls)"
    unfolding ks_def using assms by (subst ollama_run_accepted) simp_all
  moreover have "map sk_token ks = map chunk_text (reply_chunks (oh_parse H) ls)"
    unfolding ks_def by (rule nth_equalityI) (simp_all add: nth_enumerate_eq engine_chunk_def chunk_text_def)
  ultimately show ?thesis
    by (simp add: run_and_collect_def app oks errs)
qed

text \<open>The handler knows the model only through the tokens it collects.\<close>

lemma infer_local_run_cong:
  assumes "\<And>model cw prompt mt temp rid. run_and_collect run model cw prompt mt temp rid =
    run_and_collect (ne_run N) model cw prompt mt temp rid"
  shows "infer_local (N\<lparr>ne_run := run\<rparr>) inp body payer st = infer_local N inp body payer st"
proof -
  let ?N = "N\<lparr>ne_run := run\<rparr>"
  have fields: "ne_max_context_tokens ?N = ne_max_context_tokens N" "ne_list_models ?N = ne_list_models N"
    "ne_show_error ?N = ne_show_error N" "ne_header_value_ok ?N = ne_header_value_ok N"
    by simp_all
  have "settle_node ?N = settle_node N"
    by (intro ext) (simp add: settle_node_def)
  moreover have "output_blob ?N = output_blob N"
    by (intro ext) (simp add: output_blob_def)
  ultimately have finish: "finish_inference ?N = finish_inference N"
    by (intro ext) (simp add: finish_inference_def)
  have tracked: "run_tracked ?N = run_tracked N"
    by (intro ext) (simp add: run_tracked_def assms Let_def split: sum.split)
  have pay: "payment_header ?N = payment_header N"
    by (intro ext) (simp add: payment_header_def split: option.split)
  show ?thesis
    unfolding infer_local_def fields finish tracked pay ..
qed

lemma join_concat: "join [] ts = concat ts"
proof (induction ts)
  case (Cons s ss)
  then show ?case
    by (cases ss) simp_all
qed simp

lemma finish_inference_settles:
  assumes "finish_inference N inp a st = (receipt, st')"
  shows "\<exists>st1. settle_node N inp (an_accepted a) (answered_usage inp a) st1 = (receipt, st') \<and>
    nst_settle st1 = nst_settle st"
proof (cases "an_session a")
  case None
  show ?thesis
    by (rule exI, rule conjI, rule assms [unfolded finish_inference_def Let_def None option.case]) simp
next
  case (Some sid)
  show ?thesis
    by (rule exI, rule conjI, rule assms [unfolded finish_inference_def Let_def Some option.case]) simp
qed

text \<open>The course of a request whose model answers.\<close>

lemma infer_local_answered:
  assumes "infer_local N inp body payer st = (r, st')" "nst_permits st \<noteq> 0"
    and "\<not> fst (nonce_check_and_set (in_nonce_ms inp) (in_request_id inp) replay_window_secs (nst_nonces st))"
    and "\<And>model cw prompt mt temp rid. run_and_collect (ne_run N) model cw prompt mt temp rid = Inr tokens"
  obtains actual notice st3 receipt st4 where
    "resolve_model (irq_model_id body) (ne_list_models N) = (actual, notice)"
    "finish_inference N inp \<lparr>an_requested_model = irq_model_id body, an_actual_model = actual,
       an_fell_back = (notice \<noteq> None), an_prompt = irq_prompt body, an_session = irq_session_id body,
       an_tokens = tokens, an_accepted = irq_accepted_settlements body, an_settle_model = actual,
       an_amount = ucast (default_to 1000 (irq_max_tokens body))\<rparr> st3 = (receipt, st4)"
    "nst_settle st3 = nst_settle st"
    "nst_jobs st3 = snd (js_push (ne_job_store N) (job_dispatched (in_job_ms inp) (in_request_id inp) actual None
       (ne_job_timeout_ms N)) (nst_jobs st))"
    "st' = release_permit st4" "rsp_status r = 200" "rsp_body r = BodyLines (ndjson_body tokens receipt)"
proof -
  obtain nonces where nonce: "nonce_check_and_set (in_nonce_ms inp) (in_request_id inp) replay_window_secs (nst_nonces st) =
      (False, nonces)"
    using assms(3) by (cases "nonce_check_and_set (in_nonce_ms inp) (in_request_id inp) replay_window_secs (nst_nonces st)") auto
  obtain cw0 contexts where cw: "load_context inp (irq_session_id body) (nst_contexts st) = (cw0, contexts)"
    by fastforce
  obtain actual notice where model: "resolve_model (irq_model_id body) (ne_list_models N) = (actual, notice)"
    by fastforce
  let ?a = "\<lparr>an_requested_model = irq_model_id body, an_actual_model = actual,
       an_fell_back = (notice \<noteq> None), an_prompt = irq_prompt body, an_session = irq_session_id body,
       an_tokens = tokens, an_accepted = irq_accepted_settlements body, an_settle_model = actual,
       an_amount = ucast (default_to 1000 (irq_max_tokens body))\<rparr>"
  define st3 where "st3 = st\<lparr>nst_nonces := nonces, nst_contexts := contexts, nst_permits := nst_permits st - 1,
    nst_jobs := snd (js_push (ne_job_store N) (job_dispatched (in_job_ms inp) (in_request_id inp) actual None
       (ne_job_timeout_ms N)) (nst_jobs st))\<rparr>"
  have run: "run_tracked N inp actual cw' prompt mt temp (st\<lparr>nst_nonces := nonces, nst_contexts := contexts\<rparr>) =
      (RunAnswered tokens, st3)" for cw' prompt mt temp
    using assms(2) by (simp add: run_tracked_def assms(4) st3_def Let_def)
  obtain receipt st4 where fin: "finish_inference N inp ?a st3 = (receipt, st4)"
    by fastforce
  have "infer_local N inp body payer st =
      (add_headers (fallback_header (ne_header_value_ok N) notice @ payment_header N payer)
         (ndjson_response (ndjson_body tokens receipt)), release_permit st4)"
    using fin unfolding infer_local_def Let_def nonce prod.case if_False by (simp add: cw model run)
  with assms(1) have "r = add_headers (fallback_header (ne_header_value_ok N) notice @ payment_header N payer)
         (ndjson_response (ndjson_body tokens receipt))" "st' = release_permit st4"
    by simp_all
  then show thesis
    using that [OF model fin] by (simp add: st3_def add_headers_def ndjson_response_def)
qed

text \<open>C35: a broken answer is served and billed as a whole one. Once Ollama has accepted a request, nothing
  that happens to the reply makes the node report a failure: an error line is skipped, a lost
  connection ends the text, and the client gets status 200 with whatever had arrived. The settlement
  is made for exactly that text, its outcome is the receipt in the response, and the job is pushed
  and then completed with the number of tokens that arrived. Response and state are those of any reply, whole or not, with the same chunks.\<close>

theorem broken_stream_answered:
  assumes "ne_run N = ollama_run_inference H c" "\<forall>b. oh_post_chat H (oc_base_url c @ ''/api/chat'') b = Inr ls"
    and "\<not> fst (nonce_check_and_set (in_nonce_ms inp) (in_request_id inp) replay_window_secs (nst_nonces st))"
    and "nst_permits st \<noteq> 0" "tokens = map chunk_text (reply_chunks (oh_parse H) ls)"
    and "infer_local N inp body payer st = (r, st')"
  shows "(\<exists>st1 receipt st2. nst_settle st1 = nst_settle st \<and>
      settle_node N inp (irq_accepted_settlements body)
        \<lparr>us_request_id = in_request_id inp, us_model_id = fst (resolve_model (irq_model_id body) (ne_list_models N)),
         us_input_tokens = count_input_tokens (irq_prompt body), us_output_tokens = count_output_tokens tokens,
         us_latency_ms = in_latency_ms inp, us_amount_nanox = ucast (default_to 1000 (irq_max_tokens body)),
         us_prompt = irq_prompt body, us_output = concat tokens\<rparr> st1 = (receipt, st2) \<and>
      st' = release_permit st2 \<and> rsp_status r = 200 \<and> rsp_body r = BodyLines (ndjson_body tokens receipt)) \<and>
    (\<exists>mt. jm_output_tokens mt = count_output_tokens tokens \<and>
      nst_jobs st' = snd (js_complete (ne_job_store N) (in_request_id inp) mt
        (snd (js_push (ne_job_store N) (job_dispatched (in_job_ms inp) (in_request_id inp)
          (fst (resolve_model (irq_model_id body) (ne_list_models N))) None (ne_job_timeout_ms N)) (nst_jobs st))))) \<and>
    (\<forall>H' c' ls'. (\<forall>b. oh_post_chat H' (oc_base_url c' @ ''/api/chat'') b = Inr ls') \<longrightarrow>
      reply_chunks (oh_parse H') ls' = reply_chunks (oh_parse H) ls \<longrightarrow>
      infer_local (N\<lparr>ne_run := ollama_run_inference H' c'\<rparr>) inp body payer st = (r, st'))"
proof (intro conjI)
  have run: "run_and_collect (ne_run N) model cw prompt mt temp rid = Inr tokens" for model cw prompt mt temp rid
    using collect_ollama [OF assms(2) [rule_format]] assms(1,5) by simp
  obtain actual notice st3 receipt st4 where parts:
    "resolve_model (irq_model_id body) (ne_list_models N) = (actual, notice)"
    "finish_inference N inp \<lparr>an_requested_model = irq_model_id body, an_actual_model = actual,
       an_fell_back = (notice \<noteq> None), an_prompt = irq_prompt body, an_session = irq_session_id body,
       an_tokens = tokens, an_accepted = irq_accepted_settlements body, an_settle_model = actual,
       an_amount = ucast (default_to 1000 (irq_max_tokens body))\<rparr> st3 = (receipt, st4)"
    "nst_settle st3 = nst_settle st"
    "nst_jobs st3 = snd (js_push (ne_job_store N) (job_dispatched (in_job_ms inp) (in_request_id inp) actual None
       (ne_job_timeout_ms N)) (nst_jobs st))"
    "st' = release_permit st4" "rsp_status r = 200" "rsp_body r = BodyLines (ndjson_body tokens receipt)"
    by (rule infer_local_answered [OF assms(6,4,3) run])
  show "\<exists>st1 receipt st2. nst_settle st1 = nst_settle st \<and>
      settle_node N inp (irq_accepted_settlements body)
        \<lparr>us_request_id = in_request_id inp, us_model_id = fst (resolve_model (irq_model_id body) (ne_list_models N)),
         us_input_tokens = count_input_tokens (irq_prompt body), us_output_tokens = count_output_tokens tokens,
         us_latency_ms = in_latency_ms inp, us_amount_nanox = ucast (default_to 1000 (irq_max_tokens body)),
         us_prompt = irq_prompt body, us_output = concat tokens\<rparr> st1 = (receipt, st2) \<and>
      st' = release_permit st2 \<and> rsp_status r = 200 \<and> rsp_body r = BodyLines (ndjson_body tokens receipt)"
    using finish_inference_settles [OF parts(2)] parts(1,3,5-7)
    by (auto simp: answered_usage_def join_concat)
  show "\<exists>mt. jm_output_tokens mt = count_output_tokens tokens \<and>
      nst_jobs st' = snd (js_complete (ne_job_store N) (in_request_id inp) mt
        (snd (js_push (ne_job_store N) (job_dispatched (in_job_ms inp) (in_request_id inp)
          (fst (resolve_model (irq_model_id body) (ne_list_models N))) None (ne_job_timeout_ms N)) (nst_jobs st))))"
    by (intro exI [of _ "answered_metrics inp \<lparr>an_requested_model = irq_model_id body, an_actual_model = actual,
       an_fell_back = (notice \<noteq> None), an_prompt = irq_prompt body, an_session = irq_session_id body,
       an_tokens = tokens, an_accepted = irq_accepted_settlements body, an_settle_model = actual,
       an_amount = ucast (default_to 1000 (irq_max_tokens body))\<rparr>"] conjI)
      (use finish_inference_frame [OF parts(2)] parts(1,4,5) in \<open>simp_all add: release_permit_def answered_metrics_def\<close>)
  show "\<forall>H' c' ls'. (\<forall>b. oh_post_chat H' (oc_base_url c' @ ''/api/chat'') b = Inr ls') \<longrightarrow>
      reply_chunks (oh_parse H') ls' = reply_chunks (oh_parse H) ls \<longrightarrow>
      infer_local (N\<lparr>ne_run := ollama_run_inference H' c'\<rparr>) inp body payer st = (r, st')"
  proof (intro allI impI)
    fix H' :: ollama_http and c' :: ollama_client and ls'
    assume "\<forall>b. oh_post_chat H' (oc_base_url c' @ ''/api/chat'') b = Inr ls'"
      and same: "reply_chunks (oh_parse H') ls' = reply_chunks (oh_parse H) ls"
    then have "run_and_collect (ollama_run_inference H' c') model cw prompt mt temp rid = Inr tokens"
      for model cw prompt mt temp rid
      using collect_ollama [of H' c' _ _ _ _ _ ls'] assms(5) by simp
    then have "infer_local (N\<lparr>ne_run := ollama_run_inference H' c'\<rparr>) inp body payer st = infer_local N inp body payer st"
      by (intro infer_local_run_cong) (simp add: run)
    with assms(6) show "infer_local (N\<lparr>ne_run := ollama_run_inference H' c'\<rparr>) inp body payer st = (r, st')"
      by simp
  qed
qed

text \<open>A node that runs a request for another one asks the model twice. The prompt is put in the context
  and passed as the new turn as well, so Ollama is sent two equal user messages.\<close>

theorem p2p_prompt_sent_twice:
  assumes "ir_prompt_plain req = Some p"
  shows "p2p_run (ollama_run_inference H c) req =
    (case oh_post_chat H (oc_base_url c @ ''/api/chat'')
        \<lparr>cr_model = ir_model_preference req, cr_messages = [om_user p, om_user p], cr_stream = True,
         cr_options = \<lparr>co_num_predict = ir_max_tokens req, co_temperature = ir_temperature req\<rparr>\<rparr> of
       Inl e \<Rightarrow> Inl e
     | Inr ls \<Rightarrow> Inr (engine_stream (ir_request_id req) 0 (read_chunks (oh_parse H) ls)))"
proof -
  have "build_messages (p2p_context p) p = [om_user p, om_user p]"
    by (simp add: build_messages_def p2p_context_def context_window_default_def role_name_def om_user_def)
  then show ?thesis
    using assms by (simp add: p2p_run_def ollama_run_inference_def generate_stream_def Let_def split: sum.split)
qed

text \<open>The connection to Ollama is lost after one token.\<close>

definition toy_broken :: ollama_http where
  "toy_broken = toy_ollama\<lparr>oh_post_chat := \<lambda>u b. Inr [Inr ''a'', Inl ''reset'']\<rparr>"

definition toy_ollama_node :: "(unit, job_map, ollama_error, unit) node_env" where
  "toy_ollama_node = \<lparr>ne_api_key = [], ne_x402 = x402_example_config, ne_max_context_tokens = 8192,
     ne_job_timeout_ms = 1000, ne_list_models = Inr [''llama3.1:8b''],
     ne_run = ollama_run_inference toy_broken ollama_default_local,
     ne_settlements = [free_adapter], ne_job_store = mem_job_store (\<lambda>m. []),
     ne_identity = toy_identity, ne_crypto = toy_crypto, ne_p2p_broadcast = None,
     ne_x402_env = x402_example_env, ne_http_post = x402_example_post ''0x'',
     ne_uuid_str = \<lambda>i. [], ne_show_error = \<lambda>e. [], ne_show_x402 = \<lambda>e. [],
     ne_header_value_ok = \<lambda>v. True, ne_json_str = \<lambda>j. None, ne_hex_decode = \<lambda>s. None,
     ne_base64_decode = \<lambda>s. None, ne_aes_decrypt = \<lambda>k n c. None, ne_from_utf8 = \<lambda>b. None\<rparr>"

lemma toy_broken_chunks: "map chunk_text (reply_chunks (oh_parse toy_broken) [Inr ''a'', Inl ''reset'']) = [''hi'']"
proof -
  have p: "oh_parse toy_broken = toy_chat_parse"
    by (simp add: toy_broken_def toy_ollama_def)
  show ?thesis
    unfolding p by code_simp
qed

theorem broken_stream_answered_witness:
  "\<exists>r st' receipt j. infer_local toy_ollama_node toy_inputs (toy_request ''m'') [] toy_state = (r, st') \<and>
    rsp_status r = 200 \<and> rsp_body r = BodyLines (ndjson_body [''hi''] receipt) \<and>
    nst_jobs st' 5 = Some j \<and> job_status j = Completed"
proof -
  obtain r st' where run: "infer_local toy_ollama_node toy_inputs (toy_request ''m'') [] toy_state = (r, st')"
    by fastforce
  have "ne_run toy_ollama_node = ollama_run_inference toy_broken ollama_default_local"
    by (simp add: toy_ollama_node_def)
  moreover have "\<forall>b. oh_post_chat toy_broken (oc_base_url ollama_default_local @ ''/api/chat'') b = Inr [Inr ''a'', Inl ''reset'']"
    by (simp add: toy_broken_def)
  moreover have "\<not> fst (nonce_check_and_set (in_nonce_ms toy_inputs) (in_request_id toy_inputs) replay_window_secs (nst_nonces toy_state))"
    by (simp add: toy_inputs_def toy_state_def nonce_check_and_set_def map_retain_def Let_def)
  moreover have "nst_permits toy_state \<noteq> 0"
    by (simp add: toy_state_def)
  ultimately have served: "(\<exists>receipt. rsp_status r = 200 \<and> rsp_body r = BodyLines (ndjson_body [''hi''] receipt)) \<and>
      (\<exists>mt. nst_jobs st' = snd (js_complete (ne_job_store toy_ollama_node) (in_request_id toy_inputs) mt
        (snd (js_push (ne_job_store toy_ollama_node) (job_dispatched (in_job_ms toy_inputs) (in_request_id toy_inputs)
          (fst (resolve_model (irq_model_id (toy_request ''m'')) (ne_list_models toy_ollama_node))) None
          (ne_job_timeout_ms toy_ollama_node)) (nst_jobs toy_state)))))"
    using broken_stream_answered [OF _ _ _ _ toy_broken_chunks [symmetric] run] by blast
  then obtain j where "nst_jobs st' 5 = Some j" "job_status j = Completed"
    by (auto simp: toy_ollama_node_def toy_inputs_def toy_state_def mem_job_store_def mem_push_def job_dispatched_def
        mem_complete_def finish_job_def)
  with run served show ?thesis
    by blast
qed

theorem p2p_prompt_sent_twice_witness:
  "\<exists>req. p2p_run (ollama_run_inference (toy_broken\<lparr>oh_post_chat := (\<lambda>u b.
      if cr_messages b = [om_user ''hi'', om_user ''hi''] then Inl (OllamaHttp ''twice'') else Inr [])\<rparr>) ollama_default_local) req =
    Inl (OllamaHttp ''twice'')"
proof -
  let ?req = "p2p_request toy_inputs (toy_request ''m'') ''n''"
  have "ir_prompt_plain ?req = Some ''hi''"
    by (simp add: p2p_request_def toy_request_def)
  from p2p_prompt_sent_twice [OF this] show ?thesis
    by (intro exI [of _ ?req]) simp
qed

end
